(* ===== verification/Secp_Prelude.thy ===== *)
theory Secp_Prelude
  imports Main "HOL-Library.Word"
begin

text \<open>
  Shared vocabulary of the development: the machine types of the C sources, a calculus
  that reads a word expression as an exact integer expression together with an upper
  bound (so that one rule per C operator shows that no step wraps around), the rule that
  opens the \<^theory_text>\<open>let\<close> chains the C statements are translated to, and
  big-endian byte strings.
\<close>

unbundle bit_operations_syntax

section \<open>Machine types\<close>

type_synonym u8 = "8 word"
type_synonym u32 = "32 word"
type_synonym u64 = "64 word"
type_synonym u128 = "128 word"
type_synonym bytes = "8 word list"

section \<open>Reading words as integers\<close>

text \<open>
  \<open>lo_bits n x\<close> and \<open>hi_bits n x\<close> are what a mask and a right shift by \<open>n\<close> bits
  take of the number \<open>x\<close>.
  \<open>urep w i B\<close>: the word \<open>w\<close>, read as an unsigned number, is the integer \<open>i\<close>, and
  \<open>i\<close> is at most \<open>B\<close>. The rules of \<open>urep_intros\<close> follow the syntax of
  a word expression; the side conditions compare the bounds with the width of the type.
\<close>

definition lo_bits :: "nat \<Rightarrow> int \<Rightarrow> int" where
  "lo_bits n x = x mod 2 ^ n"

definition hi_bits :: "nat \<Rightarrow> int \<Rightarrow> int" where
  "hi_bits n x = x div 2 ^ n"

lemma lo_hi_bits: "lo_bits n x + 2 ^ n * hi_bits n x = x"
  by (simp add: lo_bits_def hi_bits_def)

lemma lo_bits_range [simp]: "0 \<le> lo_bits n x" "lo_bits n x < 2 ^ n"
  by (simp_all add: lo_bits_def)

lemma hi_bits_nonneg [simp]: "0 \<le> x \<Longrightarrow> 0 \<le> hi_bits n x"
  by (simp add: hi_bits_def pos_imp_zdiv_nonneg_iff)

lemma hi_bits_mono: "x \<le> y \<Longrightarrow> hi_bits n x \<le> hi_bits n y"
  by (simp add: hi_bits_def zdiv_mono1)

definition urep :: "'a::len word \<Rightarrow> int \<Rightarrow> int \<Rightarrow> bool" where
  "urep w i B \<longleftrightarrow> uint w = i \<and> i \<le> B"

named_theorems urep_intros "exactness of word operations under upper bounds"

lemma urepD:
  assumes "urep w i B"
  shows "uint w = i" "i \<le> B" "0 \<le> i" "0 \<le> B" "uint w \<le> B"
  using assms uint_ge_0[of w] unfolding urep_def by auto

lemma urep_weaken: "urep w i A \<Longrightarrow> A \<le> B \<Longrightarrow> urep w i B"
  by (simp add: urep_def)

lemma urep_uint: "urep w i B \<Longrightarrow> urep w (uint w) B"
  by (simp add: urep_def)

lemma urep_self: "uint w \<le> B \<Longrightarrow> urep w (uint w) B"
  by (simp add: urep_def)

lemma urep_add [urep_intros]:
  "urep a i A \<Longrightarrow> urep b j B \<Longrightarrow> A + B < 2 ^ LENGTH('a) \<Longrightarrow>
    urep (a + b :: 'a::len word) (i + j) (A + B)"
  unfolding urep_def
  by (auto simp: uint_word_ariths take_bit_eq_mod intro!: mod_pos_pos_trivial)

lemma urep_mult [urep_intros]:
  assumes a: "urep a i A" and b: "urep b j B" and l: "A * B < 2 ^ LENGTH('a)"
  shows "urep (a * b :: 'a::len word) (i * j) (A * B)"
proof -
  have "uint a * uint b \<le> A * B"
    using a b by (intro mult_mono) (auto simp: urep_def intro: order_trans[OF uint_ge_0])
  then show ?thesis using a b l unfolding urep_def
    by (auto simp: uint_word_ariths intro!: mod_pos_pos_trivial)
qed

text \<open>Subtraction does not wrap when the subtrahend is bounded by the minuend.\<close>

lemma urep_diff:
  assumes "urep a i A" and "urep b j B" and "B \<le> i"
  shows "urep (a - b :: 'a::len word) (i - j) A"
proof -
  have "uint a = i" "uint b = j" "j \<le> i" "i \<le> A" "0 \<le> j"
    using assms by (auto simp: urep_def)
  then show ?thesis
    by (simp add: urep_def uint_sub_if')
qed

lemma uint_drop_bit_div: "uint (drop_bit n a) = uint a div 2 ^ n" for a :: "'a::len word"
  by (simp only: unsigned_drop_bit_eq) (simp add: drop_bit_eq_div take_bit_eq_mod)

lemma urep_drop_bit [urep_intros]:
  "urep a i A \<Longrightarrow> urep (drop_bit n a :: 'a::len word) (hi_bits n i) (A div 2 ^ n)"
  unfolding urep_def hi_bits_def by (auto simp: uint_drop_bit_div intro: zdiv_mono1)

lemma uint_and_mask: "uint (a AND mask n) = uint a mod 2 ^ n" for a :: "'a::len word"
  by (simp add: unsigned_take_bit_eq flip: take_bit_eq_mask) (simp add: take_bit_eq_mod)

lemma urep_and_mask:
  "urep a i A \<Longrightarrow> m = mask n \<Longrightarrow> urep (a AND m :: 'a::len word) (lo_bits n i) (2 ^ n - 1)"
  unfolding urep_def lo_bits_def by (auto simp: uint_and_mask)

text \<open>The masks of the sources: 64, 52, 48, 32, 26, 22, 6, 4, 2 and 1 low bits.\<close>

lemma urep_and_masks [urep_intros]:
  fixes a :: "'a::len word"
  assumes "urep a i A"
  shows "urep (a AND 0xFFFFFFFFFFFFFFFF) (lo_bits 64 i) (2 ^ 64 - 1)"
    and "urep (a AND 0xFFFFFFFFFFFFF) (lo_bits 52 i) (2 ^ 52 - 1)"
    and "urep (a AND 0xFFFFFFFFFFFF) (lo_bits 48 i) (2 ^ 48 - 1)"
    and "urep (a AND 0xFFFFFFFF) (lo_bits 32 i) (2 ^ 32 - 1)"
    and "urep (a AND 0x3FFFFFF) (lo_bits 26 i) (2 ^ 26 - 1)"
    and "urep (a AND 0x3FFFFF) (lo_bits 22 i) (2 ^ 22 - 1)"
    and "urep (a AND 0xF) (lo_bits 4 i) (2 ^ 4 - 1)"
    and "urep (a AND 3) (lo_bits 2 i) (2 ^ 2 - 1)"
    and "urep (a AND 1) (lo_bits 1 i) (2 ^ 1 - 1)"
  by (rule urep_and_mask[OF assms], simp add: mask_eq_exp_minus_1)+

lemma urep_ucast [urep_intros]:
  "urep a i A \<Longrightarrow> A < 2 ^ LENGTH('b) \<Longrightarrow> urep (ucast (a :: 'a::len word) :: 'b::len word) i A"
  unfolding urep_def
  by (auto simp: unsigned_ucast_eq take_bit_eq_mod intro!: mod_pos_pos_trivial)

lemma uint_ucast_mod: "uint (ucast (a :: 'a::len word) :: 'b::len word) = uint a mod 2 ^ LENGTH('b)"
  by (simp add: unsigned_ucast_eq take_bit_eq_mod)

lemma urep_numeral [urep_intros]:
  "numeral k < (2::int) ^ LENGTH('a) \<Longrightarrow>
    urep (numeral k :: 'a::len word) (numeral k) (numeral k)"
  unfolding urep_def uint_numeral by (rule conjI[OF mod_pos_pos_trivial]) simp_all

lemma urep_0 [urep_intros]: "urep 0 0 0"
  and urep_1 [urep_intros]: "urep 1 1 1"
  by (simp_all add: urep_def)

lemma urep_push_bit [urep_intros]:
  assumes "urep a i A" and "A * 2 ^ n < 2 ^ LENGTH('a)"
  shows "urep (push_bit n a :: 'a::len word) (i * 2 ^ n) (A * 2 ^ n)"
proof -
  have i: "uint a = i" "0 \<le> i" "i * 2 ^ n \<le> A * 2 ^ n"
    using assms(1) by (auto simp: urep_def)
  then have "0 \<le> i * 2 ^ n" "i * 2 ^ n < 2 ^ LENGTH('a)"
    using assms(2) by (simp, linarith)
  then show ?thesis
    using i by (simp only: unsigned_push_bit_eq urep_def)
      (simp add: take_bit_eq_mod push_bit_eq_mult del: zero_le_mult_iff)
qed

text \<open>A bitwise or of words without a common bit is their sum.\<close>

lemma and_eq_0_if_low:
  fixes a b :: "'a::len word"
  assumes "uint b < 2 ^ n"
  shows "push_bit n a AND b = 0"
proof -
  have "take_bit n b = b"
    by (rule word_uint_eqI) (use assms in \<open>simp only: unsigned_take_bit_eq, simp add: take_bit_eq_mod\<close>)
  then show ?thesis
    by (intro bit_word_eqI)
      (metis bit_and_iff bit_push_bit_iff bit_take_bit_iff linorder_not_less bit_0_eq
        bot_apply bot_bool_def)
qed

lemma urep_or_push:
  assumes a: "urep a i A" and b: "urep b j B" and B: "B < 2 ^ n"
    and l: "A * 2 ^ n + B < 2 ^ LENGTH('a)"
  shows "urep (push_bit n a OR b :: 'a::len word) (i * 2 ^ n + j) (A * 2 ^ n + B)"
proof -
  have "urep (push_bit n a) (i * 2 ^ n) (A * 2 ^ n)"
    using urep_push_bit[OF a] l urepD[OF b] by simp
  then have "urep (push_bit n a + b) (i * 2 ^ n + j) (A * 2 ^ n + B)"
    using b l by (rule urep_add)
  moreover have "push_bit n a OR b = push_bit n a + b"
    using and_eq_0_if_low[of b n a] urepD[OF b] B by (simp add: disjunctive_add_eq_or)
  ultimately show ?thesis by simp
qed

lemma urep_push_or:
  assumes "urep b j B" "urep a i A" "B < 2 ^ n" "B + A * 2 ^ n < 2 ^ LENGTH('a)"
  shows "urep (b OR push_bit n a :: 'a::len word) (j + i * 2 ^ n) (B + A * 2 ^ n)"
  using urep_or_push[OF assms(2,1,3)] assms(4) by (simp add: or.commute add.commute)

text \<open>The two halves of a word that a mask and a shift take apart add up again.\<close>

lemma urep_split:
  "urep lo (lo_bits n x) B \<Longrightarrow> urep hi (hi_bits n x) C \<Longrightarrow> uint lo + 2 ^ n * uint hi = x"
  by (simp add: urep_def lo_hi_bits)

text \<open>A conjunction of words bounded by \<open>k\<close> is \<open>k\<close> only if every word is.\<close>

lemma and_eq_top_iff:
  fixes x y k :: "'a::len word"
  assumes "x \<le> k" "y \<le> k"
  shows "x AND y = k \<longleftrightarrow> x = k \<and> y = k"
  using assms word_and_le1[of x y] word_and_le2[of x y] by auto

lemma and3_eq_top_iff:
  fixes x y z k :: "'a::len word"
  assumes "x \<le> k" "y \<le> k" "z \<le> k"
  shows "x AND y AND z = k \<longleftrightarrow> x = k \<and> y = k \<and> z = k"
  using assms and_eq_top_iff[of x k "y AND z"] and_eq_top_iff[of y k z]
    order_trans[OF word_and_le2 assms(2), of z] by simp

lemma of_bool_and: "of_bool P AND of_bool Q = (of_bool (P \<and> Q) :: 'a::len word)"
  by (cases P; cases Q) simp_all

text \<open>
  C's conditional move by masks: \<open>flag + ~0\<close> is all ones for flag 0 and zero for flag 1.
\<close>

definition cmov_mask0 :: "int \<Rightarrow> 'a::len word" where
  "cmov_mask0 flag = word_of_int flag + NOT 0"

definition cmov_word :: "int \<Rightarrow> 'a::len word \<Rightarrow> 'a word \<Rightarrow> 'a word" where
  "cmov_word flag r a =
    (let mask0 = cmov_mask0 flag; mask1 = NOT mask0 in (r AND mask0) OR (a AND mask1))"

lemma cmov_word_flag [simp]: "cmov_word 0 r a = r" "cmov_word 1 r a = a"
  by (simp_all add: cmov_word_def cmov_mask0_def)

lemma radix_inject:
  fixes a b c d B :: int
  assumes "0 \<le> a" "a < B" "0 \<le> c" "c < B"
  shows "a + B * b = c + B * d \<longleftrightarrow> a = c \<and> b = d"
proof
  assume e: "a + B * b = c + B * d"
  have "(a + B * b) mod B = a" "(c + B * d) mod B = c" using assms by simp_all
  with e assms show "a = c \<and> b = d" by (metis add_left_cancel mult_left_cancel order.strict_trans1 less_irrefl)
qed simp

lemma mod_sub_once: "m \<le> x \<Longrightarrow> x < 2 * m \<Longrightarrow> x mod m = x - (m::int)"
  using mod_pos_pos_trivial[of "x - m" m] by simp

lemma and_le_left: "x \<le> k \<Longrightarrow> x AND y \<le> k" for x :: "'a::len word"
  using word_and_le2 by (rule order_trans)

lemma xor_eq_iff: "x XOR c = m \<longleftrightarrow> x = m XOR c" for x :: "'a::len word"
  by (metis xor.assoc xor_self_eq xor.right_neutral)

lemma uint_xor_less:
  "uint x < 2 ^ n \<Longrightarrow> uint y < 2 ^ n \<Longrightarrow> uint (x XOR y) < 2 ^ n" for x y :: "'a::len word"
  by (simp add: unsigned_xor_eq XOR_upper)

lemma sint_eq_uint_if_small: "uint w < 2 ^ (LENGTH('a) - 1) \<Longrightarrow> sint w = uint w" for w :: "'a::len word"
  by (simp add: sint_uint signed_take_bit_int_eq_self order_trans[OF _ uint_ge_0])

lemma div_le_dividend_int_pow: "0 \<le> A \<Longrightarrow> A div 2 ^ n \<le> (A :: int)"
  by (metis div_by_1 one_le_power one_le_numeral zdiv_mono2 zero_less_one)

lemma urep_scast [urep_intros]:
  assumes "urep a i A" "A < 2 ^ (LENGTH('a) - 1)" "A < 2 ^ LENGTH('b)"
  shows "urep (scast (a :: 'a::len word) :: 'b::len word) i A"
proof -
  have "sint a = i" "0 \<le> i" "i < 2 ^ LENGTH('b)"
    using assms sint_eq_uint_if_small[of a] uint_ge_0[of a] unfolding urep_def by linarith+
  then have "uint (word_of_int (sint a) :: 'b word) = i"
    by (simp add: uint_word_of_int)
  then show ?thesis using assms by (simp add: urep_def)
qed

lemma urep_signed_drop_bit [urep_intros]:
  assumes "urep a i A" "A < 2 ^ (LENGTH('a) - 1)"
  shows "urep (signed_drop_bit n a :: 'a::len word) (hi_bits n i) (A div 2 ^ n)"
proof -
  have s: "sint a = i" "0 \<le> i" "i \<le> A"
    using assms sint_eq_uint_if_small[of a] uint_ge_0[of a] unfolding urep_def by linarith+
  have "sint (signed_drop_bit n a) = i div 2 ^ n"
    by (simp only: sint_signed_drop_bit_eq drop_bit_eq_div s(1))
  then have w: "signed_drop_bit n a = word_of_int (i div 2 ^ n)"
    by (metis scast_eq scast_id)
  have d: "0 \<le> i div 2 ^ n" "i div 2 ^ n \<le> A div 2 ^ n" "A div 2 ^ n \<le> A"
    using s div_le_dividend_int_pow[of A n] by (simp_all add: zdiv_mono1 pos_imp_zdiv_nonneg_iff)
  moreover have "(2::int) ^ (LENGTH('a) - 1) \<le> 2 ^ LENGTH('a)"
    by (rule power_increasing) auto
  ultimately have "i div 2 ^ n < 2 ^ LENGTH('a)"
    using assms(2) by linarith
  with w d show ?thesis by (simp add: urep_def hi_bits_def uint_word_of_int)
qed

lemma mod_eq_if_exact: "\<exists>k. x = y + m * k \<Longrightarrow> y mod m = x mod m" for x y m :: int
  by auto

lemma urep_word_of_int [urep_intros]:
  "0 \<le> i \<Longrightarrow> i < 2 ^ LENGTH('a) \<Longrightarrow> urep (word_of_int i :: 'a::len word) i i"
  by (simp add: urep_def uint_word_of_int)

lemma uint_add_exact:
  "uint x \<le> A \<Longrightarrow> uint y \<le> B \<Longrightarrow> A + B < 2 ^ LENGTH('a) \<Longrightarrow> uint (x + y) = uint x + uint y"
  for x y :: "'a::len word"
  using urepD(1)[OF urep_add[OF urep_self urep_self]] .

lemma uint_mult_exact:
  "uint x \<le> A \<Longrightarrow> 0 \<le> i \<Longrightarrow> A * i < 2 ^ LENGTH('a) \<Longrightarrow> i < 2 ^ LENGTH('a)
    \<Longrightarrow> uint (x * word_of_int i) = uint x * i"
  for x :: "'a::len word"
  using urepD(1)[OF urep_mult[OF urep_self urep_word_of_int]] .

lemma limb_mult_bound:
  assumes "(u :: int) \<le> M * (2 * m)" "0 \<le> i" "0 \<le> M" "m * i \<le> k"
  shows "u * i \<le> M * (2 * k)"
proof -
  have "u * i \<le> M * (2 * m) * i" "M * (m * i) \<le> M * k"
    using assms by (simp_all add: mult_right_mono mult_left_mono)
  then show ?thesis by (simp add: algebra_simps)
qed

lemma limb_mult_exact:
  fixes x :: "'a::len word"
  assumes x: "uint x \<le> M * (2 * int m)" and i: "m * i \<le> k" "int i < 2 ^ LENGTH('a)"
    and M: "0 \<le> M" "M * (2 * int k) < 2 ^ LENGTH('a)"
  shows "uint (x * word_of_int (int i)) = uint x * int i"
proof (rule uint_mult_exact[OF x])
  have "int m * int i \<le> int k"
    using i(1) by (simp flip: of_nat_mult)
  then show "M * (2 * int m) * int i < 2 ^ LENGTH('a)"
    by (intro order.strict_trans1[OF limb_mult_bound M(2)]) (use M in simp_all)
qed (use i in simp_all)

lemma limb_negate_exact:
  fixes x :: "'a::len word"
  assumes "numeral c * 2 * (m + 1) < (2::int) ^ LENGTH('a)" "0 \<le> m" "uint x \<le> numeral c * 2 * (m + 1)"
  shows "uint (numeral c * 2 * word_of_int (m + 1) - x) = numeral c * 2 * (m + 1) - uint x"
proof -
  have "numeral c * 2 * word_of_int (m + 1) = (word_of_int (numeral c * 2 * (m + 1)) :: 'a word)"
    by simp
  then show ?thesis
    using urep_diff[OF urep_word_of_int[of "numeral c * 2 * (m + 1)", where 'a='a] urep_self[OF assms(3)]] assms
    by (simp only: urep_def) simp
qed

lemma push_mod: "n \<le> k \<Longrightarrow> x * 2 ^ n mod 2 ^ k = (x mod 2 ^ (k - n)) * 2 ^ n" for x :: int
  using mult_mod_left[of x "2 ^ (k - n)" "2 ^ n"] by (simp flip: power_add)

lemma urep_push_wrap:
  fixes a :: "'a::len word"
  assumes "n \<le> LENGTH('a)"
  shows "urep (push_bit n a) (lo_bits (LENGTH('a) - n) (uint a) * 2 ^ n) ((2 ^ (LENGTH('a) - n) - 1) * 2 ^ n)"
proof -
  have "uint (push_bit n a) = uint a * 2 ^ n mod 2 ^ LENGTH('a)"
    by (simp only: unsigned_push_bit_eq) (simp add: push_bit_eq_mult take_bit_eq_mod)
  then have "uint (push_bit n a) = lo_bits (LENGTH('a) - n) (uint a) * 2 ^ n"
    using push_mod[OF assms] by (simp only: lo_bits_def)
  then show ?thesis
    using lo_bits_range[of "LENGTH('a) - n" "uint a"] by (auto simp: urep_def intro: mult_right_mono)
qed

text \<open>A shift that drops high bits, joined with a low part.\<close>

lemma urep_or_high:
  fixes a b :: "'a::len word"
  assumes b: "urep b j B" "B < 2 ^ n" and n: "n \<le> LENGTH('a)"
  shows "urep (b OR push_bit n a) (j + lo_bits (LENGTH('a) - n) (uint a) * 2 ^ n)
    (B + (2 ^ (LENGTH('a) - n) - 1) * 2 ^ n)"
proof -
  have "b OR push_bit n a = b + push_bit n a"
    using and_eq_0_if_low[of b n a] urepD[OF b(1)] b(2)
    by (simp add: disjunctive_add_eq_or and.commute)
  moreover have "(2::int) ^ LENGTH('a) = 2 ^ (LENGTH('a) - n) * 2 ^ n"
    using n by (simp flip: power_add)
  then have "urep (b + push_bit n a) (j + lo_bits (LENGTH('a) - n) (uint a) * 2 ^ n)
      (B + (2 ^ (LENGTH('a) - n) - 1) * 2 ^ n)"
    using b(2) by (intro urep_add[OF b(1) urep_push_wrap[OF n]]) (simp add: algebra_simps)
  ultimately show ?thesis by (simp only:)
qed

text \<open>The middle bits of a word, moved up: \<^verbatim>\<open>(a << n) & mask(k)\<close>.\<close>

lemma urep_or_mid:
  fixes a b :: "'a::len word"
  assumes b: "urep b j B" "B < 2 ^ n" and n: "n \<le> k" "k \<le> LENGTH('a)" and m: "m = mask k"
  shows "urep (b OR (push_bit n a AND m)) (j + lo_bits (k - n) (uint a) * 2 ^ n) (B + (2 ^ (k - n) - 1) * 2 ^ n)"
proof -
  have "push_bit n a AND m = push_bit n (a AND mask (k - n))"
    unfolding m using n by (intro bit_word_eqI) (auto simp: bit_simps)
  moreover have "uint (a AND mask (k - n)) = lo_bits (k - n) (uint a)"
    by (simp add: uint_and_mask lo_bits_def)
  moreover have "lo_bits (LENGTH('a) - n) (lo_bits (k - n) (uint a)) = lo_bits (k - n) (uint a)"
    using n unfolding lo_bits_def
    by (intro mod_pos_pos_trivial) (auto intro!: order.strict_trans2[OF pos_mod_bound] power_increasing)
  ultimately show ?thesis
    using urep_or_high[OF b, of "a AND mask (k - n)"] n lo_bits_range[of "k - n" "uint a"] urepD(2)[OF b(1)]
    by (auto simp: urep_def intro!: add_mono mult_right_mono)
qed

lemma urep_u32 [urep_intros]: "urep (d :: u32) (uint d) (2 ^ 32 - 1)"
  using uint_lt2p[of d] by (simp add: urep_def)

section \<open>Statement sequences\<close>

text \<open>
  A sequence of C assignments is a chain of \<^theory_text>\<open>let\<close>s that rebinds the C
  names. Eliminating the chain from \<open>f x = r\<close> names every intermediate value.
\<close>

lemma LetE: "Let t f = r \<Longrightarrow> (\<And>x. x = t \<Longrightarrow> f x = r \<Longrightarrow> P) \<Longrightarrow> P"
  by (simp add: Let_def)

section \<open>Big-endian byte strings\<close>

definition be_val :: "bytes \<Rightarrow> int" where
  "be_val bs = foldl (\<lambda>acc b. acc * 256 + uint b) 0 bs"

lemma be_val_Nil [simp]: "be_val [] = 0"
  by (simp add: be_val_def)

lemma be_val_snoc [simp]: "be_val (bs @ [b]) = be_val bs * 256 + uint b"
  by (simp add: be_val_def)

lemma be_val_append: "be_val (xs @ ys) = be_val xs * 256 ^ length ys + be_val ys"
proof (induction ys rule: rev_induct)
  case (snoc y ys)
  then show ?case by (simp flip: append_assoc add: algebra_simps)
qed simp

lemma be_val_Cons: "be_val (b # bs) = uint b * 256 ^ length bs + be_val bs"
  using be_val_append[of "[b]" bs] by (simp add: be_val_def)

lemma be_val_nonneg [simp]: "0 \<le> be_val bs"
  by (induction bs rule: rev_induct) auto

lemma uint_u8_less: "uint (b :: u8) < 256"
  using uint_lt2p[of b] by simp

lemma be_val_less: "be_val bs < 256 ^ length bs"
proof (induction bs rule: rev_induct)
  case (snoc b bs)
  then show ?case using uint_u8_less[of b] by simp
qed simp

lemma be_val_inject:
  "length xs = length ys \<Longrightarrow> be_val xs = be_val ys \<longleftrightarrow> xs = ys"
proof (induction xs ys rule: rev_induct2)
  case (4 x xs y ys)
  have "be_val xs * 256 + uint x = be_val ys * 256 + uint y \<longleftrightarrow>
      be_val xs = be_val ys \<and> uint x = uint y"
    using radix_inject[of "uint x" 256 "uint y" "be_val xs" "be_val ys"] uint_u8_less by (auto simp: add.commute mult.commute)
  with 4 show ?case by (auto simp: word_uint_eq_iff)
qed auto

section \<open>Limb lists\<close>

text \<open>
  The comparison loop of the field implementations runs over the pairs of limbs from the most
  significant one down.
\<close>

fun limbs_cmp :: "('a::len word \<times> 'a word) list \<Rightarrow> int" where
  "limbs_cmp [] = 0"
| "limbs_cmp ((x, y) # rest) = (if x > y then 1 else if x < y then -1 else limbs_cmp rest)"

text \<open>Limb lists, most significant limb first, in radix \<open>2 ^ w\<close>.\<close>

fun limbs_val :: "nat \<Rightarrow> 'a::len word list \<Rightarrow> int" where
  "limbs_val w [] = 0"
| "limbs_val w (x # xs) = uint x * 2 ^ (w * length xs) + limbs_val w xs"

lemma limbs_val_range:
  "\<forall>x \<in> set xs. uint x < 2 ^ w \<Longrightarrow> 0 \<le> limbs_val w xs \<and> limbs_val w xs < 2 ^ (w * length xs)"
proof (induction xs)
  case (Cons x xs)
  then have "limbs_val w xs < 2 ^ (w * length xs)" "uint x \<le> 2 ^ w - 1" "0 \<le> limbs_val w xs" by auto
  then have "uint x * 2 ^ (w * length xs) \<le> (2 ^ w - 1) * 2 ^ (w * length xs)"
    by (intro mult_right_mono) auto
  then show ?case
    using Cons by (auto simp: power_add algebra_simps)
qed simp

lemma digit_less:
  fixes B :: int
  assumes "x < y" "a < B" "0 \<le> b" "0 \<le> B"
  shows "x * B + a < y * B + b"
proof -
  have "(x + 1) * B \<le> y * B" using assms by (intro mult_right_mono) auto
  then show ?thesis using assms by (simp add: algebra_simps)
qed

lemma limbs_val_inject:
  assumes "length xs = length ys" "\<forall>x \<in> set xs. uint x < 2 ^ w" "\<forall>y \<in> set ys. uint y < 2 ^ w"
    "limbs_val w xs = limbs_val w ys"
  shows "xs = ys"
  using assms
proof (induction xs ys rule: list_induct2)
  case (Cons x xs y ys)
  have "limbs_val w xs + 2 ^ (w * length xs) * uint x = limbs_val w ys + 2 ^ (w * length xs) * uint y"
    using Cons by (simp add: algebra_simps)
  moreover have "0 \<le> limbs_val w xs" "limbs_val w xs < 2 ^ (w * length xs)"
    "0 \<le> limbs_val w ys" "limbs_val w ys < 2 ^ (w * length xs)"
    using limbs_val_range[of xs w] limbs_val_range[of ys w] Cons by simp_all
  ultimately have "limbs_val w xs = limbs_val w ys \<and> uint x = uint y"
    by (simp only: radix_inject)
  with Cons show ?case by (simp add: word_uint_eq_iff)
qed simp

text \<open>The comparison after an addition is its carry.\<close>

lemma carry_out: "uint (x + y) + 2 ^ LENGTH('a) * (if x + y < y then 1 else 0) = uint x + uint y"
  for x y :: "'a::len word"
  using uint_lt2p[of x] uint_lt2p[of y] uint_ge_0[of x] uint_ge_0[of y]
  by (simp add: word_less_def uint_plus_if')

lemma add_no_wrap: "uint x + uint y < 2 ^ LENGTH('a) \<Longrightarrow> uint (x + y) = uint x + uint y" for x y :: "'a::len word"
  by (simp add: uint_plus_if')

lemma high_less:
  fixes l h :: int
  assumes "0 \<le> l" "l + 2 ^ m * h < 2 ^ (m + w)"
  shows "h < 2 ^ w"
proof (rule mult_left_less_imp_less[of "2 ^ m"])
  show "2 ^ m * h < 2 ^ m * 2 ^ w" using assms unfolding power_add by linarith
qed simp

lemma limbs_cmp_correct:
  assumes "\<forall>p \<in> set ps. uint (fst p) < 2 ^ w \<and> uint (snd p) < 2 ^ w"
  shows "limbs_cmp ps = sgn (limbs_val w (map fst ps) - limbs_val w (map snd ps))"
  using assms
proof (induction ps rule: limbs_cmp.induct)
  case (2 x y rest)
  have r: "limbs_val w (map fst rest) < 2 ^ (w * length rest)" "0 \<le> limbs_val w (map fst rest)"
    "limbs_val w (map snd rest) < 2 ^ (w * length rest)" "0 \<le> limbs_val w (map snd rest)"
    using limbs_val_range[of "map fst rest" w] limbs_val_range[of "map snd rest" w] 2(2) by auto
  consider "uint y < uint x" | "uint x < uint y" | "x = y"
    using word_uint_eq_iff linorder_neqE by blast
  then show ?case
  proof cases
    case 1
    then show ?thesis using digit_less[OF 1 r(3,2)] by (simp add: word_less_def)
  next
    case 2
    then show ?thesis using digit_less[OF 2 r(1,4)] by (simp add: word_less_def)
  next
    case 3
    then show ?thesis using 2 by simp
  qed
qed simp

section \<open>Splitting bytes into chunks and packing chunks into limbs\<close>

lemma be_val_sum: "be_val bs = (\<Sum>i<length bs. uint (bs ! (length bs - 1 - i)) * 256 ^ i)"
proof (induction bs)
  case (Cons b bs)
  have "(b # bs) ! (length bs - i) = bs ! (length bs - 1 - i)" if "i < length bs" for i
    using that by (simp add: nth_Cons')
  then show ?case using Cons by (simp add: be_val_Cons cong: sum.cong_simp)
qed simp

lemma be_val_rev_map: "be_val (rev (map f [0..<n])) = (\<Sum>i<n. uint (f i) * 256 ^ i)"
  by (induction n) (simp_all add: be_val_Cons)

lemma digit_sum: "0 < B \<Longrightarrow> (\<Sum>j<n. (x div B ^ j mod B) * B ^ j) = x mod B ^ n" for x B :: int
proof (induction n)
  case (Suc n)
  then show ?case using zmod_zmult2_eq[of "B" x "B ^ n"] zmod_zmult2_eq[of "B ^ n" x "B"]
    by (simp add: mult.commute)
qed simp

lemma sum_group: "(\<Sum>k<n * m. f k) = (\<Sum>i<n. \<Sum>j<m. f (i * m + j))" for f :: "nat \<Rightarrow> int"
proof -
  have "sum f {i * m..<i * m + m} = (\<Sum>j<m. f (i * m + j))" for i
    using sum.shift_bounds_nat_ivl[of f 0 "i * m" m] by (simp add: lessThan_atLeast0 add.commute)
  then show ?thesis by (simp flip: sum.nat_group)
qed

lemma pack_step:
  fixes f g :: "nat \<Rightarrow> 'a::len word"
  assumes inv: "\<forall>l<N. uint (f l) < 2 ^ min (13 * c) (c * k - 13 * c * l)"
    and g: "\<forall>l<N. g l = (if l = k div 13 then f l OR push_bit (c * (k mod 13)) v else f l)"
    and v: "uint v < 2 ^ c" and k: "k div 13 < N" and w: "13 * c < LENGTH('a)"
  shows "\<forall>l<N. uint (g l) < 2 ^ min (13 * c) (c * Suc k - 13 * c * l)"
    and "(\<Sum>l<N. uint (g l) * 2 ^ (13 * c * l)) = (\<Sum>l<N. uint (f l) * 2 ^ (13 * c * l)) + uint v * 2 ^ (c * k)"
proof -
  define q s where "q = k div 13" and "s = c * (k mod 13)"
  have ck: "c * k = 13 * c * q + s"
    using mult_div_mod_eq[of 13 k] unfolding q_def s_def
    by (metis distrib_left mult.assoc mult.commute)
  have sc: "s + c \<le> 13 * c"
    unfolding s_def using mult_le_mono2[of "Suc (k mod 13)" 13 c] mod_less_divisor[of 13 k] by (simp add: Suc_le_eq)
  have fq: "uint (f q) < 2 ^ s"
    using inv[rule_format, of q] k sc unfolding q_def[symmetric] ck by (simp add: min_absorb2)
  have lim: "(2::int) ^ s + 2 ^ s * (2 ^ c - 1) = 2 ^ (s + c)" "(2::int) ^ (s + c) \<le> 2 ^ (13 * c)"
     "(2::int) ^ (13 * c) < 2 ^ LENGTH('a)"
    using sc w by (simp_all add: algebra_simps power_add[symmetric])
  have r: "urep (f q OR push_bit s v) (uint (f q) + uint v * 2 ^ s) (2 ^ s - 1 + (2 ^ c - 1) * 2 ^ s)"
  proof (intro urep_push_or urep_self)
    have "(2::int) ^ s - 1 + (2 ^ c - 1) * 2 ^ s = 2 ^ (s + c) - 1"
      using lim(1) by (simp add: algebra_simps)
    then show "(2::int) ^ s - 1 + (2 ^ c - 1) * 2 ^ s < 2 ^ LENGTH('a)"
      using lim(2,3) by linarith
  qed (use fq v in simp_all)
  have gq: "uint (g q) = uint (f q) + uint v * 2 ^ s" "uint (g q) < 2 ^ (s + c)"
    using g k urepD(1)[OF r] urepD(5)[OF r] lim unfolding q_def[symmetric] s_def by (simp_all add: algebra_simps)
  show "\<forall>l<N. uint (g l) < 2 ^ min (13 * c) (c * Suc k - 13 * c * l)"
  proof (intro allI impI)
    fix l assume l: "l < N"
    show "uint (g l) < 2 ^ min (13 * c) (c * Suc k - 13 * c * l)"
    proof (cases "l = q")
      case True
      moreover have "min (13 * c) (c * Suc k - 13 * c * q) = s + c"
        using sc ck by simp
      ultimately show ?thesis using gq(2) by (simp only:)
    next
      case False
      have "(2::int) ^ min (13 * c) (c * k - 13 * c * l) \<le> 2 ^ min (13 * c) (c * Suc k - 13 * c * l)"
        by (intro power_increasing) auto
      then show ?thesis using False inv g l unfolding q_def by (metis order.strict_trans2)
    qed
  qed
  have "(\<Sum>l<N. uint (g l) * 2 ^ (13 * c * l))
      = (\<Sum>l<N. uint (f l) * 2 ^ (13 * c * l) + (if l = q then uint v * 2 ^ s * 2 ^ (13 * c * q) else 0))"
    using g gq unfolding q_def by (intro sum.cong) (auto simp: algebra_simps)
  also have "\<dots> = (\<Sum>l<N. uint (f l) * 2 ^ (13 * c * l)) + uint v * 2 ^ (c * k)"
    using k unfolding q_def[symmetric] ck by (simp add: sum.distrib power_add mult_ac)
  finally show "(\<Sum>l<N. uint (g l) * 2 ^ (13 * c * l)) = (\<Sum>l<N. uint (f l) * 2 ^ (13 * c * l)) + uint v * 2 ^ (c * k)" .
qed

lemma unpack_sum:
  fixes f :: "nat \<Rightarrow> int"
  shows "(\<Sum>k<N * 13. (f (k div 13) div 2 ^ (c * (k mod 13)) mod 2 ^ c) * 2 ^ (c * k))
    = (\<Sum>l<N. f l mod 2 ^ (13 * c) * 2 ^ (13 * c * l))"
proof -
  have "(\<Sum>j<13. (x div 2 ^ (c * j) mod 2 ^ c) * 2 ^ (c * (l * 13 + j))) = x mod 2 ^ (13 * c) * 2 ^ (13 * c * l)"
    for x :: int and l
  proof -
    have "(\<Sum>j<13. (x div 2 ^ (c * j) mod 2 ^ c) * 2 ^ (c * (l * 13 + j)))
        = (\<Sum>j<13. (x div (2 ^ c) ^ j mod 2 ^ c) * (2 ^ c) ^ j) * 2 ^ (13 * c * l)"
      unfolding sum_distrib_right
      by (intro sum.cong) (simp_all add: power_mult[symmetric] distrib_left power_add mult_ac)
    then show ?thesis
      by (simp only: digit_sum zero_less_power zero_less_numeral) (simp add: power_mult[symmetric] mult.commute)
  qed
  then show ?thesis unfolding sum_group by simp
qed

lemma uint_nibble: "uint (drop_bit (4 * j) (b :: 'a::len word) AND 0xF) = uint b div 16 ^ j mod 16"
  using uint_and_mask[of "drop_bit (4 * j) b" 4]
  by (simp add: uint_drop_bit_div power_mult mask_numeral)

lemma byte_nibbles: "uint b div 16 ^ 0 mod 16 + uint b div 16 ^ 1 mod 16 * 16 = uint (b :: u8)"
  using digit_sum[of 16 "uint b" 2] uint_u8_less[of b] by (simp add: numeral_2_eq_2)

lemma be_val_nibbles:
  assumes "length a = n"
  shows "be_val a = (\<Sum>k<n * 2. (uint (a ! (n - 1 - k div 2)) div 16 ^ (k mod 2) mod 16) * 2 ^ (4 * k))"
proof -
  have two: "(\<Sum>j<2. f j) = f 0 + (f 1 :: int)" for f :: "nat \<Rightarrow> int" by (simp add: numeral_2_eq_2)
  have d: "(i * 2 + 0) div 2 = i" "(i * 2 + 1) div 2 = i" "(i * 2 + 0) mod 2 = 0" "(i * 2 + 1) mod 2 = 1"
    for i :: nat by presburger+
  have "uint b div 16 ^ 0 mod 16 * 2 ^ (4 * (i * 2 + 0)) + uint b div 16 ^ 1 mod 16 * 2 ^ (4 * (i * 2 + 1))
      = uint b * 256 ^ i" for b :: u8 and i
  proof -
    have "(2::int) ^ (4 * (i * 2 + 0)) = 256 ^ i" "(2::int) ^ (4 * (i * 2 + 1)) = 16 * 256 ^ i"
      using power_mult[of "2::int" 8 i] by (simp_all add: power_add mult.commute)
    moreover have "x * y + z * (16 * y) = (x + z * 16) * y" for x y z :: int
      by (simp add: algebra_simps)
    ultimately show ?thesis by (simp only: byte_nibbles)
  qed
  then have "uint (a ! (n - 1 - i)) * 256 ^ i = (\<Sum>j<2. (uint (a ! (n - 1 - (i * 2 + j) div 2))
      div 16 ^ ((i * 2 + j) mod 2) mod 16) * 2 ^ (4 * (i * 2 + j)))" for i
    unfolding two d by (simp only:)
  then show ?thesis unfolding be_val_sum sum_group assms by (simp only:)
qed

section \<open>Radix arithmetic\<close>

lemma radix_div_mod: "0 \<le> a \<Longrightarrow> a < B \<Longrightarrow> (a + B * b) div B = b" "0 \<le> a \<Longrightarrow> a < B \<Longrightarrow> (a + B * b) mod B = a"
  for a b B :: int
  by simp_all

lemma radix_le:
  fixes a b x y B :: int
  assumes "0 \<le> a" "a < B" "0 \<le> b" "b < B"
  shows "a + B * x \<le> b + B * y \<longleftrightarrow> x < y \<or> x = y \<and> a \<le> b"
  using digit_less[of x y a B b] digit_less[of y x b B a] assms
  by (cases x y rule: linorder_cases) (auto simp: algebra_simps)

lemma radix_less:
  fixes a b x y B :: int
  assumes "0 \<le> a" "a < B" "0 \<le> b" "b < B"
  shows "a + B * x < b + B * y \<longleftrightarrow> x < y \<or> x = y \<and> a < b"
  using digit_less[of x y a B b] digit_less[of y x b B a] assms
  by (cases x y rule: linorder_cases) (auto simp: algebra_simps)

lemma add3_no_wrap:
  fixes a b c d :: "'a::len word"
  assumes "uint a + uint b + uint c + uint d < 2 ^ LENGTH('a)"
  shows "uint (a + b + c + d) = uint a + uint b + uint c + uint d"
proof -
  have "uint (a + b) = uint a + uint b"
    using assms uint_ge_0[of c] uint_ge_0[of d] by (intro add_no_wrap) linarith
  moreover from this have "uint (a + b + c) = uint a + uint b + uint c"
    using assms uint_ge_0[of d] by (subst add_no_wrap) (linarith, simp)
  ultimately show ?thesis using assms by (subst add_no_wrap) simp_all
qed

section \<open>Windows of bits in a limb list\<close>

lemma limbs_val_snoc: "limbs_val w (xs @ [x]) = limbs_val w xs * 2 ^ w + uint x"
  by (induction xs) (simp_all add: algebra_simps power_add)

lemma limbs_val_drop:
  "\<forall>x \<in> set l. uint x < 2 ^ w \<Longrightarrow> limbs_val w (rev l) div 2 ^ (w * i) = limbs_val w (rev (drop i l))"
proof (induction i arbitrary: l)
  case (Suc i)
  show ?case
  proof (cases l)
    case (Cons x xs)
    have "limbs_val w (rev l) div 2 ^ (w * Suc i) = (uint x + 2 ^ w * limbs_val w (rev xs)) div 2 ^ w div 2 ^ (w * i)"
      unfolding Cons by (simp add: limbs_val_snoc power_add zdiv_zmult2_eq algebra_simps)
    then show ?thesis using Suc Cons by simp
  qed simp
qed simp

lemma limbs_val_nth_div:
  assumes "\<forall>x \<in> set l. uint x < 2 ^ w" "i < length l"
  shows "limbs_val w (rev l) div 2 ^ (w * i) = uint (l ! i) + 2 ^ w * limbs_val w (rev (drop (Suc i) l))"
  using assms by (simp add: limbs_val_drop limbs_val_snoc flip: Cons_nth_drop_Suc)

lemma div_radix: "s \<le> w \<Longrightarrow> (x + 2 ^ w * h) div 2 ^ s = x div 2 ^ s + 2 ^ (w - s) * h" for x h :: int
proof -
  assume "s \<le> w"
  then have e: "(2::int) ^ w * h = 2 ^ s * (2 ^ (w - s) * h)" by (simp flip: power_add add: mult.assoc[symmetric])
  show ?thesis unfolding e by simp
qed

lemma mod_radix: "c \<le> w \<Longrightarrow> (x + 2 ^ w * h) mod 2 ^ c = x mod 2 ^ c" for x h :: int
proof -
  assume "c \<le> w"
  then have e: "(2::int) ^ w * h = 2 ^ c * (2 ^ (w - c) * h)" by (simp flip: power_add add: mult.assoc[symmetric])
  show ?thesis unfolding e by simp
qed

lemma hi_bits_less: "0 \<le> x \<Longrightarrow> x < 2 ^ w \<Longrightarrow> s \<le> w \<Longrightarrow> 0 \<le> hi_bits s x \<and> hi_bits s x < 2 ^ (w - s)"
proof -
  assume x: "0 \<le> x" "x < 2 ^ w" "s \<le> w"
  then have "2 ^ s * hi_bits s x < 2 ^ s * 2 ^ (w - s)"
  proof -
    have "(2::int) ^ s * 2 ^ (w - s) = 2 ^ w" using x by (simp flip: power_add)
    then show ?thesis using lo_hi_bits[of s x] lo_bits_range(1)[of s x] x by linarith
  qed
  then show ?thesis using x by simp
qed

lemma radix_mod2:
  fixes a z B C :: int
  assumes "0 \<le> a" "a < B" "0 < C"
  shows "(a + B * z) mod (B * C) = a + B * (z mod C)"
  using assms by (simp add: zmod_zmult2_eq)

text \<open>A field that does not cross a limb boundary.\<close>

lemma limb_field:
  fixes l :: "'a::len word list"
  assumes "i < length l" "s + c \<le> LENGTH('a)"
  shows "uint (l ! i) div 2 ^ s mod 2 ^ c = limbs_val LENGTH('a) (rev l) div 2 ^ (LENGTH('a) * i + s) mod 2 ^ c"
proof -
  have "limbs_val LENGTH('a) (rev l) div 2 ^ (LENGTH('a) * i + s) = (uint (l ! i) + 2 ^ LENGTH('a) * limbs_val LENGTH('a) (rev (drop (Suc i) l))) div 2 ^ s"
    using limbs_val_nth_div[of l "LENGTH('a)" i] assms by (simp add: power_add zdiv_zmult2_eq)
  also have "\<dots> = uint (l ! i) div 2 ^ s + 2 ^ (LENGTH('a) - s) * limbs_val LENGTH('a) (rev (drop (Suc i) l))"
    using assms by (intro div_radix) simp
  finally show ?thesis using assms by (simp add: mod_radix)
qed

text \<open>A full limb taken at a bit offset.\<close>

lemma limb_window:
  fixes l :: "'a::len word list"
  assumes i: "Suc i < length l" and s: "0 < s" "s < LENGTH('a)"
  shows "uint (drop_bit s (l ! i) OR push_bit (LENGTH('a) - s) (l ! Suc i))
    = limbs_val LENGTH('a) (rev l) div 2 ^ (LENGTH('a) * i + s) mod 2 ^ LENGTH('a)"
proof -
  let ?w = "LENGTH('a)"
  define x y h where "x = uint (l ! i)" and "y = uint (l ! Suc i)" and "h = limbs_val ?w (rev (drop (Suc (Suc i)) l))"
  have "limbs_val ?w (rev (drop (Suc i) l)) = y + 2 ^ ?w * h"
    using limbs_val_nth_div[of l ?w "Suc i"] limbs_val_drop[of l ?w "Suc i"] i unfolding y_def h_def by simp
  then have "limbs_val ?w (rev l) div 2 ^ (?w * i + s) = (x + 2 ^ ?w * (y + 2 ^ ?w * h)) div 2 ^ s"
    using limbs_val_nth_div[of l ?w i] i unfolding x_def by (simp add: power_add zdiv_zmult2_eq)
  also have "\<dots> = x div 2 ^ s + 2 ^ (?w - s) * (y + 2 ^ ?w * h)"
    using s by (intro div_radix) simp
  also have "\<dots> mod 2 ^ ?w = x div 2 ^ s + 2 ^ (?w - s) * (y mod 2 ^ s)"
  proof -
    have xs: "0 \<le> x div 2 ^ s" "x div 2 ^ s < 2 ^ (?w - s)"
      using hi_bits_less[of x ?w s] uint_lt2p[of "l ! i"] s unfolding x_def hi_bits_def by simp_all
    have "(2::int) ^ ?w = 2 ^ (?w - s) * 2 ^ s" using s by (simp flip: power_add)
    then have "(x div 2 ^ s + 2 ^ (?w - s) * (y + 2 ^ ?w * h)) mod 2 ^ ?w
        = x div 2 ^ s + 2 ^ (?w - s) * ((y + 2 ^ ?w * h) mod 2 ^ s)"
      using radix_mod2[OF xs, of "2 ^ s"] by (simp only:) simp
    then show ?thesis using s by (simp add: mod_radix)
  qed
  finally have v: "limbs_val ?w (rev l) div 2 ^ (?w * i + s) mod 2 ^ ?w = x div 2 ^ s + 2 ^ (?w - s) * (y mod 2 ^ s)" .
  have "urep (drop_bit s (l ! i) OR push_bit (?w - s) (l ! Suc i))
      (hi_bits s x + lo_bits s y * 2 ^ (?w - s)) (2 ^ (?w - s) - 1 + (2 ^ s - 1) * 2 ^ (?w - s))"
    using urep_or_high[of "drop_bit s (l ! i)" "hi_bits s x" "2 ^ (?w - s) - 1" "?w - s" "l ! Suc i"] s
      hi_bits_less[of x ?w s] uint_lt2p[of "l ! i"] unfolding y_def x_def
    by (simp add: urep_def uint_drop_bit_div hi_bits_def)
  then show ?thesis unfolding v by (simp add: urep_def hi_bits_def lo_bits_def algebra_simps)
qed

lemma field_in_limb:
  fixes off c w :: nat
  assumes "0 < c" "0 < w"
  shows "(off + c - 1) div w = off div w \<longleftrightarrow> off mod w + c \<le> w"
proof -
  have "off + c - 1 = (off mod w + c - 1) + w * (off div w)"
    using assms mult_div_mod_eq[of w off] by linarith
  also have "\<dots> div w = (off mod w + c - 1) div w + off div w"
    using assms by (subst div_mult_self2) simp_all
  finally have "(off + c - 1) div w = (off mod w + c - 1) div w + off div w" .
  moreover have "(off mod w + c - 1) div w = 0 \<longleftrightarrow> off mod w + c \<le> w"
    using assms by (auto simp: div_eq_0_iff)
  ultimately show ?thesis by simp
qed

lemma div_pow_add: "X div 2 ^ (m + n) = X div 2 ^ m div 2 ^ n" for X :: int
  by (simp add: power_add zdiv_zmult2_eq)

lemma round_shift:
  fixes X :: int
  assumes "0 < s"
  shows "X div 2 ^ s + X div 2 ^ (s - 1) mod 2 = (X + 2 ^ (s - 1)) div 2 ^ s"
proof -
  define y where "y = X div 2 ^ (s - 1)"
  have p: "(2::int) ^ s = 2 ^ (s - 1) * 2" using assms by (cases s) simp_all
  have d: "Z div 2 ^ s = Z div 2 ^ (s - 1) div 2" for Z :: int
    unfolding p by (rule zdiv_zmult2_eq) simp
  have "(X + 2 ^ (s - 1)) div 2 ^ (s - 1) = y + 1"
    unfolding y_def by (rule div_add_self2) simp
  moreover have "y div 2 + y mod 2 = (y + 1) div 2" by presburger
  ultimately show ?thesis by (simp only: d y_def[symmetric])
qed

lemma sum4: "(\<Sum>j<4. f j) = f 0 + f 1 + f 2 + f (3::nat)" for f :: "nat \<Rightarrow> int"
  by (simp add: eval_nat_numeral)

end
