(* ===== verification/Secp_Params.thy ===== *)
theory Secp_Params
  imports Secp_Prelude
begin

text \<open>
  The two moduli of the curve: the field characteristic \<open>secp_p\<close> and the group order
  \<open>secp_n\<close>, as the sources give them (hexadecimal in the comments of
  \<^verbatim>\<open>ecdsa_impl.h\<close> and as limb constants in \<^verbatim>\<open>scalar_4x64_impl.h\<close>).
\<close>

definition secp_p :: int where
  "secp_p = 0xFFFFFFFFFFFFFFFFFFFFFFFFFFFFFFFFFFFFFFFFFFFFFFFFFFFFFFFEFFFFFC2F"

definition secp_n :: int where
  "secp_n = 0xFFFFFFFFFFFFFFFFFFFFFFFFFFFFFFFEBAAEDCE6AF48A03BBFD25E8CD0364141"

lemma secp_p_pow: "secp_p = 2 ^ 256 - 2 ^ 32 - 977"
  by (simp add: secp_p_def)

lemma secp_p_pos [simp]: "0 < secp_p" "secp_p \<noteq> 0"
  by (simp_all add: secp_p_def)

lemma secp_n_pos [simp]: "0 < secp_n" "secp_n \<noteq> 0"
  by (simp_all add: secp_n_def)

lemma mod_p_range [simp]: "0 \<le> x mod secp_p" "x mod secp_p < secp_p"
  by simp_all

lemma mod_n_range [simp]: "0 \<le> x mod secp_n" "x mod secp_n < secp_n"
  by simp_all

text \<open>Two integers that differ by a known multiple have the same remainder.\<close>

lemma mod_eq_if_diff_mult: "x = y + m * k \<Longrightarrow> x mod m = y mod (m::int)"
  by simp

text \<open>The integer that eight 32-bit digits denote, most significant digit first.\<close>

definition digits_val :: "u32 \<Rightarrow> u32 \<Rightarrow> u32 \<Rightarrow> u32 \<Rightarrow> u32 \<Rightarrow> u32 \<Rightarrow> u32 \<Rightarrow> u32 \<Rightarrow> int" where
  "digits_val d7 d6 d5 d4 d3 d2 d1 d0 = uint d0 + uint d1 * 2 ^ 32 + uint d2 * 2 ^ 64 + uint d3 * 2 ^ 96
      + uint d4 * 2 ^ 128 + uint d5 * 2 ^ 160 + uint d6 * 2 ^ 192 + uint d7 * 2 ^ 224"

end
