(* ===== verification/Field_Interface.thy ===== *)
theory Field_Interface
  imports Secp_Params
begin

text \<open>
  The interface of \<^verbatim>\<open>field.h\<close>.  The field of the curve is compiled from one of two
  representations, chosen by the preprocessor; the code above it calls the functions of
  \<^verbatim>\<open>field.h\<close> only.  The record below has one field per function that a representation
  provides, and the locale states what a client may rely on: an abstraction \<open>fabs\<close> of an
  element to its residue modulo \<^term>\<open>secp_p\<close>, the magnitude predicate \<open>fmag\<close> and the
  normal-form predicate \<open>fnorm\<close> of the debug builds.  The bound 31 on magnitudes is the
  largest one at which both representations are exact; the clients stay below it.
\<close>

record ('fe, 'st) field_ops =
  fo_normalize :: "'fe \<Rightarrow> 'fe"
  fo_normalize_weak :: "'fe \<Rightarrow> 'fe"
  fo_normalize_var :: "'fe \<Rightarrow> 'fe"
  fo_normalizes_to_zero :: "'fe \<Rightarrow> bool"
  fo_normalizes_to_zero_var :: "'fe \<Rightarrow> bool"
  fo_set_int :: "int \<Rightarrow> 'fe"
  fo_clear :: "'fe \<Rightarrow> 'fe"
  fo_is_zero :: "'fe \<Rightarrow> bool"
  fo_is_odd :: "'fe \<Rightarrow> bool"
  fo_cmp_var :: "'fe \<Rightarrow> 'fe \<Rightarrow> int"
  fo_set_b32 :: "bytes \<Rightarrow> 'fe \<times> bool"
  fo_get_b32 :: "'fe \<Rightarrow> bytes"
  fo_negate :: "'fe \<Rightarrow> int \<Rightarrow> 'fe"
  fo_mul_int :: "'fe \<Rightarrow> int \<Rightarrow> 'fe"
  fo_add :: "'fe \<Rightarrow> 'fe \<Rightarrow> 'fe"
  fo_mul :: "'fe \<Rightarrow> 'fe \<Rightarrow> 'fe"
  fo_sqr :: "'fe \<Rightarrow> 'fe"
  fo_to_storage :: "'fe \<Rightarrow> 'st"
  fo_from_storage :: "'st \<Rightarrow> 'fe"
  fo_storage_cmov :: "'st \<Rightarrow> 'st \<Rightarrow> int \<Rightarrow> 'st"
  fo_cmov :: "'fe \<Rightarrow> 'fe \<Rightarrow> int \<Rightarrow> 'fe"
  fo_const :: "u32 \<Rightarrow> u32 \<Rightarrow> u32 \<Rightarrow> u32 \<Rightarrow> u32 \<Rightarrow> u32 \<Rightarrow> u32 \<Rightarrow> u32 \<Rightarrow> 'fe"

locale field_repr =
  fixes F :: "('fe, 'st) field_ops"
    and fabs :: "'fe \<Rightarrow> int"
    and fmag :: "nat \<Rightarrow> 'fe \<Rightarrow> bool"
    and fnorm :: "'fe \<Rightarrow> bool"
  assumes abs_range: "0 \<le> fabs a" "fabs a < secp_p"
    and mag_mono: "fmag m a \<Longrightarrow> m \<le> k \<Longrightarrow> k \<le> 31 \<Longrightarrow> fmag k a"
    and norm_mag: "fnorm a \<Longrightarrow> fmag 1 a"
    and norm_inject: "fnorm a \<Longrightarrow> fnorm b \<Longrightarrow> fabs a = fabs b \<Longrightarrow> a = b"
    and normalize: "fmag 31 a \<Longrightarrow> fnorm (fo_normalize F a) \<and> fabs (fo_normalize F a) = fabs a"
    and normalize_weak: "fmag 31 a \<Longrightarrow> fmag 1 (fo_normalize_weak F a) \<and> fabs (fo_normalize_weak F a) = fabs a"
    and normalize_var: "fmag 31 a \<Longrightarrow> fo_normalize_var F a = fo_normalize F a"
    and normalizes_to_zero: "fmag 31 a \<Longrightarrow> fo_normalizes_to_zero F a \<longleftrightarrow> fabs a = 0"
    and normalizes_to_zero_var: "fmag 31 a \<Longrightarrow> fo_normalizes_to_zero_var F a \<longleftrightarrow> fabs a = 0"
    and set_int: "0 \<le> v \<Longrightarrow> v < 2 ^ 26 \<Longrightarrow> fnorm (fo_set_int F v) \<and> fabs (fo_set_int F v) = v"
    and clear: "fnorm (fo_clear F a) \<and> fabs (fo_clear F a) = 0"
    and is_zero: "fnorm a \<Longrightarrow> fo_is_zero F a \<longleftrightarrow> fabs a = 0"
    and is_odd: "fnorm a \<Longrightarrow> fo_is_odd F a \<longleftrightarrow> odd (fabs a)"
    and cmp_var: "fnorm a \<Longrightarrow> fnorm b \<Longrightarrow> fo_cmp_var F a b = sgn (fabs a - fabs b)"
    and set_b32: "length bs = 32 \<Longrightarrow> fo_set_b32 F bs = (r, ok) \<Longrightarrow>
      (ok \<longleftrightarrow> be_val bs < secp_p) \<and> (ok \<longrightarrow> fnorm r) \<and> fmag 1 r \<and> fabs r = be_val bs mod secp_p"
    and get_b32: "fnorm a \<Longrightarrow> length (fo_get_b32 F a) = 32 \<and> be_val (fo_get_b32 F a) = fabs a"
    and negate: "fmag m a \<Longrightarrow> m \<le> 30 \<Longrightarrow>
      fmag (m + 1) (fo_negate F a (int m)) \<and> fabs (fo_negate F a (int m)) = (- fabs a) mod secp_p"
    and mul_int: "fmag m a \<Longrightarrow> i \<le> 31 \<Longrightarrow> m * i \<le> 31 \<Longrightarrow>
      fmag (m * i) (fo_mul_int F a (int i)) \<and> fabs (fo_mul_int F a (int i)) = fabs a * int i mod secp_p"
    and add: "fmag m a \<Longrightarrow> fmag k b \<Longrightarrow> m + k \<le> 31 \<Longrightarrow>
      fmag (m + k) (fo_add F a b) \<and> fabs (fo_add F a b) = (fabs a + fabs b) mod secp_p"
    and mul: "fmag 8 a \<Longrightarrow> fmag 8 b \<Longrightarrow>
      fmag 1 (fo_mul F a b) \<and> fabs (fo_mul F a b) = fabs a * fabs b mod secp_p"
    and sqr: "fmag 8 a \<Longrightarrow> fmag 1 (fo_sqr F a) \<and> fabs (fo_sqr F a) = fabs a * fabs a mod secp_p"
    and storage: "fnorm a \<Longrightarrow> fo_from_storage F (fo_to_storage F a) = a"
    and storage_cmov: "fo_storage_cmov F s t 0 = s" "fo_storage_cmov F s t 1 = t"
    and cmov: "fo_cmov F a b 0 = a" "fo_cmov F a b 1 = b"
    and const: "digits_val d7 d6 d5 d4 d3 d2 d1 d0 < secp_p \<Longrightarrow>
      fnorm (fo_const F d7 d6 d5 d4 d3 d2 d1 d0) \<and> fabs (fo_const F d7 d6 d5 d4 d3 d2 d1 d0) = digits_val d7 d6 d5 d4 d3 d2 d1 d0"
begin

lemma mag_1_8: "fmag 1 a \<Longrightarrow> fmag 8 a"
  using mag_mono[of 1 a 8] by simp

lemma norm_mag_le: "fnorm a \<Longrightarrow> 1 \<le> m \<Longrightarrow> m \<le> 31 \<Longrightarrow> fmag m a"
  using norm_mag mag_mono by blast

lemma normal_form_unique:
  "fmag 31 a \<Longrightarrow> fmag 31 b \<Longrightarrow> fo_normalize F a = fo_normalize F b \<longleftrightarrow> fabs a = fabs b"
  using normalize norm_inject by metis

lemma normalize_id: "fnorm a \<Longrightarrow> fo_normalize F a = a"
  using normalize norm_inject norm_mag_le[of a 31] by simp

lemma b32_roundtrip: "fnorm a \<Longrightarrow> fo_set_b32 F (fo_get_b32 F a) = (a, True)"
  using set_b32[of "fo_get_b32 F a"] get_b32[of a] abs_range[of a] norm_inject[of _ a]
  by (cases "fo_set_b32 F (fo_get_b32 F a)") auto

lemma b32_roundtrip_bytes:
  assumes "length bs = 32" "be_val bs < secp_p"
  shows "fo_get_b32 F (fst (fo_set_b32 F bs)) = bs"
proof -
  obtain r ok where r: "fo_set_b32 F bs = (r, ok)" by fastforce
  have "fnorm r" "fabs r = be_val bs" using set_b32[OF assms(1) r] assms(2) by auto
  then show ?thesis using get_b32[of r] be_val_inject[of "fo_get_b32 F r" bs] assms r by simp
qed

end

end
