(* ===== verification/Field_5x52.thy ===== *)
theory Field_5x52
  imports Field_Interface
begin

text \<open>
  The 64-bit field implementation, \<^verbatim>\<open>field_5x52_impl.h\<close> and
  \<^verbatim>\<open>field_5x52_int128_impl.h\<close>: a field element is five 64-bit limbs in base
  \<open>2 ^ 52\<close> that may hold more than 52 bits each. Every operation is translated at its
  C width; the lemmas show that no step wraps around under the magnitude contract of the
  header, what value every operation computes, and what magnitude its result has.
\<close>

section \<open>Data\<close>

record fe_5x52 =
  fe_n0 :: u64
  fe_n1 :: u64
  fe_n2 :: u64
  fe_n3 :: u64
  fe_n4 :: u64

record fe_storage_5x52 =
  st_n0 :: u64
  st_n1 :: u64
  st_n2 :: u64
  st_n3 :: u64

definition fe_of_limbs_5x52 :: "u64 \<times> u64 \<times> u64 \<times> u64 \<times> u64 \<Rightarrow> fe_5x52" where
  "fe_of_limbs_5x52 t = (case t of (t0, t1, t2, t3, t4) \<Rightarrow>
     \<lparr>fe_n0 = t0, fe_n1 = t1, fe_n2 = t2, fe_n3 = t3, fe_n4 = t4\<rparr>)"

definition fe_val_5x52 :: "fe_5x52 \<Rightarrow> int" where
  "fe_val_5x52 a = uint (fe_n0 a) + uint (fe_n1 a) * 2 ^ 52 + uint (fe_n2 a) * 2 ^ 104
     + uint (fe_n3 a) * 2 ^ 156 + uint (fe_n4 a) * 2 ^ 208"

text \<open>
  \<^verbatim>\<open>secp256k1_fe_verify\<close>: the consistency check of VERIFY builds, on the limbs
  and the two bookkeeping fields such builds add to the struct.
\<close>

definition fe_verify_5x52 :: "fe_5x52 \<Rightarrow> int \<Rightarrow> bool \<Rightarrow> bool" where
  "fe_verify_5x52 a magnitude normalized =
    (let d0 = uint (fe_n0 a); d1 = uint (fe_n1 a); d2 = uint (fe_n2 a);
         d3 = uint (fe_n3 a); d4 = uint (fe_n4 a);
         m = (if normalized then 1 else 2 * magnitude);
         r = (d0 \<le> 0xFFFFFFFFFFFFF * m \<and> d1 \<le> 0xFFFFFFFFFFFFF * m
            \<and> d2 \<le> 0xFFFFFFFFFFFFF * m \<and> d3 \<le> 0xFFFFFFFFFFFFF * m
            \<and> d4 \<le> 0x0FFFFFFFFFFFF * m \<and> magnitude \<ge> 0 \<and> magnitude \<le> 2048)
     in if normalized
        then r \<and> magnitude \<le> 1
          \<and> (fe_n4 a = 0x0FFFFFFFFFFFF
              \<and> (fe_n3 a AND fe_n2 a AND fe_n1 a) = 0xFFFFFFFFFFFFF
             \<longrightarrow> d0 < 0xFFFFEFFFFFC2F)
        else r)"

section \<open>Operations\<close>

text \<open>
  The four-step carry propagation that every normalisation writes out:
  \<^verbatim>\<open>t1 += (t0 >> 52); t0 &= 0xFFFFFFFFFFFFFULL;\<close> and so on up to
  \<^verbatim>\<open>t4\<close>.
\<close>

definition fe_carry_5x52 ::
  "u64 \<times> u64 \<times> u64 \<times> u64 \<times> u64 \<Rightarrow> u64 \<times> u64 \<times> u64 \<times> u64 \<times> u64" where
  "fe_carry_5x52 t = (case t of (t0, t1, t2, t3, t4) \<Rightarrow>
    (let t1 = t1 + drop_bit 52 t0; t0 = t0 AND 0xFFFFFFFFFFFFF;
         t2 = t2 + drop_bit 52 t1; t1 = t1 AND 0xFFFFFFFFFFFFF;
         t3 = t3 + drop_bit 52 t2; t2 = t2 AND 0xFFFFFFFFFFFFF;
         t4 = t4 + drop_bit 52 t3; t3 = t3 AND 0xFFFFFFFFFFFFF
     in (t0, t1, t2, t3, t4)))"

text \<open>The first pass: reduce the top limb, then carry.\<close>

definition fe_first_pass_5x52 :: "fe_5x52 \<Rightarrow> u64 \<times> u64 \<times> u64 \<times> u64 \<times> u64" where
  "fe_first_pass_5x52 r =
    (let t0 = fe_n0 r; t1 = fe_n1 r; t2 = fe_n2 r; t3 = fe_n3 r; t4 = fe_n4 r;
         x = drop_bit 48 t4; t4 = t4 AND 0x0FFFFFFFFFFFF;
         t0 = t0 + x * 0x1000003D1
     in fe_carry_5x52 (t0, t1, t2, t3, t4))"

definition fe_normalize_weak_5x52 :: "fe_5x52 \<Rightarrow> fe_5x52" where
  "fe_normalize_weak_5x52 r = fe_of_limbs_5x52 (fe_first_pass_5x52 r)"

text \<open>The test for a value of at least the characteristic, 0 or 1.\<close>

definition fe_final_x_5x52 :: "u64 \<times> u64 \<times> u64 \<times> u64 \<times> u64 \<Rightarrow> u64" where
  "fe_final_x_5x52 t = (case t of (t0, t1, t2, t3, t4) \<Rightarrow>
    (let m = t1; m = m AND t2; m = m AND t3
     in drop_bit 48 t4 OR (of_bool (t4 = 0x0FFFFFFFFFFFF) AND of_bool (m = 0xFFFFFFFFFFFFF)
          AND of_bool (t0 \<ge> 0xFFFFEFFFFFC2F))))"

definition fe_normalize_5x52 :: "fe_5x52 \<Rightarrow> fe_5x52" where
  "fe_normalize_5x52 r =
    (let (t0, t1, t2, t3, t4) = fe_first_pass_5x52 r;
         x = fe_final_x_5x52 (t0, t1, t2, t3, t4);
         t0 = t0 + x * 0x1000003D1;
         (t0, t1, t2, t3, t4) = fe_carry_5x52 (t0, t1, t2, t3, t4);
         t4 = t4 AND 0x0FFFFFFFFFFFF
     in fe_of_limbs_5x52 (t0, t1, t2, t3, t4))"

definition fe_normalize_var_5x52 :: "fe_5x52 \<Rightarrow> fe_5x52" where
  "fe_normalize_var_5x52 r =
    (let (t0, t1, t2, t3, t4) = fe_first_pass_5x52 r;
         x = fe_final_x_5x52 (t0, t1, t2, t3, t4)
     in if x \<noteq> 0
        then (let t0 = t0 + 0x1000003D1;
                  (t0, t1, t2, t3, t4) = fe_carry_5x52 (t0, t1, t2, t3, t4);
                  t4 = t4 AND 0x0FFFFFFFFFFFF
              in fe_of_limbs_5x52 (t0, t1, t2, t3, t4))
        else fe_of_limbs_5x52 (t0, t1, t2, t3, t4))"

definition fe_normalizes_to_zero_5x52 :: "fe_5x52 \<Rightarrow> bool" where
  "fe_normalizes_to_zero_5x52 r =
    (let (t0, t1, t2, t3, t4) = fe_first_pass_5x52 r;
         z0 = t0; z1 = t0 XOR 0x1000003D0;
         z0 = z0 OR t1; z1 = z1 AND t1;
         z0 = z0 OR t2; z1 = z1 AND t2;
         z0 = z0 OR t3; z1 = z1 AND t3;
         z0 = z0 OR t4; z1 = z1 AND (t4 XOR 0xF000000000000)
     in z0 = 0 \<or> z1 = 0xFFFFFFFFFFFFF)"

definition fe_normalizes_to_zero_var_5x52 :: "fe_5x52 \<Rightarrow> bool" where
  "fe_normalizes_to_zero_var_5x52 r =
    (let t0 = fe_n0 r; t4 = fe_n4 r;
         x = drop_bit 48 t4;
         t0 = t0 + x * 0x1000003D1;
         z0 = t0 AND 0xFFFFFFFFFFFFF;
         z1 = z0 XOR 0x1000003D0
     in if z0 \<noteq> 0 \<and> z1 \<noteq> 0xFFFFFFFFFFFFF then False
        else
         (let t1 = fe_n1 r; t2 = fe_n2 r; t3 = fe_n3 r;
              t4 = t4 AND 0x0FFFFFFFFFFFF;
              t1 = t1 + drop_bit 52 t0;
              t2 = t2 + drop_bit 52 t1; t1 = t1 AND 0xFFFFFFFFFFFFF; z0 = z0 OR t1; z1 = z1 AND t1;
              t3 = t3 + drop_bit 52 t2; t2 = t2 AND 0xFFFFFFFFFFFFF; z0 = z0 OR t2; z1 = z1 AND t2;
              t4 = t4 + drop_bit 52 t3; t3 = t3 AND 0xFFFFFFFFFFFFF; z0 = z0 OR t3; z1 = z1 AND t3;
              z0 = z0 OR t4; z1 = z1 AND (t4 XOR 0xF000000000000)
          in z0 = 0 \<or> z1 = 0xFFFFFFFFFFFFF))"

definition fe_set_int_5x52 :: "int \<Rightarrow> fe_5x52" where
  "fe_set_int_5x52 a = fe_of_limbs_5x52 (word_of_int a, 0, 0, 0, 0)"

definition fe_is_zero_5x52 :: "fe_5x52 \<Rightarrow> bool" where
  "fe_is_zero_5x52 a = ((fe_n0 a OR fe_n1 a OR fe_n2 a OR fe_n3 a OR fe_n4 a) = 0)"

definition fe_is_odd_5x52 :: "fe_5x52 \<Rightarrow> bool" where
  "fe_is_odd_5x52 a = (fe_n0 a AND 1 \<noteq> 0)"

definition fe_clear_5x52 :: "fe_5x52 \<Rightarrow> fe_5x52" where
  "fe_clear_5x52 a = fe_of_limbs_5x52 (0, 0, 0, 0, 0)"

definition fe_cmp_var_5x52 :: "fe_5x52 \<Rightarrow> fe_5x52 \<Rightarrow> int" where
  "fe_cmp_var_5x52 a b =
     limbs_cmp [(fe_n4 a, fe_n4 b), (fe_n3 a, fe_n3 b), (fe_n2 a, fe_n2 b),
                (fe_n1 a, fe_n1 b), (fe_n0 a, fe_n0 b)]"

text \<open>\<^verbatim>\<open>r->n[limb] |= v\<close> and \<^verbatim>\<open>a->n[limb]\<close>.\<close>

definition fe_or_limb_5x52 :: "nat \<Rightarrow> u64 \<Rightarrow> fe_5x52 \<Rightarrow> fe_5x52" where
  "fe_or_limb_5x52 limb v r =
    (if limb = 0 then r\<lparr>fe_n0 := fe_n0 r OR v\<rparr>
     else if limb = 1 then r\<lparr>fe_n1 := fe_n1 r OR v\<rparr>
     else if limb = 2 then r\<lparr>fe_n2 := fe_n2 r OR v\<rparr>
     else if limb = 3 then r\<lparr>fe_n3 := fe_n3 r OR v\<rparr>
     else r\<lparr>fe_n4 := fe_n4 r OR v\<rparr>)"

definition fe_limb_5x52 :: "fe_5x52 \<Rightarrow> nat \<Rightarrow> u64" where
  "fe_limb_5x52 a limb =
    (if limb = 0 then fe_n0 a else if limb = 1 then fe_n1 a
     else if limb = 2 then fe_n2 a else if limb = 3 then fe_n3 a else fe_n4 a)"

definition fe_set_b32_step_5x52 :: "bytes \<Rightarrow> nat \<times> nat \<Rightarrow> fe_5x52 \<Rightarrow> fe_5x52" where
  "fe_set_b32_step_5x52 a ij r = (case ij of (i, j) \<Rightarrow>
    (let limb = (8 * i + 4 * j) div 52; shift = (8 * i + 4 * j) mod 52
     in fe_or_limb_5x52 limb
          (push_bit shift (ucast (drop_bit (4 * j) (a ! (31 - i)) AND 0xF) :: u64)) r))"

definition fe_set_b32_5x52 :: "bytes \<Rightarrow> fe_5x52 \<times> bool" where
  "fe_set_b32_5x52 a =
    (let r = fe_of_limbs_5x52 (0, 0, 0, 0, 0);
         r = fold (fe_set_b32_step_5x52 a) [(i, j). i \<leftarrow> [0..<32], j \<leftarrow> [0..<2]] r
     in (r, \<not> (fe_n4 r = 0x0FFFFFFFFFFFF
               \<and> (fe_n3 r AND fe_n2 r AND fe_n1 r) = 0xFFFFFFFFFFFFF
               \<and> fe_n0 r \<ge> 0xFFFFEFFFFFC2F)))"

definition fe_get_b32_byte_5x52 :: "fe_5x52 \<Rightarrow> nat \<Rightarrow> u8" where
  "fe_get_b32_byte_5x52 a i =
    (let c = fold (\<lambda>j c. let limb = (8 * i + 4 * j) div 52; shift = (8 * i + 4 * j) mod 52
               in c OR push_bit (4 * j) (drop_bit shift (fe_limb_5x52 a limb) AND 0xF))
             [0..<2] 0
     in ucast c)"

definition fe_get_b32_5x52 :: "fe_5x52 \<Rightarrow> bytes" where
  "fe_get_b32_5x52 a = rev (map (fe_get_b32_byte_5x52 a) [0..<32])"

definition fe_negate_5x52 :: "fe_5x52 \<Rightarrow> int \<Rightarrow> fe_5x52" where
  "fe_negate_5x52 a m = \<lparr>
     fe_n0 = 0xFFFFEFFFFFC2F * 2 * word_of_int (m + 1) - fe_n0 a,
     fe_n1 = 0xFFFFFFFFFFFFF * 2 * word_of_int (m + 1) - fe_n1 a,
     fe_n2 = 0xFFFFFFFFFFFFF * 2 * word_of_int (m + 1) - fe_n2 a,
     fe_n3 = 0xFFFFFFFFFFFFF * 2 * word_of_int (m + 1) - fe_n3 a,
     fe_n4 = 0x0FFFFFFFFFFFF * 2 * word_of_int (m + 1) - fe_n4 a\<rparr>"

definition fe_mul_int_5x52 :: "fe_5x52 \<Rightarrow> int \<Rightarrow> fe_5x52" where
  "fe_mul_int_5x52 r a = \<lparr>
     fe_n0 = fe_n0 r * word_of_int a, fe_n1 = fe_n1 r * word_of_int a,
     fe_n2 = fe_n2 r * word_of_int a, fe_n3 = fe_n3 r * word_of_int a,
     fe_n4 = fe_n4 r * word_of_int a\<rparr>"

definition fe_add_5x52 :: "fe_5x52 \<Rightarrow> fe_5x52 \<Rightarrow> fe_5x52" where
  "fe_add_5x52 r a = \<lparr>
     fe_n0 = fe_n0 r + fe_n0 a, fe_n1 = fe_n1 r + fe_n1 a, fe_n2 = fe_n2 r + fe_n2 a,
     fe_n3 = fe_n3 r + fe_n3 a, fe_n4 = fe_n4 r + fe_n4 a\<rparr>"

text \<open>\<^verbatim>\<open>(uint128_t)a * b\<close>\<close>

definition mul128 :: "u64 \<Rightarrow> u64 \<Rightarrow> u128" where
  "mul128 a b = ucast a * ucast b"

definition fe_mul_inner_5x52 :: "fe_5x52 \<Rightarrow> fe_5x52 \<Rightarrow> fe_5x52" where
  "fe_mul_inner_5x52 a b =
    (let a0 = fe_n0 a; a1 = fe_n1 a; a2 = fe_n2 a; a3 = fe_n3 a; a4 = fe_n4 a;
         b0 = fe_n0 b; b1 = fe_n1 b; b2 = fe_n2 b; b3 = fe_n3 b; b4 = fe_n4 b;
         d = mul128 a0 b3 + mul128 a1 b2 + mul128 a2 b1 + mul128 a3 b0;
         c = mul128 a4 b4;
         d = d + (c AND 0xFFFFFFFFFFFFF) * 0x1000003D10; c = drop_bit 52 c;
         t3 = (ucast (d AND 0xFFFFFFFFFFFFF) :: u64); d = drop_bit 52 d;
         d = d + (mul128 a0 b4 + mul128 a1 b3 + mul128 a2 b2 + mul128 a3 b1 + mul128 a4 b0);
         d = d + c * 0x1000003D10;
         t4 = (ucast (d AND 0xFFFFFFFFFFFFF) :: u64); d = drop_bit 52 d;
         tx = drop_bit 48 t4; t4 = t4 AND drop_bit 4 0xFFFFFFFFFFFFF;
         c = mul128 a0 b0;
         d = d + (mul128 a1 b4 + mul128 a2 b3 + mul128 a3 b2 + mul128 a4 b1);
         u0 = (ucast (d AND 0xFFFFFFFFFFFFF) :: u64); d = drop_bit 52 d;
         u0 = push_bit 4 u0 OR tx;
         c = c + mul128 u0 (drop_bit 4 0x1000003D10);
         r0 = (ucast (c AND 0xFFFFFFFFFFFFF) :: u64); c = drop_bit 52 c;
         c = c + (mul128 a0 b1 + mul128 a1 b0);
         d = d + (mul128 a2 b4 + mul128 a3 b3 + mul128 a4 b2);
         c = c + (d AND 0xFFFFFFFFFFFFF) * 0x1000003D10; d = drop_bit 52 d;
         r1 = (ucast (c AND 0xFFFFFFFFFFFFF) :: u64); c = drop_bit 52 c;
         c = c + (mul128 a0 b2 + mul128 a1 b1 + mul128 a2 b0);
         d = d + (mul128 a3 b4 + mul128 a4 b3);
         c = c + (d AND 0xFFFFFFFFFFFFF) * 0x1000003D10; d = drop_bit 52 d;
         r2 = (ucast (c AND 0xFFFFFFFFFFFFF) :: u64); c = drop_bit 52 c;
         c = c + (d * 0x1000003D10 + ucast t3);
         r3 = (ucast (c AND 0xFFFFFFFFFFFFF) :: u64); c = drop_bit 52 c;
         c = c + ucast t4;
         r4 = (ucast c :: u64)
     in fe_of_limbs_5x52 (r0, r1, r2, r3, r4))"

text \<open>
  The squaring keeps \<^verbatim>\<open>t3, t4, tx, u0\<close> as \<^verbatim>\<open>int64_t\<close>; they are
  non-negative (at most 56 bits), where the signed right shift and the sign-extending
  conversions below agree with the C semantics on every 64-bit pattern.
\<close>

definition fe_sqr_inner_5x52 :: "fe_5x52 \<Rightarrow> fe_5x52" where
  "fe_sqr_inner_5x52 a =
    (let a0 = fe_n0 a; a1 = fe_n1 a; a2 = fe_n2 a; a3 = fe_n3 a; a4 = fe_n4 a;
         d = mul128 (a0 * 2) a3 + mul128 (a1 * 2) a2;
         c = mul128 a4 a4;
         d = d + (c AND 0xFFFFFFFFFFFFF) * 0x1000003D10; c = drop_bit 52 c;
         t3 = (ucast (d AND 0xFFFFFFFFFFFFF) :: u64); d = drop_bit 52 d;
         a4 = a4 * 2;
         d = d + (mul128 a0 a4 + mul128 (a1 * 2) a3 + mul128 a2 a2);
         d = d + c * 0x1000003D10;
         t4 = (ucast (d AND 0xFFFFFFFFFFFFF) :: u64); d = drop_bit 52 d;
         tx = signed_drop_bit 48 t4; t4 = t4 AND drop_bit 4 0xFFFFFFFFFFFFF;
         c = mul128 a0 a0;
         d = d + (mul128 a1 a4 + mul128 (a2 * 2) a3);
         u0 = (ucast (d AND 0xFFFFFFFFFFFFF) :: u64); d = drop_bit 52 d;
         u0 = push_bit 4 u0 OR tx;
         c = c + scast u0 * ucast (drop_bit 4 (0x1000003D10 :: u64));
         r0 = (ucast (c AND 0xFFFFFFFFFFFFF) :: u64); c = drop_bit 52 c;
         a0 = a0 * 2;
         c = c + mul128 a0 a1;
         d = d + (mul128 a2 a4 + mul128 a3 a3);
         c = c + (d AND 0xFFFFFFFFFFFFF) * 0x1000003D10; d = drop_bit 52 d;
         r1 = (ucast (c AND 0xFFFFFFFFFFFFF) :: u64); c = drop_bit 52 c;
         c = c + (mul128 a0 a2 + mul128 a1 a1);
         d = d + mul128 a3 a4;
         c = c + (d AND 0xFFFFFFFFFFFFF) * 0x1000003D10; d = drop_bit 52 d;
         r2 = (ucast (c AND 0xFFFFFFFFFFFFF) :: u64); c = drop_bit 52 c;
         c = c + (d * 0x1000003D10 + scast t3);
         r3 = (ucast (c AND 0xFFFFFFFFFFFFF) :: u64); c = drop_bit 52 c;
         c = c + scast t4;
         r4 = (ucast c :: u64)
     in fe_of_limbs_5x52 (r0, r1, r2, r3, r4))"

definition fe_mul_5x52 :: "fe_5x52 \<Rightarrow> fe_5x52 \<Rightarrow> fe_5x52" where
  "fe_mul_5x52 a b = fe_mul_inner_5x52 a b"

definition fe_sqr_5x52 :: "fe_5x52 \<Rightarrow> fe_5x52" where
  "fe_sqr_5x52 a = fe_sqr_inner_5x52 a"

definition fe_cmov_5x52 :: "fe_5x52 \<Rightarrow> fe_5x52 \<Rightarrow> int \<Rightarrow> fe_5x52" where
  "fe_cmov_5x52 r a flag = \<lparr>
     fe_n0 = cmov_word flag (fe_n0 r) (fe_n0 a), fe_n1 = cmov_word flag (fe_n1 r) (fe_n1 a),
     fe_n2 = cmov_word flag (fe_n2 r) (fe_n2 a), fe_n3 = cmov_word flag (fe_n3 r) (fe_n3 a),
     fe_n4 = cmov_word flag (fe_n4 r) (fe_n4 a)\<rparr>"

definition fe_storage_cmov_5x52 ::
  "fe_storage_5x52 \<Rightarrow> fe_storage_5x52 \<Rightarrow> int \<Rightarrow> fe_storage_5x52" where
  "fe_storage_cmov_5x52 r a flag = \<lparr>
     st_n0 = cmov_word flag (st_n0 r) (st_n0 a), st_n1 = cmov_word flag (st_n1 r) (st_n1 a),
     st_n2 = cmov_word flag (st_n2 r) (st_n2 a), st_n3 = cmov_word flag (st_n3 r) (st_n3 a)\<rparr>"

definition fe_to_storage_5x52 :: "fe_5x52 \<Rightarrow> fe_storage_5x52" where
  "fe_to_storage_5x52 a = \<lparr>
     st_n0 = fe_n0 a OR push_bit 52 (fe_n1 a),
     st_n1 = drop_bit 12 (fe_n1 a) OR push_bit 40 (fe_n2 a),
     st_n2 = drop_bit 24 (fe_n2 a) OR push_bit 28 (fe_n3 a),
     st_n3 = drop_bit 36 (fe_n3 a) OR push_bit 16 (fe_n4 a)\<rparr>"

definition fe_from_storage_5x52 :: "fe_storage_5x52 \<Rightarrow> fe_5x52" where
  "fe_from_storage_5x52 a = \<lparr>
     fe_n0 = st_n0 a AND 0xFFFFFFFFFFFFF,
     fe_n1 = drop_bit 52 (st_n0 a) OR (push_bit 12 (st_n1 a) AND 0xFFFFFFFFFFFFF),
     fe_n2 = drop_bit 40 (st_n1 a) OR (push_bit 24 (st_n2 a) AND 0xFFFFFFFFFFFFF),
     fe_n3 = drop_bit 28 (st_n2 a) OR (push_bit 36 (st_n3 a) AND 0xFFFFFFFFFFFFF),
     fe_n4 = drop_bit 16 (st_n3 a)\<rparr>"

text \<open>\<^verbatim>\<open>SECP256K1_FE_CONST\<close>: a constant from its eight 32-bit digits.\<close>

definition fe_const_5x52 :: "u32 \<Rightarrow> u32 \<Rightarrow> u32 \<Rightarrow> u32 \<Rightarrow> u32 \<Rightarrow> u32 \<Rightarrow> u32 \<Rightarrow> u32 \<Rightarrow> fe_5x52" where
  "fe_const_5x52 d7 d6 d5 d4 d3 d2 d1 d0 = fe_of_limbs_5x52 (
     ucast d0 OR push_bit 32 (ucast d1 AND 0xFFFFF),
     (drop_bit 20 (ucast d1) OR push_bit 12 (ucast d2)) OR push_bit 44 (ucast d3 AND 0xFF),
     drop_bit 8 (ucast d3) OR push_bit 24 (ucast d4 AND 0xFFFFFFF),
     (drop_bit 28 (ucast d4) OR push_bit 4 (ucast d5)) OR push_bit 36 (ucast d6 AND 0xFFFF),
     drop_bit 16 (ucast d6) OR push_bit 16 (ucast d7))"

section \<open>Magnitude and normal form\<close>

definition fe_mag_5x52 :: "nat \<Rightarrow> fe_5x52 \<Rightarrow> bool" where
  "fe_mag_5x52 m a = fe_verify_5x52 a (int m) False"

definition fe_norm_5x52 :: "fe_5x52 \<Rightarrow> bool" where
  "fe_norm_5x52 a = fe_verify_5x52 a 1 True"

lemma fe_of_limbs_5x52_simps [simp]:
  "fe_n0 (fe_of_limbs_5x52 (t0, t1, t2, t3, t4)) = t0"
  "fe_n1 (fe_of_limbs_5x52 (t0, t1, t2, t3, t4)) = t1"
  "fe_n2 (fe_of_limbs_5x52 (t0, t1, t2, t3, t4)) = t2"
  "fe_n3 (fe_of_limbs_5x52 (t0, t1, t2, t3, t4)) = t3"
  "fe_n4 (fe_of_limbs_5x52 (t0, t1, t2, t3, t4)) = t4"
  by (simp_all add: fe_of_limbs_5x52_def)

lemma fe_mag_5x52_iff:
  "fe_mag_5x52 m a \<longleftrightarrow> m \<le> 2048
     \<and> uint (fe_n0 a) \<le> 0xFFFFFFFFFFFFF * (2 * int m) \<and> uint (fe_n1 a) \<le> 0xFFFFFFFFFFFFF * (2 * int m)
     \<and> uint (fe_n2 a) \<le> 0xFFFFFFFFFFFFF * (2 * int m) \<and> uint (fe_n3 a) \<le> 0xFFFFFFFFFFFFF * (2 * int m)
     \<and> uint (fe_n4 a) \<le> 0x0FFFFFFFFFFFF * (2 * int m)"
  by (auto simp: fe_mag_5x52_def fe_verify_5x52_def Let_def)

lemma fe_mag_5x52_mono: "fe_mag_5x52 m a \<Longrightarrow> m \<le> k \<Longrightarrow> k \<le> 2048 \<Longrightarrow> fe_mag_5x52 k a"
  unfolding fe_mag_5x52_iff by auto

lemma fe_top_iff_5x52:
  assumes "uint d0 < 2 ^ 52" "uint d1 < 2 ^ 52" "uint d2 < 2 ^ 52" "uint d3 < 2 ^ 52" "uint d4 < 2 ^ 48"
  shows "(d4 :: u64) = 0xFFFFFFFFFFFF \<and> (d1 :: u64) = 0xFFFFFFFFFFFFF \<and> (d2 :: u64) = 0xFFFFFFFFFFFFF
      \<and> (d3 :: u64) = 0xFFFFFFFFFFFFF \<and> (d0 :: u64) \<ge> 0xFFFFEFFFFFC2F
    \<longleftrightarrow> secp_p \<le> uint d0 + uint d1 * 2 ^ 52 + uint d2 * 2 ^ 104 + uint d3 * 2 ^ 156 + uint d4 * 2 ^ 208"
  using assms unfolding word_uint_eq_iff[of d4] word_uint_eq_iff[of d3] word_uint_eq_iff[of d2]
    word_uint_eq_iff[of d1] word_le_def secp_p_def by (simp; linarith)

lemma fe_norm_5x52_iff:
  "fe_norm_5x52 a \<longleftrightarrow>
     uint (fe_n0 a) < 2 ^ 52 \<and> uint (fe_n1 a) < 2 ^ 52 \<and> uint (fe_n2 a) < 2 ^ 52
     \<and> uint (fe_n3 a) < 2 ^ 52 \<and> uint (fe_n4 a) < 2 ^ 48 \<and> fe_val_5x52 a < secp_p"
  (is "_ \<longleftrightarrow> ?R")
proof (cases "uint (fe_n0 a) < 2 ^ 52 \<and> uint (fe_n1 a) < 2 ^ 52 \<and> uint (fe_n2 a) < 2 ^ 52
     \<and> uint (fe_n3 a) < 2 ^ 52 \<and> uint (fe_n4 a) < 2 ^ 48")
  case True
  then have "fe_n3 a AND fe_n2 a AND fe_n1 a = 0xFFFFFFFFFFFFF \<longleftrightarrow>
      fe_n3 a = 0xFFFFFFFFFFFFF \<and> fe_n2 a = 0xFFFFFFFFFFFFF \<and> fe_n1 a = 0xFFFFFFFFFFFFF"
    by (intro and3_eq_top_iff) (simp_all add: word_le_def)
  then have "fe_norm_5x52 a \<longleftrightarrow> \<not> (fe_n4 a = 0xFFFFFFFFFFFF \<and> fe_n1 a = 0xFFFFFFFFFFFFF
      \<and> fe_n2 a = 0xFFFFFFFFFFFFF \<and> fe_n3 a = 0xFFFFFFFFFFFFF \<and> fe_n0 a \<ge> 0xFFFFEFFFFFC2F)"
    using True by (simp add: fe_norm_5x52_def fe_verify_5x52_def Let_def word_le_def not_le) blast
  also have "\<dots> \<longleftrightarrow> fe_val_5x52 a < secp_p"
    using fe_top_iff_5x52[of "fe_n0 a" "fe_n1 a" "fe_n2 a" "fe_n3 a" "fe_n4 a"] True
    by (simp only: fe_val_5x52_def not_le[symmetric] simp_thms)
  finally show ?thesis using True by blast
next
  case False
  then show ?thesis by (auto simp: fe_norm_5x52_def fe_verify_5x52_def Let_def)
qed

lemma fe_carry_5x52:
  assumes c: "fe_carry_5x52 (t0, t1, t2, t3, t4) = (r0, r1, r2, r3, r4)"
    and t: "uint t1 \<le> 2 ^ 64 - 2 ^ 13" "uint t2 \<le> 2 ^ 64 - 2 ^ 13"
      "uint t3 \<le> 2 ^ 64 - 2 ^ 13" "uint t4 \<le> 2 ^ 64 - 2 ^ 13"
  shows "uint r0 + uint r1 * 2 ^ 52 + uint r2 * 2 ^ 104 + uint r3 * 2 ^ 156 + uint r4 * 2 ^ 208
      = uint t0 + uint t1 * 2 ^ 52 + uint t2 * 2 ^ 104 + uint t3 * 2 ^ 156 + uint t4 * 2 ^ 208
    \<and> uint r0 < 2 ^ 52 \<and> uint r1 < 2 ^ 52 \<and> uint r2 < 2 ^ 52 \<and> uint r3 < 2 ^ 52
    \<and> uint r4 \<le> uint t4 + 2 ^ 12"
  using c unfolding fe_carry_5x52_def split
  apply (elim LetE)
  subgoal premises p for s1 s0 s2 s1' s3 s2' s4 s3'
  proof -
    have t0: "urep t0 (uint t0) (2 ^ 64 - 1)" using uint_lt2p[of t0] by (simp add: urep_def)
    note u = urep_intros t0 t[THEN urep_self]
    have s0: "urep s0 (lo_bits 52 (uint t0)) (2 ^ 52 - 1)"
      unfolding p(2) by (rule urep_weaken, (rule u | simp)+)
    have s1: "urep s1 (uint t1 + hi_bits 52 (uint t0)) (2 ^ 64 - 1)"
      unfolding p(1) by (rule urep_weaken, (rule u | simp)+)
    have s1': "urep s1' (lo_bits 52 (uint s1)) (2 ^ 52 - 1)"
      unfolding p(4) by (rule urep_weaken, (rule u s1[THEN urep_uint] | simp)+)
    have s2: "urep s2 (uint t2 + hi_bits 52 (uint s1)) (2 ^ 64 - 1)"
      unfolding p(3) by (rule urep_weaken, (rule u s1[THEN urep_uint] | simp)+)
    have s2': "urep s2' (lo_bits 52 (uint s2)) (2 ^ 52 - 1)"
      unfolding p(6) by (rule urep_weaken, (rule u s2[THEN urep_uint] | simp)+)
    have s3: "urep s3 (uint t3 + hi_bits 52 (uint s2)) (2 ^ 64 - 1)"
      unfolding p(5) by (rule urep_weaken, (rule u s2[THEN urep_uint] | simp)+)
    have s3': "urep s3' (lo_bits 52 (uint s3)) (2 ^ 52 - 1)"
      unfolding p(8) by (rule urep_weaken, (rule u s3[THEN urep_uint] | simp)+)
    have s4: "urep s4 (uint t4 + hi_bits 52 (uint s3)) (2 ^ 64 - 1)"
      unfolding p(7) by (rule urep_weaken, (rule u s3[THEN urep_uint] | simp)+)
    note eqs = s0[THEN urepD(1)] s1[THEN urepD(1)] s1'[THEN urepD(1)] s2[THEN urepD(1)]
      s2'[THEN urepD(1)] s3[THEN urepD(1)] s3'[THEN urepD(1)] s4[THEN urepD(1)]
    have "hi_bits 52 (uint s3) \<le> hi_bits 52 (2 ^ 64 - 1)"
      using urepD(5)[OF s3] by (rule hi_bits_mono)
    then have "uint s4 \<le> uint t4 + 2 ^ 12" using urepD(1)[OF s4] by (simp add: hi_bits_def)
    moreover have "uint s0 + uint s1' * 2 ^ 52 + uint s2' * 2 ^ 104 + uint s3' * 2 ^ 156 + uint s4 * 2 ^ 208
      = uint t0 + uint t1 * 2 ^ 52 + uint t2 * 2 ^ 104 + uint t3 * 2 ^ 156 + uint t4 * 2 ^ 208"
      using eqs lo_hi_bits[of 52 "uint t0"] lo_hi_bits[of 52 "uint s1"]
        lo_hi_bits[of 52 "uint s2"] lo_hi_bits[of 52 "uint s3"] by simp
    ultimately show ?thesis
      using p(9) eqs(1,3,5,7) lo_bits_range(2)[of 52] by auto
  qed
  done

lemma fe_first_pass_5x52:
  assumes f: "fe_first_pass_5x52 a = (r0, r1, r2, r3, r4)" and a: "fe_mag_5x52 2047 a"
  shows "(uint r0 + uint r1 * 2 ^ 52 + uint r2 * 2 ^ 104 + uint r3 * 2 ^ 156 + uint r4 * 2 ^ 208) mod secp_p
      = fe_val_5x52 a mod secp_p
    \<and> uint r0 < 2 ^ 52 \<and> uint r1 < 2 ^ 52 \<and> uint r2 < 2 ^ 52 \<and> uint r3 < 2 ^ 52
    \<and> uint r4 < 2 ^ 48 + 2 ^ 12"
  using f unfolding fe_first_pass_5x52_def
  apply (elim LetE)
  subgoal premises p for t0 t1 t2 t3 t4 x t4' t0'
  proof -
    have t: "uint t0 \<le> 0xFFFFFFFFFFFFF * 4094" "uint t1 \<le> 0xFFFFFFFFFFFFF * 4094"
      "uint t2 \<le> 0xFFFFFFFFFFFFF * 4094" "uint t3 \<le> 0xFFFFFFFFFFFFF * 4094" "uint t4 \<le> 0xFFFFFFFFFFFF * 4094"
      using a unfolding p(1-5) fe_mag_5x52_iff by simp_all
    note u = urep_intros t[THEN urep_self]
    have x: "urep x (hi_bits 48 (uint t4)) 4093"
      unfolding p(6) by (rule urep_weaken, (rule u | simp)+)
    have t4': "urep t4' (lo_bits 48 (uint t4)) (2 ^ 48 - 1)"
      unfolding p(7) by (rule urep_weaken, (rule u | simp)+)
    have t0': "urep t0' (uint t0 + uint x * 0x1000003D1) (2 ^ 64 - 1)"
      unfolding p(8) by (rule urep_weaken, (rule u x[THEN urep_uint] | simp)+)
    have "uint r0 + uint r1 * 2 ^ 52 + uint r2 * 2 ^ 104 + uint r3 * 2 ^ 156 + uint r4 * 2 ^ 208
      = uint t0' + uint t1 * 2 ^ 52 + uint t2 * 2 ^ 104 + uint t3 * 2 ^ 156 + uint t4' * 2 ^ 208
     \<and> uint r0 < 2 ^ 52 \<and> uint r1 < 2 ^ 52 \<and> uint r2 < 2 ^ 52 \<and> uint r3 < 2 ^ 52
     \<and> uint r4 \<le> uint t4' + 2 ^ 12"
      by (rule fe_carry_5x52[OF p(9)]) (use t urepD(5)[OF t4'] in simp_all)
    moreover have "fe_val_5x52 a = (uint t0' + uint t1 * 2 ^ 52 + uint t2 * 2 ^ 104 + uint t3 * 2 ^ 156
        + uint t4' * 2 ^ 208) + secp_p * uint x"
      unfolding fe_val_5x52_def secp_p_pow p(1-5)[symmetric]
      using urepD(1)[OF x] urepD(1)[OF t4'] urepD(1)[OF t0'] lo_hi_bits[of 48 "uint t4"] by simp
    ultimately show ?thesis
      using urepD(5)[OF t4'] by (auto simp: mod_eq_if_diff_mult)
  qed
  done

lemma fe_final_x_5x52:
  assumes r: "uint t0 < 2 ^ 52" "uint t1 < 2 ^ 52" "uint t2 < 2 ^ 52" "uint t3 < 2 ^ 52" "uint t4 < 2 ^ 49"
  shows "fe_final_x_5x52 (t0, t1, t2, t3, t4) = of_bool (secp_p \<le>
    uint t0 + uint t1 * 2 ^ 52 + uint t2 * 2 ^ 104 + uint t3 * 2 ^ 156 + uint t4 * 2 ^ 208)"
proof (cases "uint t4 < 2 ^ 48")
  case True
  then have "drop_bit 48 t4 = 0"
    by (simp add: word_uint_eq_iff uint_drop_bit_div)
  moreover have "(t1 AND t2) AND t3 = 0xFFFFFFFFFFFFF \<longleftrightarrow>
      t1 = 0xFFFFFFFFFFFFF \<and> t2 = 0xFFFFFFFFFFFFF \<and> t3 = 0xFFFFFFFFFFFFF"
    unfolding and.assoc by (rule and3_eq_top_iff) (use r in \<open>simp_all add: word_le_def\<close>)
  ultimately show ?thesis
    unfolding fe_top_iff_5x52[OF r(1-4) True, symmetric]
    by (simp only: fe_final_x_5x52_def Let_def split or.left_neutral of_bool_and conj_assoc)
next
  case False
  then have "drop_bit 48 t4 = 1" using r
    by (simp add: word_uint_eq_iff uint_drop_bit_div)
  moreover have "t4 \<noteq> 0xFFFFFFFFFFFF" using False by (auto simp: word_uint_eq_iff)
  moreover have "secp_p \<le> uint t0 + uint t1 * 2 ^ 52 + uint t2 * 2 ^ 104 + uint t3 * 2 ^ 156 + uint t4 * 2 ^ 208"
  proof -
    have "2 ^ 256 \<le> uint t4 * 2 ^ 208" using False by simp
    moreover have "0 \<le> uint t0 + uint t1 * 2 ^ 52 + uint t2 * 2 ^ 104 + uint t3 * 2 ^ 156" by simp
    moreover have "secp_p \<le> 2 ^ 256" by (simp add: secp_p_def)
    ultimately show ?thesis by linarith
  qed
  ultimately show ?thesis by (simp add: fe_final_x_5x52_def Let_def)
qed

lemma fe_val_of_limbs_5x52:
  "fe_val_5x52 (fe_of_limbs_5x52 (t0, t1, t2, t3, t4)) =
     uint t0 + uint t1 * 2 ^ 52 + uint t2 * 2 ^ 104 + uint t3 * 2 ^ 156 + uint t4 * 2 ^ 208"
  by (simp add: fe_val_5x52_def)

lemma fe_normalize_weak_5x52:
  assumes "fe_mag_5x52 2047 a"
  shows "fe_mag_5x52 1 (fe_normalize_weak_5x52 a)"
    and "fe_val_5x52 (fe_normalize_weak_5x52 a) mod secp_p = fe_val_5x52 a mod secp_p"
proof -
  obtain r0 r1 r2 r3 r4 where f: "fe_first_pass_5x52 a = (r0, r1, r2, r3, r4)"
    by (metis prod_cases5)
  note r = fe_first_pass_5x52[OF f assms]
  show "fe_mag_5x52 1 (fe_normalize_weak_5x52 a)"
    using r by (simp add: fe_normalize_weak_5x52_def f fe_mag_5x52_iff)
  show "fe_val_5x52 (fe_normalize_weak_5x52 a) mod secp_p = fe_val_5x52 a mod secp_p"
    unfolding fe_normalize_weak_5x52_def f fe_val_of_limbs_5x52 using r by blast
qed

text \<open>Subtracting the characteristic once: add \<open>2 ^ 256 - secp_p\<close>, carry and drop bit 256.\<close>

lemma fe_final_sub_5x52:
  assumes c: "fe_carry_5x52 (t0 + of_bool b * 0x1000003D1, t1, t2, t3, t4) = (r0, r1, r2, r3, r4)"
    and t: "uint t0 < 2 ^ 52" "uint t1 < 2 ^ 52" "uint t2 < 2 ^ 52" "uint t3 < 2 ^ 52"
      "uint t4 < 2 ^ 48 + 2 ^ 12"
    and T: "T = uint t0 + uint t1 * 2 ^ 52 + uint t2 * 2 ^ 104 + uint t3 * 2 ^ 156 + uint t4 * 2 ^ 208"
    and b: "b \<longleftrightarrow> secp_p \<le> T"
  shows "fe_norm_5x52 (fe_of_limbs_5x52 (r0, r1, r2, r3, r4 AND 0xFFFFFFFFFFFF))"
    and "fe_val_5x52 (fe_of_limbs_5x52 (r0, r1, r2, r3, r4 AND 0xFFFFFFFFFFFF)) = T mod secp_p"
proof -
  let ?v = "fe_val_5x52 (fe_of_limbs_5x52 (r0, r1, r2, r3, r4 AND 0xFFFFFFFFFFFF))"
  have "urep (of_bool b :: u64) (of_bool b) 1" by (simp add: urep_def)
  note u = urep_intros this t[THEN less_imp_le, THEN urep_self]
  have t0: "urep (t0 + of_bool b * 0x1000003D1) (uint t0 + of_bool b * 0x1000003D1) (2 ^ 64 - 1)"
    by (rule urep_weaken, (rule u | simp)+)
  have r: "uint r0 + uint r1 * 2 ^ 52 + uint r2 * 2 ^ 104 + uint r3 * 2 ^ 156 + uint r4 * 2 ^ 208
      = T + of_bool b * 0x1000003D1"
    "uint r0 < 2 ^ 52" "uint r1 < 2 ^ 52" "uint r2 < 2 ^ 52" "uint r3 < 2 ^ 52"
    "uint r4 \<le> uint t4 + 2 ^ 12"
    using fe_carry_5x52[OF c] t unfolding T urepD(1)[OF t0] by simp_all
  have T_less: "T < 2 * secp_p" "0 \<le> T"
    using t unfolding T secp_p_pow by simp_all
  have m4: "uint (r4 AND 0xFFFFFFFFFFFF) = uint r4 mod 2 ^ 48"
    using urepD(1)[OF urep_and_masks(3)[OF urep_self[OF order_refl]], of r4] by (simp add: lo_bits_def)
  have m4r: "uint (r4 AND 0xFFFFFFFFFFFF) < 2 ^ 48"
    unfolding m4 by simp
  have v: "0 \<le> ?v" "?v < 2 ^ 256"
    using r(2-5) m4r unfolding fe_val_of_limbs_5x52 by simp_all
  have "?v = (T + of_bool b * 0x1000003D1) mod 2 ^ 256"
  proof -
    have "T + of_bool b * 0x1000003D1 = ?v + 2 ^ 256 * hi_bits 48 (uint r4)"
      using lo_hi_bits[of 48 "uint r4"] unfolding r(1)[symmetric] fe_val_of_limbs_5x52 m4 lo_bits_def
      by simp
    then show ?thesis using v by simp
  qed
  also have "\<dots> = T mod secp_p"
  proof (cases b)
    case True
    then have "(T + of_bool b * 0x1000003D1) mod 2 ^ 256 = T - secp_p"
      using T_less b unfolding secp_p_pow by (subst mod_sub_once) simp_all
    then show ?thesis using True T_less b by (simp add: mod_sub_once)
  next
    case False
    then show ?thesis using T_less b by (simp add: secp_p_pow)
  qed
  finally show "?v = T mod secp_p" .
  then show "fe_norm_5x52 (fe_of_limbs_5x52 (r0, r1, r2, r3, r4 AND 0xFFFFFFFFFFFF))"
    using r(2-5) m4r by (simp add: fe_norm_5x52_iff)
qed

lemma fe_normalize_5x52:
  assumes "fe_mag_5x52 2047 a"
  shows "fe_norm_5x52 (fe_normalize_5x52 a)"
    and "fe_val_5x52 (fe_normalize_5x52 a) = fe_val_5x52 a mod secp_p"
proof -
  obtain t0 t1 t2 t3 t4 where f: "fe_first_pass_5x52 a = (t0, t1, t2, t3, t4)"
    by (metis prod_cases5)
  note t = fe_first_pass_5x52[OF f assms]
  define T where "T = uint t0 + uint t1 * 2 ^ 52 + uint t2 * 2 ^ 104 + uint t3 * 2 ^ 156 + uint t4 * 2 ^ 208"
  have x: "fe_final_x_5x52 (t0, t1, t2, t3, t4) = of_bool (secp_p \<le> T)"
    unfolding T_def using t by (intro fe_final_x_5x52) auto
  obtain r0 r1 r2 r3 r4 where
    c: "fe_carry_5x52 (t0 + of_bool (secp_p \<le> T) * 0x1000003D1, t1, t2, t3, t4) = (r0, r1, r2, r3, r4)"
    by (metis prod_cases5)
  have e: "fe_normalize_5x52 a = fe_of_limbs_5x52 (r0, r1, r2, r3, r4 AND 0xFFFFFFFFFFFF)"
    unfolding fe_normalize_5x52_def f Let_def split x c ..
  note s = fe_final_sub_5x52[OF c _ _ _ _ _ T_def refl]
  show "fe_norm_5x52 (fe_normalize_5x52 a)"
    unfolding e using t by (intro s) blast+
  show "fe_val_5x52 (fe_normalize_5x52 a) = fe_val_5x52 a mod secp_p"
    unfolding e using t s(2) unfolding T_def[symmetric] by metis
qed

lemma limbs_5x52_top:
  "0 \<le> x0 \<Longrightarrow> 0 \<le> x1 \<Longrightarrow> 0 \<le> x2 \<Longrightarrow> 0 \<le> x3 \<Longrightarrow>
    x0 + x1 * 2 ^ 52 + x2 * 2 ^ 104 + x3 * 2 ^ 156 + x4 * 2 ^ 208 < 2 ^ 256 \<Longrightarrow> x4 < (2 ^ 48 :: int)"
  by simp

lemma limbs_5x52_eq_0:
  "0 \<le> x0 \<Longrightarrow> 0 \<le> x1 \<Longrightarrow> 0 \<le> x2 \<Longrightarrow> 0 \<le> x3 \<Longrightarrow> 0 \<le> (x4::int) \<Longrightarrow>
    x0 + x1 * 2 ^ 52 + x2 * 2 ^ 104 + x3 * 2 ^ 156 + x4 * 2 ^ 208 = 0 \<longleftrightarrow>
    x0 = 0 \<and> x1 = 0 \<and> x2 = 0 \<and> x3 = 0 \<and> x4 = 0"
  by auto

lemma limbs_5x52_eq_p:
  "0 \<le> (x0::int) \<Longrightarrow> 0 \<le> x1 \<Longrightarrow> 0 \<le> x2 \<Longrightarrow> 0 \<le> x3 \<Longrightarrow> 
    x0 < 2 ^ 52 \<Longrightarrow> x1 < 2 ^ 52 \<Longrightarrow> x2 < 2 ^ 52 \<Longrightarrow> x3 < 2 ^ 52 \<Longrightarrow>
    x0 + x1 * 2 ^ 52 + x2 * 2 ^ 104 + x3 * 2 ^ 156 + x4 * 2 ^ 208 = secp_p \<longleftrightarrow>
    x0 = 0xFFFFEFFFFFC2F \<and> x1 = 0xFFFFFFFFFFFFF \<and> x2 = 0xFFFFFFFFFFFFF
      \<and> x3 = 0xFFFFFFFFFFFFF \<and> x4 = 0xFFFFFFFFFFFF"
  (is "_ \<Longrightarrow> _ \<Longrightarrow> _ \<Longrightarrow> _ \<Longrightarrow> _ \<Longrightarrow> _ \<Longrightarrow> _ \<Longrightarrow> _ \<Longrightarrow> ?s = _ \<longleftrightarrow> _")
proof -
  have k: "(0::int) \<le> 0xFFFFEFFFFFC2F" "(0::int) \<le> 0xFFFFFFFFFFFFF"
    "0xFFFFEFFFFFC2F < (2::int) ^ 52" "0xFFFFFFFFFFFFF < (2::int) ^ 52" by simp_all
  have s: "?s = x0 + 2 ^ 52 * (x1 + 2 ^ 52 * (x2 + 2 ^ 52 * (x3 + 2 ^ 52 * x4)))" by simp
  have p: "secp_p = 0xFFFFEFFFFFC2F + 2 ^ 52 * (0xFFFFFFFFFFFFF + 2 ^ 52 * (0xFFFFFFFFFFFFF
      + 2 ^ 52 * (0xFFFFFFFFFFFFF + 2 ^ 52 * 0xFFFFFFFFFFFF)))" by (simp add: secp_p_def)
  assume "0 \<le> x0" "0 \<le> x1" "0 \<le> x2" "0 \<le> x3" "x0 < 2 ^ 52" "x1 < 2 ^ 52" "x2 < 2 ^ 52" "x3 < 2 ^ 52"
  then show ?thesis unfolding s p by (simp only: radix_inject k)
qed

lemma fe_norm_5x52_inject:
  assumes "fe_norm_5x52 a" "fe_norm_5x52 b"
  shows "fe_val_5x52 a = fe_val_5x52 b \<longleftrightarrow> a = b"
proof
  assume e: "fe_val_5x52 a = fe_val_5x52 b"
  have v: "fe_val_5x52 x = uint (fe_n0 x) + 2 ^ 52 * (uint (fe_n1 x) + 2 ^ 52 *
     (uint (fe_n2 x) + 2 ^ 52 * (uint (fe_n3 x) + 2 ^ 52 * uint (fe_n4 x))))" for x
    by (simp add: fe_val_5x52_def)
  show "a = b"
    using assms e unfolding v fe_norm_5x52_iff
    by (simp only: radix_inject uint_ge_0 simp_thms) (cases a; cases b; simp add: word_uint_eq_iff)
qed simp

lemma fe_normalize_var_5x52_eq:
  assumes "fe_mag_5x52 2047 a"
  shows "fe_normalize_var_5x52 a = fe_normalize_5x52 a"
proof -
  obtain t0 t1 t2 t3 t4 where f: "fe_first_pass_5x52 a = (t0, t1, t2, t3, t4)"
    by (metis prod_cases5)
  note t = fe_first_pass_5x52[OF f assms]
  define T where "T = uint t0 + uint t1 * 2 ^ 52 + uint t2 * 2 ^ 104 + uint t3 * 2 ^ 156 + uint t4 * 2 ^ 208"
  have x: "fe_final_x_5x52 (t0, t1, t2, t3, t4) = of_bool (secp_p \<le> T)"
    unfolding T_def using t by (intro fe_final_x_5x52) auto
  show ?thesis
  proof (cases "secp_p \<le> T")
    case True
    then show ?thesis
      unfolding fe_normalize_var_5x52_def fe_normalize_5x52_def f Let_def split x by simp
  next
    case False
    then have v: "fe_normalize_var_5x52 a = fe_of_limbs_5x52 (t0, t1, t2, t3, t4)"
      unfolding fe_normalize_var_5x52_def f Let_def split x by simp
    have T: "fe_val_5x52 (fe_of_limbs_5x52 (t0, t1, t2, t3, t4)) = T" "0 \<le> T"
      unfolding fe_val_of_limbs_5x52 T_def by simp_all
    have "T < 2 ^ 256" using False by (simp add: secp_p_def)
    then have "uint t4 < 2 ^ 48"
      unfolding T_def by (rule limbs_5x52_top[rotated 4]) simp_all
    then have "fe_norm_5x52 (fe_normalize_var_5x52 a)"
      using t False T unfolding v fe_norm_5x52_iff by simp
    moreover have "fe_val_5x52 (fe_normalize_var_5x52 a) = fe_val_5x52 (fe_normalize_5x52 a)"
      using t False T unfolding v fe_normalize_5x52(2)[OF assms] T_def[symmetric]
      by (metis mod_pos_pos_trivial not_le)
    ultimately show ?thesis
      using fe_norm_5x52_inject fe_normalize_5x52(1)[OF assms] by blast
  qed
qed

lemma fe_zero_test_5x52:
  fixes t0 t1 t2 t3 t4 :: u64
  assumes t: "uint t0 < 2 ^ 52" "uint t1 < 2 ^ 52" "uint t2 < 2 ^ 52" "uint t3 < 2 ^ 52" "uint t4 < 2 ^ 48 + 2 ^ 12"
    and T: "T = uint t0 + uint t1 * 2 ^ 52 + uint t2 * 2 ^ 104 + uint t3 * 2 ^ 156 + uint t4 * 2 ^ 208"
  shows "((((t0 OR t1) OR t2) OR t3) OR t4 = 0) \<or>
      (((((t0 XOR 0x1000003D0) AND t1) AND t2) AND t3) AND (t4 XOR 0xF000000000000) = 0xFFFFFFFFFFFFF)
    \<longleftrightarrow> T mod secp_p = 0"
proof -
  let ?M = "0xFFFFFFFFFFFFF :: u64"
  have "uint (t0 XOR 0x1000003D0) < 2 ^ 52" "uint (t4 XOR 0xF000000000000) < 2 ^ 52"
    using t by (auto intro!: uint_xor_less[where n = 52, simplified])
  with t have le: "t0 XOR 0x1000003D0 \<le> ?M" "t1 \<le> ?M" "t2 \<le> ?M" "t3 \<le> ?M" "t4 XOR 0xF000000000000 \<le> ?M"
    by (simp_all add: word_le_def)
  have "T = 0 \<longleftrightarrow> uint t0 = 0 \<and> uint t1 = 0 \<and> uint t2 = 0 \<and> uint t3 = 0 \<and> uint t4 = 0"
    unfolding T by (rule limbs_5x52_eq_0) simp_all
  then have 0: "((((t0 OR t1) OR t2) OR t3) OR t4 = 0) \<longleftrightarrow> T = 0"
    by (simp add: or_eq_0_iff uint_0_iff)
  have "(((((t0 XOR 0x1000003D0) AND t1) AND t2) AND t3) AND (t4 XOR 0xF000000000000) = ?M)
    \<longleftrightarrow> t0 = 0xFFFFEFFFFFC2F \<and> t1 = ?M \<and> t2 = ?M \<and> t3 = ?M \<and> t4 = 0xFFFFFFFFFFFF"
    by (simp add: and_eq_top_iff and_le_left le xor_eq_iff conj_assoc)
  also have "\<dots> \<longleftrightarrow> T = secp_p"
    unfolding T using t by (subst limbs_5x52_eq_p) (simp_all add: word_uint_eq_iff)
  moreover have "0 \<le> T" "T < 2 * secp_p"
    using t unfolding T secp_p_pow by simp_all
  ultimately show ?thesis
    using 0 mod_sub_once[of secp_p T] by (cases "secp_p \<le> T") auto
qed

lemma fe_normalizes_to_zero_5x52:
  assumes "fe_mag_5x52 2047 a"
  shows "fe_normalizes_to_zero_5x52 a \<longleftrightarrow> fe_val_5x52 a mod secp_p = 0"
proof -
  obtain t0 t1 t2 t3 t4 where f: "fe_first_pass_5x52 a = (t0, t1, t2, t3, t4)"
    by (metis prod_cases5)
  note t = fe_first_pass_5x52[OF f assms]
  then have "fe_normalizes_to_zero_5x52 a \<longleftrightarrow> (uint t0 + uint t1 * 2 ^ 52 + uint t2 * 2 ^ 104
      + uint t3 * 2 ^ 156 + uint t4 * 2 ^ 208) mod secp_p = 0"
    unfolding fe_normalizes_to_zero_5x52_def f Let_def split by (intro fe_zero_test_5x52) auto
  with t show ?thesis by simp
qed

lemma fe_normalizes_to_zero_var_5x52_eq:
  "fe_normalizes_to_zero_var_5x52 a = fe_normalizes_to_zero_5x52 a"
proof -
  let ?z = "(fe_n0 a + drop_bit 48 (fe_n4 a) * 0x1000003D1) AND 0xFFFFFFFFFFFFF"
  have "uint ?z < 2 ^ 52"
    using urep_and_masks(2)[OF urep_self[OF order_refl], THEN urepD(5)] by (rule le_less_trans) simp
  then have "uint (?z XOR 0x1000003D0) < 2 ^ 52"
    by (rule uint_xor_less) simp
  then have le: "?z XOR 0x1000003D0 \<le> 0xFFFFFFFFFFFFF" by (simp add: word_le_def)
  have z1: "z = 0xFFFFFFFFFFFFF" if "((((z AND x1) AND x2) AND x3) AND x4) = 0xFFFFFFFFFFFFF" "z \<le> 0xFFFFFFFFFFFFF"
    for z x1 x2 x3 x4 :: u64
    using that word_and_le2[of z "x1 AND x2 AND x3 AND x4"] by (simp add: and.assoc)
  show ?thesis
  proof (cases "?z \<noteq> 0 \<and> ?z XOR 0x1000003D0 \<noteq> 0xFFFFFFFFFFFFF")
    case True
    then show ?thesis
      using z1[OF _ le]
      by (auto simp: fe_normalizes_to_zero_var_5x52_def fe_normalizes_to_zero_5x52_def Let_def
        fe_first_pass_5x52_def fe_carry_5x52_def or_eq_0_iff)
  next
    case False
    then show ?thesis
      unfolding fe_normalizes_to_zero_var_5x52_def fe_normalizes_to_zero_5x52_def Let_def
        fe_first_pass_5x52_def fe_carry_5x52_def split by (simp only: if_False)
  qed
qed

lemma urep_mul128 [urep_intros]:
  assumes a: "urep a i A" "A < 2 ^ 64" and b: "urep b j B" "B < 2 ^ 64"
  shows "urep (mul128 a b) (i * j) (A * B)"
proof -
  have "A * B < 2 ^ 64 * 2 ^ 64"
    using a b urepD(4)[OF a(1)] urepD(4)[OF b(1)] by (intro mult_strict_mono') auto
  then show ?thesis
    unfolding mul128_def using a b by (intro urep_mult urep_ucast) auto
qed

lemma fe_mul_inner_5x52_algebra:
  fixes d0 :: int
  assumes "d0 = A0*B3 + A1*B2 + A2*B1 + A3*B0" "c0 = A4*B4" "c0l + 2^52*c1 = c0"
    "d1 = d0 + c0l * 0x1000003D10" "t3 + 2^52*d2 = d1"
    "d3 = d2 + (A0*B4 + A1*B3 + A2*B2 + A3*B1 + A4*B0)" "d4 = d3 + c1 * 0x1000003D10"
    "t4 + 2^52*d5 = d4" "t4' + 2^48*tx = t4" "c2 = A0*B0"
    "d6 = d5 + (A1*B4 + A2*B3 + A3*B2 + A4*B1)" "u0 + 2^52*d7 = d6" "u0' = u0 * 2^4 + tx"
    "c3 = c2 + u0' * 0x1000003D1" "r0 + 2^52*c4 = c3"
    "c5 = c4 + (A0*B1 + A1*B0)" "d8 = d7 + (A2*B4 + A3*B3 + A4*B2)" "d8l + 2^52*d9 = d8"
    "c6 = c5 + d8l * 0x1000003D10" "r1 + 2^52*c7 = c6"
    "c8 = c7 + (A0*B2 + A1*B1 + A2*B0)" "d10 = d9 + (A3*B4 + A4*B3)" "d10l + 2^52*d11 = d10"
    "c9 = c8 + d10l * 0x1000003D10" "r2 + 2^52*c10 = c9"
    "c11 = c10 + (d11 * 0x1000003D10 + t3)" "r3 + 2^52*c12 = c11" "r4 = c12 + t4'"
  shows "(A0 + A1*2^52 + A2*2^104 + A3*2^156 + A4*2^208) * (B0 + B1*2^52 + B2*2^104 + B3*2^156 + B4*2^208)
    = r0 + r1*2^52 + r2*2^104 + r3*2^156 + r4*2^208
      + (2^256 - 2^32 - 977) * (16*(c0l*2^156 + c1*2^208 + d8l*2^52 + d10l*2^104 + d11*2^156) + u0')"
  using assms by algebra

lemma fe_mul_inner_5x52_exact:
  assumes f: "fe_mul_inner_5x52 a b = r" and a: "fe_mag_5x52 8 a" and b: "fe_mag_5x52 8 b"
  shows "(\<exists>k. fe_val_5x52 a * fe_val_5x52 b = fe_val_5x52 r + secp_p * k)
    \<and> uint (fe_n0 r) < 2 ^ 52 \<and> uint (fe_n1 r) < 2 ^ 52 \<and> uint (fe_n2 r) < 2 ^ 52
    \<and> uint (fe_n3 r) < 2 ^ 52 \<and> uint (fe_n4 r) \<le> 2 ^ 49 - 2"
  using f unfolding fe_mul_inner_5x52_def
  apply (elim LetE)
  subgoal premises p for a0 a1 a2 a3 a4 b0 b1 b2 b3 b4 d0 c0 d1 c1 t3 d2 d3 d4 t4 d5 tx t4' c2 d6 u0 d7 u0' c3 r0 c4 c5 d8 c6 d9 r1 c7 c8 d10 c9 d11 r2 c10 c11 r3 c12 c13 r4
  proof -
    have ab: "uint a0 \<le> 0xFFFFFFFFFFFFF * 16" "uint a1 \<le> 0xFFFFFFFFFFFFF * 16"
      "uint a2 \<le> 0xFFFFFFFFFFFFF * 16" "uint a3 \<le> 0xFFFFFFFFFFFFF * 16" "uint a4 \<le> 0xFFFFFFFFFFFF * 16"
      "uint b0 \<le> 0xFFFFFFFFFFFFF * 16" "uint b1 \<le> 0xFFFFFFFFFFFFF * 16"
      "uint b2 \<le> 0xFFFFFFFFFFFFF * 16" "uint b3 \<le> 0xFFFFFFFFFFFFF * 16" "uint b4 \<le> 0xFFFFFFFFFFFF * 16"
      using a b unfolding p(1-10) fe_mag_5x52_iff by simp_all
    note u = urep_intros ab[THEN urep_self]
    have M4: "drop_bit 4 0xFFFFFFFFFFFFF = (0xFFFFFFFFFFFF :: u64)" and R4: "drop_bit 4 0x1000003D10 = (0x1000003D1 :: u64)"
      by simp_all
    have d0: "urep d0 (uint a0*uint b3 + uint a1*uint b2 + uint a2*uint b1 + uint a3*uint b0) (2^114)"
      unfolding p(11) by (rule urep_weaken, (rule u  | simp)+)
    have c0: "urep c0 (uint a4*uint b4) (2^104)"
      unfolding p(12) by (rule urep_weaken, (rule u  | simp)+)
    have d1: "urep d1 (uint d0 + lo_bits 52 (uint c0) * 0x1000003D10) (2^115)"
      unfolding p(13) by (rule urep_weaken, (rule u d0[THEN urep_uint] c0[THEN urep_uint] | simp)+)
    have c1: "urep c1 (hi_bits 52 (uint c0)) (2^52)"
      unfolding p(14) by (rule urep_weaken, (rule u c0[THEN urep_uint] | simp)+)
    have t3: "urep t3 (lo_bits 52 (uint d1)) (2^52 - 1)"
      unfolding p(15) by (rule urep_weaken, (rule u d1[THEN urep_uint] | simp)+)
    have d2: "urep d2 (hi_bits 52 (uint d1)) (2^63)"
      unfolding p(16) by (rule urep_weaken, (rule u d1[THEN urep_uint] | simp)+)
    have d3: "urep d3 (uint d2 + (uint a0*uint b4 + uint a1*uint b3 + uint a2*uint b2 + uint a3*uint b1 + uint a4*uint b0)) (2^115)"
      unfolding p(17) by (rule urep_weaken, (rule u d2[THEN urep_uint] | simp)+)
    have d4: "urep d4 (uint d3 + uint c1 * 0x1000003D10) (2^116)"
      unfolding p(18) by (rule urep_weaken, (rule u c1[THEN urep_uint] d3[THEN urep_uint] | simp)+)
    have t4: "urep t4 (lo_bits 52 (uint d4)) (2^52 - 1)"
      unfolding p(19) by (rule urep_weaken, (rule u d4[THEN urep_uint] | simp)+)
    have d5: "urep d5 (hi_bits 52 (uint d4)) (2^64)"
      unfolding p(20) by (rule urep_weaken, (rule u d4[THEN urep_uint] | simp)+)
    have tx: "urep tx (hi_bits 48 (uint t4)) (2^4 - 1)"
      unfolding p(21) by (rule urep_weaken, (rule u t4[THEN urep_uint] | simp)+)
    have t4': "urep t4' (lo_bits 48 (uint t4)) (2^48 - 1)"
      unfolding p(22) M4 by (rule urep_weaken, (rule u t4[THEN urep_uint] | simp)+)
    have c2: "urep c2 (uint a0*uint b0) (2^112)"
      unfolding p(23) by (rule urep_weaken, (rule u  | simp)+)
    have d6: "urep d6 (uint d5 + (uint a1*uint b4 + uint a2*uint b3 + uint a3*uint b2 + uint a4*uint b1)) (2^115)"
      unfolding p(24) by (rule urep_weaken, (rule u d5[THEN urep_uint] | simp)+)
    have u0: "urep u0 (lo_bits 52 (uint d6)) (2^52 - 1)"
      unfolding p(25) by (rule urep_weaken, (rule u d6[THEN urep_uint] | simp)+)
    have d7: "urep d7 (hi_bits 52 (uint d6)) (2^63)"
      unfolding p(26) by (rule urep_weaken, (rule u d6[THEN urep_uint] | simp)+)
    have u0': "urep u0' (uint u0 * 2 ^ 4 + uint tx) (2^56 - 1)"
      unfolding p(27) by (rule urep_weaken, (rule u urep_or_push tx[THEN urep_uint] u0[THEN urep_uint] | simp)+)
    have c3: "urep c3 (uint c2 + uint u0' * 0x1000003D1) (2^115)"
      unfolding p(28) R4 by (rule urep_weaken, (rule u c2[THEN urep_uint] u0'[THEN urep_uint] | simp)+)
    have r0: "urep r0 (lo_bits 52 (uint c3)) (2^52 - 1)"
      unfolding p(29) by (rule urep_weaken, (rule u c3[THEN urep_uint] | simp)+)
    have c4: "urep c4 (hi_bits 52 (uint c3)) (2^63)"
      unfolding p(30) by (rule urep_weaken, (rule u c3[THEN urep_uint] | simp)+)
    have c5: "urep c5 (uint c4 + (uint a0*uint b1 + uint a1*uint b0)) (2^114)"
      unfolding p(31) by (rule urep_weaken, (rule u c4[THEN urep_uint] | simp)+)
    have d8: "urep d8 (uint d7 + (uint a2*uint b4 + uint a3*uint b3 + uint a4*uint b2)) (2^114)"
      unfolding p(32) by (rule urep_weaken, (rule u d7[THEN urep_uint] | simp)+)
    have c6: "urep c6 (uint c5 + lo_bits 52 (uint d8) * 0x1000003D10) (2^115)"
      unfolding p(33) by (rule urep_weaken, (rule u c5[THEN urep_uint] d8[THEN urep_uint] | simp)+)
    have d9: "urep d9 (hi_bits 52 (uint d8)) (2^62)"
      unfolding p(34) by (rule urep_weaken, (rule u d8[THEN urep_uint] | simp)+)
    have r1: "urep r1 (lo_bits 52 (uint c6)) (2^52 - 1)"
      unfolding p(35) by (rule urep_weaken, (rule u c6[THEN urep_uint] | simp)+)
    have c7: "urep c7 (hi_bits 52 (uint c6)) (2^63)"
      unfolding p(36) by (rule urep_weaken, (rule u c6[THEN urep_uint] | simp)+)
    have c8: "urep c8 (uint c7 + (uint a0*uint b2 + uint a1*uint b1 + uint a2*uint b0)) (2^114)"
      unfolding p(37) by (rule urep_weaken, (rule u c7[THEN urep_uint] | simp)+)
    have d10: "urep d10 (uint d9 + (uint a3*uint b4 + uint a4*uint b3)) (2^114)"
      unfolding p(38) by (rule urep_weaken, (rule u d9[THEN urep_uint] | simp)+)
    have c9: "urep c9 (uint c8 + lo_bits 52 (uint d10) * 0x1000003D10) (2^115)"
      unfolding p(39) by (rule urep_weaken, (rule u c8[THEN urep_uint] d10[THEN urep_uint] | simp)+)
    have d11: "urep d11 (hi_bits 52 (uint d10)) (2^62)"
      unfolding p(40) by (rule urep_weaken, (rule u d10[THEN urep_uint] | simp)+)
    have r2: "urep r2 (lo_bits 52 (uint c9)) (2^52 - 1)"
      unfolding p(41) by (rule urep_weaken, (rule u c9[THEN urep_uint] | simp)+)
    have c10: "urep c10 (hi_bits 52 (uint c9)) (2^63)"
      unfolding p(42) by (rule urep_weaken, (rule u c9[THEN urep_uint] | simp)+)
    have c11: "urep c11 (uint c10 + (uint d11 * 0x1000003D10 + uint t3)) (2^99)"
      unfolding p(43) by (rule urep_weaken, (rule u t3[THEN urep_uint] d11[THEN urep_uint] c10[THEN urep_uint] | simp)+)
    have r3: "urep r3 (lo_bits 52 (uint c11)) (2^52 - 1)"
      unfolding p(44) by (rule urep_weaken, (rule u c11[THEN urep_uint] | simp)+)
    have c12: "urep c12 (hi_bits 52 (uint c11)) (2^47)"
      unfolding p(45) by (rule urep_weaken, (rule u c11[THEN urep_uint] | simp)+)
    have c13: "urep c13 (uint c12 + uint t4') (2^49 - 2)"
      unfolding p(46) by (rule urep_weaken, (rule u t4'[THEN urep_uint] c12[THEN urep_uint] | simp)+)
    have r4: "urep r4 (uint c13) (2^49 - 2)"
      unfolding p(47) by (rule urep_weaken, (rule u c13[THEN urep_uint] | simp)+)
    note alg = fe_mul_inner_5x52_algebra[OF urepD(1)[OF d0] urepD(1)[OF c0]
        lo_hi_bits[of 52 "uint c0", folded urepD(1)[OF c1]] urepD(1)[OF d1] urep_split[OF t3 d2]
        urepD(1)[OF d3] urepD(1)[OF d4] urep_split[OF t4 d5] urep_split[OF t4' tx] urepD(1)[OF c2]
        urepD(1)[OF d6] urep_split[OF u0 d7] urepD(1)[OF u0'] urepD(1)[OF c3] urep_split[OF r0 c4]
        urepD(1)[OF c5] urepD(1)[OF d8] lo_hi_bits[of 52 "uint d8", folded urepD(1)[OF d9]] urepD(1)[OF c6]
        urep_split[OF r1 c7] urepD(1)[OF c8] urepD(1)[OF d10]
        lo_hi_bits[of 52 "uint d10", folded urepD(1)[OF d11]] urepD(1)[OF c9] urep_split[OF r2 c10]
        urepD(1)[OF c11] urep_split[OF r3 c12] trans[OF urepD(1)[OF r4] urepD(1)[OF c13]]]
    show ?thesis
      using p(48) alg urepD(5)[OF r0] urepD(5)[OF r1] urepD(5)[OF r2] urepD(5)[OF r3] urepD(5)[OF r4]
      unfolding fe_val_5x52_def p(1-10)[symmetric] secp_p_pow by (auto simp del: power_numeral)
  qed
  done

lemma fe_sqr_inner_5x52_algebra:
  fixes d0 :: int
  assumes "d0 = A0*2*A3 + A1*2*A2" "c0 = A4*A4" "c0l + 2^52*c1 = c0"
    "d1 = d0 + c0l * 0x1000003D10" "t3 + 2^52*d2 = d1" "A4' = A4*2"
    "d3 = d2 + (A0*A4' + A1*2*A3 + A2*A2)" "d4 = d3 + c1 * 0x1000003D10"
    "t4 + 2^52*d5 = d4" "t4' + 2^48*tx = t4" "c2 = A0*A0"
    "d6 = d5 + (A1*A4' + A2*2*A3)" "u0 + 2^52*d7 = d6" "u0' = u0 * 2^4 + tx"
    "c3 = c2 + u0' * 0x1000003D1" "r0 + 2^52*c4 = c3" "A0' = A0*2"
    "c5 = c4 + A0'*A1" "d8 = d7 + (A2*A4' + A3*A3)" "d8l + 2^52*d9 = d8"
    "c6 = c5 + d8l * 0x1000003D10" "r1 + 2^52*c7 = c6"
    "c8 = c7 + (A0'*A2 + A1*A1)" "d10 = d9 + A3*A4'" "d10l + 2^52*d11 = d10"
    "c9 = c8 + d10l * 0x1000003D10" "r2 + 2^52*c10 = c9"
    "c11 = c10 + (d11 * 0x1000003D10 + t3)" "r3 + 2^52*c12 = c11" "r4 = c12 + t4'"
  shows "(A0 + A1*2^52 + A2*2^104 + A3*2^156 + A4*2^208) * (A0 + A1*2^52 + A2*2^104 + A3*2^156 + A4*2^208)
    = r0 + r1*2^52 + r2*2^104 + r3*2^156 + r4*2^208
      + (2^256 - 2^32 - 977) * (16*(c0l*2^156 + c1*2^208 + d8l*2^52 + d10l*2^104 + d11*2^156) + u0')"
  using assms by algebra

lemma fe_sqr_inner_5x52_exact:
  assumes f: "fe_sqr_inner_5x52 a = r" and a: "fe_mag_5x52 8 a"
  shows "(\<exists>k. fe_val_5x52 a * fe_val_5x52 a = fe_val_5x52 r + secp_p * k)
    \<and> uint (fe_n0 r) < 2 ^ 52 \<and> uint (fe_n1 r) < 2 ^ 52 \<and> uint (fe_n2 r) < 2 ^ 52
    \<and> uint (fe_n3 r) < 2 ^ 52 \<and> uint (fe_n4 r) \<le> 2 ^ 49 - 2"
  using f unfolding fe_sqr_inner_5x52_def
  apply (elim LetE)
  subgoal premises p for a0 a1 a2 a3 a4 d0 c0 d1 c1 t3 d2 a4' d3 d4 t4 d5 tx t4' c2 d6 u0 d7 u0' c3 r0 c4 a0' c5 d8 c6 d9 r1 c7 c8 d10 c9 d11 r2 c10 c11 r3 c12 c13 r4
  proof -
    have ab: "uint a0 \<le> 0xFFFFFFFFFFFFF * 16" "uint a1 \<le> 0xFFFFFFFFFFFFF * 16"
      "uint a2 \<le> 0xFFFFFFFFFFFFF * 16" "uint a3 \<le> 0xFFFFFFFFFFFFF * 16" "uint a4 \<le> 0xFFFFFFFFFFFF * 16"
      using a unfolding p(1-5) fe_mag_5x52_iff by simp_all
    note u = urep_intros ab[THEN urep_self]
    have M4: "drop_bit 4 0xFFFFFFFFFFFFF = (0xFFFFFFFFFFFF :: u64)" and R4: "drop_bit 4 0x1000003D10 = (0x1000003D1 :: u64)"
      by simp_all
    have d0: "urep d0 (uint a0 * 2 * uint a3 + uint a1 * 2 * uint a2) (2^114)"
      unfolding p(6) by (rule urep_weaken, (rule u  | simp)+)
    have c0: "urep c0 (uint a4 * uint a4) (2^104)"
      unfolding p(7) by (rule urep_weaken, (rule u  | simp)+)
    have d1: "urep d1 (uint d0 + lo_bits 52 (uint c0) * 0x1000003D10) (2^115)"
      unfolding p(8) by (rule urep_weaken, (rule u d0[THEN urep_uint] c0[THEN urep_uint] | simp)+)
    have c1: "urep c1 (hi_bits 52 (uint c0)) (2^52)"
      unfolding p(9) by (rule urep_weaken, (rule u c0[THEN urep_uint] | simp)+)
    have t3: "urep t3 (lo_bits 52 (uint d1)) (2^52 - 1)"
      unfolding p(10) by (rule urep_weaken, (rule u d1[THEN urep_uint] | simp)+)
    have d2: "urep d2 (hi_bits 52 (uint d1)) (2^63)"
      unfolding p(11) by (rule urep_weaken, (rule u d1[THEN urep_uint] | simp)+)
    have a4': "urep a4' (uint a4 * 2) (2^53)"
      unfolding p(12) by (rule urep_weaken, (rule u  | simp)+)
    have d3: "urep d3 (uint d2 + (uint a0 * uint a4' + uint a1 * 2 * uint a3 + uint a2 * uint a2)) (2^115)"
      unfolding p(13) by (rule urep_weaken, (rule u d2[THEN urep_uint] a4'[THEN urep_uint] | simp)+)
    have d4: "urep d4 (uint d3 + uint c1 * 0x1000003D10) (2^116)"
      unfolding p(14) by (rule urep_weaken, (rule u c1[THEN urep_uint] d3[THEN urep_uint] | simp)+)
    have t4: "urep t4 (lo_bits 52 (uint d4)) (2^52 - 1)"
      unfolding p(15) by (rule urep_weaken, (rule u d4[THEN urep_uint] | simp)+)
    have d5: "urep d5 (hi_bits 52 (uint d4)) (2^64)"
      unfolding p(16) by (rule urep_weaken, (rule u d4[THEN urep_uint] | simp)+)
    have tx: "urep tx (hi_bits 48 (uint t4)) (2^4 - 1)"
      unfolding p(17) by (rule urep_weaken, (rule u t4[THEN urep_uint] | simp)+)
    have t4': "urep t4' (lo_bits 48 (uint t4)) (2^48 - 1)"
      unfolding p(18) M4 by (rule urep_weaken, (rule u t4[THEN urep_uint] | simp)+)
    have c2: "urep c2 (uint a0 * uint a0) (2^112)"
      unfolding p(19) by (rule urep_weaken, (rule u  | simp)+)
    have d6: "urep d6 (uint d5 + (uint a1 * uint a4' + uint a2 * 2 * uint a3)) (2^115)"
      unfolding p(20) by (rule urep_weaken, (rule u a4'[THEN urep_uint] d5[THEN urep_uint] | simp)+)
    have u0: "urep u0 (lo_bits 52 (uint d6)) (2^52 - 1)"
      unfolding p(21) by (rule urep_weaken, (rule u d6[THEN urep_uint] | simp)+)
    have d7: "urep d7 (hi_bits 52 (uint d6)) (2^63)"
      unfolding p(22) by (rule urep_weaken, (rule u d6[THEN urep_uint] | simp)+)
    have u0': "urep u0' (uint u0 * 2 ^ 4 + uint tx) (2^56 - 1)"
      unfolding p(23) by (rule urep_weaken, (rule u urep_or_push tx[THEN urep_uint] u0[THEN urep_uint] | simp)+)
    have c3: "urep c3 (uint c2 + uint u0' * 0x1000003D1) (2^115)"
      unfolding p(24) R4 by (rule urep_weaken, (rule u c2[THEN urep_uint] u0'[THEN urep_uint] | simp)+)
    have r0: "urep r0 (lo_bits 52 (uint c3)) (2^52 - 1)"
      unfolding p(25) by (rule urep_weaken, (rule u c3[THEN urep_uint] | simp)+)
    have c4: "urep c4 (hi_bits 52 (uint c3)) (2^63)"
      unfolding p(26) by (rule urep_weaken, (rule u c3[THEN urep_uint] | simp)+)
    have a0': "urep a0' (uint a0 * 2) (2^57)"
      unfolding p(27) by (rule urep_weaken, (rule u  | simp)+)
    have c5: "urep c5 (uint c4 + uint a0' * uint a1) (2^114)"
      unfolding p(28) by (rule urep_weaken, (rule u c4[THEN urep_uint] a0'[THEN urep_uint] | simp)+)
    have d8: "urep d8 (uint d7 + (uint a2 * uint a4' + uint a3 * uint a3)) (2^114)"
      unfolding p(29) by (rule urep_weaken, (rule u a4'[THEN urep_uint] d7[THEN urep_uint] | simp)+)
    have c6: "urep c6 (uint c5 + lo_bits 52 (uint d8) * 0x1000003D10) (2^115)"
      unfolding p(30) by (rule urep_weaken, (rule u c5[THEN urep_uint] d8[THEN urep_uint] | simp)+)
    have d9: "urep d9 (hi_bits 52 (uint d8)) (2^62)"
      unfolding p(31) by (rule urep_weaken, (rule u d8[THEN urep_uint] | simp)+)
    have r1: "urep r1 (lo_bits 52 (uint c6)) (2^52 - 1)"
      unfolding p(32) by (rule urep_weaken, (rule u c6[THEN urep_uint] | simp)+)
    have c7: "urep c7 (hi_bits 52 (uint c6)) (2^63)"
      unfolding p(33) by (rule urep_weaken, (rule u c6[THEN urep_uint] | simp)+)
    have c8: "urep c8 (uint c7 + (uint a0' * uint a2 + uint a1 * uint a1)) (2^114)"
      unfolding p(34) by (rule urep_weaken, (rule u a0'[THEN urep_uint] c7[THEN urep_uint] | simp)+)
    have d10: "urep d10 (uint d9 + uint a3 * uint a4') (2^114)"
      unfolding p(35) by (rule urep_weaken, (rule u a4'[THEN urep_uint] d9[THEN urep_uint] | simp)+)
    have c9: "urep c9 (uint c8 + lo_bits 52 (uint d10) * 0x1000003D10) (2^115)"
      unfolding p(36) by (rule urep_weaken, (rule u c8[THEN urep_uint] d10[THEN urep_uint] | simp)+)
    have d11: "urep d11 (hi_bits 52 (uint d10)) (2^62)"
      unfolding p(37) by (rule urep_weaken, (rule u d10[THEN urep_uint] | simp)+)
    have r2: "urep r2 (lo_bits 52 (uint c9)) (2^52 - 1)"
      unfolding p(38) by (rule urep_weaken, (rule u c9[THEN urep_uint] | simp)+)
    have c10: "urep c10 (hi_bits 52 (uint c9)) (2^63)"
      unfolding p(39) by (rule urep_weaken, (rule u c9[THEN urep_uint] | simp)+)
    have c11: "urep c11 (uint c10 + (uint d11 * 0x1000003D10 + uint t3)) (2^99)"
      unfolding p(40) by (rule urep_weaken, (rule u t3[THEN urep_uint] d11[THEN urep_uint] c10[THEN urep_uint] | simp)+)
    have r3: "urep r3 (lo_bits 52 (uint c11)) (2^52 - 1)"
      unfolding p(41) by (rule urep_weaken, (rule u c11[THEN urep_uint] | simp)+)
    have c12: "urep c12 (hi_bits 52 (uint c11)) (2^47)"
      unfolding p(42) by (rule urep_weaken, (rule u c11[THEN urep_uint] | simp)+)
    have c13: "urep c13 (uint c12 + uint t4') (2^49 - 2)"
      unfolding p(43) by (rule urep_weaken, (rule u t4'[THEN urep_uint] c12[THEN urep_uint] | simp)+)
    have r4: "urep r4 (uint c13) (2^49 - 2)"
      unfolding p(44) by (rule urep_weaken, (rule u c13[THEN urep_uint] | simp)+)
    note alg = fe_sqr_inner_5x52_algebra[OF urepD(1)[OF d0] urepD(1)[OF c0]
        lo_hi_bits[of 52 "uint c0", folded urepD(1)[OF c1]] urepD(1)[OF d1] urep_split[OF t3 d2]
        urepD(1)[OF a4'] urepD(1)[OF d3] urepD(1)[OF d4] urep_split[OF t4 d5] urep_split[OF t4' tx]
        urepD(1)[OF c2] urepD(1)[OF d6] urep_split[OF u0 d7] urepD(1)[OF u0'] urepD(1)[OF c3]
        urep_split[OF r0 c4] urepD(1)[OF a0'] urepD(1)[OF c5] urepD(1)[OF d8]
        lo_hi_bits[of 52 "uint d8", folded urepD(1)[OF d9]] urepD(1)[OF c6] urep_split[OF r1 c7]
        urepD(1)[OF c8] urepD(1)[OF d10] lo_hi_bits[of 52 "uint d10", folded urepD(1)[OF d11]]
        urepD(1)[OF c9] urep_split[OF r2 c10] urepD(1)[OF c11] urep_split[OF r3 c12]
        trans[OF urepD(1)[OF r4] urepD(1)[OF c13]]]
    have "\<exists>k. fe_val_5x52 a * fe_val_5x52 a = fe_val_5x52 r + secp_p * k"
      unfolding fe_val_5x52_def p(45)[symmetric] p(1-5)[symmetric] fe_of_limbs_5x52_simps secp_p_pow
      by (rule exI, rule alg)
    moreover have "uint (fe_n0 r) < 2 ^ 52 \<and> uint (fe_n1 r) < 2 ^ 52 \<and> uint (fe_n2 r) < 2 ^ 52
        \<and> uint (fe_n3 r) < 2 ^ 52 \<and> uint (fe_n4 r) \<le> 2 ^ 49 - 2"
      using urepD(5)[OF r0] urepD(5)[OF r1] urepD(5)[OF r2] urepD(5)[OF r3] urepD(5)[OF r4]
      unfolding p(45)[symmetric] fe_of_limbs_5x52_simps by simp
    ultimately show ?thesis by (rule conjI)
  qed
  done

lemma fe_mag_1_5x52:
  assumes "uint (fe_n0 r) < 2 ^ 52" "uint (fe_n1 r) < 2 ^ 52" "uint (fe_n2 r) < 2 ^ 52"
    "uint (fe_n3 r) < 2 ^ 52" "uint (fe_n4 r) \<le> 2 ^ 49 - 2"
  shows "fe_mag_5x52 1 r"
  using assms unfolding fe_mag_5x52_iff by simp

lemma fe_mul_5x52_correct:
  assumes "fe_mag_5x52 8 a" "fe_mag_5x52 8 b"
  shows "fe_mag_5x52 1 (fe_mul_5x52 a b)"
    "fe_val_5x52 (fe_mul_5x52 a b) mod secp_p = fe_val_5x52 a * fe_val_5x52 b mod secp_p"
  using fe_mul_inner_5x52_exact[OF refl assms] unfolding fe_mul_5x52_def
  by (blast intro: fe_mag_1_5x52 mod_eq_if_exact)+

lemma fe_sqr_5x52_correct:
  assumes "fe_mag_5x52 8 a"
  shows "fe_mag_5x52 1 (fe_sqr_5x52 a)"
    "fe_val_5x52 (fe_sqr_5x52 a) mod secp_p = fe_val_5x52 a * fe_val_5x52 a mod secp_p"
  using fe_sqr_inner_5x52_exact[OF refl assms] unfolding fe_sqr_5x52_def
  by (blast intro: fe_mag_1_5x52 mod_eq_if_exact)+

lemma fe_set_int_5x52_correct:
  assumes "0 \<le> i" "i < 2 ^ 31"
  shows "fe_norm_5x52 (fe_set_int_5x52 i)" "fe_val_5x52 (fe_set_int_5x52 i) = i"
  using assms urepD(1)[OF urep_word_of_int[where 'a=64, of i]]
  unfolding fe_norm_5x52_iff fe_set_int_5x52_def fe_val_5x52_def secp_p_def by simp_all

lemma fe_is_zero_5x52_iff: "fe_is_zero_5x52 a \<longleftrightarrow> fe_val_5x52 a = 0"
proof -
  have "fe_is_zero_5x52 a \<longleftrightarrow> uint (fe_n0 a) = 0 \<and> uint (fe_n1 a) = 0 \<and> uint (fe_n2 a) = 0
      \<and> uint (fe_n3 a) = 0 \<and> uint (fe_n4 a) = 0"
    unfolding fe_is_zero_5x52_def or_eq_0_iff by (simp add: uint_0_iff)
  then show ?thesis
    using uint_ge_0[of "fe_n0 a"] uint_ge_0[of "fe_n1 a"] uint_ge_0[of "fe_n2 a"]
      uint_ge_0[of "fe_n3 a"] uint_ge_0[of "fe_n4 a"]
    unfolding fe_val_5x52_def by (auto simp: add_nonneg_eq_0_iff)
qed

lemma fe_is_odd_5x52_iff: "fe_is_odd_5x52 a \<longleftrightarrow> odd (fe_val_5x52 a)"
proof -
  have "fe_is_odd_5x52 a \<longleftrightarrow> odd (uint (fe_n0 a))"
    using uint_and_mask[of "fe_n0 a" 1] unfolding fe_is_odd_5x52_def
    by (simp add: word_uint_eq_iff even_iff_mod_2_eq_zero del: uint_and_mask)
  then show ?thesis unfolding fe_val_5x52_def by simp
qed

lemma fe_clear_5x52_correct: "fe_norm_5x52 (fe_clear_5x52 a)" "fe_val_5x52 (fe_clear_5x52 a) = 0"
  unfolding fe_norm_5x52_iff fe_clear_5x52_def fe_val_5x52_def secp_p_def by simp_all

lemma fe_add_5x52_correct:
  assumes "fe_mag_5x52 m r" "fe_mag_5x52 k a" "m + k \<le> 2048"
  shows "fe_mag_5x52 (m + k) (fe_add_5x52 r a)"
    "fe_val_5x52 (fe_add_5x52 r a) = fe_val_5x52 r + fe_val_5x52 a"
proof -
  note b = assms[unfolded fe_mag_5x52_iff]
  have u: "uint (fe_n0 r + fe_n0 a) = uint (fe_n0 r) + uint (fe_n0 a)"
    "uint (fe_n1 r + fe_n1 a) = uint (fe_n1 r) + uint (fe_n1 a)"
    "uint (fe_n2 r + fe_n2 a) = uint (fe_n2 r) + uint (fe_n2 a)"
    "uint (fe_n3 r + fe_n3 a) = uint (fe_n3 r) + uint (fe_n3 a)"
    "uint (fe_n4 r + fe_n4 a) = uint (fe_n4 r) + uint (fe_n4 a)"
    using b by (auto intro!: uint_add_exact[of _ "0xFFFFFFFFFFFFF * (2 * int m)" _ "0xFFFFFFFFFFFFF * (2 * int k)"])
  show "fe_mag_5x52 (m + k) (fe_add_5x52 r a)"
    using b unfolding fe_mag_5x52_iff fe_add_5x52_def by (simp add: u)
  show "fe_val_5x52 (fe_add_5x52 r a) = fe_val_5x52 r + fe_val_5x52 a"
    unfolding fe_val_5x52_def fe_add_5x52_def by (simp add: u distrib_right)
qed

lemma fe_mag_5x52D:
  assumes "fe_mag_5x52 m a"
  shows "uint (fe_n0 a) \<le> 0xFFFFFFFFFFFFF * (2 * int m)" "uint (fe_n1 a) \<le> 0xFFFFFFFFFFFFF * (2 * int m)"
    "uint (fe_n2 a) \<le> 0xFFFFFFFFFFFFF * (2 * int m)" "uint (fe_n3 a) \<le> 0xFFFFFFFFFFFFF * (2 * int m)"
    "uint (fe_n4 a) \<le> 0x0FFFFFFFFFFFF * (2 * int m)"
  using assms unfolding fe_mag_5x52_iff by simp_all

lemma fe_mul_int_5x52_correct:
  assumes m: "fe_mag_5x52 m r" and i: "m * i \<le> 2048" "i \<le> 2048"
  shows "fe_mag_5x52 (m * i) (fe_mul_int_5x52 r (int i))"
    "fe_val_5x52 (fe_mul_int_5x52 r (int i)) = fe_val_5x52 r * int i"
proof -
  note b = fe_mag_5x52D[OF m]
  note u = b[THEN limb_mult_exact, OF i(1)]
  show "fe_mag_5x52 (m * i) (fe_mul_int_5x52 r (int i))"
    using i b[THEN limb_mult_bound, of "int i" "int (m * i)"] unfolding fe_mag_5x52_iff fe_mul_int_5x52_def
    by (simp add: u del: of_int_of_nat_eq)
  show "fe_val_5x52 (fe_mul_int_5x52 r (int i)) = fe_val_5x52 r * int i"
    using i unfolding fe_val_5x52_def fe_mul_int_5x52_def
    by (simp add: u distrib_left mult_ac del: of_int_of_nat_eq)
qed

lemma fe_negate_5x52_correct:
  assumes m: "fe_mag_5x52 m a" and l: "m \<le> 2047"
  shows "fe_mag_5x52 (m + 1) (fe_negate_5x52 a (int m))"
    "fe_val_5x52 (fe_negate_5x52 a (int m)) mod secp_p = - fe_val_5x52 a mod secp_p"
proof -
  note b = fe_mag_5x52D[OF m]
  have u: "uint (fe_n0 (fe_negate_5x52 a (int m))) = 0xFFFFEFFFFFC2F * 2 * (int m + 1) - uint (fe_n0 a)"
    "uint (fe_n1 (fe_negate_5x52 a (int m))) = 0xFFFFFFFFFFFFF * 2 * (int m + 1) - uint (fe_n1 a)"
    "uint (fe_n2 (fe_negate_5x52 a (int m))) = 0xFFFFFFFFFFFFF * 2 * (int m + 1) - uint (fe_n2 a)"
    "uint (fe_n3 (fe_negate_5x52 a (int m))) = 0xFFFFFFFFFFFFF * 2 * (int m + 1) - uint (fe_n3 a)"
    "uint (fe_n4 (fe_negate_5x52 a (int m))) = 0x0FFFFFFFFFFFF * 2 * (int m + 1) - uint (fe_n4 a)"
    unfolding fe_negate_5x52_def fe_5x52.simps by (rule limb_negate_exact; use b l in simp)+
  show "fe_mag_5x52 (m + 1) (fe_negate_5x52 a (int m))"
    using l unfolding fe_mag_5x52_iff u by (simp add: algebra_simps)
  have "fe_val_5x52 (fe_negate_5x52 a (int m)) = - fe_val_5x52 a + secp_p * (2 * (int m + 1))"
    unfolding fe_val_5x52_def u secp_p_def by (simp add: algebra_simps)
  then show "fe_val_5x52 (fe_negate_5x52 a (int m)) mod secp_p = - fe_val_5x52 a mod secp_p"
    by (simp only: mod_mult_self2)
qed

lemma fe_cmov_5x52_flag [simp]: "fe_cmov_5x52 r a 0 = r" "fe_cmov_5x52 r a 1 = a"
  by (simp_all add: fe_cmov_5x52_def)

lemma fe_storage_cmov_5x52_flag [simp]: "fe_storage_cmov_5x52 r a 0 = r" "fe_storage_cmov_5x52 r a 1 = a"
  by (simp_all add: fe_storage_cmov_5x52_def)

lemma fe_cmp_var_5x52_correct:
  assumes "fe_norm_5x52 a" "fe_norm_5x52 b"
  shows "fe_cmp_var_5x52 a b = sgn (fe_val_5x52 a - fe_val_5x52 b)"
proof -
  have "fe_cmp_var_5x52 a b = sgn (limbs_val 52 [fe_n4 a, fe_n3 a, fe_n2 a, fe_n1 a, fe_n0 a]
      - limbs_val 52 [fe_n4 b, fe_n3 b, fe_n2 b, fe_n1 b, fe_n0 b])"
    unfolding fe_cmp_var_5x52_def
    using assms by (subst limbs_cmp_correct[where w=52]) (auto simp: fe_norm_5x52_iff)
  then show ?thesis by (simp add: fe_val_5x52_def add_ac)
qed

lemma nibble_order: "[(i, j). i \<leftarrow> [0..<32], j \<leftarrow> [0..<2]] = map (\<lambda>k. (k div 2, k mod 2)) [0..<64::nat]"
  by (simp add: upt_conv_Cons)

lemma fe_limb_5x52_val: "fe_val_5x52 a = (\<Sum>l<5. uint (fe_limb_5x52 a l) * 2 ^ (52 * l))"
  by (simp add: fe_val_5x52_def fe_limb_5x52_def eval_nat_numeral)

lemma fe_or_limb_5x52_limb:
  "l < 5 \<Longrightarrow> q < 5 \<Longrightarrow> fe_limb_5x52 (fe_or_limb_5x52 q v r) l
     = (if l = q then fe_limb_5x52 r l OR v else fe_limb_5x52 r l)"
  by (simp add: fe_limb_5x52_def fe_or_limb_5x52_def)

text \<open>The nibble of position \<open>k\<close>, counted from the least significant end of the 32 bytes.\<close>

definition nibble :: "bytes \<Rightarrow> nat \<Rightarrow> u64" where
  "nibble a k = ucast (drop_bit (4 * (k mod 2)) (a ! (31 - k div 2)) AND 0xF)"

lemma uint_nibble_u64: "uint (nibble a k) = uint (a ! (31 - k div 2)) div 16 ^ (k mod 2) mod 16"
  unfolding nibble_def uint_ucast_mod uint_nibble
  by (rule mod_pos_pos_trivial) (simp_all add: order.strict_trans[OF pos_mod_bound])

lemma nibble_less: "uint (nibble a k) < 2 ^ 4"
  unfolding uint_nibble_u64 by simp

lemma fe_set_b32_step_5x52_nibble:
  "fe_set_b32_step_5x52 a (k div 2, k mod 2) r = fe_or_limb_5x52 (k div 13) (push_bit (4 * (k mod 13)) (nibble a k)) r"
proof -
  have "8 * (k div 2) + 4 * (k mod 2) = 4 * k" by presburger
  moreover have "4 * k div 52 = k div 13" "4 * k mod 52 = 4 * (k mod 13)"
    using div_mult_mult1[of 4 k 13] mult_mod_right[of 4 k 13] by simp_all
  ultimately show ?thesis
    unfolding fe_set_b32_step_5x52_def split nibble_def Let_def by (simp only:)
qed

lemma fe_set_b32_fold_5x52:
  assumes "k \<le> 64"
    and r: "r = fold (fe_set_b32_step_5x52 a) (map (\<lambda>k. (k div 2, k mod 2)) [0..<k]) (fe_of_limbs_5x52 (0, 0, 0, 0, 0))"
  shows "(\<forall>l<5. uint (fe_limb_5x52 r l) < 2 ^ min (13 * 4) (4 * k - 13 * 4 * l))
    \<and> fe_val_5x52 r = (\<Sum>k<k. uint (nibble a k) * 2 ^ (4 * k))"
  using assms
proof (induction k arbitrary: r)
  case 0
  then show ?case by (simp add: fe_val_5x52_def fe_limb_5x52_def)
next
  case (Suc k)
  define s where "s = fold (fe_set_b32_step_5x52 a) (map (\<lambda>k. (k div 2, k mod 2)) [0..<k]) (fe_of_limbs_5x52 (0, 0, 0, 0, 0))"
  have r: "r = fe_or_limb_5x52 (k div 13) (push_bit (4 * (k mod 13)) (nibble a k)) s"
    unfolding Suc.prems(2) s_def fe_set_b32_step_5x52_nibble[symmetric] by simp
  have k5: "k div 13 < 5" using Suc.prems(1) by simp
  have "k \<le> 64" using Suc.prems(1) by simp
  note IH = Suc.IH[OF this s_def]
  have l: "\<forall>l<5. fe_limb_5x52 r l
      = (if l = k div 13 then fe_limb_5x52 s l OR push_bit (4 * (k mod 13)) (nibble a k) else fe_limb_5x52 s l)"
    unfolding r using fe_or_limb_5x52_limb[OF _ k5] by blast
  have "13 * 4 < LENGTH(64)" by simp
  note p = pack_step[OF conjunct1[OF IH] l nibble_less k5 this]
  have "fe_val_5x52 r = fe_val_5x52 s + uint (nibble a k) * 2 ^ (4 * k)"
    using p(2) unfolding fe_limb_5x52_val by simp
  with p(1) conjunct2[OF IH] show ?case by simp
qed

lemma fe_set_b32_5x52_limbs:
  assumes "length a = 32" and "fe_set_b32_5x52 a = (r, ok)"
  shows "uint (fe_n0 r) < 2 ^ 52" "uint (fe_n1 r) < 2 ^ 52" "uint (fe_n2 r) < 2 ^ 52"
    "uint (fe_n3 r) < 2 ^ 52" "uint (fe_n4 r) < 2 ^ 48" "fe_val_5x52 r = be_val a"
proof -
  have "r = fold (fe_set_b32_step_5x52 a) (map (\<lambda>k. (k div 2, k mod 2)) [0..<64]) (fe_of_limbs_5x52 (0, 0, 0, 0, 0))"
    using assms(2) unfolding fe_set_b32_5x52_def nibble_order Let_def by simp
  note f = fe_set_b32_fold_5x52[OF order_refl this]
  show "uint (fe_n0 r) < 2 ^ 52" "uint (fe_n1 r) < 2 ^ 52" "uint (fe_n2 r) < 2 ^ 52"
    "uint (fe_n3 r) < 2 ^ 52" "uint (fe_n4 r) < 2 ^ 48"
    using conjunct1[OF f, rule_format, of 0] conjunct1[OF f, rule_format, of 1]
      conjunct1[OF f, rule_format, of 2] conjunct1[OF f, rule_format, of 3]
      conjunct1[OF f, rule_format, of 4]
    by (simp_all add: fe_limb_5x52_def)
  show "fe_val_5x52 r = be_val a"
    using conjunct2[OF f] be_val_nibbles[OF assms(1)] by (simp add: uint_nibble_u64)
qed

lemma fe_set_b32_5x52_correct:
  assumes a: "length a = 32" and r: "fe_set_b32_5x52 a = (r, ok)"
  shows "fe_val_5x52 r = be_val a" "ok \<longleftrightarrow> be_val a < secp_p" "ok \<Longrightarrow> fe_norm_5x52 r" "fe_mag_5x52 1 r"
proof -
  note l = fe_set_b32_5x52_limbs[OF assms]
  show v: "fe_val_5x52 r = be_val a" by (rule l(6))
  have "ok \<longleftrightarrow> \<not> (fe_n4 r = 0xFFFFFFFFFFFF \<and> (fe_n3 r AND fe_n2 r AND fe_n1 r) = 0xFFFFFFFFFFFFF
      \<and> fe_n0 r \<ge> 0xFFFFEFFFFFC2F)"
    using r unfolding fe_set_b32_5x52_def Let_def by auto
  also have "\<dots> \<longleftrightarrow> \<not> (fe_n4 r = 0xFFFFFFFFFFFF \<and> fe_n1 r = 0xFFFFFFFFFFFFF
      \<and> fe_n2 r = 0xFFFFFFFFFFFFF \<and> fe_n3 r = 0xFFFFFFFFFFFFF \<and> fe_n0 r \<ge> 0xFFFFEFFFFFC2F)"
    using l by (subst and3_eq_top_iff) (auto simp: word_le_def)
  also have "\<dots> \<longleftrightarrow> fe_val_5x52 r < secp_p"
    unfolding fe_top_iff_5x52[OF l(1-5)] fe_val_5x52_def by (simp only: not_le)
  finally show ok: "ok \<longleftrightarrow> be_val a < secp_p" unfolding v .
  show "fe_norm_5x52 r" if ok using that l ok unfolding fe_norm_5x52_iff by simp
  show "fe_mag_5x52 1 r" using l unfolding fe_mag_5x52_iff by simp
qed

lemma nibble_pos: "4 * k div 52 = k div (13::nat)" "4 * k mod 52 = 4 * (k mod (13::nat))"
  using div_mult_mult1[of 4 k 13] mult_mod_right[of 4 k 13] by simp_all

lemma fe_get_b32_byte_5x52_nibbles:
  "uint (fe_get_b32_byte_5x52 a i)
    = (\<Sum>j<2. (uint (fe_limb_5x52 a ((i * 2 + j) div 13)) div 2 ^ (4 * ((i * 2 + j) mod 13)) mod 2 ^ 4) * 2 ^ (4 * j))"
proof -
  define n where "n k = drop_bit (4 * (k mod 13)) (fe_limb_5x52 a (k div 13)) AND 0xF" for k
  have u: "uint (n k) = uint (fe_limb_5x52 a (k div 13)) div 2 ^ (4 * (k mod 13)) mod 2 ^ 4" for k
    unfolding n_def uint_nibble by (simp add: power_mult)
  then have b: "urep (n k) (uint (n k)) 15" for k
    by (simp add: urep_def zle_diff1_eq[of _ 16, simplified, symmetric] del: zle_diff1_eq)
  have p: "8 * i + 4 * j = 4 * (i * 2 + j)" for j by simp
  have "fe_get_b32_byte_5x52 a i = ucast (n (i * 2 + 0) OR push_bit 4 (n (i * 2 + 1)))"
    unfolding fe_get_b32_byte_5x52_def Let_def p nibble_pos n_def by (simp add: upt_rec numeral_2_eq_2)
  moreover have "urep (ucast (n (i * 2 + 0) OR push_bit 4 (n (i * 2 + 1))) :: u8)
      (uint (n (i * 2 + 0)) + uint (n (i * 2 + 1)) * 2 ^ 4) (15 + 15 * 2 ^ 4)"
    by (intro urep_ucast urep_push_or b) simp_all
  ultimately show ?thesis by (simp add: urep_def u numeral_2_eq_2)
qed

lemma fe_get_b32_5x52_correct:
  assumes "fe_norm_5x52 a"
  shows "length (fe_get_b32_5x52 a) = 32" "be_val (fe_get_b32_5x52 a) = fe_val_5x52 a"
proof -
  let ?n = "\<lambda>k. (uint (fe_limb_5x52 a (k div 13)) div 2 ^ (4 * (k mod 13)) mod 2 ^ 4)"
  show "length (fe_get_b32_5x52 a) = 32" by (simp add: fe_get_b32_5x52_def)
  have e: "(256::int) ^ i = 2 ^ (8 * i)" for i using power_mult[of "2::int" 8 i] by simp
  have "be_val (fe_get_b32_5x52 a) = (\<Sum>i<32. \<Sum>j<2. ?n (i * 2 + j) * 2 ^ (4 * (i * 2 + j)))"
    unfolding fe_get_b32_5x52_def be_val_rev_map fe_get_b32_byte_5x52_nibbles sum_distrib_right e
    by (simp add: distrib_left power_add mult_ac)
  also have "\<dots> = (\<Sum>k<32 * 2. ?n k * 2 ^ (4 * k))" by (simp only: sum_group)
  also have "\<dots> = (\<Sum>k<5 * 13. ?n k * 2 ^ (4 * k))"
  proof -
    have "?n 64 = 0"
      using assms unfolding fe_norm_5x52_iff by (simp add: fe_limb_5x52_def div_pos_pos_trivial)
    moreover have "{..<5 * 13} = insert 64 {..<32 * 2 :: nat}" by auto
    ultimately show ?thesis by (simp only: sum.insert_if finite_lessThan lessThan_iff) simp
  qed
  also have "\<dots> = (\<Sum>l<5. uint (fe_limb_5x52 a l) mod 2 ^ (13 * 4) * 2 ^ (13 * 4 * l))"
    by (rule unpack_sum)
  also have "\<dots> = fe_val_5x52 a"
    using assms unfolding fe_limb_5x52_val fe_norm_5x52_iff
    by (intro sum.cong) (auto simp: fe_limb_5x52_def)
  finally show "be_val (fe_get_b32_5x52 a) = fe_val_5x52 a" .
qed

lemma fe_b32_roundtrip_5x52:
  assumes "fe_norm_5x52 a"
  shows "fe_set_b32_5x52 (fe_get_b32_5x52 a) = (a, True)"
proof -
  obtain r ok where r: "fe_set_b32_5x52 (fe_get_b32_5x52 a) = (r, ok)" by fastforce
  note g = fe_get_b32_5x52_correct[OF assms]
  note s = fe_set_b32_5x52_correct[OF g(1) r]
  have ok: ok using s(2) g(2) assms unfolding fe_norm_5x52_iff by simp
  then have "r = a" using s(1) s(3)[OF ok] g(2) assms by (metis fe_norm_5x52_inject)
  then show ?thesis using r ok by simp
qed

lemma fe_get_set_b32_5x52:
  assumes "length bs = 32" "fe_set_b32_5x52 bs = (r, True)"
  shows "fe_get_b32_5x52 r = bs"
proof -
  note s = fe_set_b32_5x52_correct[OF assms]
  note g = fe_get_b32_5x52_correct[OF s(3)[OF TrueI]]
  show ?thesis using be_val_inject[of "fe_get_b32_5x52 r" bs] g s(1) assms(1) by simp
qed

definition st_val_5x52 :: "fe_storage_5x52 \<Rightarrow> int" where
  "st_val_5x52 s = uint (st_n0 s) + uint (st_n1 s) * 2 ^ 64 + uint (st_n2 s) * 2 ^ 128 + uint (st_n3 s) * 2 ^ 192"

lemma fe_to_storage_5x52_correct:
  assumes "fe_norm_5x52 a"
  shows "st_val_5x52 (fe_to_storage_5x52 a) = fe_val_5x52 a"
proof -
  have n: "uint (fe_n0 a) \<le> 2 ^ 52 - 1" "uint (fe_n1 a) \<le> 2 ^ 52 - 1" "uint (fe_n2 a) \<le> 2 ^ 52 - 1"
    "uint (fe_n3 a) \<le> 2 ^ 52 - 1" "uint (fe_n4 a) \<le> 2 ^ 48 - 1"
    using assms unfolding fe_norm_5x52_iff by simp_all
  note u = n[THEN urep_self]
  have "lo_bits 48 (uint (fe_n4 a)) = uint (fe_n4 a)" using n(5) by (simp add: lo_bits_def)
  then have s: "uint (st_n0 (fe_to_storage_5x52 a)) = uint (fe_n0 a) + lo_bits 12 (uint (fe_n1 a)) * 2 ^ 52"
    "uint (st_n1 (fe_to_storage_5x52 a)) = hi_bits 12 (uint (fe_n1 a)) + lo_bits 24 (uint (fe_n2 a)) * 2 ^ 40"
    "uint (st_n2 (fe_to_storage_5x52 a)) = hi_bits 24 (uint (fe_n2 a)) + lo_bits 36 (uint (fe_n3 a)) * 2 ^ 28"
    "uint (st_n3 (fe_to_storage_5x52 a)) = hi_bits 36 (uint (fe_n3 a)) + uint (fe_n4 a) * 2 ^ 16"
    using urepD(1)[OF urep_or_high[OF u(1), of 52 "fe_n1 a"]]
      urepD(1)[OF urep_or_high[OF urep_drop_bit[OF u(2), of 12], of 40 "fe_n2 a"]]
      urepD(1)[OF urep_or_high[OF urep_drop_bit[OF u(3), of 24], of 28 "fe_n3 a"]]
      urepD(1)[OF urep_or_high[OF urep_drop_bit[OF u(4), of 36], of 16 "fe_n4 a"]]
    unfolding fe_to_storage_5x52_def by simp_all
  show ?thesis
    using lo_hi_bits[of 12 "uint (fe_n1 a)"] lo_hi_bits[of 24 "uint (fe_n2 a)"] lo_hi_bits[of 36 "uint (fe_n3 a)"]
    unfolding st_val_5x52_def fe_val_5x52_def s by simp
qed

lemma fe_from_storage_5x52_correct:
  "fe_val_5x52 (fe_from_storage_5x52 s) = st_val_5x52 s"
  "st_val_5x52 s < secp_p \<Longrightarrow> fe_norm_5x52 (fe_from_storage_5x52 s)"
proof -
  have n: "uint x \<le> 2 ^ 64 - 1" for x :: u64 using uint_lt2p[of x] by simp
  note u = n[THEN urep_self]
  have M: "(0xFFFFFFFFFFFFF :: u64) = mask 52" by (simp add: mask_numeral)
  have a: "urep (fe_n0 (fe_from_storage_5x52 s)) (lo_bits 52 (uint (st_n0 s))) (2 ^ 52 - 1)"
    "urep (fe_n1 (fe_from_storage_5x52 s)) (hi_bits 52 (uint (st_n0 s)) + lo_bits 40 (uint (st_n1 s)) * 2 ^ 12) (2 ^ 52 - 1)"
    "urep (fe_n2 (fe_from_storage_5x52 s)) (hi_bits 40 (uint (st_n1 s)) + lo_bits 28 (uint (st_n2 s)) * 2 ^ 24) (2 ^ 52 - 1)"
    "urep (fe_n3 (fe_from_storage_5x52 s)) (hi_bits 28 (uint (st_n2 s)) + lo_bits 16 (uint (st_n3 s)) * 2 ^ 36) (2 ^ 52 - 1)"
    "urep (fe_n4 (fe_from_storage_5x52 s)) (hi_bits 16 (uint (st_n3 s))) (2 ^ 48 - 1)"
    using urep_and_masks(2)[OF u[of "st_n0 s"]]
      urep_or_mid[OF urep_drop_bit[OF u, of 52] _ _ _ M, of 12 "st_n0 s" "st_n1 s"]
      urep_or_mid[OF urep_drop_bit[OF u, of 40] _ _ _ M, of 24 "st_n1 s" "st_n2 s"]
      urep_or_mid[OF urep_drop_bit[OF u, of 28] _ _ _ M, of 36 "st_n2 s" "st_n3 s"]
      urep_drop_bit[OF u[of "st_n3 s"], of 16]
    unfolding fe_from_storage_5x52_def by simp_all
  show v: "fe_val_5x52 (fe_from_storage_5x52 s) = st_val_5x52 s"
    using lo_hi_bits[of 52 "uint (st_n0 s)"] lo_hi_bits[of 40 "uint (st_n1 s)"]
      lo_hi_bits[of 28 "uint (st_n2 s)"] lo_hi_bits[of 16 "uint (st_n3 s)"]
    unfolding st_val_5x52_def fe_val_5x52_def a[THEN urepD(1)] by simp
  show "fe_norm_5x52 (fe_from_storage_5x52 s)" if "st_val_5x52 s < secp_p"
    using that a[THEN urepD(5)] unfolding fe_norm_5x52_iff v by simp
qed

lemma fe_storage_roundtrip_5x52:
  assumes "fe_norm_5x52 a"
  shows "fe_from_storage_5x52 (fe_to_storage_5x52 a) = a"
proof -
  have "st_val_5x52 (fe_to_storage_5x52 a) < secp_p"
    using assms fe_to_storage_5x52_correct[OF assms] unfolding fe_norm_5x52_iff by simp
  note fe_norm_5x52_inject[OF fe_from_storage_5x52_correct(2)[OF this] assms]
  then show ?thesis
    using fe_from_storage_5x52_correct(1) fe_to_storage_5x52_correct[OF assms] by simp
qed

lemma fe_const_5x52_correct:
  "fe_val_5x52 (fe_const_5x52 d7 d6 d5 d4 d3 d2 d1 d0)
    = uint d0 + uint d1 * 2 ^ 32 + uint d2 * 2 ^ 64 + uint d3 * 2 ^ 96
      + uint d4 * 2 ^ 128 + uint d5 * 2 ^ 160 + uint d6 * 2 ^ 192 + uint d7 * 2 ^ 224"
    "fe_val_5x52 (fe_const_5x52 d7 d6 d5 d4 d3 d2 d1 d0) < secp_p
      \<Longrightarrow> fe_norm_5x52 (fe_const_5x52 d7 d6 d5 d4 d3 d2 d1 d0)"
proof -
  have mk: "urep a i A \<Longrightarrow> urep (a AND 0xFFFFF) (lo_bits 20 i) (2 ^ 20 - 1)"
    "urep a i A \<Longrightarrow> urep (a AND 0xFF) (lo_bits 8 i) (2 ^ 8 - 1)"
    "urep a i A \<Longrightarrow> urep (a AND 0xFFFFFFF) (lo_bits 28 i) (2 ^ 28 - 1)"
    "urep a i A \<Longrightarrow> urep (a AND 0xFFFF) (lo_bits 16 i) (2 ^ 16 - 1)" for a :: u64 and i A
    by (erule urep_and_mask, simp add: mask_numeral)+
  note u = urep_intros mk urep_push_or
  let ?r = "fe_const_5x52 d7 d6 d5 d4 d3 d2 d1 d0"
  have n0: "urep (fe_n0 ?r) (uint d0 + lo_bits 20 (uint d1) * 2 ^ 32) (2 ^ 52 - 1)"
    unfolding fe_const_5x52_def fe_of_limbs_5x52_simps
    by (rule urep_weaken, (rule u | simp)+)
  have n1: "urep (fe_n1 ?r) (hi_bits 20 (uint d1) + uint d2 * 2 ^ 12 + lo_bits 8 (uint d3) * 2 ^ 44) (2 ^ 52 - 1)"
    unfolding fe_const_5x52_def fe_of_limbs_5x52_simps
    by (rule urep_weaken, (rule u | simp)+)
  have n2: "urep (fe_n2 ?r) (hi_bits 8 (uint d3) + lo_bits 28 (uint d4) * 2 ^ 24) (2 ^ 52 - 1)"
    unfolding fe_const_5x52_def fe_of_limbs_5x52_simps
    by (rule urep_weaken, (rule u | simp)+)
  have n3: "urep (fe_n3 ?r) (hi_bits 28 (uint d4) + uint d5 * 2 ^ 4 + lo_bits 16 (uint d6) * 2 ^ 36) (2 ^ 52 - 1)"
    unfolding fe_const_5x52_def fe_of_limbs_5x52_simps
    by (rule urep_weaken, (rule u | simp)+)
  have n4: "urep (fe_n4 ?r) (hi_bits 16 (uint d6) + uint d7 * 2 ^ 16) (2 ^ 48 - 1)"
    unfolding fe_const_5x52_def fe_of_limbs_5x52_simps
    by (rule urep_weaken, (rule u | simp)+)
  show v: "fe_val_5x52 ?r = uint d0 + uint d1 * 2 ^ 32 + uint d2 * 2 ^ 64 + uint d3 * 2 ^ 96
      + uint d4 * 2 ^ 128 + uint d5 * 2 ^ 160 + uint d6 * 2 ^ 192 + uint d7 * 2 ^ 224"
    using lo_hi_bits[of 20 "uint d1"] lo_hi_bits[of 8 "uint d3"] lo_hi_bits[of 28 "uint d4"] lo_hi_bits[of 16 "uint d6"]
    unfolding fe_val_5x52_def urepD(1)[OF n0] urepD(1)[OF n1] urepD(1)[OF n2] urepD(1)[OF n3] urepD(1)[OF n4]
    by simp
  show "fe_val_5x52 ?r < secp_p \<Longrightarrow> fe_norm_5x52 ?r"
    using urepD(5)[OF n0] urepD(5)[OF n1] urepD(5)[OF n2] urepD(5)[OF n3] urepD(5)[OF n4]
    unfolding fe_norm_5x52_iff by simp
qed

definition fe_overlimit_5x52 :: fe_5x52 where
  "fe_overlimit_5x52 = fe_of_limbs_5x52 (0xFFFFFFFFFFFFF * 4096, 0, 0, 0, 0x0FFFFFFFFFFFF * 4096)"

section \<open>The representation implements the field interface\<close>

definition fe_ops_5x52 :: "(fe_5x52, fe_storage_5x52) field_ops" where
  "fe_ops_5x52 = \<lparr>
     fo_normalize = fe_normalize_5x52, fo_normalize_weak = fe_normalize_weak_5x52,
     fo_normalize_var = fe_normalize_var_5x52,
     fo_normalizes_to_zero = fe_normalizes_to_zero_5x52,
     fo_normalizes_to_zero_var = fe_normalizes_to_zero_var_5x52,
     fo_set_int = fe_set_int_5x52, fo_clear = fe_clear_5x52, fo_is_zero = fe_is_zero_5x52,
     fo_is_odd = fe_is_odd_5x52, fo_cmp_var = fe_cmp_var_5x52, fo_set_b32 = fe_set_b32_5x52,
     fo_get_b32 = fe_get_b32_5x52, fo_negate = fe_negate_5x52, fo_mul_int = fe_mul_int_5x52,
     fo_add = fe_add_5x52, fo_mul = fe_mul_5x52, fo_sqr = fe_sqr_5x52,
     fo_to_storage = fe_to_storage_5x52, fo_from_storage = fe_from_storage_5x52,
     fo_storage_cmov = fe_storage_cmov_5x52, fo_cmov = fe_cmov_5x52, fo_const = fe_const_5x52\<rparr>"

definition fe_abs_5x52 :: "fe_5x52 \<Rightarrow> int" where
  "fe_abs_5x52 a = fe_val_5x52 a mod secp_p"

lemma fe_val_nonneg_5x52: "0 \<le> fe_val_5x52 a"
  by (simp add: fe_val_5x52_def)

lemma fe_norm_abs_5x52: "fe_norm_5x52 a \<Longrightarrow> fe_abs_5x52 a = fe_val_5x52 a"
  unfolding fe_abs_5x52_def fe_norm_5x52_iff by (simp add: fe_val_nonneg_5x52)

lemma fe_norm_mag_5x52: "fe_norm_5x52 a \<Longrightarrow> fe_mag_5x52 1 a"
  unfolding fe_norm_5x52_iff fe_mag_5x52_iff by simp

interpretation f52: field_repr fe_ops_5x52 fe_abs_5x52 fe_mag_5x52 fe_norm_5x52
proof
  fix a b r :: fe_5x52 and m k i :: nat
  let ?F = fe_ops_5x52
  have m31: "fe_mag_5x52 31 a \<Longrightarrow> fe_mag_5x52 2047 a" for a by (erule fe_mag_5x52_mono) simp_all
  show "0 \<le> fe_abs_5x52 a" "fe_abs_5x52 a < secp_p" unfolding fe_abs_5x52_def by simp_all
  show "fe_mag_5x52 k a" if "fe_mag_5x52 m a" "m \<le> k" "k \<le> 31"
    using that by (auto elim: fe_mag_5x52_mono)
  show "fe_mag_5x52 1 a" if "fe_norm_5x52 a" using that by (rule fe_norm_mag_5x52)
  show "a = b" if "fe_norm_5x52 a" "fe_norm_5x52 b" "fe_abs_5x52 a = fe_abs_5x52 b"
    using that fe_norm_5x52_inject fe_norm_abs_5x52 by metis
  show n: "fe_norm_5x52 (fo_normalize ?F a) \<and> fe_abs_5x52 (fo_normalize ?F a) = fe_abs_5x52 a"
    if "fe_mag_5x52 31 a"
    using fe_normalize_5x52[OF m31[OF that]] by (simp add: fe_ops_5x52_def fe_abs_5x52_def)
  show "fe_mag_5x52 1 (fo_normalize_weak ?F a) \<and> fe_abs_5x52 (fo_normalize_weak ?F a) = fe_abs_5x52 a"
    if "fe_mag_5x52 31 a"
    using fe_normalize_weak_5x52[OF m31[OF that]] by (simp add: fe_ops_5x52_def fe_abs_5x52_def)
  show "fo_normalize_var ?F a = fo_normalize ?F a" if "fe_mag_5x52 31 a"
    using fe_normalize_var_5x52_eq[OF m31[OF that]] by (simp add: fe_ops_5x52_def)
  show "fo_normalizes_to_zero ?F a = (fe_abs_5x52 a = 0)"
    "fo_normalizes_to_zero_var ?F a = (fe_abs_5x52 a = 0)" if "fe_mag_5x52 31 a"
    using fe_normalizes_to_zero_5x52[OF m31[OF that]]
    by (simp_all add: fe_ops_5x52_def fe_abs_5x52_def fe_normalizes_to_zero_var_5x52_eq)
  show "fe_norm_5x52 (fo_set_int ?F i) \<and> fe_abs_5x52 (fo_set_int ?F i) = i" if "0 \<le> i" "i < 2 ^ 26" for i
    using fe_set_int_5x52_correct[of i] that fe_norm_abs_5x52 by (simp add: fe_ops_5x52_def)
  show "fe_norm_5x52 (fo_clear ?F a) \<and> fe_abs_5x52 (fo_clear ?F a) = 0"
    using fe_clear_5x52_correct[of a] by (simp add: fe_ops_5x52_def fe_abs_5x52_def)
  show "fo_is_zero ?F a = (fe_abs_5x52 a = 0)" "fo_is_odd ?F a = odd (fe_abs_5x52 a)"
    if "fe_norm_5x52 a"
    using fe_norm_abs_5x52[OF that] fe_is_zero_5x52_iff[of a] fe_is_odd_5x52_iff[of a]
    by (simp_all add: fe_ops_5x52_def)
  show "fo_cmp_var ?F a b = sgn (fe_abs_5x52 a - fe_abs_5x52 b)" if "fe_norm_5x52 a" "fe_norm_5x52 b"
    using that fe_norm_abs_5x52 fe_cmp_var_5x52_correct by (simp add: fe_ops_5x52_def)
  show "(ok \<longleftrightarrow> be_val bs < secp_p) \<and> (ok \<longrightarrow> fe_norm_5x52 r) \<and> fe_mag_5x52 1 r
      \<and> fe_abs_5x52 r = be_val bs mod secp_p" if "length bs = 32" "fo_set_b32 ?F bs = (r, ok)" for bs r ok
    using fe_set_b32_5x52_correct[of bs r ok] that by (simp add: fe_ops_5x52_def fe_abs_5x52_def)
  show "length (fo_get_b32 ?F a) = 32 \<and> be_val (fo_get_b32 ?F a) = fe_abs_5x52 a" if "fe_norm_5x52 a"
    using fe_get_b32_5x52_correct[OF that] fe_norm_abs_5x52[OF that] by (simp add: fe_ops_5x52_def)
  show "fe_mag_5x52 (m + 1) (fo_negate ?F a (int m)) \<and> fe_abs_5x52 (fo_negate ?F a (int m)) = (- fe_abs_5x52 a) mod secp_p"
    if "fe_mag_5x52 m a" "m \<le> 30"
    using fe_negate_5x52_correct[OF that(1)] that(2) by (simp add: fe_ops_5x52_def fe_abs_5x52_def mod_minus_eq)
  show "fe_mag_5x52 (m * i) (fo_mul_int ?F a (int i)) \<and> fe_abs_5x52 (fo_mul_int ?F a (int i)) = fe_abs_5x52 a * int i mod secp_p"
    if "fe_mag_5x52 m a" "i \<le> 31" "m * i \<le> 31"
    using fe_mul_int_5x52_correct[OF that(1), of i] that(2,3) by (simp add: fe_ops_5x52_def fe_abs_5x52_def mod_mult_left_eq)
  show "fe_mag_5x52 (m + k) (fo_add ?F a b) \<and> fe_abs_5x52 (fo_add ?F a b) = (fe_abs_5x52 a + fe_abs_5x52 b) mod secp_p"
    if "fe_mag_5x52 m a" "fe_mag_5x52 k b" "m + k \<le> 31"
    using fe_add_5x52_correct[OF that(1,2)] that(3) by (simp add: fe_ops_5x52_def fe_abs_5x52_def mod_add_eq)
  show "fe_mag_5x52 1 (fo_mul ?F a b) \<and> fe_abs_5x52 (fo_mul ?F a b) = fe_abs_5x52 a * fe_abs_5x52 b mod secp_p"
    if "fe_mag_5x52 8 a" "fe_mag_5x52 8 b"
    using fe_mul_5x52_correct[OF that] by (simp add: fe_ops_5x52_def fe_abs_5x52_def mod_mult_eq)
  show "fe_mag_5x52 1 (fo_sqr ?F a) \<and> fe_abs_5x52 (fo_sqr ?F a) = fe_abs_5x52 a * fe_abs_5x52 a mod secp_p"
    if "fe_mag_5x52 8 a"
    using fe_sqr_5x52_correct[OF that] by (simp add: fe_ops_5x52_def fe_abs_5x52_def mod_mult_eq)
  show "fo_from_storage ?F (fo_to_storage ?F a) = a" if "fe_norm_5x52 a"
    using fe_storage_roundtrip_5x52[OF that] by (simp add: fe_ops_5x52_def)
  show "fo_storage_cmov ?F s t 0 = s" "fo_storage_cmov ?F s t 1 = t" for s t by (simp_all add: fe_ops_5x52_def)
  show "fo_cmov ?F a b 0 = a" "fo_cmov ?F a b 1 = b" by (simp_all add: fe_ops_5x52_def)
  show "fe_norm_5x52 (fo_const ?F d7 d6 d5 d4 d3 d2 d1 d0)
      \<and> fe_abs_5x52 (fo_const ?F d7 d6 d5 d4 d3 d2 d1 d0) = digits_val d7 d6 d5 d4 d3 d2 d1 d0"
    if "digits_val d7 d6 d5 d4 d3 d2 d1 d0 < secp_p" for d7 d6 d5 d4 d3 d2 d1 d0
    using that fe_const_5x52_correct[of d7 d6 d5 d4 d3 d2 d1 d0] fe_norm_abs_5x52
    by (simp add: fe_ops_5x52_def digits_val_def)
qed

section \<open>Properties\<close>

text \<open>Elements at the largest magnitudes the properties allow.\<close>

definition fe_mag8_5x52 :: fe_5x52 where
  "fe_mag8_5x52 = fe_of_limbs_5x52 (0xFFFFFFFFFFFFF * 16, 0xFFFFFFFFFFFFF * 16, 0xFFFFFFFFFFFFF * 16,
     0xFFFFFFFFFFFFF * 16, 0x0FFFFFFFFFFFF * 16)"

definition fe_mag2040_5x52 :: fe_5x52 where
  "fe_mag2040_5x52 = fe_of_limbs_5x52 (0xFFFFFFFFFFFFF * 4080, 0xFFFFFFFFFFFFF * 4080,
     0xFFFFFFFFFFFFF * 4080, 0xFFFFFFFFFFFFF * 4080, 0x0FFFFFFFFFFFF * 4080)"

definition fe_mag2047_5x52 :: fe_5x52 where
  "fe_mag2047_5x52 = fe_of_limbs_5x52 (0xFFFFFFFFFFFFF * 4094, 0xFFFFFFFFFFFFF * 4094,
     0xFFFFFFFFFFFFF * 4094, 0xFFFFFFFFFFFFF * 4094, 0x0FFFFFFFFFFFF * 4094)"

text \<open>C2: the 52-bit multiplication kernel. For factors of magnitude at most 8 the 128-bit
  accumulators never wrap: the result has magnitude 1 and is congruent to the product modulo
  the field characteristic.\<close>

theorem fe_mul_5x52_spec:
  assumes "fe_verify_5x52 a 8 False" "fe_verify_5x52 b 8 False"
  shows "fe_verify_5x52 (fe_mul_5x52 a b) 1 False
    \<and> fe_val_5x52 (fe_mul_5x52 a b) mod secp_p = fe_val_5x52 a * fe_val_5x52 b mod secp_p"
  using fe_mul_5x52_correct[of a b] assms by (simp add: fe_mag_5x52_def)

theorem fe_mul_5x52_spec_witness:
  "fe_verify_5x52 fe_mag8_5x52 8 False \<and> fe_verify_5x52 (fe_mul_5x52 fe_mag8_5x52 fe_mag8_5x52) 1 False"
proof -
  have "fe_verify_5x52 fe_mag8_5x52 8 False" by code_simp
  then show ?thesis using fe_mul_5x52_spec[of fe_mag8_5x52 fe_mag8_5x52] by blast
qed

text \<open>C15: the squaring kernel agrees with the product of the element with itself, under the
  same magnitude bound.\<close>

theorem fe_sqr_5x52_spec:
  assumes "fe_verify_5x52 a 8 False"
  shows "fe_verify_5x52 (fe_sqr_5x52 a) 1 False
    \<and> fe_val_5x52 (fe_sqr_5x52 a) mod secp_p = fe_val_5x52 a * fe_val_5x52 a mod secp_p"
  using fe_sqr_5x52_correct[of a] assms by (simp add: fe_mag_5x52_def)

theorem fe_sqr_5x52_spec_witness:
  "fe_verify_5x52 fe_mag8_5x52 8 False \<and> fe_verify_5x52 (fe_sqr_5x52 fe_mag8_5x52) 1 False"
proof -
  have "fe_verify_5x52 fe_mag8_5x52 8 False" by code_simp
  then show ?thesis using fe_sqr_5x52_spec[of fe_mag8_5x52] by blast
qed

text \<open>C10: normalisation. For every magnitude up to 2047 both the constant-time and the
  variable-time routine return the unique normal form: five limbs in range whose value is the
  remainder modulo the field characteristic.\<close>

theorem fe_normalize_5x52_spec:
  assumes "fe_verify_5x52 a 2047 False"
  shows "fe_verify_5x52 (fe_normalize_5x52 a) 1 True
    \<and> fe_val_5x52 (fe_normalize_5x52 a) = fe_val_5x52 a mod secp_p
    \<and> fe_normalize_var_5x52 a = fe_normalize_5x52 a"
  using fe_normalize_5x52[of a] fe_normalize_var_5x52_eq[of a] assms
  by (simp add: fe_mag_5x52_def fe_norm_5x52_def)

theorem fe_normalize_5x52_spec_witness:
  "fe_verify_5x52 fe_mag2047_5x52 2047 False \<and> fe_verify_5x52 (fe_normalize_5x52 fe_mag2047_5x52) 1 True"
proof -
  have "fe_verify_5x52 fe_mag2047_5x52 2047 False" by code_simp
  then show ?thesis using fe_normalize_5x52_spec[of fe_mag2047_5x52] by blast
qed

text \<open>C17: the two zero tests, constant-time and variable-time, decide divisibility by the field
  characteristic without computing the normal form.\<close>

theorem fe_normalizes_to_zero_5x52_spec:
  assumes "fe_verify_5x52 a 2047 False"
  shows "(fe_normalizes_to_zero_5x52 a \<longleftrightarrow> secp_p dvd fe_val_5x52 a)
    \<and> (fe_normalizes_to_zero_var_5x52 a \<longleftrightarrow> secp_p dvd fe_val_5x52 a)"
  using fe_normalizes_to_zero_5x52[of a] assms
  by (simp add: fe_mag_5x52_def fe_normalizes_to_zero_var_5x52_eq dvd_eq_mod_eq_0)

theorem fe_normalizes_to_zero_5x52_spec_witness:
  "fe_verify_5x52 fe_mag2047_5x52 2047 False
    \<and> (fe_normalizes_to_zero_5x52 fe_mag2047_5x52 \<longleftrightarrow> secp_p dvd fe_val_5x52 fe_mag2047_5x52)"
proof -
  have "fe_verify_5x52 fe_mag2047_5x52 2047 False" by code_simp
  then show ?thesis using fe_normalizes_to_zero_5x52_spec[of fe_mag2047_5x52] by blast
qed

text \<open>C19: addition, multiplication by a small integer and negation are exact on the values and
  add up the magnitudes as the debug build declares.\<close>

theorem fe_linear_5x52_spec:
  assumes "fe_verify_5x52 a (int m) False" "fe_verify_5x52 b (int k) False"
    and "m + k \<le> 2048" "m * i \<le> 2048" "i \<le> 2048" "m \<le> 2047"
  shows "fe_verify_5x52 (fe_add_5x52 a b) (int (m + k)) False
    \<and> fe_val_5x52 (fe_add_5x52 a b) = fe_val_5x52 a + fe_val_5x52 b
    \<and> fe_verify_5x52 (fe_mul_int_5x52 a (int i)) (int (m * i)) False
    \<and> fe_val_5x52 (fe_mul_int_5x52 a (int i)) = fe_val_5x52 a * int i
    \<and> fe_verify_5x52 (fe_negate_5x52 a (int m)) (int (m + 1)) False
    \<and> fe_val_5x52 (fe_negate_5x52 a (int m)) mod secp_p = - fe_val_5x52 a mod secp_p"
  using fe_add_5x52_correct[of m a k b] fe_mul_int_5x52_correct[of m a i] fe_negate_5x52_correct[of m a] assms
  unfolding fe_mag_5x52_def by blast

theorem fe_linear_5x52_spec_witness:
  "fe_verify_5x52 fe_mag8_5x52 (int 8) False \<and> fe_verify_5x52 fe_mag2040_5x52 (int 2040) False
    \<and> fe_val_5x52 (fe_add_5x52 fe_mag8_5x52 fe_mag2040_5x52) = fe_val_5x52 fe_mag8_5x52 + fe_val_5x52 fe_mag2040_5x52
    \<and> fe_val_5x52 (fe_mul_int_5x52 fe_mag8_5x52 (int 256)) = fe_val_5x52 fe_mag8_5x52 * int 256
    \<and> fe_val_5x52 (fe_negate_5x52 fe_mag8_5x52 (int 8)) mod secp_p = - fe_val_5x52 fe_mag8_5x52 mod secp_p"
proof -
  have "fe_verify_5x52 fe_mag8_5x52 (int 8) False" "fe_verify_5x52 fe_mag2040_5x52 (int 2040) False"
    by code_simp+
  then show ?thesis using fe_linear_5x52_spec[of fe_mag8_5x52 8 fe_mag2040_5x52 2040 256] by simp
qed

text \<open>C20: serialisation. Parsing 32 bytes gives the element of that big-endian value and
  succeeds exactly below the field characteristic; printing a normalised element and parsing
  it back returns it, and parsing accepted bytes and printing returns the bytes.\<close>

theorem fe_b32_5x52_spec:
  assumes "length bs = 32" "fe_verify_5x52 a 1 True"
  shows "fe_val_5x52 (fst (fe_set_b32_5x52 bs)) = be_val bs
    \<and> (snd (fe_set_b32_5x52 bs) \<longleftrightarrow> be_val bs < secp_p)
    \<and> (be_val bs < secp_p \<longrightarrow> fe_get_b32_5x52 (fst (fe_set_b32_5x52 bs)) = bs)
    \<and> be_val (fe_get_b32_5x52 a) = fe_val_5x52 a
    \<and> fe_set_b32_5x52 (fe_get_b32_5x52 a) = (a, True)"
proof -
  obtain r ok where r: "fe_set_b32_5x52 bs = (r, ok)" by fastforce
  have a: "fe_norm_5x52 a" using assms(2) by (simp add: fe_norm_5x52_def)
  show ?thesis
    using fe_set_b32_5x52_correct[OF assms(1) r] fe_get_set_b32_5x52[OF assms(1), of r] r
      fe_get_b32_5x52_correct(2)[OF a] fe_b32_roundtrip_5x52[OF a] by auto
qed

theorem fe_b32_5x52_spec_witness:
  "fe_get_b32_5x52 (fst (fe_set_b32_5x52 (replicate 31 7 @ [9]))) = replicate 31 7 @ [9]
    \<and> fe_set_b32_5x52 (fe_get_b32_5x52 (fe_set_int_5x52 5)) = (fe_set_int_5x52 5, True)"
proof -
  have "fe_verify_5x52 (fe_set_int_5x52 5) 1 True" by code_simp
  moreover have "be_val (replicate 31 7 @ [9]) < secp_p" by code_simp
  ultimately show ?thesis
    using fe_b32_5x52_spec[of "replicate 31 7 @ [9]" "fe_set_int_5x52 5"] by simp
qed

text \<open>C22: the packed storage form of a normalised element unpacks to that element, and the
  comparison of normalised elements is the sign of the difference of their values.\<close>

theorem fe_storage_cmp_5x52_spec:
  assumes "fe_verify_5x52 a 1 True" "fe_verify_5x52 b 1 True"
  shows "fe_from_storage_5x52 (fe_to_storage_5x52 a) = a
    \<and> st_val_5x52 (fe_to_storage_5x52 a) = fe_val_5x52 a
    \<and> fe_cmp_var_5x52 a b = sgn (fe_val_5x52 a - fe_val_5x52 b)
    \<and> (fe_cmp_var_5x52 a b = 0 \<longleftrightarrow> a = b)"
proof -
  have n: "fe_norm_5x52 a" "fe_norm_5x52 b" using assms by (simp_all add: fe_norm_5x52_def)
  show ?thesis
    using fe_storage_roundtrip_5x52[OF n(1)] fe_to_storage_5x52_correct[OF n(1)]
      fe_cmp_var_5x52_correct[OF n] fe_norm_5x52_inject[OF n] by (simp add: sgn_0_0)
qed

theorem fe_storage_cmp_5x52_spec_witness:
  "fe_from_storage_5x52 (fe_to_storage_5x52 (fe_set_int_5x52 5)) = fe_set_int_5x52 5
    \<and> fe_cmp_var_5x52 (fe_set_int_5x52 5) (fe_set_int_5x52 6) = sgn (fe_val_5x52 (fe_set_int_5x52 5) - fe_val_5x52 (fe_set_int_5x52 6))"
proof -
  have "fe_verify_5x52 (fe_set_int_5x52 5) 1 True" "fe_verify_5x52 (fe_set_int_5x52 6) 1 True" by code_simp+
  then show ?thesis using fe_storage_cmp_5x52_spec[of "fe_set_int_5x52 5" "fe_set_int_5x52 6"] by blast
qed

text \<open>The bound of the debug predicate is not tight: it accepts magnitude 2048, but normalisation is not exact there: the
  first pass wraps at 64 bits and the result is not congruent to the argument.\<close>

lemma fe_verify_5x52_admits_wrap:
  "fe_verify_5x52 fe_overlimit_5x52 2048 False
    \<and> fe_val_5x52 (fe_normalize_5x52 fe_overlimit_5x52) \<noteq> fe_val_5x52 fe_overlimit_5x52 mod secp_p"
  by code_simp

end
