(* ===== verification/Primality.thy ===== *)
theory Primality
  imports Main
begin

text \<open>
  Prime numbers, the little theorem of Fermat and the criterion of Pocklington, from the
  divisibility theory of Main.  They are the base of the certificates for the two curve moduli.
\<close>

definition is_prime :: "nat \<Rightarrow> bool" where
  "is_prime p \<longleftrightarrow> 1 < p \<and> (\<forall>d. d dvd p \<longrightarrow> d = 1 \<or> d = p)"

lemma is_prime_gt_1: "is_prime p \<Longrightarrow> 1 < p"
  by (simp add: is_prime_def)

lemma is_prime_coprime: "is_prime p \<Longrightarrow> \<not> p dvd a \<Longrightarrow> coprime p a"
  unfolding is_prime_def coprime_iff_gcd_eq_1 by (metis gcd_dvd1 gcd_dvd2)

lemma is_prime_dvd_mult: "is_prime p \<Longrightarrow> p dvd a * b \<longleftrightarrow> p dvd a \<or> p dvd b"
  using is_prime_coprime coprime_dvd_mult_right_iff by (metis dvd_mult dvd_mult2)

lemma is_prime_dvd_prod:
  assumes "finite A" "is_prime p"
  shows "p dvd (\<Prod>k\<in>A. f k) \<longleftrightarrow> (\<exists>k\<in>A. p dvd f k)"
  using assms(1)
proof (induction A rule: finite_induct)
  case empty
  then show ?case using assms(2) by (auto simp: is_prime_def)
next
  case (insert k A)
  then show ?case by (simp add: is_prime_dvd_mult[OF assms(2)])
qed

lemma least_divisor:
  assumes "1 < n"
  obtains r where "is_prime r" "r dvd n" "r = n \<or> r * r \<le> n"
proof -
  define r where "r = (LEAST d. 1 < d \<and> d dvd n)"
  have r: "1 < r" "r dvd n" using LeastI[of "\<lambda>d. 1 < d \<and> d dvd n" n] assms by (simp_all add: r_def)
  have least: "r \<le> d" if "1 < d" "d dvd n" for d using that by (auto simp: r_def intro: Least_le)
  have "d = 1 \<or> d = r" if "d dvd r" for d
  proof -
    have "d \<le> r" "0 < d" using that r(1) by (auto intro: dvd_imp_le Nat.gr0I)
    then show ?thesis using least[of d] dvd_trans[OF that r(2)] by (cases "d = 1") auto
  qed
  then have "is_prime r" using r by (simp add: is_prime_def)
  moreover obtain s where s: "n = r * s" using r by blast
  have "r = n \<or> r * r \<le> n"
  proof (cases "s = 1")
    case False
    then have "1 < s" using s assms by (cases s) auto
    then show ?thesis using least[of s] s by (auto simp: mult_le_mono2)
  qed (use s in simp)
  ultimately show ?thesis using that r by blast
qed

section \<open>The little theorem of Fermat\<close>

lemma mod_mult_cancel:
  fixes a b c p :: nat
  assumes "coprime p c" "a * c mod p = b * c mod p"
  shows "a mod p = b mod p"
proof -
  have "int p dvd int c * (int a - int b)"
    using arg_cong[OF assms(2), of int] mod_eq_dvd_iff[of "int (a * c)" "int p" "int (b * c)"]
    by (simp add: zmod_int algebra_simps)
  then have "int p dvd int a - int b"
    using assms(1) coprime_dvd_mult_right_iff[of "int p" "int c"] by simp
  then have "int a mod int p = int b mod int p" by (simp add: mod_eq_dvd_iff)
  then show ?thesis by (simp flip: of_nat_mod)
qed

lemma mult_mod_permutes:
  assumes p: "is_prime p" and a: "\<not> p dvd a"
  shows "bij_betw (\<lambda>k. a * k mod p) {1..<p} {1..<p}"
proof -
  let ?f = "\<lambda>k. a * k mod p"
  have "inj_on ?f {1..<p}"
  proof (rule inj_onI)
    fix x y assume "x \<in> {1..<p}" "y \<in> {1..<p}" "?f x = ?f y"
    then show "x = y"
      using mod_mult_cancel[OF is_prime_coprime[OF p a], of x y] by (simp add: mult.commute)
  qed
  moreover have "?f ` {1..<p} \<subseteq> {1..<p}"
  proof safe
    fix k assume "k \<in> {1..<p}"
    then have "\<not> p dvd a * k" using p a is_prime_dvd_mult[OF p] by (auto dest: dvd_imp_le)
    then show "?f k \<in> {1..<p}" using p by (simp add: dvd_eq_mod_eq_0 is_prime_def)
  qed
  ultimately show ?thesis
    by (simp add: bij_betw_def endo_inj_surj)
qed

theorem fermat_little:
  assumes p: "is_prime p" and a: "\<not> p dvd a"
  shows "a ^ (p - 1) mod p = 1"
proof -
  let ?Q = "\<Prod>k\<in>{1..<p}. k"
  have "?Q mod p = (\<Prod>k\<in>{1..<p}. a * k mod p) mod p"
    using prod.reindex_bij_betw[OF mult_mod_permutes[OF assms], of "\<lambda>k. k"] by simp
  also have "\<dots> = (\<Prod>k\<in>{1..<p}. a * k) mod p" by (rule mod_prod_eq)
  also have "\<dots> = a ^ (p - 1) * ?Q mod p" by (simp only: prod.distrib prod_constant card_atLeastLessThan)
  finally have "a ^ (p - 1) * ?Q mod p = 1 * ?Q mod p" by simp
  moreover have "coprime p ?Q"
    using is_prime_coprime[OF p, of ?Q] is_prime_dvd_prod[of "{1..<p}" p "\<lambda>k. k", OF _ p]
    by (auto dest: dvd_imp_le)
  ultimately have "a ^ (p - 1) mod p = 1 mod p" by (rule mod_mult_cancel[rotated])
  then show ?thesis using p by (simp add: is_prime_def)
qed

section \<open>Pocklington's criterion\<close>

lemma prime_divides_order:
  assumes r: "is_prime r" and q: "is_prime q" and b: "b ^ q mod r = 1" "b mod r \<noteq> 1"
  shows "q dvd r - 1"
proof (rule ccontr)
  assume "\<not> q dvd r - 1"
  then have "coprime q (r - 1)" by (rule is_prime_coprime[OF q])
  then obtain x y where xy: "q * x = (r - 1) * y + 1"
    using bezout_nat[of q "r - 1"] is_prime_gt_1[OF q] by (auto simp: coprime_iff_gcd_eq_1)
  have "\<not> r dvd b"
  proof
    assume "r dvd b"
    then have "r dvd b ^ q" using is_prime_gt_1[OF q] by (simp add: dvd_power_same dvd_trans)
    then show False using b(1) by simp
  qed
  then have "b ^ (r - 1) mod r = 1" by (rule fermat_little[OF r])
  then have "(b ^ (r - 1)) ^ y mod r = 1 mod r" by (metis power_mod power_one)
  then have "(b ^ (r - 1)) ^ y * b mod r = 1 * b mod r" by (metis mod_mult_left_eq)
  then have "b ^ ((r - 1) * y + 1) mod r = b mod r"
    by (simp only: power_add power_mult power_one_right mult_1)
  moreover have "b ^ (q * x) mod r = 1 mod r" using b(1) by (metis power_mod power_mult power_one)
  ultimately show False using xy b(2) is_prime_gt_1[OF r] by simp
qed

definition pocklington_cond :: "nat \<Rightarrow> nat \<Rightarrow> nat \<Rightarrow> bool" where
  "pocklington_cond n a q \<longleftrightarrow>
     (\<exists>e c. n - 1 = q * e \<and> a ^ (n - 1) mod n = 1 \<and> a ^ e * c mod n = (c + 1) mod n)"

lemma pocklington_condI:
  "n - 1 = q * e \<Longrightarrow> a ^ (n - 1) mod n = 1 \<Longrightarrow> \<exists>c. a ^ e * c mod n = (c + 1) mod n \<Longrightarrow> pocklington_cond n a q"
  unfolding pocklington_cond_def by blast

lemma pocklington_cond_divisor:
  assumes c: "pocklington_cond n a q" and q: "is_prime q" and r: "is_prime r" "r dvd n"
  shows "q dvd r - 1"
proof -
  obtain e d where e: "n - 1 = q * e" and f: "a ^ (n - 1) mod n = 1" and d: "a ^ e * d mod n = (d + 1) mod n"
    using c unfolding pocklington_cond_def by blast
  let ?b = "a ^ e"
  have "?b ^ q mod r = a ^ (n - 1) mod n mod r"
    using r(2) unfolding e by (simp add: mod_mod_cancel power_mult[symmetric] mult.commute)
  then have b: "?b ^ q mod r = 1" using f is_prime_gt_1[OF r(1)] by simp
  have d: "?b * d mod r = (d + 1) mod r" using r(2) d by (metis mod_mod_cancel)
  have "?b mod r \<noteq> 1"
  proof
    assume "?b mod r = 1"
    then have "?b * d mod r = d mod r" by (metis mod_mult_left_eq mult_1)
    with d have "(d + 1) mod r = d mod r" by simp
    then have "r dvd 1" using mod_eq_dvd_iff_nat[of d "d + 1" r] by simp
    then show False using is_prime_gt_1[OF r(1)] by simp
  qed
  with b show ?thesis by (rule prime_divides_order[OF r(1) q])
qed

lemma distinct_primes_dvd:
  assumes "distinct qs" "\<forall>q\<in>set qs. is_prime q \<and> q dvd m"
  shows "prod_list qs dvd m"
  using assms
proof (induction qs)
  case (Cons q qs)
  have "\<not> q dvd prod_list qs"
  proof -
    have "\<not> q dvd x" if "x \<in> set qs" for x
      using Cons.prems that by (auto simp: is_prime_def)
    then show ?thesis using Cons.prems(2) by (induction qs) (auto simp: is_prime_dvd_mult is_prime_def)
  qed
  then have "coprime q (prod_list qs)" using Cons.prems by (simp add: is_prime_coprime)
  then show ?case using Cons by (simp add: divides_mult)
qed simp

theorem pocklington:
  assumes n: "1 < n" and qs: "distinct qs" "\<forall>q\<in>set qs. is_prime q \<and> pocklington_cond n a q"
    and F: "n < (prod_list qs + 1) * (prod_list qs + 1)"
  shows "is_prime n"
proof -
  obtain r where r: "is_prime r" "r dvd n" "r = n \<or> r * r \<le> n" using least_divisor[OF n] .
  have "prod_list qs dvd r - 1"
    using qs pocklington_cond_divisor[OF _ _ r(1,2)] by (intro distinct_primes_dvd) blast+
  then have "prod_list qs + 1 \<le> r" using is_prime_gt_1[OF r(1)] dvd_imp_le[of "prod_list qs" "r - 1"] by linarith
  then have "(prod_list qs + 1) * (prod_list qs + 1) \<le> r * r" by (intro mult_le_mono)
  then show ?thesis using r F by auto
qed

text \<open>Small primes by trial division.\<close>

lemma is_prime_trial:
  assumes "1 < n" "list_all (\<lambda>d. n mod d \<noteq> 0) [2..<m]" "n < m * m"
  shows "is_prime n"
proof -
  obtain r where r: "is_prime r" "r dvd n" "r = n \<or> r * r \<le> n" using least_divisor[OF assms(1)] .
  have "r < m" if "r * r \<le> n"
    using that assms(3) mult_le_mono[of m r m r] by linarith
  moreover have "n mod r \<noteq> 0" if "r < m"
    using that assms(2) is_prime_gt_1[OF r(1)] by (simp add: list_all_iff)
  ultimately have "r = n" using r(2,3) by (auto simp: dvd_eq_mod_eq_0)
  then show ?thesis using r(1) by simp
qed

end
