(* ===== verification/Nibble_Arith.thy ===== *)
theory Nibble_Arith
  imports Primality
begin

text \<open>
  Arithmetic on lists of hexadecimal digits, least significant digit first, by tables.  The
  simplifier evaluates it fast enough to raise a number to a 256-bit power modulo a 256-bit
  modulus, which the primality certificates of the two curve moduli need.  Products are
  Montgomery products: one digit of the multiplier at a time, with a multiple of the modulus
  added so that the lowest digit can be dropped.
\<close>

section \<open>Digits\<close>

datatype nib = X0 | X1 | X2 | X3 | X4 | X5 | X6 | X7 | X8 | X9 | XA | XB | XC | XD | XE | XF

datatype digits = E | C nib digits

primrec nval :: "nib \<Rightarrow> nat" where
  "nval X0 = 0"
| "nval X1 = 1"
| "nval X2 = 2"
| "nval X3 = 3"
| "nval X4 = 4"
| "nval X5 = 5"
| "nval X6 = 6"
| "nval X7 = 7"
| "nval X8 = 8"
| "nval X9 = 9"
| "nval XA = 10"
| "nval XB = 11"
| "nval XC = 12"
| "nval XD = 13"
| "nval XE = 14"
| "nval XF = 15"

primrec dval :: "digits \<Rightarrow> nat" where
  "dval E = 0"
| "dval (C d ds) = nval d + 16 * dval ds"

definition nib_of :: "nat \<Rightarrow> nib" where
  "nib_of k = [X0, X1, X2, X3, X4, X5, X6, X7, X8, X9, XA, XB, XC, XD, XE, XF] ! (k mod 16)"

lemma nval_less: "nval d < 16"
  by (cases d) simp_all

lemma nval_nib_of: "nval (nib_of k) = k mod 16"
proof -
  have "k mod 16 \<in> set [0..<16]" by simp
  then show ?thesis unfolding nib_of_def by (auto simp: upt_rec)
qed

section \<open>Addition\<close>

text \<open>Addition with a carry, and its table for the two carries.\<close>

fun addc :: "nat \<Rightarrow> digits \<Rightarrow> digits \<Rightarrow> digits" where
  "addc c E E = (if c = 0 then E else C (nib_of c) E)"
| "addc c (C x xs) E = (if c = 0 then C x xs else C (nib_of (nval x + c)) (addc ((nval x + c) div 16) xs E))"
| "addc c E (C y ys) = (if c = 0 then C y ys else C (nib_of (nval y + c)) (addc ((nval y + c) div 16) E ys))"
| "addc c (C x xs) (C y ys) =
    C (nib_of (nval x + nval y + c)) (addc ((nval x + nval y + c) div 16) xs ys)"

lemma dval_addc: "c < 16 \<Longrightarrow> dval (addc c xs ys) = c + dval xs + dval ys"
proof (induction c xs ys rule: addc.induct)
  case (2 c x xs)
  then show ?case using nval_less[of x] by (auto simp: nval_nib_of)
next
  case (3 c y ys)
  then show ?case using nval_less[of y] by (auto simp: nval_nib_of)
next
  case (4 c x xs y ys)
  then have "(nval x + nval y + c) div 16 < 16" using nval_less[of x] nval_less[of y] by simp
  with 4 show ?case by (simp add: nval_nib_of)
qed (simp_all add: nval_nib_of)

definition add0 :: "digits \<Rightarrow> digits \<Rightarrow> digits" where
  "add0 xs ys = addc 0 xs ys"

definition add1 :: "digits \<Rightarrow> digits \<Rightarrow> digits" where
  "add1 xs ys = addc (Suc 0) xs ys"

lemma dval_add0 [simp]: "dval (add0 xs ys) = dval xs + dval ys"
  by (simp add: add0_def dval_addc)

lemma add_table:
  "add0 (C X0 x) (C X0 y) = C X0 (add0 x y)" "add0 (C X0 x) (C X1 y) = C X1 (add0 x y)"
  "add0 (C X0 x) (C X2 y) = C X2 (add0 x y)" "add0 (C X0 x) (C X3 y) = C X3 (add0 x y)"
  "add0 (C X0 x) (C X4 y) = C X4 (add0 x y)" "add0 (C X0 x) (C X5 y) = C X5 (add0 x y)"
  "add0 (C X0 x) (C X6 y) = C X6 (add0 x y)" "add0 (C X0 x) (C X7 y) = C X7 (add0 x y)"
  "add0 (C X0 x) (C X8 y) = C X8 (add0 x y)" "add0 (C X0 x) (C X9 y) = C X9 (add0 x y)"
  "add0 (C X0 x) (C XA y) = C XA (add0 x y)" "add0 (C X0 x) (C XB y) = C XB (add0 x y)"
  "add0 (C X0 x) (C XC y) = C XC (add0 x y)" "add0 (C X0 x) (C XD y) = C XD (add0 x y)"
  "add0 (C X0 x) (C XE y) = C XE (add0 x y)" "add0 (C X0 x) (C XF y) = C XF (add0 x y)"
  "add0 (C X1 x) (C X0 y) = C X1 (add0 x y)" "add0 (C X1 x) (C X1 y) = C X2 (add0 x y)"
  "add0 (C X1 x) (C X2 y) = C X3 (add0 x y)" "add0 (C X1 x) (C X3 y) = C X4 (add0 x y)"
  "add0 (C X1 x) (C X4 y) = C X5 (add0 x y)" "add0 (C X1 x) (C X5 y) = C X6 (add0 x y)"
  "add0 (C X1 x) (C X6 y) = C X7 (add0 x y)" "add0 (C X1 x) (C X7 y) = C X8 (add0 x y)"
  "add0 (C X1 x) (C X8 y) = C X9 (add0 x y)" "add0 (C X1 x) (C X9 y) = C XA (add0 x y)"
  "add0 (C X1 x) (C XA y) = C XB (add0 x y)" "add0 (C X1 x) (C XB y) = C XC (add0 x y)"
  "add0 (C X1 x) (C XC y) = C XD (add0 x y)" "add0 (C X1 x) (C XD y) = C XE (add0 x y)"
  "add0 (C X1 x) (C XE y) = C XF (add0 x y)" "add0 (C X1 x) (C XF y) = C X0 (add1 x y)"
  "add0 (C X2 x) (C X0 y) = C X2 (add0 x y)" "add0 (C X2 x) (C X1 y) = C X3 (add0 x y)"
  "add0 (C X2 x) (C X2 y) = C X4 (add0 x y)" "add0 (C X2 x) (C X3 y) = C X5 (add0 x y)"
  "add0 (C X2 x) (C X4 y) = C X6 (add0 x y)" "add0 (C X2 x) (C X5 y) = C X7 (add0 x y)"
  "add0 (C X2 x) (C X6 y) = C X8 (add0 x y)" "add0 (C X2 x) (C X7 y) = C X9 (add0 x y)"
  "add0 (C X2 x) (C X8 y) = C XA (add0 x y)" "add0 (C X2 x) (C X9 y) = C XB (add0 x y)"
  "add0 (C X2 x) (C XA y) = C XC (add0 x y)" "add0 (C X2 x) (C XB y) = C XD (add0 x y)"
  "add0 (C X2 x) (C XC y) = C XE (add0 x y)" "add0 (C X2 x) (C XD y) = C XF (add0 x y)"
  "add0 (C X2 x) (C XE y) = C X0 (add1 x y)" "add0 (C X2 x) (C XF y) = C X1 (add1 x y)"
  "add0 (C X3 x) (C X0 y) = C X3 (add0 x y)" "add0 (C X3 x) (C X1 y) = C X4 (add0 x y)"
  "add0 (C X3 x) (C X2 y) = C X5 (add0 x y)" "add0 (C X3 x) (C X3 y) = C X6 (add0 x y)"
  "add0 (C X3 x) (C X4 y) = C X7 (add0 x y)" "add0 (C X3 x) (C X5 y) = C X8 (add0 x y)"
  "add0 (C X3 x) (C X6 y) = C X9 (add0 x y)" "add0 (C X3 x) (C X7 y) = C XA (add0 x y)"
  "add0 (C X3 x) (C X8 y) = C XB (add0 x y)" "add0 (C X3 x) (C X9 y) = C XC (add0 x y)"
  "add0 (C X3 x) (C XA y) = C XD (add0 x y)" "add0 (C X3 x) (C XB y) = C XE (add0 x y)"
  "add0 (C X3 x) (C XC y) = C XF (add0 x y)" "add0 (C X3 x) (C XD y) = C X0 (add1 x y)"
  "add0 (C X3 x) (C XE y) = C X1 (add1 x y)" "add0 (C X3 x) (C XF y) = C X2 (add1 x y)"
  "add0 (C X4 x) (C X0 y) = C X4 (add0 x y)" "add0 (C X4 x) (C X1 y) = C X5 (add0 x y)"
  "add0 (C X4 x) (C X2 y) = C X6 (add0 x y)" "add0 (C X4 x) (C X3 y) = C X7 (add0 x y)"
  "add0 (C X4 x) (C X4 y) = C X8 (add0 x y)" "add0 (C X4 x) (C X5 y) = C X9 (add0 x y)"
  "add0 (C X4 x) (C X6 y) = C XA (add0 x y)" "add0 (C X4 x) (C X7 y) = C XB (add0 x y)"
  "add0 (C X4 x) (C X8 y) = C XC (add0 x y)" "add0 (C X4 x) (C X9 y) = C XD (add0 x y)"
  "add0 (C X4 x) (C XA y) = C XE (add0 x y)" "add0 (C X4 x) (C XB y) = C XF (add0 x y)"
  "add0 (C X4 x) (C XC y) = C X0 (add1 x y)" "add0 (C X4 x) (C XD y) = C X1 (add1 x y)"
  "add0 (C X4 x) (C XE y) = C X2 (add1 x y)" "add0 (C X4 x) (C XF y) = C X3 (add1 x y)"
  "add0 (C X5 x) (C X0 y) = C X5 (add0 x y)" "add0 (C X5 x) (C X1 y) = C X6 (add0 x y)"
  "add0 (C X5 x) (C X2 y) = C X7 (add0 x y)" "add0 (C X5 x) (C X3 y) = C X8 (add0 x y)"
  "add0 (C X5 x) (C X4 y) = C X9 (add0 x y)" "add0 (C X5 x) (C X5 y) = C XA (add0 x y)"
  "add0 (C X5 x) (C X6 y) = C XB (add0 x y)" "add0 (C X5 x) (C X7 y) = C XC (add0 x y)"
  "add0 (C X5 x) (C X8 y) = C XD (add0 x y)" "add0 (C X5 x) (C X9 y) = C XE (add0 x y)"
  "add0 (C X5 x) (C XA y) = C XF (add0 x y)" "add0 (C X5 x) (C XB y) = C X0 (add1 x y)"
  "add0 (C X5 x) (C XC y) = C X1 (add1 x y)" "add0 (C X5 x) (C XD y) = C X2 (add1 x y)"
  "add0 (C X5 x) (C XE y) = C X3 (add1 x y)" "add0 (C X5 x) (C XF y) = C X4 (add1 x y)"
  "add0 (C X6 x) (C X0 y) = C X6 (add0 x y)" "add0 (C X6 x) (C X1 y) = C X7 (add0 x y)"
  "add0 (C X6 x) (C X2 y) = C X8 (add0 x y)" "add0 (C X6 x) (C X3 y) = C X9 (add0 x y)"
  "add0 (C X6 x) (C X4 y) = C XA (add0 x y)" "add0 (C X6 x) (C X5 y) = C XB (add0 x y)"
  "add0 (C X6 x) (C X6 y) = C XC (add0 x y)" "add0 (C X6 x) (C X7 y) = C XD (add0 x y)"
  "add0 (C X6 x) (C X8 y) = C XE (add0 x y)" "add0 (C X6 x) (C X9 y) = C XF (add0 x y)"
  "add0 (C X6 x) (C XA y) = C X0 (add1 x y)" "add0 (C X6 x) (C XB y) = C X1 (add1 x y)"
  "add0 (C X6 x) (C XC y) = C X2 (add1 x y)" "add0 (C X6 x) (C XD y) = C X3 (add1 x y)"
  "add0 (C X6 x) (C XE y) = C X4 (add1 x y)" "add0 (C X6 x) (C XF y) = C X5 (add1 x y)"
  "add0 (C X7 x) (C X0 y) = C X7 (add0 x y)" "add0 (C X7 x) (C X1 y) = C X8 (add0 x y)"
  "add0 (C X7 x) (C X2 y) = C X9 (add0 x y)" "add0 (C X7 x) (C X3 y) = C XA (add0 x y)"
  "add0 (C X7 x) (C X4 y) = C XB (add0 x y)" "add0 (C X7 x) (C X5 y) = C XC (add0 x y)"
  "add0 (C X7 x) (C X6 y) = C XD (add0 x y)" "add0 (C X7 x) (C X7 y) = C XE (add0 x y)"
  "add0 (C X7 x) (C X8 y) = C XF (add0 x y)" "add0 (C X7 x) (C X9 y) = C X0 (add1 x y)"
  "add0 (C X7 x) (C XA y) = C X1 (add1 x y)" "add0 (C X7 x) (C XB y) = C X2 (add1 x y)"
  "add0 (C X7 x) (C XC y) = C X3 (add1 x y)" "add0 (C X7 x) (C XD y) = C X4 (add1 x y)"
  "add0 (C X7 x) (C XE y) = C X5 (add1 x y)" "add0 (C X7 x) (C XF y) = C X6 (add1 x y)"
  "add0 (C X8 x) (C X0 y) = C X8 (add0 x y)" "add0 (C X8 x) (C X1 y) = C X9 (add0 x y)"
  "add0 (C X8 x) (C X2 y) = C XA (add0 x y)" "add0 (C X8 x) (C X3 y) = C XB (add0 x y)"
  "add0 (C X8 x) (C X4 y) = C XC (add0 x y)" "add0 (C X8 x) (C X5 y) = C XD (add0 x y)"
  "add0 (C X8 x) (C X6 y) = C XE (add0 x y)" "add0 (C X8 x) (C X7 y) = C XF (add0 x y)"
  "add0 (C X8 x) (C X8 y) = C X0 (add1 x y)" "add0 (C X8 x) (C X9 y) = C X1 (add1 x y)"
  "add0 (C X8 x) (C XA y) = C X2 (add1 x y)" "add0 (C X8 x) (C XB y) = C X3 (add1 x y)"
  "add0 (C X8 x) (C XC y) = C X4 (add1 x y)" "add0 (C X8 x) (C XD y) = C X5 (add1 x y)"
  "add0 (C X8 x) (C XE y) = C X6 (add1 x y)" "add0 (C X8 x) (C XF y) = C X7 (add1 x y)"
  "add0 (C X9 x) (C X0 y) = C X9 (add0 x y)" "add0 (C X9 x) (C X1 y) = C XA (add0 x y)"
  "add0 (C X9 x) (C X2 y) = C XB (add0 x y)" "add0 (C X9 x) (C X3 y) = C XC (add0 x y)"
  "add0 (C X9 x) (C X4 y) = C XD (add0 x y)" "add0 (C X9 x) (C X5 y) = C XE (add0 x y)"
  "add0 (C X9 x) (C X6 y) = C XF (add0 x y)" "add0 (C X9 x) (C X7 y) = C X0 (add1 x y)"
  "add0 (C X9 x) (C X8 y) = C X1 (add1 x y)" "add0 (C X9 x) (C X9 y) = C X2 (add1 x y)"
  "add0 (C X9 x) (C XA y) = C X3 (add1 x y)" "add0 (C X9 x) (C XB y) = C X4 (add1 x y)"
  "add0 (C X9 x) (C XC y) = C X5 (add1 x y)" "add0 (C X9 x) (C XD y) = C X6 (add1 x y)"
  "add0 (C X9 x) (C XE y) = C X7 (add1 x y)" "add0 (C X9 x) (C XF y) = C X8 (add1 x y)"
  "add0 (C XA x) (C X0 y) = C XA (add0 x y)" "add0 (C XA x) (C X1 y) = C XB (add0 x y)"
  "add0 (C XA x) (C X2 y) = C XC (add0 x y)" "add0 (C XA x) (C X3 y) = C XD (add0 x y)"
  "add0 (C XA x) (C X4 y) = C XE (add0 x y)" "add0 (C XA x) (C X5 y) = C XF (add0 x y)"
  "add0 (C XA x) (C X6 y) = C X0 (add1 x y)" "add0 (C XA x) (C X7 y) = C X1 (add1 x y)"
  "add0 (C XA x) (C X8 y) = C X2 (add1 x y)" "add0 (C XA x) (C X9 y) = C X3 (add1 x y)"
  "add0 (C XA x) (C XA y) = C X4 (add1 x y)" "add0 (C XA x) (C XB y) = C X5 (add1 x y)"
  "add0 (C XA x) (C XC y) = C X6 (add1 x y)" "add0 (C XA x) (C XD y) = C X7 (add1 x y)"
  "add0 (C XA x) (C XE y) = C X8 (add1 x y)" "add0 (C XA x) (C XF y) = C X9 (add1 x y)"
  "add0 (C XB x) (C X0 y) = C XB (add0 x y)" "add0 (C XB x) (C X1 y) = C XC (add0 x y)"
  "add0 (C XB x) (C X2 y) = C XD (add0 x y)" "add0 (C XB x) (C X3 y) = C XE (add0 x y)"
  "add0 (C XB x) (C X4 y) = C XF (add0 x y)" "add0 (C XB x) (C X5 y) = C X0 (add1 x y)"
  "add0 (C XB x) (C X6 y) = C X1 (add1 x y)" "add0 (C XB x) (C X7 y) = C X2 (add1 x y)"
  "add0 (C XB x) (C X8 y) = C X3 (add1 x y)" "add0 (C XB x) (C X9 y) = C X4 (add1 x y)"
  "add0 (C XB x) (C XA y) = C X5 (add1 x y)" "add0 (C XB x) (C XB y) = C X6 (add1 x y)"
  "add0 (C XB x) (C XC y) = C X7 (add1 x y)" "add0 (C XB x) (C XD y) = C X8 (add1 x y)"
  "add0 (C XB x) (C XE y) = C X9 (add1 x y)" "add0 (C XB x) (C XF y) = C XA (add1 x y)"
  "add0 (C XC x) (C X0 y) = C XC (add0 x y)" "add0 (C XC x) (C X1 y) = C XD (add0 x y)"
  "add0 (C XC x) (C X2 y) = C XE (add0 x y)" "add0 (C XC x) (C X3 y) = C XF (add0 x y)"
  "add0 (C XC x) (C X4 y) = C X0 (add1 x y)" "add0 (C XC x) (C X5 y) = C X1 (add1 x y)"
  "add0 (C XC x) (C X6 y) = C X2 (add1 x y)" "add0 (C XC x) (C X7 y) = C X3 (add1 x y)"
  "add0 (C XC x) (C X8 y) = C X4 (add1 x y)" "add0 (C XC x) (C X9 y) = C X5 (add1 x y)"
  "add0 (C XC x) (C XA y) = C X6 (add1 x y)" "add0 (C XC x) (C XB y) = C X7 (add1 x y)"
  "add0 (C XC x) (C XC y) = C X8 (add1 x y)" "add0 (C XC x) (C XD y) = C X9 (add1 x y)"
  "add0 (C XC x) (C XE y) = C XA (add1 x y)" "add0 (C XC x) (C XF y) = C XB (add1 x y)"
  "add0 (C XD x) (C X0 y) = C XD (add0 x y)" "add0 (C XD x) (C X1 y) = C XE (add0 x y)"
  "add0 (C XD x) (C X2 y) = C XF (add0 x y)" "add0 (C XD x) (C X3 y) = C X0 (add1 x y)"
  "add0 (C XD x) (C X4 y) = C X1 (add1 x y)" "add0 (C XD x) (C X5 y) = C X2 (add1 x y)"
  "add0 (C XD x) (C X6 y) = C X3 (add1 x y)" "add0 (C XD x) (C X7 y) = C X4 (add1 x y)"
  "add0 (C XD x) (C X8 y) = C X5 (add1 x y)" "add0 (C XD x) (C X9 y) = C X6 (add1 x y)"
  "add0 (C XD x) (C XA y) = C X7 (add1 x y)" "add0 (C XD x) (C XB y) = C X8 (add1 x y)"
  "add0 (C XD x) (C XC y) = C X9 (add1 x y)" "add0 (C XD x) (C XD y) = C XA (add1 x y)"
  "add0 (C XD x) (C XE y) = C XB (add1 x y)" "add0 (C XD x) (C XF y) = C XC (add1 x y)"
  "add0 (C XE x) (C X0 y) = C XE (add0 x y)" "add0 (C XE x) (C X1 y) = C XF (add0 x y)"
  "add0 (C XE x) (C X2 y) = C X0 (add1 x y)" "add0 (C XE x) (C X3 y) = C X1 (add1 x y)"
  "add0 (C XE x) (C X4 y) = C X2 (add1 x y)" "add0 (C XE x) (C X5 y) = C X3 (add1 x y)"
  "add0 (C XE x) (C X6 y) = C X4 (add1 x y)" "add0 (C XE x) (C X7 y) = C X5 (add1 x y)"
  "add0 (C XE x) (C X8 y) = C X6 (add1 x y)" "add0 (C XE x) (C X9 y) = C X7 (add1 x y)"
  "add0 (C XE x) (C XA y) = C X8 (add1 x y)" "add0 (C XE x) (C XB y) = C X9 (add1 x y)"
  "add0 (C XE x) (C XC y) = C XA (add1 x y)" "add0 (C XE x) (C XD y) = C XB (add1 x y)"
  "add0 (C XE x) (C XE y) = C XC (add1 x y)" "add0 (C XE x) (C XF y) = C XD (add1 x y)"
  "add0 (C XF x) (C X0 y) = C XF (add0 x y)" "add0 (C XF x) (C X1 y) = C X0 (add1 x y)"
  "add0 (C XF x) (C X2 y) = C X1 (add1 x y)" "add0 (C XF x) (C X3 y) = C X2 (add1 x y)"
  "add0 (C XF x) (C X4 y) = C X3 (add1 x y)" "add0 (C XF x) (C X5 y) = C X4 (add1 x y)"
  "add0 (C XF x) (C X6 y) = C X5 (add1 x y)" "add0 (C XF x) (C X7 y) = C X6 (add1 x y)"
  "add0 (C XF x) (C X8 y) = C X7 (add1 x y)" "add0 (C XF x) (C X9 y) = C X8 (add1 x y)"
  "add0 (C XF x) (C XA y) = C X9 (add1 x y)" "add0 (C XF x) (C XB y) = C XA (add1 x y)"
  "add0 (C XF x) (C XC y) = C XB (add1 x y)" "add0 (C XF x) (C XD y) = C XC (add1 x y)"
  "add0 (C XF x) (C XE y) = C XD (add1 x y)" "add0 (C XF x) (C XF y) = C XE (add1 x y)"
  "add1 (C X0 x) (C X0 y) = C X1 (add0 x y)" "add1 (C X0 x) (C X1 y) = C X2 (add0 x y)"
  "add1 (C X0 x) (C X2 y) = C X3 (add0 x y)" "add1 (C X0 x) (C X3 y) = C X4 (add0 x y)"
  "add1 (C X0 x) (C X4 y) = C X5 (add0 x y)" "add1 (C X0 x) (C X5 y) = C X6 (add0 x y)"
  "add1 (C X0 x) (C X6 y) = C X7 (add0 x y)" "add1 (C X0 x) (C X7 y) = C X8 (add0 x y)"
  "add1 (C X0 x) (C X8 y) = C X9 (add0 x y)" "add1 (C X0 x) (C X9 y) = C XA (add0 x y)"
  "add1 (C X0 x) (C XA y) = C XB (add0 x y)" "add1 (C X0 x) (C XB y) = C XC (add0 x y)"
  "add1 (C X0 x) (C XC y) = C XD (add0 x y)" "add1 (C X0 x) (C XD y) = C XE (add0 x y)"
  "add1 (C X0 x) (C XE y) = C XF (add0 x y)" "add1 (C X0 x) (C XF y) = C X0 (add1 x y)"
  "add1 (C X1 x) (C X0 y) = C X2 (add0 x y)" "add1 (C X1 x) (C X1 y) = C X3 (add0 x y)"
  "add1 (C X1 x) (C X2 y) = C X4 (add0 x y)" "add1 (C X1 x) (C X3 y) = C X5 (add0 x y)"
  "add1 (C X1 x) (C X4 y) = C X6 (add0 x y)" "add1 (C X1 x) (C X5 y) = C X7 (add0 x y)"
  "add1 (C X1 x) (C X6 y) = C X8 (add0 x y)" "add1 (C X1 x) (C X7 y) = C X9 (add0 x y)"
  "add1 (C X1 x) (C X8 y) = C XA (add0 x y)" "add1 (C X1 x) (C X9 y) = C XB (add0 x y)"
  "add1 (C X1 x) (C XA y) = C XC (add0 x y)" "add1 (C X1 x) (C XB y) = C XD (add0 x y)"
  "add1 (C X1 x) (C XC y) = C XE (add0 x y)" "add1 (C X1 x) (C XD y) = C XF (add0 x y)"
  "add1 (C X1 x) (C XE y) = C X0 (add1 x y)" "add1 (C X1 x) (C XF y) = C X1 (add1 x y)"
  "add1 (C X2 x) (C X0 y) = C X3 (add0 x y)" "add1 (C X2 x) (C X1 y) = C X4 (add0 x y)"
  "add1 (C X2 x) (C X2 y) = C X5 (add0 x y)" "add1 (C X2 x) (C X3 y) = C X6 (add0 x y)"
  "add1 (C X2 x) (C X4 y) = C X7 (add0 x y)" "add1 (C X2 x) (C X5 y) = C X8 (add0 x y)"
  "add1 (C X2 x) (C X6 y) = C X9 (add0 x y)" "add1 (C X2 x) (C X7 y) = C XA (add0 x y)"
  "add1 (C X2 x) (C X8 y) = C XB (add0 x y)" "add1 (C X2 x) (C X9 y) = C XC (add0 x y)"
  "add1 (C X2 x) (C XA y) = C XD (add0 x y)" "add1 (C X2 x) (C XB y) = C XE (add0 x y)"
  "add1 (C X2 x) (C XC y) = C XF (add0 x y)" "add1 (C X2 x) (C XD y) = C X0 (add1 x y)"
  "add1 (C X2 x) (C XE y) = C X1 (add1 x y)" "add1 (C X2 x) (C XF y) = C X2 (add1 x y)"
  "add1 (C X3 x) (C X0 y) = C X4 (add0 x y)" "add1 (C X3 x) (C X1 y) = C X5 (add0 x y)"
  "add1 (C X3 x) (C X2 y) = C X6 (add0 x y)" "add1 (C X3 x) (C X3 y) = C X7 (add0 x y)"
  "add1 (C X3 x) (C X4 y) = C X8 (add0 x y)" "add1 (C X3 x) (C X5 y) = C X9 (add0 x y)"
  "add1 (C X3 x) (C X6 y) = C XA (add0 x y)" "add1 (C X3 x) (C X7 y) = C XB (add0 x y)"
  "add1 (C X3 x) (C X8 y) = C XC (add0 x y)" "add1 (C X3 x) (C X9 y) = C XD (add0 x y)"
  "add1 (C X3 x) (C XA y) = C XE (add0 x y)" "add1 (C X3 x) (C XB y) = C XF (add0 x y)"
  "add1 (C X3 x) (C XC y) = C X0 (add1 x y)" "add1 (C X3 x) (C XD y) = C X1 (add1 x y)"
  "add1 (C X3 x) (C XE y) = C X2 (add1 x y)" "add1 (C X3 x) (C XF y) = C X3 (add1 x y)"
  "add1 (C X4 x) (C X0 y) = C X5 (add0 x y)" "add1 (C X4 x) (C X1 y) = C X6 (add0 x y)"
  "add1 (C X4 x) (C X2 y) = C X7 (add0 x y)" "add1 (C X4 x) (C X3 y) = C X8 (add0 x y)"
  "add1 (C X4 x) (C X4 y) = C X9 (add0 x y)" "add1 (C X4 x) (C X5 y) = C XA (add0 x y)"
  "add1 (C X4 x) (C X6 y) = C XB (add0 x y)" "add1 (C X4 x) (C X7 y) = C XC (add0 x y)"
  "add1 (C X4 x) (C X8 y) = C XD (add0 x y)" "add1 (C X4 x) (C X9 y) = C XE (add0 x y)"
  "add1 (C X4 x) (C XA y) = C XF (add0 x y)" "add1 (C X4 x) (C XB y) = C X0 (add1 x y)"
  "add1 (C X4 x) (C XC y) = C X1 (add1 x y)" "add1 (C X4 x) (C XD y) = C X2 (add1 x y)"
  "add1 (C X4 x) (C XE y) = C X3 (add1 x y)" "add1 (C X4 x) (C XF y) = C X4 (add1 x y)"
  "add1 (C X5 x) (C X0 y) = C X6 (add0 x y)" "add1 (C X5 x) (C X1 y) = C X7 (add0 x y)"
  "add1 (C X5 x) (C X2 y) = C X8 (add0 x y)" "add1 (C X5 x) (C X3 y) = C X9 (add0 x y)"
  "add1 (C X5 x) (C X4 y) = C XA (add0 x y)" "add1 (C X5 x) (C X5 y) = C XB (add0 x y)"
  "add1 (C X5 x) (C X6 y) = C XC (add0 x y)" "add1 (C X5 x) (C X7 y) = C XD (add0 x y)"
  "add1 (C X5 x) (C X8 y) = C XE (add0 x y)" "add1 (C X5 x) (C X9 y) = C XF (add0 x y)"
  "add1 (C X5 x) (C XA y) = C X0 (add1 x y)" "add1 (C X5 x) (C XB y) = C X1 (add1 x y)"
  "add1 (C X5 x) (C XC y) = C X2 (add1 x y)" "add1 (C X5 x) (C XD y) = C X3 (add1 x y)"
  "add1 (C X5 x) (C XE y) = C X4 (add1 x y)" "add1 (C X5 x) (C XF y) = C X5 (add1 x y)"
  "add1 (C X6 x) (C X0 y) = C X7 (add0 x y)" "add1 (C X6 x) (C X1 y) = C X8 (add0 x y)"
  "add1 (C X6 x) (C X2 y) = C X9 (add0 x y)" "add1 (C X6 x) (C X3 y) = C XA (add0 x y)"
  "add1 (C X6 x) (C X4 y) = C XB (add0 x y)" "add1 (C X6 x) (C X5 y) = C XC (add0 x y)"
  "add1 (C X6 x) (C X6 y) = C XD (add0 x y)" "add1 (C X6 x) (C X7 y) = C XE (add0 x y)"
  "add1 (C X6 x) (C X8 y) = C XF (add0 x y)" "add1 (C X6 x) (C X9 y) = C X0 (add1 x y)"
  "add1 (C X6 x) (C XA y) = C X1 (add1 x y)" "add1 (C X6 x) (C XB y) = C X2 (add1 x y)"
  "add1 (C X6 x) (C XC y) = C X3 (add1 x y)" "add1 (C X6 x) (C XD y) = C X4 (add1 x y)"
  "add1 (C X6 x) (C XE y) = C X5 (add1 x y)" "add1 (C X6 x) (C XF y) = C X6 (add1 x y)"
  "add1 (C X7 x) (C X0 y) = C X8 (add0 x y)" "add1 (C X7 x) (C X1 y) = C X9 (add0 x y)"
  "add1 (C X7 x) (C X2 y) = C XA (add0 x y)" "add1 (C X7 x) (C X3 y) = C XB (add0 x y)"
  "add1 (C X7 x) (C X4 y) = C XC (add0 x y)" "add1 (C X7 x) (C X5 y) = C XD (add0 x y)"
  "add1 (C X7 x) (C X6 y) = C XE (add0 x y)" "add1 (C X7 x) (C X7 y) = C XF (add0 x y)"
  "add1 (C X7 x) (C X8 y) = C X0 (add1 x y)" "add1 (C X7 x) (C X9 y) = C X1 (add1 x y)"
  "add1 (C X7 x) (C XA y) = C X2 (add1 x y)" "add1 (C X7 x) (C XB y) = C X3 (add1 x y)"
  "add1 (C X7 x) (C XC y) = C X4 (add1 x y)" "add1 (C X7 x) (C XD y) = C X5 (add1 x y)"
  "add1 (C X7 x) (C XE y) = C X6 (add1 x y)" "add1 (C X7 x) (C XF y) = C X7 (add1 x y)"
  "add1 (C X8 x) (C X0 y) = C X9 (add0 x y)" "add1 (C X8 x) (C X1 y) = C XA (add0 x y)"
  "add1 (C X8 x) (C X2 y) = C XB (add0 x y)" "add1 (C X8 x) (C X3 y) = C XC (add0 x y)"
  "add1 (C X8 x) (C X4 y) = C XD (add0 x y)" "add1 (C X8 x) (C X5 y) = C XE (add0 x y)"
  "add1 (C X8 x) (C X6 y) = C XF (add0 x y)" "add1 (C X8 x) (C X7 y) = C X0 (add1 x y)"
  "add1 (C X8 x) (C X8 y) = C X1 (add1 x y)" "add1 (C X8 x) (C X9 y) = C X2 (add1 x y)"
  "add1 (C X8 x) (C XA y) = C X3 (add1 x y)" "add1 (C X8 x) (C XB y) = C X4 (add1 x y)"
  "add1 (C X8 x) (C XC y) = C X5 (add1 x y)" "add1 (C X8 x) (C XD y) = C X6 (add1 x y)"
  "add1 (C X8 x) (C XE y) = C X7 (add1 x y)" "add1 (C X8 x) (C XF y) = C X8 (add1 x y)"
  "add1 (C X9 x) (C X0 y) = C XA (add0 x y)" "add1 (C X9 x) (C X1 y) = C XB (add0 x y)"
  "add1 (C X9 x) (C X2 y) = C XC (add0 x y)" "add1 (C X9 x) (C X3 y) = C XD (add0 x y)"
  "add1 (C X9 x) (C X4 y) = C XE (add0 x y)" "add1 (C X9 x) (C X5 y) = C XF (add0 x y)"
  "add1 (C X9 x) (C X6 y) = C X0 (add1 x y)" "add1 (C X9 x) (C X7 y) = C X1 (add1 x y)"
  "add1 (C X9 x) (C X8 y) = C X2 (add1 x y)" "add1 (C X9 x) (C X9 y) = C X3 (add1 x y)"
  "add1 (C X9 x) (C XA y) = C X4 (add1 x y)" "add1 (C X9 x) (C XB y) = C X5 (add1 x y)"
  "add1 (C X9 x) (C XC y) = C X6 (add1 x y)" "add1 (C X9 x) (C XD y) = C X7 (add1 x y)"
  "add1 (C X9 x) (C XE y) = C X8 (add1 x y)" "add1 (C X9 x) (C XF y) = C X9 (add1 x y)"
  "add1 (C XA x) (C X0 y) = C XB (add0 x y)" "add1 (C XA x) (C X1 y) = C XC (add0 x y)"
  "add1 (C XA x) (C X2 y) = C XD (add0 x y)" "add1 (C XA x) (C X3 y) = C XE (add0 x y)"
  "add1 (C XA x) (C X4 y) = C XF (add0 x y)" "add1 (C XA x) (C X5 y) = C X0 (add1 x y)"
  "add1 (C XA x) (C X6 y) = C X1 (add1 x y)" "add1 (C XA x) (C X7 y) = C X2 (add1 x y)"
  "add1 (C XA x) (C X8 y) = C X3 (add1 x y)" "add1 (C XA x) (C X9 y) = C X4 (add1 x y)"
  "add1 (C XA x) (C XA y) = C X5 (add1 x y)" "add1 (C XA x) (C XB y) = C X6 (add1 x y)"
  "add1 (C XA x) (C XC y) = C X7 (add1 x y)" "add1 (C XA x) (C XD y) = C X8 (add1 x y)"
  "add1 (C XA x) (C XE y) = C X9 (add1 x y)" "add1 (C XA x) (C XF y) = C XA (add1 x y)"
  "add1 (C XB x) (C X0 y) = C XC (add0 x y)" "add1 (C XB x) (C X1 y) = C XD (add0 x y)"
  "add1 (C XB x) (C X2 y) = C XE (add0 x y)" "add1 (C XB x) (C X3 y) = C XF (add0 x y)"
  "add1 (C XB x) (C X4 y) = C X0 (add1 x y)" "add1 (C XB x) (C X5 y) = C X1 (add1 x y)"
  "add1 (C XB x) (C X6 y) = C X2 (add1 x y)" "add1 (C XB x) (C X7 y) = C X3 (add1 x y)"
  "add1 (C XB x) (C X8 y) = C X4 (add1 x y)" "add1 (C XB x) (C X9 y) = C X5 (add1 x y)"
  "add1 (C XB x) (C XA y) = C X6 (add1 x y)" "add1 (C XB x) (C XB y) = C X7 (add1 x y)"
  "add1 (C XB x) (C XC y) = C X8 (add1 x y)" "add1 (C XB x) (C XD y) = C X9 (add1 x y)"
  "add1 (C XB x) (C XE y) = C XA (add1 x y)" "add1 (C XB x) (C XF y) = C XB (add1 x y)"
  "add1 (C XC x) (C X0 y) = C XD (add0 x y)" "add1 (C XC x) (C X1 y) = C XE (add0 x y)"
  "add1 (C XC x) (C X2 y) = C XF (add0 x y)" "add1 (C XC x) (C X3 y) = C X0 (add1 x y)"
  "add1 (C XC x) (C X4 y) = C X1 (add1 x y)" "add1 (C XC x) (C X5 y) = C X2 (add1 x y)"
  "add1 (C XC x) (C X6 y) = C X3 (add1 x y)" "add1 (C XC x) (C X7 y) = C X4 (add1 x y)"
  "add1 (C XC x) (C X8 y) = C X5 (add1 x y)" "add1 (C XC x) (C X9 y) = C X6 (add1 x y)"
  "add1 (C XC x) (C XA y) = C X7 (add1 x y)" "add1 (C XC x) (C XB y) = C X8 (add1 x y)"
  "add1 (C XC x) (C XC y) = C X9 (add1 x y)" "add1 (C XC x) (C XD y) = C XA (add1 x y)"
  "add1 (C XC x) (C XE y) = C XB (add1 x y)" "add1 (C XC x) (C XF y) = C XC (add1 x y)"
  "add1 (C XD x) (C X0 y) = C XE (add0 x y)" "add1 (C XD x) (C X1 y) = C XF (add0 x y)"
  "add1 (C XD x) (C X2 y) = C X0 (add1 x y)" "add1 (C XD x) (C X3 y) = C X1 (add1 x y)"
  "add1 (C XD x) (C X4 y) = C X2 (add1 x y)" "add1 (C XD x) (C X5 y) = C X3 (add1 x y)"
  "add1 (C XD x) (C X6 y) = C X4 (add1 x y)" "add1 (C XD x) (C X7 y) = C X5 (add1 x y)"
  "add1 (C XD x) (C X8 y) = C X6 (add1 x y)" "add1 (C XD x) (C X9 y) = C X7 (add1 x y)"
  "add1 (C XD x) (C XA y) = C X8 (add1 x y)" "add1 (C XD x) (C XB y) = C X9 (add1 x y)"
  "add1 (C XD x) (C XC y) = C XA (add1 x y)" "add1 (C XD x) (C XD y) = C XB (add1 x y)"
  "add1 (C XD x) (C XE y) = C XC (add1 x y)" "add1 (C XD x) (C XF y) = C XD (add1 x y)"
  "add1 (C XE x) (C X0 y) = C XF (add0 x y)" "add1 (C XE x) (C X1 y) = C X0 (add1 x y)"
  "add1 (C XE x) (C X2 y) = C X1 (add1 x y)" "add1 (C XE x) (C X3 y) = C X2 (add1 x y)"
  "add1 (C XE x) (C X4 y) = C X3 (add1 x y)" "add1 (C XE x) (C X5 y) = C X4 (add1 x y)"
  "add1 (C XE x) (C X6 y) = C X5 (add1 x y)" "add1 (C XE x) (C X7 y) = C X6 (add1 x y)"
  "add1 (C XE x) (C X8 y) = C X7 (add1 x y)" "add1 (C XE x) (C X9 y) = C X8 (add1 x y)"
  "add1 (C XE x) (C XA y) = C X9 (add1 x y)" "add1 (C XE x) (C XB y) = C XA (add1 x y)"
  "add1 (C XE x) (C XC y) = C XB (add1 x y)" "add1 (C XE x) (C XD y) = C XC (add1 x y)"
  "add1 (C XE x) (C XE y) = C XD (add1 x y)" "add1 (C XE x) (C XF y) = C XE (add1 x y)"
  "add1 (C XF x) (C X0 y) = C X0 (add1 x y)" "add1 (C XF x) (C X1 y) = C X1 (add1 x y)"
  "add1 (C XF x) (C X2 y) = C X2 (add1 x y)" "add1 (C XF x) (C X3 y) = C X3 (add1 x y)"
  "add1 (C XF x) (C X4 y) = C X4 (add1 x y)" "add1 (C XF x) (C X5 y) = C X5 (add1 x y)"
  "add1 (C XF x) (C X6 y) = C X6 (add1 x y)" "add1 (C XF x) (C X7 y) = C X7 (add1 x y)"
  "add1 (C XF x) (C X8 y) = C X8 (add1 x y)" "add1 (C XF x) (C X9 y) = C X9 (add1 x y)"
  "add1 (C XF x) (C XA y) = C XA (add1 x y)" "add1 (C XF x) (C XB y) = C XB (add1 x y)"
  "add1 (C XF x) (C XC y) = C XC (add1 x y)" "add1 (C XF x) (C XD y) = C XD (add1 x y)"
  "add1 (C XF x) (C XE y) = C XE (add1 x y)" "add1 (C XF x) (C XF y) = C XF (add1 x y)"
  by (simp_all add: add0_def add1_def nib_of_def)

lemma add_table_end:
  "add0 x E = x" "add0 E x = x" "add1 E E = C X1 E"
  "add1 (C X0 x) E = C X1 (add0 x E)" "add1 E (C X0 y) = C X1 (add0 E y)"
  "add1 (C X1 x) E = C X2 (add0 x E)" "add1 E (C X1 y) = C X2 (add0 E y)"
  "add1 (C X2 x) E = C X3 (add0 x E)" "add1 E (C X2 y) = C X3 (add0 E y)"
  "add1 (C X3 x) E = C X4 (add0 x E)" "add1 E (C X3 y) = C X4 (add0 E y)"
  "add1 (C X4 x) E = C X5 (add0 x E)" "add1 E (C X4 y) = C X5 (add0 E y)"
  "add1 (C X5 x) E = C X6 (add0 x E)" "add1 E (C X5 y) = C X6 (add0 E y)"
  "add1 (C X6 x) E = C X7 (add0 x E)" "add1 E (C X6 y) = C X7 (add0 E y)"
  "add1 (C X7 x) E = C X8 (add0 x E)" "add1 E (C X7 y) = C X8 (add0 E y)"
  "add1 (C X8 x) E = C X9 (add0 x E)" "add1 E (C X8 y) = C X9 (add0 E y)"
  "add1 (C X9 x) E = C XA (add0 x E)" "add1 E (C X9 y) = C XA (add0 E y)"
  "add1 (C XA x) E = C XB (add0 x E)" "add1 E (C XA y) = C XB (add0 E y)"
  "add1 (C XB x) E = C XC (add0 x E)" "add1 E (C XB y) = C XC (add0 E y)"
  "add1 (C XC x) E = C XD (add0 x E)" "add1 E (C XC y) = C XD (add0 E y)"
  "add1 (C XD x) E = C XE (add0 x E)" "add1 E (C XD y) = C XE (add0 E y)"
  "add1 (C XE x) E = C XF (add0 x E)" "add1 E (C XE y) = C XF (add0 E y)"
  "add1 (C XF x) E = C X0 (add1 x E)" "add1 E (C XF y) = C X0 (add1 E y)"
  by (cases x; simp add: add0_def add1_def nib_of_def)+

section \<open>Tables of multiples\<close>

fun low :: "digits \<Rightarrow> nib" where
  "low E = X0"
| "low (C d ds) = d"

datatype mults = T digits digits digits digits digits digits digits digits digits digits digits digits digits digits digits digits

fun sel :: "nib \<Rightarrow> mults \<Rightarrow> digits" where
  "sel X0 (T m0 m1 m2 m3 m4 m5 m6 m7 m8 m9 ma mb mc md me mf) = m0"
| "sel X1 (T m0 m1 m2 m3 m4 m5 m6 m7 m8 m9 ma mb mc md me mf) = m1"
| "sel X2 (T m0 m1 m2 m3 m4 m5 m6 m7 m8 m9 ma mb mc md me mf) = m2"
| "sel X3 (T m0 m1 m2 m3 m4 m5 m6 m7 m8 m9 ma mb mc md me mf) = m3"
| "sel X4 (T m0 m1 m2 m3 m4 m5 m6 m7 m8 m9 ma mb mc md me mf) = m4"
| "sel X5 (T m0 m1 m2 m3 m4 m5 m6 m7 m8 m9 ma mb mc md me mf) = m5"
| "sel X6 (T m0 m1 m2 m3 m4 m5 m6 m7 m8 m9 ma mb mc md me mf) = m6"
| "sel X7 (T m0 m1 m2 m3 m4 m5 m6 m7 m8 m9 ma mb mc md me mf) = m7"
| "sel X8 (T m0 m1 m2 m3 m4 m5 m6 m7 m8 m9 ma mb mc md me mf) = m8"
| "sel X9 (T m0 m1 m2 m3 m4 m5 m6 m7 m8 m9 ma mb mc md me mf) = m9"
| "sel XA (T m0 m1 m2 m3 m4 m5 m6 m7 m8 m9 ma mb mc md me mf) = ma"
| "sel XB (T m0 m1 m2 m3 m4 m5 m6 m7 m8 m9 ma mb mc md me mf) = mb"
| "sel XC (T m0 m1 m2 m3 m4 m5 m6 m7 m8 m9 ma mb mc md me mf) = mc"
| "sel XD (T m0 m1 m2 m3 m4 m5 m6 m7 m8 m9 ma mb mc md me mf) = md"
| "sel XE (T m0 m1 m2 m3 m4 m5 m6 m7 m8 m9 ma mb mc md me mf) = me"
| "sel XF (T m0 m1 m2 m3 m4 m5 m6 m7 m8 m9 ma mb mc md me mf) = mf"

text \<open>The list of the first multiples of a number, and the tuple of sixteen of them.\<close>

fun multiples :: "unit list \<Rightarrow> digits \<Rightarrow> digits \<Rightarrow> digits list" where
  "multiples [] x m = []"
| "multiples (u # us) x m = m # multiples us x (add0 m x)"

fun to_mults :: "digits list \<Rightarrow> mults" where
  "to_mults [m0, m1, m2, m3, m4, m5, m6, m7, m8, m9, ma, mb, mc, md, me, mf] = T m0 m1 m2 m3 m4 m5 m6 m7 m8 m9 ma mb mc md me mf"
| "to_mults ms = T E E E E E E E E E E E E E E E E"

definition mults_of :: "digits \<Rightarrow> mults" where
  "mults_of x = to_mults (multiples [(), (), (), (), (), (), (), (), (), (), (), (), (), (), (), ()] x E)"

lemma dval_sel_mults: "dval (sel d (mults_of x)) = nval d * dval x"
  by (cases d) (simp_all add: mults_of_def)

text \<open>
  The multiples of an odd modulus, ordered so that the entry of a digit cancels that digit
  modulo 16.  The order depends on the lowest digit of the modulus.
\<close>

fun to_cancel :: "nib \<Rightarrow> mults \<Rightarrow> mults" where
  "to_cancel X1 (T m0 m1 m2 m3 m4 m5 m6 m7 m8 m9 ma mb mc md me mf) = T m0 mf me md mc mb ma m9 m8 m7 m6 m5 m4 m3 m2 m1"
| "to_cancel X3 (T m0 m1 m2 m3 m4 m5 m6 m7 m8 m9 ma mb mc md me mf) = T m0 m5 ma mf m4 m9 me m3 m8 md m2 m7 mc m1 m6 mb"
| "to_cancel X5 (T m0 m1 m2 m3 m4 m5 m6 m7 m8 m9 ma mb mc md me mf) = T m0 m3 m6 m9 mc mf m2 m5 m8 mb me m1 m4 m7 ma md"
| "to_cancel X7 (T m0 m1 m2 m3 m4 m5 m6 m7 m8 m9 ma mb mc md me mf) = T m0 m9 m2 mb m4 md m6 mf m8 m1 ma m3 mc m5 me m7"
| "to_cancel X9 (T m0 m1 m2 m3 m4 m5 m6 m7 m8 m9 ma mb mc md me mf) = T m0 m7 me m5 mc m3 ma m1 m8 mf m6 md m4 mb m2 m9"
| "to_cancel XB (T m0 m1 m2 m3 m4 m5 m6 m7 m8 m9 ma mb mc md me mf) = T m0 md ma m7 m4 m1 me mb m8 m5 m2 mf mc m9 m6 m3"
| "to_cancel XD (T m0 m1 m2 m3 m4 m5 m6 m7 m8 m9 ma mb mc md me mf) = T m0 mb m6 m1 mc m7 m2 md m8 m3 me m9 m4 mf ma m5"
| "to_cancel XF (T m0 m1 m2 m3 m4 m5 m6 m7 m8 m9 ma mb mc md me mf) = T m0 m1 m2 m3 m4 m5 m6 m7 m8 m9 ma mb mc md me mf"
| "to_cancel d ms = ms"

definition cancel_of :: "digits \<Rightarrow> mults" where
  "cancel_of n = to_cancel (low n) (mults_of n)"

definition cancels :: "mults \<Rightarrow> nat \<Rightarrow> bool" where
  "cancels N n \<longleftrightarrow> (\<forall>t. n dvd dval (sel t N) \<and> 16 dvd nval t + dval (sel t N))"

lemma cancels_of:
  assumes "odd (dval n)"
  shows "cancels (cancel_of n) (dval n)"
proof -
  obtain d ds where n: "n = C d ds" using assms by (cases n) auto
  obtain m0 m1 m2 m3 m4 m5 m6 m7 m8 m9 ma mb mc md me mf where T: "mults_of n = T m0 m1 m2 m3 m4 m5 m6 m7 m8 m9 ma mb mc md me mf"
    by (cases "mults_of n")
  have m: "dval m0 = 0 * dval n" "dval m1 = 1 * dval n" "dval m2 = 2 * dval n" "dval m3 = 3 * dval n" "dval m4 = 4 * dval n" "dval m5 = 5 * dval n" "dval m6 = 6 * dval n" "dval m7 = 7 * dval n" "dval m8 = 8 * dval n" "dval m9 = 9 * dval n" "dval ma = 10 * dval n" "dval mb = 11 * dval n" "dval mc = 12 * dval n" "dval md = 13 * dval n" "dval me = 14 * dval n" "dval mf = 15 * dval n"
    using dval_sel_mults[of X0 n] dval_sel_mults[of X1 n] dval_sel_mults[of X2 n] dval_sel_mults[of X3 n] dval_sel_mults[of X4 n] dval_sel_mults[of X5 n] dval_sel_mults[of X6 n] dval_sel_mults[of X7 n] dval_sel_mults[of X8 n] dval_sel_mults[of X9 n] dval_sel_mults[of XA n] dval_sel_mults[of XB n] dval_sel_mults[of XC n] dval_sel_mults[of XD n] dval_sel_mults[of XE n] dval_sel_mults[of XF n] unfolding T by simp_all
  have "odd (nval d)" using assms unfolding n by simp
  moreover have "16 dvd a + i * dval n \<longleftrightarrow> 16 dvd a + i * nval d" for a i
    unfolding n dvd_eq_mod_eq_0 by (metis dval.simps(2) mod_add_right_eq mod_mult_right_eq mod_mult_self2)
  note k = this this[of _ 1, simplified] this[of "Suc 0", simplified] this[of "Suc (Suc 0)", simplified]
    this[of "Suc 0" 1, simplified] this[of "Suc (Suc 0)" 1, simplified]
  ultimately have "16 dvd nval t + dval (sel t (to_cancel d (mults_of n)))" for t
    unfolding T by (cases d; simp; cases t; simp add: m k del: dvd_add_right_iff)
  moreover have "dval n dvd dval (sel t (to_cancel d (mults_of n)))" for t
    unfolding T by (cases d; cases t) (simp_all add: m)
  ultimately show ?thesis unfolding cancels_def cancel_of_def by (simp add: n)
qed

section \<open>Montgomery products\<close>

datatype res = Done digits | Fail

fun shr :: "digits \<Rightarrow> digits" where
  "shr E = E"
| "shr (C d ds) = ds"

definition cancel_low :: "mults \<Rightarrow> digits \<Rightarrow> digits" where
  "cancel_low N acc = shr (add0 acc (sel (low acc) N))"

fun mont :: "unit list \<Rightarrow> mults \<Rightarrow> mults \<Rightarrow> digits \<Rightarrow> digits \<Rightarrow> res" where
  "mont [] N X E acc = Done acc"
| "mont [] N X (C d ds) acc = Fail"
| "mont (u # us) N X E acc = mont us N X E (cancel_low N acc)"
| "mont (u # us) N X (C d ds) acc = mont us N X ds (cancel_low N (add0 acc (sel d X)))"

lemma dval_cancel_low:
  assumes "cancels N n"
  shows "dval (cancel_low N acc) * 16 mod n = dval acc mod n"
proof -
  let ?s = "add0 acc (sel (low acc) N)"
  have "16 dvd dval ?s"
  proof (cases acc)
    case E
    then show ?thesis using assms[unfolded cancels_def, rule_format, of X0] by simp
  next
    case (C d ds)
    then have "dval ?s = (nval d + dval (sel d N)) + 16 * dval ds" by simp
    then show ?thesis using assms by (simp only: cancels_def dvd_add_left_iff dvd_triv_left)
  qed
  then have "dval (shr ?s) * 16 = dval ?s"
    by (cases ?s) (use nval_less in \<open>auto simp: dvd_eq_mod_eq_0\<close>)
  moreover have "n dvd dval (sel (low acc) N)" using assms by (simp add: cancels_def)
  ultimately show ?thesis unfolding cancel_low_def by (auto simp: dvd_eq_mod_eq_0 mod_add_right_eq[symmetric])
qed

lemma mont_correct:
  assumes "mont us N X ds acc = Done z" and "cancels N n" and "\<forall>d. dval (sel d X) = nval d * x"
  shows "dval z * 16 ^ length us mod n = (dval acc + dval ds * x) mod n"
  using assms
proof (induction us N X ds acc rule: mont.induct)
  case (3 u us N X acc)
  then have "dval z * 16 ^ length us mod n = dval (cancel_low N acc) mod n" by simp
  then have "dval z * 16 ^ length us * 16 mod n = dval (cancel_low N acc) * 16 mod n"
    by (metis mod_mult_left_eq)
  then show ?case using dval_cancel_low[OF 3(3)] by (simp add: mult_ac)
next
  case (4 u us N X d ds acc)
  let ?c = "cancel_low N (add0 acc (sel d X))"
  have "dval z * 16 ^ length us mod n = (dval ?c + dval ds * x) mod n" using 4 by simp
  then have "dval z * 16 ^ length us * 16 mod n = (dval ?c * 16 + dval ds * x * 16) mod n"
    by (metis mod_mult_left_eq distrib_right)
  also have "\<dots> = (dval (add0 acc (sel d X)) + dval ds * x * 16) mod n"
    using dval_cancel_low[OF 4(3)] by (metis mod_add_left_eq)
  finally show ?case using 4(4) by (simp add: algebra_simps)
qed auto

text \<open>Powers of a small base: the bits of the exponent, most significant first.\<close>

fun small_mult :: "unit list \<Rightarrow> digits \<Rightarrow> digits" where
  "small_mult [] y = E"
| "small_mult (u # us) y = add0 y (small_mult us y)"

lemma dval_small_mult [simp]: "dval (small_mult us y) = length us * dval y"
  by (induction us) simp_all

fun res_small :: "unit list \<Rightarrow> res \<Rightarrow> res" where
  "res_small a Fail = Fail"
| "res_small a (Done y) = Done (small_mult a y)"

fun mont_exp :: "unit list \<Rightarrow> unit list \<Rightarrow> mults \<Rightarrow> bool list \<Rightarrow> res \<Rightarrow> res" where
  "mont_exp k a N bs Fail = Fail"
| "mont_exp k a N [] (Done y) = Done y"
| "mont_exp k a N (False # bs) (Done y) = mont_exp k a N bs (mont k N (mults_of y) y E)"
| "mont_exp k a N (True # bs) (Done y) = mont_exp k a N bs (res_small a (mont k N (mults_of y) y E))"

lemmas mont_eval = add_table add_table_end sel.simps multiples.simps to_mults.simps(1) mults_of_def
  to_cancel.simps(1-8) cancel_of_def low.simps shr.simps cancel_low_def mont.simps small_mult.simps
  res_small.simps mont_exp.simps

definition mont_rep :: "nat \<Rightarrow> nat \<Rightarrow> nat \<Rightarrow> nat \<Rightarrow> digits \<Rightarrow> bool" where
  "mont_rep n k a e y \<longleftrightarrow> dval y mod n = a ^ e * 16 ^ k mod n"

fun exp_bits :: "nat \<Rightarrow> bool list \<Rightarrow> nat" where
  "exp_bits e [] = e"
| "exp_bits e (b # bs) = exp_bits (2 * e + of_bool b) bs"

lemma coprime_16_pow: "odd n \<Longrightarrow> coprime n (16 ^ k)" for n :: nat
  using coprime_power_right_iff[of n 2 4] by (simp add: coprime_power_right_iff coprime_commute)

lemma mont_sqr_rep:
  assumes n: "odd n" "cancels N n" and y: "mont_rep n (length k) a e y"
    and z: "mont k N (mults_of y) y E = Done z"
  shows "mont_rep n (length k) a (2 * e) z"
proof -
  have "dval z * 16 ^ length k mod n = (dval y mod n) * (dval y mod n) mod n"
    using mont_correct[OF z n(2)] dval_sel_mults by (simp add: mod_mult_eq)
  also have "\<dots> = (a ^ e * 16 ^ length k) * (a ^ e * 16 ^ length k) mod n"
    using y unfolding mont_rep_def by (simp add: mod_mult_eq)
  also have "\<dots> = a ^ (2 * e) * 16 ^ length k * 16 ^ length k mod n"
    unfolding mult_2 power_add by (simp only: mult_ac)
  finally have "dval z * 16 ^ length k mod n = a ^ (2 * e) * 16 ^ length k * 16 ^ length k mod n" .
  moreover have "coprime n (16 ^ length k)"
    by (rule coprime_16_pow[OF n(1)])
  ultimately show ?thesis unfolding mont_rep_def by (rule mod_mult_cancel[rotated])
qed

lemma mont_small_rep:
  "mont_rep n k (length a) e y \<Longrightarrow> mont_rep n k (length a) (Suc e) (small_mult a y)"
  unfolding mont_rep_def by (simp add: mult.assoc) (metis mod_mult_right_eq)

lemma mont_exp_rep:
  assumes "mont_exp k a N bs (Done y) = Done z" "odd n" "cancels N n" "mont_rep n (length k) (length a) e y"
  shows "mont_rep n (length k) (length a) (exp_bits e bs) z"
  using assms
proof (induction bs arbitrary: e y)
  case (Cons b bs)
  then obtain w where w: "mont k N (mults_of y) y E = Done w"
    by (cases "mont k N (mults_of y) y E"; cases b) auto
  note s = mont_sqr_rep[OF Cons.prems(2-4) w]
  show ?case
  proof (cases b)
    case True
    then show ?thesis using Cons w mont_small_rep[OF s] by simp
  next
    case False
    then show ?thesis using Cons w s by simp
  qed
qed simp

section \<open>Certificates\<close>

lemma mont_step:
  assumes "mont_rep n (length k) (length a) e y" "odd n" "cancels N n"
    and "mont_exp k a N bs (Done y) = Done z" "exp_bits e bs = e'"
  shows "mont_rep n (length k) (length a) e' z"
  using mont_exp_rep[OF assms(4,2,3,1)] assms(5) by simp

lemma mont_rep_one:
  assumes "odd n" "mont_rep n k a e z" "mont_rep n k a 0 y" "dval z = dval y + j * n"
  shows "a ^ e mod n = 1 mod n"
proof -
  have "a ^ e * 16 ^ k mod n = 1 * 16 ^ k mod n"
    using assms(2-4) unfolding mont_rep_def by simp
  moreover have "coprime n (16 ^ k)"
    by (rule coprime_16_pow[OF assms(1)])
  ultimately show ?thesis by (rule mod_mult_cancel[rotated])
qed

lemma mont_cond:
  assumes n: "odd n" "cancels N n" and z: "mont_rep n (length k) a e z"
    and w: "mont k N (mults_of c) z E = Done w" "dval w = dval c + 1 + j * n"
  shows "\<exists>c. a ^ e * c mod n = (c + 1) mod n"
proof -
  have "dval w * 16 ^ length k mod n = dval z * dval c mod n"
    using mont_correct[OF w(1) n(2)] dval_sel_mults by simp
  also have "\<dots> = a ^ e * 16 ^ length k * dval c mod n"
    using z unfolding mont_rep_def by (metis mod_mult_left_eq)
  finally have "dval w * 16 ^ length k mod n = a ^ e * dval c * 16 ^ length k mod n"
    by (simp only: mult_ac)
  moreover have "coprime n (16 ^ length k)"
    by (rule coprime_16_pow[OF n(1)])
  ultimately have "dval w mod n = a ^ e * dval c mod n" by (rule mod_mult_cancel[rotated])
  then show ?thesis unfolding w(2) by (metis mod_mult_self2 add.commute mult.commute)
qed

end
