(* ===== verification/Secp_Primes.thy ===== *)
theory Secp_Primes
  imports Nibble_Arith
begin

text \<open>
  The field characteristic and the group order are prime.  Each certificate names prime factors
  of the predecessor whose product exceeds the square root and the powers that Pocklington's
  criterion asks for, in Montgomery form, sixteen bits of the exponent at a time.
\<close>

lemma prime_c53: "is_prime 53"
  by (rule is_prime_trial[of _ 8]) (simp_all add: upt_rec)

lemma prime_c29: "is_prime 29"
  by (rule is_prime_trial[of _ 6]) (simp_all add: upt_rec)

lemma prime_c7: "is_prime 7"
  by (rule is_prime_trial[of _ 3]) (simp_all add: upt_rec)

subsection \<open>107590001\<close>

definition k_c107590001 :: "unit list" where
  "k_c107590001 = [(), (), (), (), (), (), (), (), (), ()]"

definition a_c107590001 :: "unit list" where
  "a_c107590001 = [(), ()]"

definition d_c107590001 :: digits where
  "d_c107590001 = (C X1 (C X7 (C X1 (C XB (C X9 (C X6 (C X6 E)))))))"

lemma dval_c107590001: "dval d_c107590001 = 107590001"
  by (simp add: d_c107590001_def)

lemma cancels_c107590001: "cancels (cancel_of d_c107590001) 107590001"
  using cancels_of[of d_c107590001] by (simp add: dval_c107590001)

lemma rep_c107590001_0: "mont_rep 107590001 (length k_c107590001) (length a_c107590001) 0
    (C X5 (C X4 (C X6 (C XE (C X1 (C XF (C X2 E)))))))"
  by (simp add: mont_rep_def k_c107590001_def a_c107590001_def)

lemma rep_c107590001_m1: "mont_rep 107590001 (length k_c107590001) (length a_c107590001) 52534
    (C X8 (C X0 (C X4 (C XE (C XB (C XF (C X3 E)))))))"
  by (rule mont_step[OF rep_c107590001_0 _ cancels_c107590001, of "[True, True, False, False, True, True, False, True, False, False, True, True, False, True, True, False]"],
      simp, simp only: mont_eval k_c107590001_def a_c107590001_def d_c107590001_def, simp)

lemma rep_c107590001_m2: "mont_rep 107590001 (length k_c107590001) (length a_c107590001) 107590000
    (C X5 (C X4 (C X6 (C XE (C X1 (C XF (C X2 E)))))))"
  by (rule mont_step[OF rep_c107590001_m1 _ cancels_c107590001, of "[False, False, True, False, True, True, True, False, False, False, False]"],
      simp, simp only: mont_eval k_c107590001_def a_c107590001_def d_c107590001_def, simp)

lemma fermat_c107590001: "length a_c107590001 ^ 107590000 mod 107590001 = 1"
  using mont_rep_one[OF _ rep_c107590001_m2 rep_c107590001_0, of 0] by (simp add: a_c107590001_def)

lemma rep_c107590001_q0_1: "mont_rep 107590001 (length k_c107590001) (length a_c107590001) 63437
    (C XE (C X1 (C X1 (C X8 (C X5 (C X7 (C X9 E)))))))"
  by (rule mont_step[OF rep_c107590001_0 _ cancels_c107590001, of "[True, True, True, True, False, True, True, True, True, True, False, False, True, True, False, True]"],
      simp, simp only: mont_eval k_c107590001_def a_c107590001_def d_c107590001_def, simp)

lemma rep_c107590001_q0_2: "mont_rep 107590001 (length k_c107590001) (length a_c107590001) 2030000
    (C X4 (C X7 (C X9 (C XE (C X1 (C X0 (C X1 E)))))))"
  by (rule mont_step[OF rep_c107590001_q0_1 _ cancels_c107590001, of "[True, False, False, False, False]"],
      simp, simp only: mont_eval k_c107590001_def a_c107590001_def d_c107590001_def, simp)

lemma pock_c107590001_0: "pocklington_cond 107590001 (length a_c107590001) 53"
proof -
  have "mont k_c107590001 (cancel_of d_c107590001) (mults_of (C XB (C XC (C X9 (C X4 (C X3 (C X8 (C X4 E))))))))
    (C X4 (C X7 (C X9 (C XE (C X1 (C X0 (C X1 E))))))) E = Done (C XC (C XC (C X9 (C X4 (C X3 (C X8 (C X4 E)))))))"
    by (simp only: mont_eval k_c107590001_def d_c107590001_def)
  from mont_cond[OF _ cancels_c107590001 rep_c107590001_q0_2 this, of 0]
  show ?thesis by (intro pocklington_condI[of _ _ 2030000]) (simp_all add: fermat_c107590001)
qed

lemma rep_c107590001_q1_1: "mont_rep 107590001 (length k_c107590001) (length a_c107590001) 57968
    (C X6 (C X0 (C X6 (C X3 (C XC (C X7 E))))))"
  by (rule mont_step[OF rep_c107590001_0 _ cancels_c107590001, of "[True, True, True, False, False, False, True, False, False, True, True, True, False, False, False, False]"],
      simp, simp only: mont_eval k_c107590001_def a_c107590001_def d_c107590001_def, simp)

lemma rep_c107590001_q1_2: "mont_rep 107590001 (length k_c107590001) (length a_c107590001) 3710000
    (C XD (C X0 (C X2 (C X0 (C X6 (C X9 (C X1 E)))))))"
  by (rule mont_step[OF rep_c107590001_q1_1 _ cancels_c107590001, of "[True, True, False, False, False, False]"],
      simp, simp only: mont_eval k_c107590001_def a_c107590001_def d_c107590001_def, simp)

lemma pock_c107590001_1: "pocklington_cond 107590001 (length a_c107590001) 29"
proof -
  have "mont k_c107590001 (cancel_of d_c107590001) (mults_of (C X4 (C XE (C XD (C X2 (C X7 (C XF (C X5 E))))))))
    (C XD (C X0 (C X2 (C X0 (C X6 (C X9 (C X1 E))))))) E = Done (C X5 (C XE (C XD (C X2 (C X7 (C XF (C X5 E)))))))"
    by (simp only: mont_eval k_c107590001_def d_c107590001_def)
  from mont_cond[OF _ cancels_c107590001 rep_c107590001_q1_2 this, of 0]
  show ?thesis by (intro pocklington_condI[of _ _ 3710000]) (simp_all add: fermat_c107590001)
qed

lemma rep_c107590001_q2_1: "mont_rep 107590001 (length k_c107590001) (length a_c107590001) 60039
    (C X8 (C X3 (C X7 (C X4 (C X7 (C X8 (C X9 E)))))))"
  by (rule mont_step[OF rep_c107590001_0 _ cancels_c107590001, of "[True, True, True, False, True, False, True, False, True, False, False, False, False, True, True, True]"],
      simp, simp only: mont_eval k_c107590001_def a_c107590001_def d_c107590001_def, simp)

lemma rep_c107590001_q2_2: "mont_rep 107590001 (length k_c107590001) (length a_c107590001) 15370000
    (C XB (C XE (C X0 (C X1 (C XA (C XC (C X4 E)))))))"
  by (rule mont_step[OF rep_c107590001_q2_1 _ cancels_c107590001, of "[False, False, False, True, False, False, False, False]"],
      simp, simp only: mont_eval k_c107590001_def a_c107590001_def d_c107590001_def, simp)

lemma pock_c107590001_2: "pocklington_cond 107590001 (length a_c107590001) 7"
proof -
  have "mont k_c107590001 (cancel_of d_c107590001) (mults_of (C XE (C X7 (C XE (C X1 (C XB (C X4 E)))))))
    (C XB (C XE (C X0 (C X1 (C XA (C XC (C X4 E))))))) E = Done (C XF (C X7 (C XE (C X1 (C XB (C X4 E))))))"
    by (simp only: mont_eval k_c107590001_def d_c107590001_def)
  from mont_cond[OF _ cancels_c107590001 rep_c107590001_q2_2 this, of 0]
  show ?thesis by (intro pocklington_condI[of _ _ 15370000]) (simp_all add: fermat_c107590001)
qed

lemma prime_c107590001: "is_prime 107590001"
  by (rule pocklington[of _ "[53, 29, 7]" "length a_c107590001"])
    (simp_all add: prime_c53 pock_c107590001_0 prime_c29 pock_c107590001_1 prime_c7 pock_c107590001_2)

lemma prime_c419: "is_prime 419"
  by (rule is_prime_trial[of _ 21]) (simp_all add: upt_rec)

subsection \<open>20113\<close>

definition k_c20113 :: "unit list" where
  "k_c20113 = [(), (), (), (), (), (), ()]"

definition a_c20113 :: "unit list" where
  "a_c20113 = [(), ()]"

definition d_c20113 :: digits where
  "d_c20113 = (C X1 (C X9 (C XE (C X4 E))))"

lemma dval_c20113: "dval d_c20113 = 20113"
  by (simp add: d_c20113_def)

lemma cancels_c20113: "cancels (cancel_of d_c20113) 20113"
  using cancels_of[of d_c20113] by (simp add: dval_c20113)

lemma rep_c20113_0: "mont_rep 20113 (length k_c20113) (length a_c20113) 0
    (C XE (C XB (C XC (C X1 E))))"
  by (simp add: mont_rep_def k_c20113_def a_c20113_def)

lemma rep_c20113_m1: "mont_rep 20113 (length k_c20113) (length a_c20113) 20112
    (C XE (C XB (C XC (C X1 E))))"
  by (rule mont_step[OF rep_c20113_0 _ cancels_c20113, of "[True, False, False, True, True, True, False, True, False, False, True, False, False, False, False]"],
      simp, simp only: mont_eval k_c20113_def a_c20113_def d_c20113_def, simp)

lemma fermat_c20113: "length a_c20113 ^ 20112 mod 20113 = 1"
  using mont_rep_one[OF _ rep_c20113_m1 rep_c20113_0, of 0] by (simp add: a_c20113_def)

lemma rep_c20113_q0_1: "mont_rep 20113 (length k_c20113) (length a_c20113) 48
    (C XE (C XF (C X9 (C X3 E))))"
  by (rule mont_step[OF rep_c20113_0 _ cancels_c20113, of "[True, True, False, False, False, False]"],
      simp, simp only: mont_eval k_c20113_def a_c20113_def d_c20113_def, simp)

lemma pock_c20113_0: "pocklington_cond 20113 (length a_c20113) 419"
proof -
  have "mont k_c20113 (cancel_of d_c20113) (mults_of (C X7 (C XD (C X2 (C X4 E)))))
    (C XE (C XF (C X9 (C X3 E)))) E = Done (C X8 (C XD (C X2 (C X4 E))))"
    by (simp only: mont_eval k_c20113_def d_c20113_def)
  from mont_cond[OF _ cancels_c20113 rep_c20113_q0_1 this, of 0]
  show ?thesis by (intro pocklington_condI[of _ _ 48]) (simp_all add: fermat_c20113)
qed

lemma prime_c20113: "is_prime 20113"
  by (rule pocklington[of _ "[419]" "length a_c20113"])
    (simp_all add: prime_c419 pock_c20113_0)

subsection \<open>1206781\<close>

definition k_c1206781 :: "unit list" where
  "k_c1206781 = [(), (), (), (), (), (), (), (), ()]"

definition a_c1206781 :: "unit list" where
  "a_c1206781 = [(), ()]"

definition d_c1206781 :: digits where
  "d_c1206781 = (C XD (C XF (C X9 (C X6 (C X2 (C X1 E))))))"

lemma dval_c1206781: "dval d_c1206781 = 1206781"
  by (simp add: d_c1206781_def)

lemma cancels_c1206781: "cancels (cancel_of d_c1206781) 1206781"
  using cancels_of[of d_c1206781] by (simp add: dval_c1206781)

lemma rep_c1206781_0: "mont_rep 1206781 (length k_c1206781) (length a_c1206781) 0
    (C X0 (C X5 (C XB (C X3 (C X8 E)))))"
  by (simp add: mont_rep_def k_c1206781_def a_c1206781_def)

lemma rep_c1206781_m1: "mont_rep 1206781 (length k_c1206781) (length a_c1206781) 37711
    (C X2 (C XD (C X6 (C XF (C XD E)))))"
  by (rule mont_step[OF rep_c1206781_0 _ cancels_c1206781, of "[True, False, False, True, False, False, True, True, False, True, False, False, True, True, True, True]"],
      simp, simp only: mont_eval k_c1206781_def a_c1206781_def d_c1206781_def, simp)

lemma rep_c1206781_m2: "mont_rep 1206781 (length k_c1206781) (length a_c1206781) 1206780
    (C X0 (C X5 (C XB (C X3 (C X8 E)))))"
  by (rule mont_step[OF rep_c1206781_m1 _ cancels_c1206781, of "[True, True, True, False, False]"],
      simp, simp only: mont_eval k_c1206781_def a_c1206781_def d_c1206781_def, simp)

lemma fermat_c1206781: "length a_c1206781 ^ 1206780 mod 1206781 = 1"
  using mont_rep_one[OF _ rep_c1206781_m2 rep_c1206781_0, of 0] by (simp add: a_c1206781_def)

lemma rep_c1206781_q0_1: "mont_rep 1206781 (length k_c1206781) (length a_c1206781) 60
    (C X4 (C XF (C X5 (C XD (C X0 (C X1 E))))))"
  by (rule mont_step[OF rep_c1206781_0 _ cancels_c1206781, of "[True, True, True, True, False, False]"],
      simp, simp only: mont_eval k_c1206781_def a_c1206781_def d_c1206781_def, simp)

lemma pock_c1206781_0: "pocklington_cond 1206781 (length a_c1206781) 20113"
proof -
  have "mont k_c1206781 (cancel_of d_c1206781) (mults_of (C XF (C XE (C X2 (C XD (C XA E))))))
    (C X4 (C XF (C X5 (C XD (C X0 (C X1 E)))))) E = Done (C X0 (C XF (C X2 (C XD (C XA E)))))"
    by (simp only: mont_eval k_c1206781_def d_c1206781_def)
  from mont_cond[OF _ cancels_c1206781 rep_c1206781_q0_1 this, of 0]
  show ?thesis by (intro pocklington_condI[of _ _ 60]) (simp_all add: fermat_c1206781)
qed

lemma prime_c1206781: "is_prime 1206781"
  by (rule pocklington[of _ "[20113]" "length a_c1206781"])
    (simp_all add: prime_c20113 pock_c1206781_0)

subsection \<open>7240687\<close>

definition k_c7240687 :: "unit list" where
  "k_c7240687 = [(), (), (), (), (), (), (), (), ()]"

definition a_c7240687 :: "unit list" where
  "a_c7240687 = [(), ()]"

definition d_c7240687 :: digits where
  "d_c7240687 = (C XF (C XE (C XB (C X7 (C XE (C X6 E))))))"

lemma dval_c7240687: "dval d_c7240687 = 7240687"
  by (simp add: d_c7240687_def)

lemma cancels_c7240687: "cancels (cancel_of d_c7240687) 7240687"
  using cancels_of[of d_c7240687] by (simp add: dval_c7240687)

lemma rep_c7240687_0: "mont_rep 7240687 (length k_c7240687) (length a_c7240687) 0
    (C X2 (C X3 (C XE (C XB (C X1 (C X5 E))))))"
  by (simp add: mont_rep_def k_c7240687_def a_c7240687_def)

lemma rep_c7240687_m1: "mont_rep 7240687 (length k_c7240687) (length a_c7240687) 56567
    (C X8 (C XD (C XD (C XC (C XA (C X6 E))))))"
  by (rule mont_step[OF rep_c7240687_0 _ cancels_c7240687, of "[True, True, False, True, True, True, False, False, True, True, True, True, False, True, True, True]"],
      simp, simp only: mont_eval k_c7240687_def a_c7240687_def d_c7240687_def, simp)

lemma rep_c7240687_m2: "mont_rep 7240687 (length k_c7240687) (length a_c7240687) 7240686
    (C X2 (C X3 (C XE (C XB (C X1 (C X5 E))))))"
  by (rule mont_step[OF rep_c7240687_m1 _ cancels_c7240687, of "[True, True, False, True, True, True, False]"],
      simp, simp only: mont_eval k_c7240687_def a_c7240687_def d_c7240687_def, simp)

lemma fermat_c7240687: "length a_c7240687 ^ 7240686 mod 7240687 = 1"
  using mont_rep_one[OF _ rep_c7240687_m2 rep_c7240687_0, of 0] by (simp add: a_c7240687_def)

lemma rep_c7240687_q0_1: "mont_rep 7240687 (length k_c7240687) (length a_c7240687) 6
    (C XF (C X9 (C XB (C XC (C X6 (C X2 E))))))"
  by (rule mont_step[OF rep_c7240687_0 _ cancels_c7240687, of "[True, True, False]"],
      simp, simp only: mont_eval k_c7240687_def a_c7240687_def d_c7240687_def, simp)

lemma pock_c7240687_0: "pocklington_cond 7240687 (length a_c7240687) 1206781"
proof -
  have "mont k_c7240687 (cancel_of d_c7240687) (mults_of (C X1 (C X9 (C XF (C XA (C X7 (C X5 E)))))))
    (C XF (C X9 (C XB (C XC (C X6 (C X2 E)))))) E = Done (C X2 (C X9 (C XF (C XA (C X7 (C X5 E))))))"
    by (simp only: mont_eval k_c7240687_def d_c7240687_def)
  from mont_cond[OF _ cancels_c7240687 rep_c7240687_q0_1 this, of 0]
  show ?thesis by (intro pocklington_condI[of _ _ 6]) (simp_all add: fermat_c7240687)
qed

lemma prime_c7240687: "is_prime 7240687"
  by (rule pocklington[of _ "[1206781]" "length a_c7240687"])
    (simp_all add: prime_c1206781 pock_c7240687_0)

lemma prime_c239: "is_prime 239"
  by (rule is_prime_trial[of _ 16]) (simp_all add: upt_rec)

lemma prime_c101: "is_prime 101"
  by (rule is_prime_trial[of _ 11]) (simp_all add: upt_rec)

subsection \<open>96557\<close>

definition k_c96557 :: "unit list" where
  "k_c96557 = [(), (), (), (), (), (), (), ()]"

definition a_c96557 :: "unit list" where
  "a_c96557 = [(), ()]"

definition d_c96557 :: digits where
  "d_c96557 = (C XD (C X2 (C X9 (C X7 (C X1 E)))))"

lemma dval_c96557: "dval d_c96557 = 96557"
  by (simp add: d_c96557_def)

lemma cancels_c96557: "cancels (cancel_of d_c96557) 96557"
  using cancels_of[of d_c96557] by (simp add: dval_c96557)

lemma rep_c96557_0: "mont_rep 96557 (length k_c96557) (length a_c96557) 0
    (C X3 (C X1 (C XC (C X3 E))))"
  by (simp add: mont_rep_def k_c96557_def a_c96557_def)

lemma rep_c96557_m1: "mont_rep 96557 (length k_c96557) (length a_c96557) 48278
    (C XA (C X1 (C XD (C X3 (C X1 E)))))"
  by (rule mont_step[OF rep_c96557_0 _ cancels_c96557, of "[True, False, True, True, True, True, False, False, True, False, False, True, False, True, True, False]"],
      simp, simp only: mont_eval k_c96557_def a_c96557_def d_c96557_def, simp)

lemma rep_c96557_m2: "mont_rep 96557 (length k_c96557) (length a_c96557) 96556
    (C X3 (C X1 (C XC (C X3 E))))"
  by (rule mont_step[OF rep_c96557_m1 _ cancels_c96557, of "[False]"],
      simp, simp only: mont_eval k_c96557_def a_c96557_def d_c96557_def, simp)

lemma fermat_c96557: "length a_c96557 ^ 96556 mod 96557 = 1"
  using mont_rep_one[OF _ rep_c96557_m2 rep_c96557_0, of 0] by (simp add: a_c96557_def)

lemma rep_c96557_q0_1: "mont_rep 96557 (length k_c96557) (length a_c96557) 404
    (C XE (C X8 (C X7 (C X6 E))))"
  by (rule mont_step[OF rep_c96557_0 _ cancels_c96557, of "[True, True, False, False, True, False, True, False, False]"],
      simp, simp only: mont_eval k_c96557_def a_c96557_def d_c96557_def, simp)

lemma pock_c96557_0: "pocklington_cond 96557 (length a_c96557) 239"
proof -
  have "mont k_c96557 (cancel_of d_c96557) (mults_of (C X9 (C X8 (C X0 (C X2 E)))))
    (C XE (C X8 (C X7 (C X6 E)))) E = Done (C XA (C X8 (C X0 (C X2 E))))"
    by (simp only: mont_eval k_c96557_def d_c96557_def)
  from mont_cond[OF _ cancels_c96557 rep_c96557_q0_1 this, of 0]
  show ?thesis by (intro pocklington_condI[of _ _ 404]) (simp_all add: fermat_c96557)
qed

lemma rep_c96557_q1_1: "mont_rep 96557 (length k_c96557) (length a_c96557) 956
    (C XF (C X0 (C X3 (C XE E))))"
  by (rule mont_step[OF rep_c96557_0 _ cancels_c96557, of "[True, True, True, False, True, True, True, True, False, False]"],
      simp, simp only: mont_eval k_c96557_def a_c96557_def d_c96557_def, simp)

lemma pock_c96557_1: "pocklington_cond 96557 (length a_c96557) 101"
proof -
  have "mont k_c96557 (cancel_of d_c96557) (mults_of (C XD (C X0 (C X5 (C XC E)))))
    (C XF (C X0 (C X3 (C XE E)))) E = Done (C XE (C X0 (C X5 (C XC E))))"
    by (simp only: mont_eval k_c96557_def d_c96557_def)
  from mont_cond[OF _ cancels_c96557 rep_c96557_q1_1 this, of 0]
  show ?thesis by (intro pocklington_condI[of _ _ 956]) (simp_all add: fermat_c96557)
qed

lemma prime_c96557: "is_prime 96557"
  by (rule pocklington[of _ "[239, 101]" "length a_c96557"])
    (simp_all add: prime_c239 pock_c96557_0 prime_c101 pock_c96557_1)

subsection \<open>255515944373312847190720520512484175977\<close>

definition k_r128 :: "unit list" where
  "k_r128 = [(), (), (), (), (), (), (), (), (), (), (), (), (), (), (), (), (), (), (), (), (), (), (), (),
    (), (), (), (), (), (), (), (), (), (), ()]"

definition a_r128 :: "unit list" where
  "a_r128 = [(), ()]"

definition d_r128 :: digits where
  "d_r128 = (C X9 (C X6 (C X0 (C X7 (C X8 (C X9 (C XF (C XB (C XC (C XC (C X8 (C XD (C XC (C X5 (C X0 (C XA (C
    X9 (C X1 (C X4 (C X4 (C X6 (C XE (C X3 (C XD (C X2 (C XB (C X4 (C X9 (C XA (C X3 (C X0 (C XC
    E))))))))))))))))))))))))))))))))"

lemma dval_r128: "dval d_r128 = 255515944373312847190720520512484175977"
  by (simp add: d_r128_def)

lemma cancels_r128: "cancels (cancel_of d_r128) 255515944373312847190720520512484175977"
  using cancels_of[of d_r128] by (simp add: dval_r128)

lemma rep_r128_0: "mont_rep 255515944373312847190720520512484175977 (length k_r128) (length a_r128) 0
    (C X2 (C X0 (C X3 (C X2 (C X5 (C X5 (C XE (C X1 (C X6 (C XE (C X5 (C X2 (C XD (C XE (C X5 (C X8 (C
    X9 (C X0 (C X6 (C X2 (C X1 (C X4 (C XC (C X8 (C X1 (C X2 (C X6 (C X0 (C X4 (C XF (C XF (C X9
    E))))))))))))))))))))))))))))))))"
  by (simp add: mont_rep_def k_r128_def a_r128_def)

lemma rep_r128_m1: "mont_rep 255515944373312847190720520512484175977 (length k_r128) (length a_r128) 49210
    (C X8 (C X6 (C XB (C X3 (C X7 (C X2 (C X3 (C X6 (C X5 (C X1 (C X3 (C X8 (C XD (C X0 (C X3 (C XE (C
    XF (C XA (C X4 (C XC (C X8 (C XD (C XA (C X8 (C XB (C X7 (C X7 (C X9 (C X7 (C XE (C X6 (C XA
    E))))))))))))))))))))))))))))))))"
  by (rule mont_step[OF rep_r128_0 _ cancels_r128, of "[True, True, False, False, False, False, False, False, False, False, True, True, True, False, True, False]"],
      simp, simp only: mont_eval k_r128_def a_r128_def d_r128_def, simp)

lemma rep_r128_m2: "mont_rep 255515944373312847190720520512484175977 (length k_r128) (length a_r128) 3225064626
    (C X6 (C X4 (C X3 (C X9 (C X1 (C XA (C XB (C XD (C X5 (C XF (C XE (C XA (C X3 (C X8 (C X0 (C X9 (C
    X9 (C X3 (C X1 (C X0 (C X0 (C X3 (C XB (C X2 (C X6 (C X3 (C XB (C X1 (C XD (C X6 (C XC (C X2
    E))))))))))))))))))))))))))))))))"
  by (rule mont_step[OF rep_r128_m1 _ cancels_r128, of "[True, False, False, True, False, True, False, False, True, False, True, True, False, False, True, False]"],
      simp, simp only: mont_eval k_r128_def a_r128_def d_r128_def, simp)

lemma rep_r128_m3: "mont_rep 255515944373312847190720520512484175977 (length k_r128) (length a_r128) 211357835383782
    (C X7 (C XE (C XC (C X1 (C X5 (C X6 (C X5 (C X3 (C XC (C XF (C X3 (C X9 (C X8 (C X6 (C XE (C X0 (C
    X4 (C XA (C X9 (C X7 (C XE (C X0 (C X3 (C XA (C X5 (C XD (C X3 (C X6 (C XA (C X3 (C X5
    E)))))))))))))))))))))))))))))))"
  by (rule mont_step[OF rep_r128_m2 _ cancels_r128, of "[True, True, False, True, False, False, True, True, True, True, True, False, False, True, True, False]"],
      simp, simp only: mont_eval k_r128_def a_r128_def d_r128_def, simp)

lemma rep_r128_m4: "mont_rep 255515944373312847190720520512484175977 (length k_r128) (length a_r128) 13851547099711554585
    (C X6 (C X5 (C X1 (C X3 (C X8 (C XA (C X1 (C XE (C X4 (C X4 (C X2 (C X4 (C XE (C XE (C X3 (C X5 (C
    XD (C X7 (C X6 (C XA (C X0 (C XC (C XF (C X1 (C X6 (C X0 (C X5 (C X3 (C X7 (C X1 (C X1 (C X9
    E))))))))))))))))))))))))))))))))"
  by (rule mont_step[OF rep_r128_m3 _ cancels_r128, of "[False, True, False, False, False, True, False, False, False, False, False, True, True, False, False, True]"],
      simp, simp only: mont_eval k_r128_def a_r128_def d_r128_def, simp)

lemma rep_r128_m5: "mont_rep 255515944373312847190720520512484175977 (length k_r128) (length a_r128) 907774990726696441323612
    (C X7 (C X3 (C XF (C XF (C X5 (C X1 (C XC (C X1 (C XF (C X2 (C XA (C X8 (C XC (C X4 (C X9 (C XB (C
    XE (C X6 (C X4 (C XB (C X7 (C X0 (C XA (C X1 (C XC (C X9 (C XC (C X3 (C X1 (C X0 (C XA (C XB
    E))))))))))))))))))))))))))))))))"
  by (rule mont_step[OF rep_r128_m4 _ cancels_r128, of "[True, False, True, False, False, False, False, False, False, True, False, True, True, True, False, False]"],
      simp, simp only: mont_eval k_r128_def a_r128_def d_r128_def, simp)

lemma rep_r128_m6: "mont_rep 255515944373312847190720520512484175977 (length k_r128) (length a_r128) 59491941792264777978584291532
    (C XE (C XD (C XF (C XB (C X1 (C XB (C X9 (C X5 (C XE (C X4 (C X6 (C XA (C XF (C X2 (C XB (C XE (C
    XE (C X6 (C X1 (C X5 (C X4 (C X8 (C X2 (C X2 (C X5 (C X4 (C XE (C XB (C X4 (C XE (C X8 (C X2
    E))))))))))))))))))))))))))))))))"
  by (rule mont_step[OF rep_r128_m5 _ cancels_r128, of "[True, True, False, True, True, False, False, False, True, True, False, False, True, True, False, False]"],
      simp, simp only: mont_eval k_r128_def a_r128_def d_r128_def, simp)

lemma rep_r128_m7: "mont_rep 255515944373312847190720520512484175977 (length k_r128) (length a_r128) 3898863897297864489604500129890200
    (C XB (C X8 (C XD (C XB (C X1 (C X0 (C X3 (C X2 (C X9 (C X8 (C XB (C XD (C XA (C XC (C X9 (C XA (C
    XA (C X8 (C XB (C X2 (C XC (C X3 (C XF (C X0 (C X7 (C X4 (C X7 (C X0 (C XF (C X8 (C X6 (C X7
    E))))))))))))))))))))))))))))))))"
  by (rule mont_step[OF rep_r128_m6 _ cancels_r128, of "[True, False, True, True, True, True, True, True, True, False, False, True, True, False, False, False]"],
      simp, simp only: mont_eval k_r128_def a_r128_def d_r128_def, simp)

lemma rep_r128_m8: "mont_rep 255515944373312847190720520512484175977 (length k_r128) (length a_r128) 255515944373312847190720520512484175976
    (C X2 (C X0 (C X3 (C X2 (C X5 (C X5 (C XE (C X1 (C X6 (C XE (C X5 (C X2 (C XD (C XE (C X5 (C X8 (C
    X9 (C X0 (C X6 (C X2 (C X1 (C X4 (C XC (C X8 (C X1 (C X2 (C X6 (C X0 (C X4 (C XF (C XF (C X9
    E))))))))))))))))))))))))))))))))"
  by (rule mont_step[OF rep_r128_m7 _ cancels_r128, of "[False, True, True, True, False, False, False, False, False, True, True, False, True, False, False, False]"],
      simp, simp only: mont_eval k_r128_def a_r128_def d_r128_def, simp)

lemma fermat_r128: "length a_r128 ^ 255515944373312847190720520512484175976 mod 255515944373312847190720520512484175977 = 1"
  using mont_rep_one[OF _ rep_r128_m8 rep_r128_0, of 0] by (simp add: a_r128_def)

lemma rep_r128_q0_1: "mont_rep 255515944373312847190720520512484175977 (length k_r128) (length a_r128) 61389
    (C X6 (C XE (C XA (C XF (C X0 (C X0 (C XD (C X3 (C XA (C X6 (C X8 (C XA (C XD (C XF (C XA (C XB (C
    X1 (C X1 (C X8 (C X3 (C X0 (C X3 (C X0 (C X6 (C XB (C X1 (C X8 (C X8 (C X7 (C XA (C XC
    E)))))))))))))))))))))))))))))))"
  by (rule mont_step[OF rep_r128_0 _ cancels_r128, of "[True, True, True, False, True, True, True, True, True, True, False, False, True, True, False, True]"],
      simp, simp only: mont_eval k_r128_def a_r128_def d_r128_def, simp)

lemma rep_r128_q0_2: "mont_rep 255515944373312847190720520512484175977 (length k_r128) (length a_r128) 4023244194
    (C X0 (C X8 (C X4 (C X4 (C X3 (C X4 (C X1 (C X1 (C XF (C X5 (C X0 (C X9 (C XA (C XB (C X7 (C X6 (C
    X4 (C XB (C XF (C XA (C X1 (C X1 (C X3 (C XB (C X8 (C XD (C XF (C X4 (C XE (C X8 (C XF
    E)))))))))))))))))))))))))))))))"
  by (rule mont_step[OF rep_r128_q0_1 _ cancels_r128, of "[True, True, False, True, False, True, False, True, True, False, True, False, False, False, True, False]"],
      simp, simp only: mont_eval k_r128_def a_r128_def d_r128_def, simp)

lemma rep_r128_q0_3: "mont_rep 255515944373312847190720520512484175977 (length k_r128) (length a_r128) 263667331504246
    (C X5 (C X6 (C XC (C X7 (C X0 (C X4 (C X7 (C XC (C X1 (C X1 (C XF (C XF (C XB (C XF (C XB (C XD (C
    X3 (C XC (C XB (C X3 (C X6 (C XF (C X7 (C X1 (C X0 (C XD (C X9 (C X4 (C XA (C XC (C X8 (C X7
    E))))))))))))))))))))))))))))))))"
  by (rule mont_step[OF rep_r128_q0_2 _ cancels_r128, of "[False, False, False, True, True, False, False, False, False, True, True, True, False, True, True, False]"],
      simp, simp only: mont_eval k_r128_def a_r128_def d_r128_def, simp)

lemma rep_r128_q0_4: "mont_rep 255515944373312847190720520512484175977 (length k_r128) (length a_r128) 17279702237462329903
    (C X4 (C X2 (C X0 (C XC (C XC (C XF (C XC (C X8 (C X1 (C X7 (C X6 (C X8 (C X6 (C X1 (C XB (C X0 (C
    X5 (C X4 (C X2 (C X1 (C XE (C XB (C X2 (C X1 (C X1 (C X4 (C XA (C X9 (C XB (C X1 (C XF (C XC
    E))))))))))))))))))))))))))))))))"
  by (rule mont_step[OF rep_r128_q0_3 _ cancels_r128, of "[True, True, True, True, True, False, True, False, False, False, True, False, True, True, True, True]"],
      simp, simp only: mont_eval k_r128_def a_r128_def d_r128_def, simp)

lemma rep_r128_q0_5: "mont_rep 255515944373312847190720520512484175977 (length k_r128) (length a_r128) 1132442565834331252586758
    (C XA (C XE (C XD (C X7 (C X2 (C X4 (C X0 (C XD (C X5 (C X2 (C XB (C X2 (C XA (C X2 (C X5 (C X5 (C
    X2 (C XA (C X8 (C X7 (C X9 (C XB (C XE (C X6 (C X2 (C X3 (C X2 (C X5 (C X3 (C X4 (C X1 (C X5
    E))))))))))))))))))))))))))))))))"
  by (rule mont_step[OF rep_r128_q0_4 _ cancels_r128, of "[True, True, True, True, True, False, False, True, False, False, False, False, False, True, True, False]"],
      simp, simp only: mont_eval k_r128_def a_r128_def d_r128_def, simp)

lemma rep_r128_q0_6: "mont_rep 255515944373312847190720520512484175977 (length k_r128) (length a_r128) 74215755994518732969525822999
    (C XE (C X5 (C X6 (C XA (C X4 (C X9 (C X0 (C XA (C XA (C X2 (C X4 (C X7 (C X8 (C X6 (C X8 (C X7 (C
    XE (C X3 (C X2 (C XD (C X9 (C XA (C XA (C XB (C XF (C X1 (C X1 (C XE (C X4 (C X1 (C XB (C X2
    (C X1 E)))))))))))))))))))))))))))))))))"
  by (rule mont_step[OF rep_r128_q0_5 _ cancels_r128, of "[True, True, False, False, False, True, True, False, False, False, False, True, False, True, True, True]"],
      simp, simp only: mont_eval k_r128_def a_r128_def d_r128_def, simp)

lemma rep_r128_q0_7: "mont_rep 255515944373312847190720520512484175977 (length k_r128) (length a_r128) 2374904191824599455024826335976
    (C X3 (C XB (C XE (C XE (C X6 (C XA (C XF (C XA (C X4 (C XE (C XD (C X7 (C X5 (C XE (C X6 (C X5 (C
    X5 (C XC (C X4 (C X5 (C XC (C XE (C XC (C X9 (C X0 (C XE (C XD (C X4 (C XF (C XB (C X9 (C X9
    E))))))))))))))))))))))))))))))))"
  by (rule mont_step[OF rep_r128_q0_6 _ cancels_r128, of "[False, True, False, False, False]"],
      simp, simp only: mont_eval k_r128_def a_r128_def d_r128_def, simp)

lemma pock_r128_0: "pocklington_cond 255515944373312847190720520512484175977 (length a_r128) 107590001"
proof -
  have "mont k_r128 (cancel_of d_r128) (mults_of (C X7 (C X2 (C X2 (C XB (C X0 (C X5 (C X8 (C XA (C XD (C X2 (C X1 (C X5 (C XC (C XA (C X2 (C X3 (C
    X5 (C X4 (C X7 (C XA (C XE (C XE (C XA (C XF (C X9 (C X0 (C X6 (C X0 (C XB (C XD (C X0 (C XB
    E)))))))))))))))))))))))))))))))))
    (C X3 (C XB (C XE (C XE (C X6 (C XA (C XF (C XA (C X4 (C XE (C XD (C X7 (C X5 (C XE (C X6 (C X5 (C
    X5 (C XC (C X4 (C X5 (C XC (C XE (C XC (C X9 (C X0 (C XE (C XD (C X4 (C XF (C XB (C X9 (C X9
    E)))))))))))))))))))))))))))))))) E = Done (C X8 (C X2 (C X2 (C XB (C X0 (C X5 (C X8 (C XA (C XD (C X2 (C X1 (C X5 (C XC (C XA (C X2 (C X3 (C
    X5 (C X4 (C X7 (C XA (C XE (C XE (C XA (C XF (C X9 (C X0 (C X6 (C X0 (C XB (C XD (C X0 (C XB
    E))))))))))))))))))))))))))))))))"
    by (simp only: mont_eval k_r128_def d_r128_def)
  from mont_cond[OF _ cancels_r128 rep_r128_q0_7 this, of 0]
  show ?thesis by (intro pocklington_condI[of _ _ 2374904191824599455024826335976]) (simp_all add: fermat_r128)
qed

lemma rep_r128_q1_1: "mont_rep 255515944373312847190720520512484175977 (length k_r128) (length a_r128) 57012
    (C XF (C XB (C X0 (C XB (C X5 (C X9 (C XA (C X1 (C X3 (C X0 (C XB (C X3 (C X3 (C X2 (C X2 (C X8 (C
    X6 (C X5 (C XD (C XD (C X4 (C X1 (C XF (C X9 (C XB (C XC (C X1 (C XE (C XE (C X7 (C X2 (C X1
    E))))))))))))))))))))))))))))))))"
  by (rule mont_step[OF rep_r128_0 _ cancels_r128, of "[True, True, False, True, True, True, True, False, True, False, True, True, False, True, False, False]"],
      simp, simp only: mont_eval k_r128_def a_r128_def d_r128_def, simp)

lemma rep_r128_q1_2: "mont_rep 255515944373312847190720520512484175977 (length k_r128) (length a_r128) 3736358570
    (C XD (C XC (C X9 (C X5 (C X8 (C X6 (C XA (C X4 (C XA (C X6 (C X9 (C X0 (C X0 (C X1 (C X9 (C X8 (C
    XB (C XF (C X9 (C X5 (C XE (C XF (C XB (C X9 (C X0 (C X1 (C XD (C X9 (C XF (C X1 (C X2 (C X9
    E))))))))))))))))))))))))))))))))"
  by (rule mont_step[OF rep_r128_q1_1 _ cancels_r128, of "[False, True, False, False, True, True, True, False, True, False, True, False, True, False, True, False]"],
      simp, simp only: mont_eval k_r128_def a_r128_def d_r128_def, simp)

lemma rep_r128_q1_3: "mont_rep 255515944373312847190720520512484175977 (length k_r128) (length a_r128) 244865995279602
    (C X7 (C XD (C X8 (C X7 (C XD (C X4 (C X3 (C X0 (C X6 (C X6 (C XB (C X1 (C X8 (C XF (C X6 (C XA (C
    X1 (C X1 (C XB (C X4 (C X6 (C X5 (C XA (C XC (C XE (C X3 (C XA (C XE (C X5 (C XB (C X3 (C X5
    E))))))))))))))))))))))))))))))))"
  by (rule mont_step[OF rep_r128_q1_2 _ cancels_r128, of "[True, False, False, False, True, True, False, False, True, True, True, True, False, False, True, False]"],
      simp, simp only: mont_eval k_r128_def a_r128_def d_r128_def, simp)

lemma rep_r128_q1_4: "mont_rep 255515944373312847190720520512484175977 (length k_r128) (length a_r128) 16047537866644027630
    (C XD (C XC (C XE (C X3 (C X5 (C X7 (C XF (C X5 (C X3 (C X4 (C X7 (C X9 (C XE (C X9 (C XB (C X4 (C
    XF (C XB (C X3 (C X8 (C XA (C XF (C XF (C X8 (C X1 (C X9 (C X1 (C XC (C X6 (C X5 (C X4 (C X2
    E))))))))))))))))))))))))))))))))"
  by (rule mont_step[OF rep_r128_q1_3 _ cancels_r128, of "[False, True, True, True, True, False, False, False, True, True, True, False, True, True, True, False]"],
      simp, simp only: mont_eval k_r128_def a_r128_def d_r128_def, simp)

lemma rep_r128_q1_5: "mont_rep 255515944373312847190720520512484175977 (length k_r128) (length a_r128) 1051691441628382994770909
    (C XA (C X7 (C X0 (C XE (C X5 (C XD (C X8 (C X9 (C X9 (C XD (C X4 (C X5 (C XE (C XE (C X3 (C XB (C
    X8 (C XB (C XA (C X2 (C X7 (C XE (C XB (C XF (C X8 (C X8 (C XC (C X6 (C XB (C X7 (C X1 (C X9
    E))))))))))))))))))))))))))))))))"
  by (rule mont_step[OF rep_r128_q1_4 _ cancels_r128, of "[False, False, True, False, True, False, True, True, True, True, False, True, True, True, False, True]"],
      simp, simp only: mont_eval k_r128_def a_r128_def d_r128_def, simp)

lemma rep_r128_q1_6: "mont_rep 255515944373312847190720520512484175977 (length k_r128) (length a_r128) 68923650318557707945306297127
    (C X2 (C X5 (C XF (C X9 (C X7 (C XD (C XE (C X0 (C XB (C XE (C XB (C XF (C XC (C XB (C X6 (C X7 (C
    XE (C X2 (C X7 (C XE (C X5 (C X5 (C X5 (C X7 (C X5 (C X2 (C X7 (C X6 (C X1 (C X2 (C X5 (C XF
    E))))))))))))))))))))))))))))))))"
  by (rule mont_step[OF rep_r128_q1_5 _ cancels_r128, of "[False, False, False, True, False, False, True, True, False, False, True, False, False, True, True, True]"],
      simp, simp only: mont_eval k_r128_def a_r128_def d_r128_def, simp)

lemma rep_r128_q1_7: "mont_rep 255515944373312847190720520512484175977 (length k_r128) (length a_r128) 35288908963101546467996824129048
    (C XE (C XE (C XE (C XA (C XB (C XD (C X0 (C X0 (C X7 (C X2 (C XF (C X7 (C X9 (C XB (C X9 (C X2 (C
    X4 (C XD (C XD (C X8 (C XE (C XD (C XC (C X9 (C XC (C X7 (C XC (C X8 (C XF (C X3 (C X1 (C X8
    E))))))))))))))))))))))))))))))))"
  by (rule mont_step[OF rep_r128_q1_6 _ cancels_r128, of "[False, False, False, False, True, True, False, False, False]"],
      simp, simp only: mont_eval k_r128_def a_r128_def d_r128_def, simp)

lemma pock_r128_1: "pocklington_cond 255515944373312847190720520512484175977 (length a_r128) 7240687"
proof -
  have "mont k_r128 (cancel_of d_r128) (mults_of (C XD (C X4 (C X4 (C XE (C X6 (C X5 (C X4 (C X1 (C XB (C X0 (C X2 (C XB (C X2 (C X7 (C X7 (C X6 (C
    X6 (C X8 (C X0 (C XD (C X1 (C XE (C XA (C X3 (C XA (C XD (C XE (C X9 (C X0 (C X1 (C X4 (C X8
    E)))))))))))))))))))))))))))))))))
    (C XE (C XE (C XE (C XA (C XB (C XD (C X0 (C X0 (C X7 (C X2 (C XF (C X7 (C X9 (C XB (C X9 (C X2 (C
    X4 (C XD (C XD (C X8 (C XE (C XD (C XC (C X9 (C XC (C X7 (C XC (C X8 (C XF (C X3 (C X1 (C X8
    E)))))))))))))))))))))))))))))))) E = Done (C XE (C X4 (C X4 (C XE (C X6 (C X5 (C X4 (C X1 (C XB (C X0 (C X2 (C XB (C X2 (C X7 (C X7 (C X6 (C
    X6 (C X8 (C X0 (C XD (C X1 (C XE (C XA (C X3 (C XA (C XD (C XE (C X9 (C X0 (C X1 (C X4 (C X8
    E))))))))))))))))))))))))))))))))"
    by (simp only: mont_eval k_r128_def d_r128_def)
  from mont_cond[OF _ cancels_r128 rep_r128_q1_7 this, of 0]
  show ?thesis by (intro pocklington_condI[of _ _ 35288908963101546467996824129048]) (simp_all add: fermat_r128)
qed

lemma rep_r128_q2_1: "mont_rep 255515944373312847190720520512484175977 (length k_r128) (length a_r128) 33400
    (C X2 (C XF (C XE (C X8 (C X8 (C XE (C XA (C X4 (C XD (C X0 (C X2 (C X7 (C X3 (C XA (C XD (C XA (C
    XA (C X3 (C X7 (C XA (C X4 (C X2 (C X8 (C XA (C X8 (C XD (C X4 (C X9 (C XD (C XD (C X4 (C X5
    E))))))))))))))))))))))))))))))))"
  by (rule mont_step[OF rep_r128_0 _ cancels_r128, of "[True, False, False, False, False, False, True, False, False, True, True, True, True, False, False, False]"],
      simp, simp only: mont_eval k_r128_def a_r128_def d_r128_def, simp)

lemma rep_r128_q2_2: "mont_rep 255515944373312847190720520512484175977 (length k_r128) (length a_r128) 2188943684
    (C XF (C X2 (C X1 (C XA (C XB (C X3 (C XD (C X0 (C XE (C X3 (C XB (C X2 (C X8 (C X3 (C X0 (C XC (C
    X9 (C X7 (C XC (C XE (C X0 (C X0 (C X0 (C X2 (C X8 (C X8 (C X1 (C X9 (C X5 (C X2 (C XD (C XA
    E))))))))))))))))))))))))))))))))"
  by (rule mont_step[OF rep_r128_q2_1 _ cancels_r128, of "[True, False, True, False, False, False, False, True, False, True, False, False, False, True, False, False]"],
      simp, simp only: mont_eval k_r128_def a_r128_def d_r128_def, simp)

lemma rep_r128_q2_3: "mont_rep 255515944373312847190720520512484175977 (length k_r128) (length a_r128) 143454613334212
    (C X8 (C X1 (C XA (C XE (C X4 (C X7 (C X0 (C XB (C X2 (C XD (C X0 (C XF (C X4 (C X2 (C X5 (C X4 (C
    X4 (C X8 (C XB (C X7 (C X9 (C X3 (C X7 (C X4 (C X6 (C X1 (C X2 (C X4 (C X8 (C X6 (C X9 (C X5
    E))))))))))))))))))))))))))))))))"
  by (rule mont_step[OF rep_r128_q2_2 _ cancels_r128, of "[True, True, True, False, True, False, False, False, True, True, False, False, False, True, False, False]"],
      simp, simp only: mont_eval k_r128_def a_r128_def d_r128_def, simp)

lemma rep_r128_q2_4: "mont_rep 255515944373312847190720520512484175977 (length k_r128) (length a_r128) 9401441539470949193
    (C X6 (C X5 (C X8 (C X4 (C X9 (C X7 (C X8 (C X7 (C XB (C X1 (C XF (C X3 (C X6 (C XF (C X7 (C XE (C
    X8 (C X0 (C XA (C X8 (C X5 (C X9 (C XB (C XE (C X0 (C XA (C XF (C X9 (C X5 (C XD (C X5 (C X3
    (C X1 E)))))))))))))))))))))))))))))))))"
  by (rule mont_step[OF rep_r128_q2_3 _ cancels_r128, of "[False, True, True, True, True, False, True, True, False, True, False, False, True, False, False, True]"],
      simp, simp only: mont_eval k_r128_def a_r128_def d_r128_def, simp)

lemma rep_r128_q2_5: "mont_rep 255515944373312847190720520512484175977 (length k_r128) (length a_r128) 616132872730768126377003
    (C XA (C XC (C X5 (C X0 (C XE (C X4 (C XC (C X0 (C XB (C X9 (C XA (C XE (C XB (C X6 (C X5 (C X8 (C
    X4 (C X7 (C XD (C XC (C X2 (C XE (C XB (C X2 (C X1 (C X0 (C XA (C X8 (C X2 (C XA (C X5 (C XD
    E))))))))))))))))))))))))))))))))"
  by (rule mont_step[OF rep_r128_q2_4 _ cancels_r128, of "[True, True, True, True, True, True, False, False, False, False, True, False, True, False, True, True]"],
      simp, simp only: mont_eval k_r128_def a_r128_def d_r128_def, simp)

lemma rep_r128_q2_6: "mont_rep 255515944373312847190720520512484175977 (length k_r128) (length a_r128) 40378883947283619930243277337
    (C X6 (C X5 (C XD (C X3 (C XB (C X4 (C XF (C XB (C X5 (C X1 (C XA (C XD (C XE (C X9 (C XA (C X4 (C
    XF (C XD (C XB (C XE (C X9 (C X2 (C XF (C X4 (C XE (C X0 (C X3 (C X6 (C XC (C X4 (C XA (C X3
    E))))))))))))))))))))))))))))))))"
  by (rule mont_step[OF rep_r128_q2_5 _ cancels_r128, of "[False, False, True, False, False, False, True, False, False, False, False, True, True, False, False, True]"],
      simp, simp only: mont_eval k_r128_def a_r128_def d_r128_def, simp)

lemma rep_r128_q2_7: "mont_rep 255515944373312847190720520512484175977 (length k_r128) (length a_r128) 2646270538369179315748423423599368
    (C XA (C X4 (C X2 (C X3 (C X5 (C X5 (C XA (C XE (C X2 (C X0 (C XA (C X4 (C X0 (C XD (C X7 (C XE (C
    X5 (C XC (C X6 (C X3 (C XC (C X6 (C XA (C X3 (C X4 (C X0 (C X3 (C XE (C X9 (C X5 (C X6 (C X1
    E))))))))))))))))))))))))))))))))"
  by (rule mont_step[OF rep_r128_q2_6 _ cancels_r128, of "[True, False, True, False, False, False, True, True, False, False, False, False, True, False, False, False]"],
      simp, simp only: mont_eval k_r128_def a_r128_def d_r128_def, simp)

lemma pock_r128_2: "pocklington_cond 255515944373312847190720520512484175977 (length a_r128) 96557"
proof -
  have "mont k_r128 (cancel_of d_r128) (mults_of (C X3 (C X1 (C XA (C XD (C X6 (C X8 (C X4 (C X6 (C X8 (C X5 (C X6 (C X7 (C XA (C X3 (C X1 (C X0 (C
    X3 (C XB (C X7 (C X1 (C XF (C XC (C X0 (C X2 (C X5 (C XE (C X6 (C X0 (C XF (C X5 (C X7 (C X2
    E)))))))))))))))))))))))))))))))))
    (C XA (C X4 (C X2 (C X3 (C X5 (C X5 (C XA (C XE (C X2 (C X0 (C XA (C X4 (C X0 (C XD (C X7 (C XE (C
    X5 (C XC (C X6 (C X3 (C XC (C X6 (C XA (C X3 (C X4 (C X0 (C X3 (C XE (C X9 (C X5 (C X6 (C X1
    E)))))))))))))))))))))))))))))))) E = Done (C X4 (C X1 (C XA (C XD (C X6 (C X8 (C X4 (C X6 (C X8 (C X5 (C X6 (C X7 (C XA (C X3 (C X1 (C X0 (C
    X3 (C XB (C X7 (C X1 (C XF (C XC (C X0 (C X2 (C X5 (C XE (C X6 (C X0 (C XF (C X5 (C X7 (C X2
    E))))))))))))))))))))))))))))))))"
    by (simp only: mont_eval k_r128_def d_r128_def)
  from mont_cond[OF _ cancels_r128 rep_r128_q2_7 this, of 0]
  show ?thesis by (intro pocklington_condI[of _ _ 2646270538369179315748423423599368]) (simp_all add: fermat_r128)
qed

lemma prime_r128: "is_prime 255515944373312847190720520512484175977"
  by (rule pocklington[of _ "[107590001, 7240687, 96557]" "length a_r128"])
    (simp_all add: prime_c107590001 pock_r128_0 prime_c7240687 pock_r128_1 prime_c96557 pock_r128_2)

subsection \<open>205115282021455665897114700593932402728804164701536103180137503955397371\<close>

definition k_q237 :: "unit list" where
  "k_q237 = [(), (), (), (), (), (), (), (), (), (), (), (), (), (), (), (), (), (), (), (), (), (), (), (),
    (), (), (), (), (), (), (), (), (), (), (), (), (), (), (), (), (), (), (), (), (), (), (),
    (), (), (), (), (), (), (), (), (), (), (), (), (), (), (), ()]"

definition a_q237 :: "unit list" where
  "a_q237 = [(), ()]"

definition d_q237 :: digits where
  "d_q237 = (C XB (C XF (C XA (C XA (C X8 (C X3 (C X3 (C XF (C X4 (C XA (C XD (C X0 (C XC (C X4 (C XD (C X6 (C
    X7 (C X7 (C XA (C X9 (C X8 (C XD (C X5 (C X7 (C XD (C X6 (C X3 (C X9 (C X5 (C XA (C X3 (C XA
    (C X6 (C XF (C XC (C XC (C XF (C X8 (C X8 (C X0 (C X0 (C XA (C X6 (C X4 (C XA (C X0 (C X6 (C
    X4 (C XB (C X3 (C XE (C X5 (C XE (C X0 (C X6 (C X2 (C X8 (C XB (C XD (C X1
    E))))))))))))))))))))))))))))))))))))))))))))))))))))))))))))"

lemma dval_q237: "dval d_q237 = 205115282021455665897114700593932402728804164701536103180137503955397371"
  by (simp add: d_q237_def)

lemma cancels_q237: "cancels (cancel_of d_q237) 205115282021455665897114700593932402728804164701536103180137503955397371"
  using cancels_of[of d_q237] by (simp add: dval_q237)

lemma rep_q237_0: "mont_rep 205115282021455665897114700593932402728804164701536103180137503955397371 (length k_q237) (length a_q237) 0
    (C XA (C X1 (C XB (C X6 (C X3 (C X0 (C X8 (C X2 (C X7 (C X8 (C X8 (C X8 (C XF (C X4 (C X4 (C XA (C
    XA (C X8 (C X0 (C X6 (C X7 (C XA (C X9 (C X6 (C X4 (C X2 (C XC (C X7 (C X7 (C X4 (C X6 (C X2
    (C XA (C X1 (C X0 (C XE (C X9 (C X5 (C X5 (C X0 (C X4 (C X2 (C XC (C X6 (C X6 (C XC (C XB (C
    X0 (C X5 (C XE (C XA (C XF (C X8 (C XC (C X7 (C X1 (C X3 (C X9 (C X2 (C X1
    E))))))))))))))))))))))))))))))))))))))))))))))))))))))))))))"
  by (simp add: mont_rep_def k_q237_def a_q237_def)

lemma rep_q237_m1: "mont_rep 205115282021455665897114700593932402728804164701536103180137503955397371 (length k_q237) (length a_q237) 60865
    (C X6 (C XD (C X9 (C X3 (C X3 (C XC (C XE (C XC (C X0 (C XC (C X5 (C XD (C XE (C X5 (C XD (C XF (C
    X4 (C X1 (C XD (C X9 (C X6 (C XC (C X5 (C X6 (C X3 (C X6 (C X0 (C X8 (C XC (C X7 (C XC (C X0
    (C XA (C X9 (C X4 (C XC (C X6 (C X4 (C XE (C X6 (C XE (C X4 (C XB (C XF (C XF (C X7 (C X2 (C
    XF (C X0 (C X1 (C X2 (C X2 (C X8 (C X3 (C XD (C X5 (C XA (C X2 (C XB (C X1
    E))))))))))))))))))))))))))))))))))))))))))))))))))))))))))))"
  by (rule mont_step[OF rep_q237_0 _ cancels_q237, of "[True, True, True, False, True, True, False, True, True, True, False, False, False, False, False, True]"],
      simp, simp only: mont_eval k_q237_def a_q237_def d_q237_def, simp)

lemma rep_q237_m2: "mont_rep 205115282021455665897114700593932402728804164701536103180137503955397371 (length k_q237) (length a_q237) 3988861042
    (C X7 (C XB (C X0 (C X6 (C XC (C XF (C X8 (C XB (C X7 (C X4 (C XB (C X7 (C X8 (C X7 (C X1 (C X8 (C
    X5 (C X7 (C X7 (C X6 (C X3 (C XD (C XB (C XF (C XE (C X8 (C XE (C XF (C X8 (C X6 (C XF (C X9
    (C X0 (C XF (C XC (C XF (C X9 (C XA (C X2 (C XD (C X5 (C X0 (C X8 (C XA (C XA (C X5 (C XA (C
    X9 (C X9 (C XA (C X4 (C X8 (C X4 (C X7 (C XA (C XF (C X7 (C X4
    E))))))))))))))))))))))))))))))))))))))))))))))))))))))))))"
  by (rule mont_step[OF rep_q237_m1 _ cancels_q237, of "[False, False, True, True, False, False, False, False, False, True, True, True, False, False, True, False]"],
      simp, simp only: mont_eval k_q237_def a_q237_def d_q237_def, simp)

lemma rep_q237_m3: "mont_rep 205115282021455665897114700593932402728804164701536103180137503955397371 (length k_q237) (length a_q237) 261413997310426
    (C X6 (C X5 (C XA (C XA (C X0 (C X2 (C XE (C XE (C X2 (C X9 (C X8 (C XF (C XA (C XF (C X0 (C X3 (C
    XC (C XE (C XE (C XB (C XC (C X5 (C XD (C XD (C X5 (C X8 (C XB (C X7 (C X3 (C X8 (C X3 (C X8
    (C XC (C XB (C X8 (C X4 (C X7 (C X0 (C X2 (C XC (C XD (C X0 (C XF (C X1 (C XE (C XB (C X7 (C
    XC (C X9 (C XD (C XB (C XA (C X4 (C X2 (C XD (C X5 (C X2 (C XE (C X3
    E)))))))))))))))))))))))))))))))))))))))))))))))))))))))))))"
  by (rule mont_step[OF rep_q237_m2 _ cancels_q237, of "[True, True, True, True, False, False, False, True, True, True, False, True, True, False, True, False]"],
      simp, simp only: mont_eval k_q237_def a_q237_def d_q237_def, simp)

lemma rep_q237_m4: "mont_rep 205115282021455665897114700593932402728804164701536103180137503955397371 (length k_q237) (length a_q237) 17132027727736090706
    (C X8 (C X8 (C X8 (C X9 (C XB (C X3 (C X1 (C X4 (C XE (C XB (C X1 (C XF (C X3 (C X1 (C XD (C X9 (C
    XE (C X7 (C XB (C X7 (C XA (C X6 (C X5 (C X4 (C XD (C X1 (C X3 (C XA (C X9 (C X4 (C X3 (C X7
    (C X1 (C X8 (C XA (C XF (C X6 (C XE (C XA (C XA (C X9 (C X8 (C XC (C X2 (C XB (C X8 (C XF (C
    X0 (C X5 (C XF (C X3 (C X1 (C X7 (C X7 (C XB (C XF (C X5 (C X7 (C X6 (C X1
    E))))))))))))))))))))))))))))))))))))))))))))))))))))))))))))"
  by (rule mont_step[OF rep_q237_m3 _ cancels_q237, of "[False, False, True, True, False, False, False, False, False, True, False, True, False, False, True, False]"],
      simp, simp only: mont_eval k_q237_def a_q237_def d_q237_def, simp)

lemma rep_q237_m5: "mont_rep 205115282021455665897114700593932402728804164701536103180137503955397371 (length k_q237) (length a_q237) 1122764569164912440521984
    (C X0 (C X3 (C XC (C X9 (C X4 (C X7 (C X8 (C X4 (C XE (C XD (C XD (C XE (C X1 (C X1 (C X0 (C X0 (C
    XE (C X0 (C X9 (C X5 (C XF (C X0 (C X3 (C X3 (C X6 (C X1 (C X0 (C XA (C XC (C X9 (C XE (C X8
    (C X2 (C X7 (C X9 (C XC (C X8 (C XB (C XE (C XA (C X5 (C X7 (C XE (C X4 (C XE (C X7 (C X9 (C
    XD (C X7 (C XD (C XA (C X5 (C X8 (C X8 (C X5 (C X1 (C X8 (C X9 (C X8 (C X1
    E))))))))))))))))))))))))))))))))))))))))))))))))))))))))))))"
  by (rule mont_step[OF rep_q237_m4 _ cancels_q237, of "[False, False, True, True, False, True, False, True, False, False, False, False, False, False, False, False]"],
      simp, simp only: mont_eval k_q237_def a_q237_def d_q237_def, simp)

lemma rep_q237_m6: "mont_rep 205115282021455665897114700593932402728804164701536103180137503955397371 (length k_q237) (length a_q237) 73581498804791701702048760958
    (C X6 (C XB (C XB (C X8 (C X5 (C XD (C XA (C X3 (C X9 (C X2 (C X0 (C X4 (C X4 (C X9 (C X7 (C X2 (C
    XB (C XC (C XF (C X0 (C X2 (C X7 (C X8 (C XB (C X6 (C X5 (C X9 (C XA (C X4 (C X1 (C XA (C XD
    (C X8 (C XD (C XB (C XD (C X6 (C X5 (C X1 (C X7 (C XA (C X5 (C XE (C X4 (C X8 (C X0 (C X4 (C
    X3 (C X9 (C XD (C X3 (C X5 (C XF (C XB (C X9 (C XB (C X7 (C X4 (C X5 (C X1
    E))))))))))))))))))))))))))))))))))))))))))))))))))))))))))))"
  by (rule mont_step[OF rep_q237_m5 _ cancels_q237, of "[False, True, False, False, False, True, False, False, False, True, True, True, True, True, True, False]"],
      simp, simp only: mont_eval k_q237_def a_q237_def d_q237_def, simp)

lemma rep_q237_m7: "mont_rep 205115282021455665897114700593932402728804164701536103180137503955397371 (length k_q237) (length a_q237) 4822237105670828962745467598170037
    (C X2 (C X8 (C X1 (C XE (C X8 (C X3 (C XB (C XA (C X2 (C X1 (C X6 (C X6 (C XB (C X1 (C XF (C XD (C
    XA (C X1 (C XC (C X7 (C X4 (C X9 (C XE (C X2 (C X0 (C X7 (C XB (C X8 (C X0 (C XB (C XB (C X8
    (C XF (C XC (C X2 (C XA (C X7 (C XC (C X8 (C XC (C X6 (C XE (C X3 (C XC (C XB (C X6 (C X3 (C
    XF (C X5 (C X7 (C XB (C X4 (C X5 (C XD (C X4 (C X3 (C X5 (C X9 (C XB (C X2
    E))))))))))))))))))))))))))))))))))))))))))))))))))))))))))))"
  by (rule mont_step[OF rep_q237_m6 _ cancels_q237, of "[False, True, True, False, False, True, True, True, True, False, True, True, False, True, False, True]"],
      simp, simp only: mont_eval k_q237_def a_q237_def d_q237_def, simp)

lemma rep_q237_m8: "mont_rep 205115282021455665897114700593932402728804164701536103180137503955397371 (length k_q237) (length a_q237) 316030130957243446902486964513671552300
    (C X8 (C X3 (C X3 (C XE (C X8 (C X9 (C XA (C XA (C XF (C XD (C X0 (C X9 (C XB (C X0 (C XF (C X8 (C
    XD (C X4 (C XA (C X3 (C X1 (C X1 (C XC (C X6 (C XB (C XD (C X6 (C X7 (C XC (C XC (C X8 (C X8
    (C XD (C X7 (C XD (C X2 (C X3 (C XC (C X6 (C X0 (C XF (C XF (C XA (C XF (C X5 (C X4 (C XE (C
    X4 (C X6 (C X8 (C X2 (C X6 (C XA (C XF (C XC (C XE (C X6 (C X4 (C X2
    E)))))))))))))))))))))))))))))))))))))))))))))))))))))))))))"
  by (rule mont_step[OF rep_q237_m7 _ cancels_q237, of "[False, False, False, True, True, True, False, True, False, False, True, False, True, True, False, False]"],
      simp, simp only: mont_eval k_q237_def a_q237_def d_q237_def, simp)

lemma rep_q237_m9: "mont_rep 205115282021455665897114700593932402728804164701536103180137503955397371 (length k_q237) (length a_q237) 20711350662413906536201385706367978851572587
    (C X8 (C X6 (C XE (C X9 (C XF (C X6 (C X7 (C X0 (C XB (C X5 (C XB (C X5 (C X6 (C XB (C X8 (C X7 (C
    XD (C XF (C X5 (C X1 (C X0 (C X9 (C X4 (C XB (C X5 (C X7 (C X9 (C XC (C X0 (C X3 (C XB (C XD
    (C X1 (C X8 (C X9 (C X7 (C X9 (C X8 (C X0 (C XA (C XE (C XB (C X6 (C X8 (C X8 (C X1 (C X3 (C
    X4 (C X1 (C X4 (C X5 (C XE (C XD (C X9 (C X6 (C X3 (C X0 (C X3 (C XA (C X3
    E))))))))))))))))))))))))))))))))))))))))))))))))))))))))))))"
  by (rule mont_step[OF rep_q237_m8 _ cancels_q237, of "[True, False, False, True, True, False, True, True, False, True, True, False, True, False, True, True]"],
      simp, simp only: mont_eval k_q237_def a_q237_def d_q237_def, simp)

lemma rep_q237_m10: "mont_rep 205115282021455665897114700593932402728804164701536103180137503955397371 (length k_q237) (length a_q237) 1357339077011957778756494013652531862016661106372
    (C X1 (C X1 (C XE (C XC (C X7 (C XA (C X8 (C XB (C XA (C X7 (C X9 (C XA (C XB (C X9 (C XD (C X1 (C
    X6 (C X1 (C X6 (C X1 (C X4 (C X9 (C X3 (C X4 (C X9 (C X3 (C X6 (C X6 (C X6 (C X6 (C XE (C X7
    (C XC (C X0 (C XB (C XD (C XF (C X9 (C X1 (C XC (C XB (C XF (C X7 (C X5 (C XA (C X1 (C X9 (C
    XC (C X5 (C X2 (C X9 (C XC (C X2 (C X4 (C X5 (C X5 (C X4 (C X1 (C X2 (C X1
    E))))))))))))))))))))))))))))))))))))))))))))))))))))))))))))"
  by (rule mont_step[OF rep_q237_m9 _ cancels_q237, of "[True, False, True, False, True, True, True, False, True, True, False, False, False, True, False, False]"],
      simp, simp only: mont_eval k_q237_def a_q237_def d_q237_def, simp)

lemma rep_q237_m11: "mont_rep 205115282021455665897114700593932402728804164701536103180137503955397371 (length k_q237) (length a_q237) 88954573751055664988585591678732328109123902267249595
    (C XA (C XD (C X5 (C X0 (C X6 (C XC (C XC (C X5 (C XE (C XC (C XD (C X9 (C X0 (C XB (C X3 (C X0 (C
    X3 (C X2 (C XD (C XD (C XD (C XA (C X2 (C XB (C XF (C X0 (C X7 (C X5 (C XF (C X6 (C XE (C X8
    (C X9 (C XE (C XE (C XA (C X3 (C X9 (C XA (C X0 (C X2 (C X2 (C X8 (C X7 (C X1 (C XA (C X1 (C
    XE (C XA (C XB (C X2 (C X2 (C X5 (C XF (C XD (C XF (C X0 (C X0 (C XC (C X2
    E))))))))))))))))))))))))))))))))))))))))))))))))))))))))))))"
  by (rule mont_step[OF rep_q237_m10 _ cancels_q237, of "[True, True, False, True, False, False, True, True, True, False, True, True, True, False, True, True]"],
      simp, simp only: mont_eval k_q237_def a_q237_def d_q237_def, simp)

lemma rep_q237_m12: "mont_rep 205115282021455665897114700593932402728804164701536103180137503955397371 (length k_q237) (length a_q237) 5829726945349184060691945336257401854959544058986469485152
    (C XB (C X5 (C X0 (C X3 (C X2 (C XC (C X6 (C X9 (C XC (C XE (C X0 (C X3 (C XD (C XB (C XC (C XF (C
    X1 (C X3 (C XB (C X2 (C X5 (C X4 (C X2 (C XA (C X0 (C X5 (C X9 (C X1 (C X6 (C XF (C X1 (C X8
    (C XA (C X9 (C XD (C XD (C XD (C XC (C X1 (C XB (C XD (C X1 (C X5 (C X9 (C X2 (C X3 (C X3 (C
    XE (C XA (C X5 (C XF (C XE (C X9 (C X2 (C X4 (C XC (C XA (C X7 (C XC
    E)))))))))))))))))))))))))))))))))))))))))))))))))))))))))))"
  by (rule mont_step[OF rep_q237_m11 _ cancels_q237, of "[False, True, True, False, True, False, True, False, False, True, True, False, False, False, False, False]"],
      simp, simp only: mont_eval k_q237_def a_q237_def d_q237_def, simp)

lemma rep_q237_m13: "mont_rep 205115282021455665897114700593932402728804164701536103180137503955397371 (length k_q237) (length a_q237) 382056985090404126601507329556965087966628679449737264178949415
    (C XC (C X2 (C XE (C XB (C XC (C X4 (C X7 (C XA (C X7 (C XA (C X5 (C X7 (C X5 (C X6 (C XB (C X2 (C
    XA (C X0 (C X6 (C X9 (C X3 (C XA (C X6 (C X5 (C X0 (C X8 (C XD (C XE (C X8 (C X4 (C XF (C X7
    (C X8 (C XA (C X0 (C X1 (C XF (C XD (C XC (C X5 (C XC (C X3 (C X9 (C X6 (C XE (C X8 (C X2 (C
    X9 (C XF (C X0 (C X3 (C X5 (C X4 (C X3 (C X8 (C X4 (C X6 (C X5 (C XA (C X1
    E))))))))))))))))))))))))))))))))))))))))))))))))))))))))))))"
  by (rule mont_step[OF rep_q237_m12 _ cancels_q237, of "[False, True, True, False, True, True, False, True, False, False, True, False, False, True, True, True]"],
      simp, simp only: mont_eval k_q237_def a_q237_def d_q237_def, simp)

lemma rep_q237_m14: "mont_rep 205115282021455665897114700593932402728804164701536103180137503955397371 (length k_q237) (length a_q237) 25038486574884724840956384349845264004980977136417981345231628900805
    (C X6 (C XE (C X9 (C X1 (C X3 (C X5 (C XA (C X2 (C X3 (C X5 (C XD (C X4 (C XA (C XD (C XC (C XB (C
    X1 (C X8 (C XA (C X2 (C X9 (C X1 (C X3 (C X1 (C XF (C XB (C XB (C X7 (C XC (C X1 (C XD (C X5
    (C XB (C XD (C XB (C X3 (C X3 (C XF (C X1 (C X3 (C X6 (C X2 (C X9 (C X8 (C XA (C X8 (C X2 (C
    XB (C X8 (C X8 (C X7 (C X1 (C X8 (C X4 (C X8 (C XF (C X8 (C XC (C X3 (C X1
    E))))))))))))))))))))))))))))))))))))))))))))))))))))))))))))"
  by (rule mont_step[OF rep_q237_m13 _ cancels_q237, of "[True, False, False, True, True, False, False, True, True, True, False, False, False, True, False, True]"],
      simp, simp only: mont_eval k_q237_def a_q237_def d_q237_def, simp)

lemma rep_q237_m15: "mont_rep 205115282021455665897114700593932402728804164701536103180137503955397371 (length k_q237) (length a_q237) 205115282021455665897114700593932402728804164701536103180137503955397370
    (C XA (C X1 (C XB (C X6 (C X3 (C X0 (C X8 (C X2 (C X7 (C X8 (C X8 (C X8 (C XF (C X4 (C X4 (C XA (C
    XA (C X8 (C X0 (C X6 (C X7 (C XA (C X9 (C X6 (C X4 (C X2 (C XC (C X7 (C X7 (C X4 (C X6 (C X2
    (C XA (C X1 (C X0 (C XE (C X9 (C X5 (C X5 (C X0 (C X4 (C X2 (C XC (C X6 (C X6 (C XC (C XB (C
    X0 (C X5 (C XE (C XA (C XF (C X8 (C XC (C X7 (C X1 (C X3 (C X9 (C X2 (C X1
    E))))))))))))))))))))))))))))))))))))))))))))))))))))))))))))"
  by (rule mont_step[OF rep_q237_m14 _ cancels_q237, of "[False, True, False, True, False, True, True, True, True, True, False, True, False]"],
      simp, simp only: mont_eval k_q237_def a_q237_def d_q237_def, simp)

lemma fermat_q237: "length a_q237 ^ 205115282021455665897114700593932402728804164701536103180137503955397370 mod 205115282021455665897114700593932402728804164701536103180137503955397371 = 1"
  using mont_rep_one[OF _ rep_q237_m15 rep_q237_0, of 0] by (simp add: a_q237_def)

lemma rep_q237_q0_1: "mont_rep 205115282021455665897114700593932402728804164701536103180137503955397371 (length k_q237) (length a_q237) 40528
    (C X8 (C X3 (C X0 (C X1 (C X7 (C X0 (C X6 (C XA (C X9 (C X2 (C X0 (C XB (C X3 (C X1 (C XB (C X3 (C
    XC (C X2 (C X5 (C XF (C X9 (C X4 (C X3 (C X6 (C X5 (C X8 (C XE (C X6 (C X2 (C X9 (C XC (C XB
    (C X1 (C X5 (C X2 (C X0 (C XA (C X0 (C X9 (C XB (C X1 (C X1 (C X4 (C XB (C X8 (C X9 (C X0 (C
    X6 (C X6 (C XF (C XD (C X5 (C X9 (C X9 (C X3 (C X8 (C X4 (C XF (C X0 (C X1
    E))))))))))))))))))))))))))))))))))))))))))))))))))))))))))))"
  by (rule mont_step[OF rep_q237_0 _ cancels_q237, of "[True, False, False, True, True, True, True, False, False, True, False, True, False, False, False, False]"],
      simp, simp only: mont_eval k_q237_def a_q237_def d_q237_def, simp)

lemma rep_q237_q0_2: "mont_rep 205115282021455665897114700593932402728804164701536103180137503955397371 (length k_q237) (length a_q237) 2656075103
    (C X8 (C X5 (C X4 (C XE (C X2 (C XC (C X4 (C X9 (C X2 (C XD (C X1 (C X4 (C X0 (C X1 (C X5 (C X8 (C
    X8 (C XC (C X0 (C XF (C XD (C X0 (C X3 (C X0 (C X1 (C X9 (C XD (C X1 (C X9 (C XC (C X9 (C X8
    (C X6 (C X5 (C X8 (C X8 (C XA (C X0 (C X1 (C XC (C X9 (C XA (C XD (C X5 (C X3 (C X8 (C X5 (C
    X6 (C X4 (C XD (C XD (C XF (C XD (C X6 (C X6 (C X4 (C XA (C X9 (C X9 (C X1
    E))))))))))))))))))))))))))))))))))))))))))))))))))))))))))))"
  by (rule mont_step[OF rep_q237_q0_1 _ cancels_q237, of "[False, True, True, True, True, True, False, True, False, True, False, True, True, True, True, True]"],
      simp, simp only: mont_eval k_q237_def a_q237_def d_q237_def, simp)

lemma rep_q237_q0_3: "mont_rep 205115282021455665897114700593932402728804164701536103180137503955397371 (length k_q237) (length a_q237) 174068538010864
    (C XD (C X0 (C XA (C X2 (C XB (C X3 (C X5 (C XC (C XC (C XF (C X7 (C X3 (C X2 (C X9 (C X9 (C X5 (C
    X1 (C X3 (C XE (C X3 (C X0 (C XE (C XD (C XA (C XF (C XF (C X7 (C XA (C X4 (C X0 (C X0 (C X1
    (C XA (C XA (C X7 (C X1 (C X5 (C X6 (C XE (C X5 (C X1 (C X2 (C X9 (C XA (C XB (C XA (C X4 (C
    XF (C X0 (C XB (C X5 (C XB (C X0 (C XD (C X8 (C X0 (C X7 (C XA (C X0 (C X1
    E))))))))))))))))))))))))))))))))))))))))))))))))))))))))))))"
  by (rule mont_step[OF rep_q237_q0_2 _ cancels_q237, of "[True, True, True, False, True, True, False, False, True, True, True, True, False, False, False, False]"],
      simp, simp only: mont_eval k_q237_def a_q237_def d_q237_def, simp)

lemma rep_q237_q0_4: "mont_rep 205115282021455665897114700593932402728804164701536103180137503955397371 (length k_q237) (length a_q237) 11407755707079986630
    (C X1 (C X0 (C X3 (C X1 (C X4 (C X9 (C X8 (C X6 (C X8 (C X3 (C X1 (C XC (C X1 (C X0 (C XA (C X0 (C
    X7 (C X9 (C X1 (C X8 (C X1 (C XB (C XF (C X7 (C XA (C X0 (C X9 (C XD (C X4 (C XB (C X0 (C XA
    (C X2 (C X0 (C X2 (C X0 (C XD (C X0 (C XC (C X6 (C XB (C XD (C X7 (C XB (C X4 (C X7 (C XE (C
    X6 (C X1 (C X1 (C XC (C X2 (C X9 (C X7 (C X3 (C XB (C X6 (C XD (C X6 (C X1
    E))))))))))))))))))))))))))))))))))))))))))))))))))))))))))))"
  by (rule mont_step[OF rep_q237_q0_3 _ cancels_q237, of "[False, False, False, False, True, True, False, True, True, True, False, False, False, True, True, False]"],
      simp, simp only: mont_eval k_q237_def a_q237_def d_q237_def, simp)

lemma rep_q237_q0_5: "mont_rep 205115282021455665897114700593932402728804164701536103180137503955397371 (length k_q237) (length a_q237) 747618678019194003785712
    (C X2 (C XA (C XE (C XB (C X9 (C X9 (C XB (C XA (C XF (C XA (C XB (C X3 (C X7 (C X5 (C X1 (C XA (C
    X2 (C XE (C X4 (C X7 (C X0 (C X7 (C X0 (C XE (C X9 (C X9 (C X5 (C X8 (C XB (C X1 (C XB (C XC
    (C X7 (C X0 (C X0 (C XB (C XB (C X9 (C X7 (C X6 (C XF (C X3 (C X5 (C XA (C XA (C X1 (C XA (C
    X2 (C X3 (C X9 (C X2 (C XA (C XB (C XA (C X0 (C X0 (C X5 (C XA (C XC
    E)))))))))))))))))))))))))))))))))))))))))))))))))))))))))))"
  by (rule mont_step[OF rep_q237_q0_4 _ cancels_q237, of "[False, False, False, False, False, True, True, True, True, True, True, True, False, False, False, False]"],
      simp, simp only: mont_eval k_q237_def a_q237_def d_q237_def, simp)

lemma rep_q237_q0_6: "mont_rep 205115282021455665897114700593932402728804164701536103180137503955397371 (length k_q237) (length a_q237) 48995937682665898232100429780
    (C X1 (C X1 (C X9 (C X6 (C X4 (C X5 (C X4 (C X1 (C X8 (C XC (C X9 (C X6 (C X7 (C X1 (C XB (C X0 (C
    X9 (C X9 (C X3 (C X2 (C X4 (C X8 (C XF (C X3 (C X0 (C XE (C X2 (C X8 (C X1 (C X8 (C X0 (C X9
    (C X6 (C X8 (C X8 (C X3 (C XB (C X6 (C X7 (C XC (C XD (C X9 (C XD (C X8 (C XF (C X2 (C X9 (C
    XD (C X7 (C X3 (C XA (C XB (C XA (C X0 (C X1 (C X3 (C XF (C X7 (C X3 (C X1
    E))))))))))))))))))))))))))))))))))))))))))))))))))))))))))))"
  by (rule mont_step[OF rep_q237_q0_5 _ cancels_q237, of "[False, False, False, True, True, True, True, True, True, True, False, True, False, True, False, False]"],
      simp, simp only: mont_eval k_q237_def a_q237_def d_q237_def, simp)

lemma rep_q237_q0_7: "mont_rep 205115282021455665897114700593932402728804164701536103180137503955397371 (length k_q237) (length a_q237) 802749442992798076634733441528810
    (C X4 (C XD (C XF (C XB (C X0 (C XA (C X7 (C X1 (C X6 (C X9 (C X8 (C X3 (C XE (C XB (C XE (C X1 (C
    X6 (C X5 (C X3 (C X6 (C XD (C X8 (C X3 (C X0 (C X4 (C X8 (C X1 (C X4 (C X4 (C X7 (C X3 (C XE
    (C XB (C XF (C XC (C X6 (C XC (C X9 (C X7 (C XD (C XE (C X8 (C XA (C XF (C X4 (C X7 (C XE (C
    XA (C X2 (C X8 (C XF (C X7 (C XE (C X7 (C X1 (C XE (C XD (C X9
    E))))))))))))))))))))))))))))))))))))))))))))))))))))))))))"
  by (rule mont_step[OF rep_q237_q0_6 _ cancels_q237, of "[True, True, False, False, True, True, True, True, True, False, True, False, True, False]"],
      simp, simp only: mont_eval k_q237_def a_q237_def d_q237_def, simp)

lemma pock_q237_0: "pocklington_cond 205115282021455665897114700593932402728804164701536103180137503955397371 (length a_q237) 255515944373312847190720520512484175977"
proof -
  have "mont k_q237 (cancel_of d_q237) (mults_of (C XB (C XE (C XA (C X8 (C X4 (C XD (C X8 (C XB (C X0 (C XD (C XC (C XB (C XF (C X2 (C X4 (C X8 (C
    XC (C X9 (C XC (C XB (C XF (C X3 (C XF (C XA (C XA (C X7 (C X5 (C X4 (C XF (C X8 (C X3 (C X1
    (C X3 (C X3 (C X3 (C X4 (C X7 (C XA (C X2 (C X5 (C X7 (C X3 (C X6 (C X9 (C X2 (C X5 (C X2 (C
    XF (C X5 (C X4 (C X6 (C X6 (C XE (C XA (C XB (C X1 (C XE (C XC (C XB
    E))))))))))))))))))))))))))))))))))))))))))))))))))))))))))))
    (C X4 (C XD (C XF (C XB (C X0 (C XA (C X7 (C X1 (C X6 (C X9 (C X8 (C X3 (C XE (C XB (C XE (C X1 (C
    X6 (C X5 (C X3 (C X6 (C XD (C X8 (C X3 (C X0 (C X4 (C X8 (C X1 (C X4 (C X4 (C X7 (C X3 (C XE
    (C XB (C XF (C XC (C X6 (C XC (C X9 (C X7 (C XD (C XE (C X8 (C XA (C XF (C X4 (C X7 (C XE (C
    XA (C X2 (C X8 (C XF (C X7 (C XE (C X7 (C X1 (C XE (C XD (C X9
    E)))))))))))))))))))))))))))))))))))))))))))))))))))))))))) E = Done (C XC (C XE (C XA (C X8 (C X4 (C XD (C X8 (C XB (C X0 (C XD (C XC (C XB (C XF (C X2 (C X4 (C X8 (C
    XC (C X9 (C XC (C XB (C XF (C X3 (C XF (C XA (C XA (C X7 (C X5 (C X4 (C XF (C X8 (C X3 (C X1
    (C X3 (C X3 (C X3 (C X4 (C X7 (C XA (C X2 (C X5 (C X7 (C X3 (C X6 (C X9 (C X2 (C X5 (C X2 (C
    XF (C X5 (C X4 (C X6 (C X6 (C XE (C XA (C XB (C X1 (C XE (C XC (C XB
    E)))))))))))))))))))))))))))))))))))))))))))))))))))))))))))"
    by (simp only: mont_eval k_q237_def d_q237_def)
  from mont_cond[OF _ cancels_q237 rep_q237_q0_7 this, of 0]
  show ?thesis by (intro pocklington_condI[of _ _ 802749442992798076634733441528810]) (simp_all add: fermat_q237)
qed

lemma prime_q237: "is_prime 205115282021455665897114700593932402728804164701536103180137503955397371"
  by (rule pocklington[of _ "[255515944373312847190720520512484175977]" "length a_q237"])
    (simp_all add: prime_r128 pock_q237_0)

subsection \<open>115792089237316195423570985008687907853269984665640564039457584007908834671663\<close>

definition k_p :: "unit list" where
  "k_p = [(), (), (), (), (), (), (), (), (), (), (), (), (), (), (), (), (), (), (), (), (), (), (), (),
    (), (), (), (), (), (), (), (), (), (), (), (), (), (), (), (), (), (), (), (), (), (), (),
    (), (), (), (), (), (), (), (), (), (), (), (), (), (), (), (), (), (), (), ()]"

definition a_p :: "unit list" where
  "a_p = [(), ()]"

definition d_p :: digits where
  "d_p = (C XF (C X2 (C XC (C XF (C XF (C XF (C XF (C XF (C XE (C XF (C XF (C XF (C XF (C XF (C XF (C XF (C
    XF (C XF (C XF (C XF (C XF (C XF (C XF (C XF (C XF (C XF (C XF (C XF (C XF (C XF (C XF (C XF
    (C XF (C XF (C XF (C XF (C XF (C XF (C XF (C XF (C XF (C XF (C XF (C XF (C XF (C XF (C XF (C
    XF (C XF (C XF (C XF (C XF (C XF (C XF (C XF (C XF (C XF (C XF (C XF (C XF (C XF (C XF (C XF
    (C XF E))))))))))))))))))))))))))))))))))))))))))))))))))))))))))))))))"

lemma dval_p: "dval d_p = 115792089237316195423570985008687907853269984665640564039457584007908834671663"
  by (simp add: d_p_def)

lemma cancels_p: "cancels (cancel_of d_p) 115792089237316195423570985008687907853269984665640564039457584007908834671663"
  using cancels_of[of d_p] by (simp add: dval_p)

lemma rep_p_0: "mont_rep 115792089237316195423570985008687907853269984665640564039457584007908834671663 (length k_p) (length a_p) 0
    (C X0 (C X0 (C X0 (C X1 (C XD (C X3 (C X0 (C X0 (C X0 (C X0 (C X0 (C X1 E))))))))))))"
  by (simp add: mont_rep_def k_p_def a_p_def)

lemma rep_p_m1: "mont_rep 115792089237316195423570985008687907853269984665640564039457584007908834671663 (length k_p) (length a_p) 65535
    (C X4 (C X7 (C X9 (C X3 (C XC (C X8 (C X4 (C X4 (C XC (C X6 (C X4 (C X5 (C X3 (C X6 (C X0 (C XD (C
    X7 (C XE (C X3 (C X2 (C XF (C XA (C X9 (C X4 (C XB (C X4 (C X6 (C XE (C XE (C X1 (C XC (C X8
    (C X6 (C X8 (C XE (C X0 (C X9 (C XC (C XA (C XC (C X9 (C X1 (C X0 (C X9 (C X8 (C X6 (C X5 (C
    XC (C XE (C X0 (C XE (C X4 (C XC (C XA (C X3 (C X5 (C X5 (C XA (C XD (C X4 (C X1 (C XE (C X4
    (C XE (C X1 E)))))))))))))))))))))))))))))))))))))))))))))))))))))))))))))))))"
  by (rule mont_step[OF rep_p_0 _ cancels_p, of "[True, True, True, True, True, True, True, True, True, True, True, True, True, True, True, True]"],
      simp, simp only: mont_eval k_p_def a_p_def d_p_def, simp)

lemma rep_p_m2: "mont_rep 115792089237316195423570985008687907853269984665640564039457584007908834671663 (length k_p) (length a_p) 4294967295
    (C X2 (C XF (C XA (C X2 (C XE (C XF (C X3 (C X1 (C X0 (C X6 (C XA (C XD (C XF (C X5 (C XD (C XF (C
    X5 (C XE (C XE (C XA (C XF (C XC (C XA (C X3 (C XA (C XD (C X1 (C X4 (C X3 (C XA (C XD (C X9
    (C X0 (C XB (C X4 (C XA (C X6 (C XE (C X0 (C X4 (C X3 (C X1 (C XB (C X4 (C XF (C X0 (C X1 (C
    XB (C XE (C X9 (C XD (C XB (C X8 (C XA (C X4 (C X1 (C XE (C XD (C XD (C XD (C XE (C X5 (C X0
    (C X2 E))))))))))))))))))))))))))))))))))))))))))))))))))))))))))))))))"
  by (rule mont_step[OF rep_p_m1 _ cancels_p, of "[True, True, True, True, True, True, True, True, True, True, True, True, True, True, True, True]"],
      simp, simp only: mont_eval k_p_def a_p_def d_p_def, simp)

lemma rep_p_m3: "mont_rep 115792089237316195423570985008687907853269984665640564039457584007908834671663 (length k_p) (length a_p) 281474976710655
    (C XC (C XB (C X3 (C X3 (C XA (C X0 (C X2 (C XC (C X9 (C XC (C X2 (C X3 (C XD (C X5 (C XC (C X0 (C
    XF (C X2 (C XC (C XA (C X5 (C X0 (C XF (C X6 (C XA (C X0 (C X5 (C XF (C XF (C X6 (C X0 (C XB
    (C XA (C XE (C XD (C XA (C X5 (C X3 (C XE (C XB (C X9 (C X2 (C X5 (C X1 (C XC (C XF (C X8 (C
    XF (C X2 (C XD (C X1 (C X9 (C XC (C X6 (C XE (C X8 (C XF (C X8 (C XC (C X0 (C XA (C X3 (C XE
    (C XB (C X1 E)))))))))))))))))))))))))))))))))))))))))))))))))))))))))))))))))"
  by (rule mont_step[OF rep_p_m2 _ cancels_p, of "[True, True, True, True, True, True, True, True, True, True, True, True, True, True, True, True]"],
      simp, simp only: mont_eval k_p_def a_p_def d_p_def, simp)

lemma rep_p_m4: "mont_rep 115792089237316195423570985008687907853269984665640564039457584007908834671663 (length k_p) (length a_p) 18446744073709551615
    (C X0 (C X4 (C XF (C XD (C X5 (C X0 (C XD (C X2 (C X0 (C X9 (C X5 (C X7 (C XB (C X1 (C X7 (C X4 (C
    X9 (C XA (C XD (C XA (C X3 (C X7 (C X6 (C X0 (C X6 (C XB (C X8 (C XC (C XA (C X3 (C X0 (C X9
    (C X3 (C X3 (C XE (C X4 (C XE (C XF (C X4 (C XD (C X2 (C X6 (C XA (C X7 (C XF (C X6 (C XC (C
    XA (C X2 (C XC (C X1 (C X7 (C XE (C X0 (C X0 (C X8 (C X4 (C XA (C X1 (C X4 (C X2 (C X5 (C X5
    (C X6 E))))))))))))))))))))))))))))))))))))))))))))))))))))))))))))))))"
  by (rule mont_step[OF rep_p_m3 _ cancels_p, of "[True, True, True, True, True, True, True, True, True, True, True, True, True, True, True, True]"],
      simp, simp only: mont_eval k_p_def a_p_def d_p_def, simp)

lemma rep_p_m5: "mont_rep 115792089237316195423570985008687907853269984665640564039457584007908834671663 (length k_p) (length a_p) 1208925819614629174706175
    (C X2 (C XF (C X5 (C X2 (C X9 (C X8 (C XF (C XD (C XF (C XD (C X8 (C XC (C X1 (C X4 (C X6 (C X7 (C
    X4 (C X0 (C X2 (C XC (C X9 (C X5 (C X7 (C XC (C X1 (C X8 (C X1 (C XA (C XC (C X3 (C X6 (C X3
    (C XE (C XB (C X8 (C XF (C X3 (C X4 (C X8 (C X6 (C X5 (C XA (C X1 (C X4 (C XA (C X7 (C XD (C
    X2 (C XD (C X3 (C X5 (C XD (C X2 (C X3 (C X2 (C X5 (C XC (C XC (C X9 (C X1 (C X1 (C X8 (C XE
    (C X9 (C X1 E)))))))))))))))))))))))))))))))))))))))))))))))))))))))))))))))))"
  by (rule mont_step[OF rep_p_m4 _ cancels_p, of "[True, True, True, True, True, True, True, True, True, True, True, True, True, True, True, True]"],
      simp, simp only: mont_eval k_p_def a_p_def d_p_def, simp)

lemma rep_p_m6: "mont_rep 115792089237316195423570985008687907853269984665640564039457584007908834671663 (length k_p) (length a_p) 79228162514264337593543950335
    (C XE (C XF (C XC (C X4 (C X7 (C X1 (C X6 (C XA (C X5 (C X3 (C XB (C X8 (C XC (C X1 (C X4 (C X6 (C
    X3 (C X8 (C X3 (C X8 (C XB (C X9 (C X8 (C X0 (C X9 (C XB (C XD (C XF (C X9 (C X9 (C XD (C X7
    (C XD (C XD (C XF (C XC (C X4 (C X3 (C X5 (C X2 (C X0 (C X5 (C X5 (C X9 (C X6 (C X4 (C XF (C
    X0 (C X9 (C XE (C XB (C X1 (C X2 (C X8 (C XF (C X3 (C X4 (C XC (C XA (C X5 (C XC (C X6 (C X7
    (C XA E))))))))))))))))))))))))))))))))))))))))))))))))))))))))))))))))"
  by (rule mont_step[OF rep_p_m5 _ cancels_p, of "[True, True, True, True, True, True, True, True, True, True, True, True, True, True, True, True]"],
      simp, simp only: mont_eval k_p_def a_p_def d_p_def, simp)

lemma rep_p_m7: "mont_rep 115792089237316195423570985008687907853269984665640564039457584007908834671663 (length k_p) (length a_p) 5192296858534827628530496329220095
    (C X0 (C XE (C XC (C XE (C X7 (C XD (C X9 (C X1 (C X5 (C X7 (C X5 (C X4 (C X0 (C XE (C XD (C XF (C
    XC (C X0 (C X1 (C XE (C XF (C X2 (C XA (C XC (C XB (C XA (C X7 (C X6 (C X2 (C XF (C X0 (C XF
    (C XD (C X3 (C X4 (C X6 (C XC (C X3 (C X6 (C XB (C X4 (C X0 (C X1 (C X1 (C XA (C X9 (C X4 (C
    X8 (C X7 (C X2 (C X6 (C XC (C X4 (C XD (C X0 (C XC (C X5 (C X5 (C X9 (C X4 (C XE (C X5 (C X1
    (C X4 E))))))))))))))))))))))))))))))))))))))))))))))))))))))))))))))))"
  by (rule mont_step[OF rep_p_m6 _ cancels_p, of "[True, True, True, True, True, True, True, True, True, True, True, True, True, True, True, True]"],
      simp, simp only: mont_eval k_p_def a_p_def d_p_def, simp)

lemma rep_p_m8: "mont_rep 115792089237316195423570985008687907853269984665640564039457584007908834671663 (length k_p) (length a_p) 340282366920938463463374607431768211455
    (C XE (C X7 (C X9 (C XB (C X0 (C XB (C X2 (C XE (C XF (C X5 (C XD (C X4 (C X9 (C XE (C XC (C X9 (C
    X5 (C X6 (C X5 (C X9 (C X9 (C X3 (C X7 (C X1 (C X2 (C X7 (C X9 (C X9 (C X9 (C XF (C XB (C XE
    (C X4 (C X7 (C XE (C XD (C X1 (C X4 (C XA (C X5 (C X1 (C X1 (C XD (C X3 (C X9 (C X9 (C XF (C
    XC (C X2 (C XD (C X4 (C X8 (C X5 (C XD (C XC (C XA (C XA (C X6 (C X7 (C X5 (C X7 (C X7 (C XB
    (C X3 (C X1 E)))))))))))))))))))))))))))))))))))))))))))))))))))))))))))))))))"
  by (rule mont_step[OF rep_p_m7 _ cancels_p, of "[True, True, True, True, True, True, True, True, True, True, True, True, True, True, True, True]"],
      simp, simp only: mont_eval k_p_def a_p_def d_p_def, simp)

lemma rep_p_m9: "mont_rep 115792089237316195423570985008687907853269984665640564039457584007908834671663 (length k_p) (length a_p) 22300745198530623141535718272648361505980415
    (C X0 (C X3 (C XF (C XA (C X7 (C XF (C X8 (C X5 (C X3 (C X8 (C XC (C XC (C X1 (C XD (C XC (C X1 (C
    XA (C X5 (C X0 (C X0 (C XB (C XA (C X9 (C X5 (C XB (C XC (C XC (C X9 (C X2 (C X5 (C X9 (C X8
    (C X3 (C XC (C X0 (C X0 (C X4 (C X4 (C X0 (C X4 (C X7 (C X0 (C XE (C XC (C XA (C XB (C XC (C
    X7 (C X5 (C XA (C X8 (C XB (C X1 (C X1 (C X2 (C X9 (C XA (C X8 (C XF (C X1 (C X1 (C XB (C X9
    (C X1 (C X1 E)))))))))))))))))))))))))))))))))))))))))))))))))))))))))))))))))"
  by (rule mont_step[OF rep_p_m8 _ cancels_p, of "[True, True, True, True, True, True, True, True, True, True, True, True, True, True, True, True]"],
      simp, simp only: mont_eval k_p_def a_p_def d_p_def, simp)

lemma rep_p_m10: "mont_rep 115792089237316195423570985008687907853269984665640564039457584007908834671663 (length k_p) (length a_p) 1461501637330902918203684832716283019655932542975
    (C X4 (C XB (C X6 (C XF (C X5 (C XD (C X9 (C XA (C XF (C X0 (C X4 (C X8 (C X3 (C X7 (C XA (C X0 (C
    XF (C X7 (C X4 (C XD (C X1 (C XC (C X3 (C X9 (C X6 (C X3 (C X5 (C X5 (C X0 (C X7 (C XD (C XF
    (C X8 (C X7 (C X3 (C X3 (C XB (C X3 (C XE (C XF (C XB (C X4 (C XA (C XE (C XF (C XF (C XC (C
    X3 (C X2 (C X3 (C XD (C XE (C X6 (C X6 (C X7 (C XC (C XE (C X8 (C XD (C X1 (C X5 (C XB (C X7
    (C X1 E))))))))))))))))))))))))))))))))))))))))))))))))))))))))))))))))"
  by (rule mont_step[OF rep_p_m9 _ cancels_p, of "[True, True, True, True, True, True, True, True, True, True, True, True, True, True, True, True]"],
      simp, simp only: mont_eval k_p_def a_p_def d_p_def, simp)

lemma rep_p_m11: "mont_rep 115792089237316195423570985008687907853269984665640564039457584007908834671663 (length k_p) (length a_p) 95780971304118053647396689196894323976171195136475135
    (C XA (C X5 (C XF (C XA (C XE (C X0 (C X8 (C X5 (C XD (C XE (C XA (C XA (C X6 (C X1 (C X3 (C X4 (C
    XF (C X2 (C X9 (C XD (C X1 (C XC (C X9 (C X5 (C X8 (C X9 (C X4 (C X9 (C XE (C XF (C XB (C X3
    (C XD (C X5 (C X0 (C X2 (C XC (C X7 (C X8 (C X2 (C XD (C XE (C X8 (C X5 (C X9 (C XD (C X8 (C
    XA (C XD (C X5 (C X0 (C XC (C XD (C X0 (C XC (C XC (C XC (C X8 (C XF (C X5 (C X1 (C X1 (C X2
    (C X1 (C X1 E)))))))))))))))))))))))))))))))))))))))))))))))))))))))))))))))))"
  by (rule mont_step[OF rep_p_m10 _ cancels_p, of "[True, True, True, True, True, True, True, True, True, True, True, True, True, True, True, True]"],
      simp, simp only: mont_eval k_p_def a_p_def d_p_def, simp)

lemma rep_p_m12: "mont_rep 115792089237316195423570985008687907853269984665640564039457584007908834671663 (length k_p) (length a_p) 6277101735386680763835789423207666416102355444464034512895
    (C XE (C X5 (C XA (C X2 (C X5 (C X9 (C X6 (C X0 (C XB (C XB (C X4 (C X9 (C X8 (C X0 (C X4 (C X3 (C
    XD (C X4 (C XB (C XF (C X2 (C XB (C X1 (C X3 (C X5 (C XA (C X0 (C X1 (C X6 (C X5 (C XB (C XE
    (C XF (C X2 (C XB (C X7 (C X0 (C XC (C X3 (C X2 (C XC (C XC (C X9 (C X3 (C X6 (C X5 (C XD (C
    X8 (C X7 (C X5 (C XE (C XC (C X1 (C XC (C X9 (C X1 (C X9 (C X1 (C X0 (C X4 (C XA (C X2 (C X7
    (C X9 E))))))))))))))))))))))))))))))))))))))))))))))))))))))))))))))))"
  by (rule mont_step[OF rep_p_m11 _ cancels_p, of "[True, True, True, True, True, True, True, True, True, True, True, True, True, True, True, True]"],
      simp, simp only: mont_eval k_p_def a_p_def d_p_def, simp)

lemma rep_p_m13: "mont_rep 115792089237316195423570985008687907853269984665640564039457584007908834671663 (length k_p) (length a_p) 411376139330301510538742295639337626245683966408394965837152255
    (C XE (C X1 (C X3 (C X0 (C X9 (C X9 (C X1 (C XD (C X2 (C X7 (C X2 (C X7 (C X7 (C XC (C X4 (C X6 (C
    XF (C XF (C X6 (C X6 (C XA (C X0 (C X7 (C X3 (C X5 (C X7 (C XC (C X9 (C X7 (C XF (C X1 (C X8
    (C X5 (C XA (C XA (C XE (C X9 (C XE (C X3 (C X0 (C X8 (C XD (C X3 (C XB (C XE (C XE (C XF (C
    X6 (C X3 (C X6 (C X3 (C X6 (C XD (C XC (C X3 (C XB (C XA (C X4 (C X4 (C XA (C XE (C XD (C XD
    (C X0 (C X1 E)))))))))))))))))))))))))))))))))))))))))))))))))))))))))))))))))"
  by (rule mont_step[OF rep_p_m12 _ cancels_p, of "[True, True, True, True, True, True, True, True, True, True, True, True, True, True, True, True]"],
      simp, simp only: mont_eval k_p_def a_p_def d_p_def, simp)

lemma rep_p_m14: "mont_rep 115792089237316195423570985008687907853269984665640564039457584007908834671663 (length k_p) (length a_p) 26959946667150639794667015087019630673637144422540572481103610249214
    (C X8 (C XE (C X5 (C X3 (C X4 (C X4 (C X1 (C XC (C X9 (C X8 (C XF (C XB (C X6 (C XD (C X6 (C X0 (C
    X4 (C X3 (C XE (C X8 (C XC (C XB (C XA (C XE (C XD (C XA (C XF (C X1 (C XC (C XA (C X1 (C XD
    (C XA (C XF (C X4 (C XE (C X1 (C XA (C XC (C X7 (C X3 (C X4 (C X0 (C X8 (C X8 (C X5 (C X3 (C
    X2 (C X3 (C X3 (C X2 (C X5 (C X2 (C X0 (C X9 (C X1 (C X1 (C X7 (C XF (C X3 (C X7 (C X5 (C X5
    (C X2 E))))))))))))))))))))))))))))))))))))))))))))))))))))))))))))))))"
  by (rule mont_step[OF rep_p_m13 _ cancels_p, of "[True, True, True, True, True, True, True, True, True, True, True, True, True, True, True, False]"],
      simp, simp only: mont_eval k_p_def a_p_def d_p_def, simp)

lemma rep_p_m15: "mont_rep 115792089237316195423570985008687907853269984665640564039457584007908834671663 (length k_p) (length a_p) 1766847064778384329583297500742918515827483896875618958121606201292554239
    (C XC (C X8 (C X7 (C X3 (C XA (C XC (C XE (C X2 (C X4 (C XA (C XB (C X7 (C X0 (C X6 (C X4 (C XE (C
    X0 (C XF (C X6 (C X3 (C XC (C XB (C X1 (C XF (C XC (C X2 (C X6 (C X0 (C XE (C XE (C XD (C XE
    (C X0 (C XC (C X9 (C XA (C X4 (C X7 (C X7 (C XB (C X0 (C X5 (C X2 (C XF (C X4 (C XF (C X8 (C
    X1 (C X1 (C XB (C X1 (C X9 (C XC (C XD (C XE (C X3 (C XF (C X4 (C X6 (C X2 (C XC (C X5 (C X0
    (C X7 E))))))))))))))))))))))))))))))))))))))))))))))))))))))))))))))))"
  by (rule mont_step[OF rep_p_m14 _ cancels_p, of "[True, True, True, True, True, True, True, True, True, True, True, True, True, True, True, True]"],
      simp, simp only: mont_eval k_p_def a_p_def d_p_def, simp)

lemma rep_p_m16: "mont_rep 115792089237316195423570985008687907853269984665640564039457584007908834671663 (length k_p) (length a_p) 115792089237316195423570985008687907853269984665640564039457584007908834671662
    (C XF (C X2 (C XC (C X0 (C XD (C X3 (C X0 (C X0 (C XF (C XF (C XF (C X0 (C X0 (C X0 (C X0 (C X0 (C
    X0 (C X0 (C X0 (C X0 (C X0 (C X0 (C X0 (C X0 (C X0 (C X0 (C X0 (C X0 (C X0 (C X0 (C X0 (C X0
    (C X0 (C X0 (C X0 (C X0 (C X0 (C X0 (C X0 (C X0 (C X0 (C X0 (C X0 (C X0 (C X0 (C X0 (C X0 (C
    X0 (C X0 (C X0 (C X0 (C X0 (C X0 (C X0 (C X0 (C X0 (C X0 (C X0 (C X0 (C X0 (C X0 (C X0 (C X0
    (C X0 (C X1 E)))))))))))))))))))))))))))))))))))))))))))))))))))))))))))))))))"
  by (rule mont_step[OF rep_p_m15 _ cancels_p, of "[True, True, True, True, True, True, False, False, False, False, True, False, True, True, True, False]"],
      simp, simp only: mont_eval k_p_def a_p_def d_p_def, simp)

lemma fermat_p: "length a_p ^ 115792089237316195423570985008687907853269984665640564039457584007908834671662 mod 115792089237316195423570985008687907853269984665640564039457584007908834671663 = 1"
  using mont_rep_one[OF _ rep_p_m16 rep_p_0, of 1] by (simp add: a_p_def)

lemma rep_p_q0_1: "mont_rep 115792089237316195423570985008687907853269984665640564039457584007908834671663 (length k_p) (length a_p) 35282
    (C XC (C XC (C X4 (C X8 (C X1 (C X3 (C X9 (C X5 (C XF (C XF (C X7 (C X5 (C X7 (C XF (C X2 (C X5 (C
    XE (C XD (C X9 (C X7 (C XE (C X1 (C XB (C X7 (C X8 (C XA (C XC (C X3 (C XB (C X4 (C XF (C X2
    (C XE (C XD (C X9 (C XA (C XD (C XE (C XB (C XA (C X8 (C X3 (C X3 (C XB (C X1 (C XE (C XF (C
    XF (C XD (C X3 (C X5 (C X3 (C X9 (C XD (C X6 (C X4 (C X8 (C XF (C XA (C XC (C X3 (C X3 (C X0
    (C X6 E))))))))))))))))))))))))))))))))))))))))))))))))))))))))))))))))"
  by (rule mont_step[OF rep_p_0 _ cancels_p, of "[True, False, False, False, True, False, False, True, True, True, False, True, False, False, True, False]"],
      simp, simp only: mont_eval k_p_def a_p_def d_p_def, simp)

lemma rep_p_q0_2: "mont_rep 115792089237316195423570985008687907853269984665640564039457584007908834671663 (length k_p) (length a_p) 564522
    (C X3 (C X3 (C X2 (C XF (C XA (C X7 (C X7 (C X8 (C X6 (C X8 (C XC (C X5 (C XA (C XF (C X1 (C XA (C
    X6 (C XE (C XC (C X7 (C X9 (C X7 (C X1 (C XB (C XF (C XC (C X0 (C XF (C X8 (C X6 (C X8 (C X9
    (C X0 (C XE (C X4 (C X1 (C X1 (C X4 (C X6 (C XA (C XB (C XC (C XE (C X5 (C XF (C X2 (C X9 (C
    XC (C XC (C X6 (C X3 (C XF (C XD (C X0 (C X2 (C X0 (C XE (C X0 (C X8 (C X2 (C X5 (C X8 (C X3
    (C X7 E))))))))))))))))))))))))))))))))))))))))))))))))))))))))))))))))"
  by (rule mont_step[OF rep_p_q0_1 _ cancels_p, of "[True, False, True, False]"],
      simp, simp only: mont_eval k_p_def a_p_def d_p_def, simp)

lemma pock_p_0: "pocklington_cond 115792089237316195423570985008687907853269984665640564039457584007908834671663 (length a_p) 205115282021455665897114700593932402728804164701536103180137503955397371"
proof -
  have "mont k_p (cancel_of d_p) (mults_of (C X7 (C XC (C XF (C X6 (C X4 (C XD (C X7 (C X8 (C X7 (C XB (C XD (C XA (C X6 (C XB (C X0 (C X1 (C
    X1 (C XC (C X4 (C X8 (C XA (C X4 (C X0 (C X8 (C XA (C X6 (C X1 (C X5 (C XF (C XD (C X4 (C X4
    (C XD (C XC (C XC (C X8 (C X5 (C XF (C XF (C X6 (C X6 (C X2 (C XB (C X8 (C XB (C XA (C XC (C
    X7 (C XE (C X9 (C X7 (C X2 (C XE (C XA (C XC (C X5 (C XE (C X4 (C XF (C X0 (C X5 (C XA (C X5
    (C X5 E)))))))))))))))))))))))))))))))))))))))))))))))))))))))))))))))))
    (C X3 (C X3 (C X2 (C XF (C XA (C X7 (C X7 (C X8 (C X6 (C X8 (C XC (C X5 (C XA (C XF (C X1 (C XA (C
    X6 (C XE (C XC (C X7 (C X9 (C X7 (C X1 (C XB (C XF (C XC (C X0 (C XF (C X8 (C X6 (C X8 (C X9
    (C X0 (C XE (C X4 (C X1 (C X1 (C X4 (C X6 (C XA (C XB (C XC (C XE (C X5 (C XF (C X2 (C X9 (C
    XC (C XC (C X6 (C X3 (C XF (C XD (C X0 (C X2 (C X0 (C XE (C X0 (C X8 (C X2 (C X5 (C X8 (C X3
    (C X7 E)))))))))))))))))))))))))))))))))))))))))))))))))))))))))))))))) E = Done (C X8 (C XC (C XF (C X6 (C X4 (C XD (C X7 (C X8 (C X7 (C XB (C XD (C XA (C X6 (C XB (C X0 (C X1 (C
    X1 (C XC (C X4 (C X8 (C XA (C X4 (C X0 (C X8 (C XA (C X6 (C X1 (C X5 (C XF (C XD (C X4 (C X4
    (C XD (C XC (C XC (C X8 (C X5 (C XF (C XF (C X6 (C X6 (C X2 (C XB (C X8 (C XB (C XA (C XC (C
    X7 (C XE (C X9 (C X7 (C X2 (C XE (C XA (C XC (C X5 (C XE (C X4 (C XF (C X0 (C X5 (C XA (C X5
    (C X5 E))))))))))))))))))))))))))))))))))))))))))))))))))))))))))))))))"
    by (simp only: mont_eval k_p_def d_p_def)
  from mont_cond[OF _ cancels_p rep_p_q0_2 this, of 0]
  show ?thesis by (intro pocklington_condI[of _ _ 564522]) (simp_all add: fermat_p)
qed

lemma prime_p: "is_prime 115792089237316195423570985008687907853269984665640564039457584007908834671663"
  by (rule pocklington[of _ "[205115282021455665897114700593932402728804164701536103180137503955397371]" "length a_p"])
    (simp_all add: prime_q237 pock_p_0)

lemma prime_c1871: "is_prime 1871"
  by (rule is_prime_trial[of _ 44]) (simp_all add: upt_rec)

subsection \<open>1627771\<close>

definition k_c1627771 :: "unit list" where
  "k_c1627771 = [(), (), (), (), (), (), (), (), ()]"

definition a_c1627771 :: "unit list" where
  "a_c1627771 = [(), ()]"

definition d_c1627771 :: digits where
  "d_c1627771 = (C XB (C X7 (C X6 (C XD (C X8 (C X1 E))))))"

lemma dval_c1627771: "dval d_c1627771 = 1627771"
  by (simp add: d_c1627771_def)

lemma cancels_c1627771: "cancels (cancel_of d_c1627771) 1627771"
  using cancels_of[of d_c1627771] by (simp add: dval_c1627771)

lemma rep_c1627771_0: "mont_rep 1627771 (length k_c1627771) (length a_c1627771) 0
    (C X8 (C X8 (C X4 (C XD (C X6 (C X1 E))))))"
  by (simp add: mont_rep_def k_c1627771_def a_c1627771_def)

lemma rep_c1627771_m1: "mont_rep 1627771 (length k_c1627771) (length a_c1627771) 50867
    (C X2 (C XC (C XB (C XA E))))"
  by (rule mont_step[OF rep_c1627771_0 _ cancels_c1627771, of "[True, True, False, False, False, True, True, False, True, False, True, True, False, False, True, True]"],
      simp, simp only: mont_eval k_c1627771_def a_c1627771_def d_c1627771_def, simp)

lemma rep_c1627771_m2: "mont_rep 1627771 (length k_c1627771) (length a_c1627771) 1627770
    (C X8 (C X8 (C X4 (C XD (C X6 (C X1 E))))))"
  by (rule mont_step[OF rep_c1627771_m1 _ cancels_c1627771, of "[True, True, False, True, False]"],
      simp, simp only: mont_eval k_c1627771_def a_c1627771_def d_c1627771_def, simp)

lemma fermat_c1627771: "length a_c1627771 ^ 1627770 mod 1627771 = 1"
  using mont_rep_one[OF _ rep_c1627771_m2 rep_c1627771_0, of 0] by (simp add: a_c1627771_def)

lemma rep_c1627771_q0_1: "mont_rep 1627771 (length k_c1627771) (length a_c1627771) 870
    (C XD (C XF (C X0 (C X2 (C X8 E)))))"
  by (rule mont_step[OF rep_c1627771_0 _ cancels_c1627771, of "[True, True, False, True, True, False, False, True, True, False]"],
      simp, simp only: mont_eval k_c1627771_def a_c1627771_def d_c1627771_def, simp)

lemma pock_c1627771_0: "pocklington_cond 1627771 (length a_c1627771) 1871"
proof -
  have "mont k_c1627771 (cancel_of d_c1627771) (mults_of (C XF (C X8 (C XF (C XF (C X8 E))))))
    (C XD (C XF (C X0 (C X2 (C X8 E))))) E = Done (C X0 (C X9 (C XF (C XF (C X8 E)))))"
    by (simp only: mont_eval k_c1627771_def d_c1627771_def)
  from mont_cond[OF _ cancels_c1627771 rep_c1627771_q0_1 this, of 0]
  show ?thesis by (intro pocklington_condI[of _ _ 870]) (simp_all add: fermat_c1627771)
qed

lemma prime_c1627771: "is_prime 1627771"
  by (rule pocklington[of _ "[1871]" "length a_c1627771"])
    (simp_all add: prime_c1871 pock_c1627771_0)

subsection \<open>297159362677\<close>

definition k_c297159362677 :: "unit list" where
  "k_c297159362677 = [(), (), (), (), (), (), (), (), (), (), (), (), ()]"

definition a_c297159362677 :: "unit list" where
  "a_c297159362677 = [(), ()]"

definition d_c297159362677 :: digits where
  "d_c297159362677 = (C X5 (C X7 (C X8 (C X0 (C X4 (C X1 (C X0 (C X3 (C X5 (C X4 E))))))))))"

lemma dval_c297159362677: "dval d_c297159362677 = 297159362677"
  by (simp add: d_c297159362677_def)

lemma cancels_c297159362677: "cancels (cancel_of d_c297159362677) 297159362677"
  using cancels_of[of d_c297159362677] by (simp add: dval_c297159362677)

lemma rep_c297159362677_0: "mont_rep 297159362677 (length k_c297159362677) (length a_c297159362677) 0
    (C X1 (C XB (C X9 (C X5 (C XF (C X0 (C XE (C XC (C X2 (C X2 E))))))))))"
  by (simp add: mont_rep_def k_c297159362677_def a_c297159362677_def)

lemma rep_c297159362677_m1: "mont_rep 297159362677 (length k_c297159362677) (length a_c297159362677) 35424
    (C XF (C XA (C XF (C X6 (C X8 (C XE (C XF (C XC (C X1 (C X1 E))))))))))"
  by (rule mont_step[OF rep_c297159362677_0 _ cancels_c297159362677, of "[True, False, False, False, True, False, True, False, False, True, True, False, False, False, False, False]"],
      simp, simp only: mont_eval k_c297159362677_def a_c297159362677_def d_c297159362677_def, simp)

lemma rep_c297159362677_m2: "mont_rep 297159362677 (length k_c297159362677) (length a_c297159362677) 2321557520
    (C X5 (C X4 (C X2 (C X9 (C XE (C X5 (C XB (C X0 (C XE E)))))))))"
  by (rule mont_step[OF rep_c297159362677_m1 _ cancels_c297159362677, of "[False, False, True, False, True, False, False, False, False, False, False, True, False, False, False, False]"],
      simp, simp only: mont_eval k_c297159362677_def a_c297159362677_def d_c297159362677_def, simp)

lemma rep_c297159362677_m3: "mont_rep 297159362677 (length k_c297159362677) (length a_c297159362677) 297159362676
    (C X1 (C XB (C X9 (C X5 (C XF (C X0 (C XE (C XC (C X2 (C X2 E))))))))))"
  by (rule mont_step[OF rep_c297159362677_m2 _ cancels_c297159362677, of "[True, True, True, False, True, False, False]"],
      simp, simp only: mont_eval k_c297159362677_def a_c297159362677_def d_c297159362677_def, simp)

lemma fermat_c297159362677: "length a_c297159362677 ^ 297159362676 mod 297159362677 = 1"
  using mont_rep_one[OF _ rep_c297159362677_m3 rep_c297159362677_0, of 0] by (simp add: a_c297159362677_def)

lemma rep_c297159362677_q0_1: "mont_rep 297159362677 (length k_c297159362677) (length a_c297159362677) 45639
    (C X2 (C X0 (C X0 (C X6 (C X5 (C X2 (C X3 (C X3 (C XF (C X5 E))))))))))"
  by (rule mont_step[OF rep_c297159362677_0 _ cancels_c297159362677, of "[True, False, True, True, False, False, True, False, False, True, False, False, False, True, True, True]"],
      simp, simp only: mont_eval k_c297159362677_def a_c297159362677_def d_c297159362677_def, simp)

lemma rep_c297159362677_q0_2: "mont_rep 297159362677 (length k_c297159362677) (length a_c297159362677) 182556
    (C X3 (C X8 (C X8 (C X0 (C X4 (C XA (C XA (C XB (C XA (C X2 E))))))))))"
  by (rule mont_step[OF rep_c297159362677_q0_1 _ cancels_c297159362677, of "[False, False]"],
      simp, simp only: mont_eval k_c297159362677_def a_c297159362677_def d_c297159362677_def, simp)

lemma pock_c297159362677_0: "pocklington_cond 297159362677 (length a_c297159362677) 1627771"
proof -
  have "mont k_c297159362677 (cancel_of d_c297159362677) (mults_of (C X0 (C XA (C XC (C XB (C X1 (C XB (C X8 (C X4 (C XA E))))))))))
    (C X3 (C X8 (C X8 (C X0 (C X4 (C XA (C XA (C XB (C XA (C X2 E)))))))))) E = Done (C X1 (C XA (C XC (C XB (C X1 (C XB (C X8 (C X4 (C XA E)))))))))"
    by (simp only: mont_eval k_c297159362677_def d_c297159362677_def)
  from mont_cond[OF _ cancels_c297159362677 rep_c297159362677_q0_2 this, of 0]
  show ?thesis by (intro pocklington_condI[of _ _ 182556]) (simp_all add: fermat_c297159362677)
qed

lemma prime_c297159362677: "is_prime 297159362677"
  by (rule pocklington[of _ "[1627771]" "length a_c297159362677"])
    (simp_all add: prime_c1627771 pock_c297159362677_0)

lemma prime_c1409: "is_prime 1409"
  by (rule is_prime_trial[of _ 38]) (simp_all add: upt_rec)

subsection \<open>28181\<close>

definition k_c28181 :: "unit list" where
  "k_c28181 = [(), (), (), (), (), (), ()]"

definition a_c28181 :: "unit list" where
  "a_c28181 = [(), ()]"

definition d_c28181 :: digits where
  "d_c28181 = (C X5 (C X1 (C XE (C X6 E))))"

lemma dval_c28181: "dval d_c28181 = 28181"
  by (simp add: d_c28181_def)

lemma cancels_c28181: "cancels (cancel_of d_c28181) 28181"
  using cancels_of[of d_c28181] by (simp add: dval_c28181)

lemma rep_c28181_0: "mont_rep 28181 (length k_c28181) (length a_c28181) 0
    (C X7 (C XA (C XC (C X2 E))))"
  by (simp add: mont_rep_def k_c28181_def a_c28181_def)

lemma rep_c28181_m1: "mont_rep 28181 (length k_c28181) (length a_c28181) 28180
    (C X7 (C XA (C XC (C X2 E))))"
  by (rule mont_step[OF rep_c28181_0 _ cancels_c28181, of "[True, True, False, True, True, True, False, False, False, False, True, False, True, False, False]"],
      simp, simp only: mont_eval k_c28181_def a_c28181_def d_c28181_def, simp)

lemma fermat_c28181: "length a_c28181 ^ 28180 mod 28181 = 1"
  using mont_rep_one[OF _ rep_c28181_m1 rep_c28181_0, of 0] by (simp add: a_c28181_def)

lemma rep_c28181_q0_1: "mont_rep 28181 (length k_c28181) (length a_c28181) 20
    (C X1 (C X9 (C XB (C X4 E))))"
  by (rule mont_step[OF rep_c28181_0 _ cancels_c28181, of "[True, False, True, False, False]"],
      simp, simp only: mont_eval k_c28181_def a_c28181_def d_c28181_def, simp)

lemma pock_c28181_0: "pocklington_cond 28181 (length a_c28181) 1409"
proof -
  have "mont k_c28181 (cancel_of d_c28181) (mults_of (C X8 (C X4 (C XF (C X3 E)))))
    (C X1 (C X9 (C XB (C X4 E)))) E = Done (C X9 (C X4 (C XF (C X3 E))))"
    by (simp only: mont_eval k_c28181_def d_c28181_def)
  from mont_cond[OF _ cancels_c28181 rep_c28181_q0_1 this, of 0]
  show ?thesis by (intro pocklington_condI[of _ _ 20]) (simp_all add: fermat_c28181)
qed

lemma prime_c28181: "is_prime 28181"
  by (rule pocklington[of _ "[1409]" "length a_c28181"])
    (simp_all add: prime_c1409 pock_c28181_0)

subsection \<open>545358713\<close>

definition k_c545358713 :: "unit list" where
  "k_c545358713 = [(), (), (), (), (), (), (), (), (), (), ()]"

definition a_c545358713 :: "unit list" where
  "a_c545358713 = [(), ()]"

definition d_c545358713 :: digits where
  "d_c545358713 = (C X9 (C X7 (C X3 (C X8 (C X1 (C X8 (C X0 (C X2 E))))))))"

lemma dval_c545358713: "dval d_c545358713 = 545358713"
  by (simp add: d_c545358713_def)

lemma cancels_c545358713: "cancels (cancel_of d_c545358713) 545358713"
  using cancels_of[of d_c545358713] by (simp add: dval_c545358713)

lemma rep_c545358713_0: "mont_rep 545358713 (length k_c545358713) (length a_c545358713) 0
    (C XE (C X0 (C XB (C X6 (C X7 (C X4 E))))))"
  by (simp add: mont_rep_def k_c545358713_def a_c545358713_def)

lemma rep_c545358713_m1: "mont_rep 545358713 (length k_c545358713) (length a_c545358713) 33286
    (C XF (C XE (C XA (C XE (C XA (C XA (C X0 (C X1 E))))))))"
  by (rule mont_step[OF rep_c545358713_0 _ cancels_c545358713, of "[True, False, False, False, False, False, True, False, False, False, False, False, False, True, True, False]"],
      simp, simp only: mont_eval k_c545358713_def a_c545358713_def d_c545358713_def, simp)

lemma rep_c545358713_m2: "mont_rep 545358713 (length k_c545358713) (length a_c545358713) 545358712
    (C XE (C X0 (C XB (C X6 (C X7 (C X4 E))))))"
  by (rule mont_step[OF rep_c545358713_m1 _ cancels_c545358713, of "[False, False, False, False, True, True, False, True, True, True, True, False, False, False]"],
      simp, simp only: mont_eval k_c545358713_def a_c545358713_def d_c545358713_def, simp)

lemma fermat_c545358713: "length a_c545358713 ^ 545358712 mod 545358713 = 1"
  using mont_rep_one[OF _ rep_c545358713_m2 rep_c545358713_0, of 0] by (simp add: a_c545358713_def)

lemma rep_c545358713_q0_1: "mont_rep 545358713 (length k_c545358713) (length a_c545358713) 19352
    (C X0 (C X5 (C X8 (C X6 (C XA (C X1 (C X4 (C X1 E))))))))"
  by (rule mont_step[OF rep_c545358713_0 _ cancels_c545358713, of "[True, False, False, True, False, True, True, True, False, False, True, True, False, False, False]"],
      simp, simp only: mont_eval k_c545358713_def a_c545358713_def d_c545358713_def, simp)

lemma pock_c545358713_0: "pocklington_cond 545358713 (length a_c545358713) 28181"
proof -
  have "mont k_c545358713 (cancel_of d_c545358713) (mults_of (C XD (C X8 (C X1 (C X9 (C X5 (C X9 (C X9 E))))))))
    (C X0 (C X5 (C X8 (C X6 (C XA (C X1 (C X4 (C X1 E)))))))) E = Done (C XE (C X8 (C X1 (C X9 (C X5 (C X9 (C X9 E)))))))"
    by (simp only: mont_eval k_c545358713_def d_c545358713_def)
  from mont_cond[OF _ cancels_c545358713 rep_c545358713_q0_1 this, of 0]
  show ?thesis by (intro pocklington_condI[of _ _ 19352]) (simp_all add: fermat_c545358713)
qed

lemma prime_c545358713: "is_prime 545358713"
  by (rule pocklington[of _ "[28181]" "length a_c545358713"])
    (simp_all add: prime_c28181 pock_c545358713_0)

subsection \<open>29047611873442575647497758179\<close>

definition k_s95 :: "unit list" where
  "k_s95 = [(), (), (), (), (), (), (), (), (), (), (), (), (), (), (), (), (), (), (), (), (), (), (), (),
    (), (), ()]"

definition a_s95 :: "unit list" where
  "a_s95 = [(), ()]"

definition d_s95 :: digits where
  "d_s95 = (C X3 (C XE (C X5 (C XA (C XB (C X3 (C X2 (C XE (C X3 (C XA (C X8 (C X4 (C X3 (C X6 (C XF (C XE (C
    X2 (C X1 (C XF (C X9 (C XB (C XD (C XD (C X5 E))))))))))))))))))))))))"

lemma dval_s95: "dval d_s95 = 29047611873442575647497758179"
  by (simp add: d_s95_def)

lemma cancels_s95: "cancels (cancel_of d_s95) 29047611873442575647497758179"
  using cancels_of[of d_s95] by (simp add: dval_s95)

lemma rep_s95_0: "mont_rep 29047611873442575647497758179 (length k_s95) (length a_s95) 0
    (C X7 (C X7 (C XF (C X3 (C X8 (C X2 (C XF (C XE (C X6 (C XA (C X8 (C X3 (C X5 (C X9 (C X6 (C XE (C
    XB (C XB (C X8 (C X8 (C X1 (C X7 (C X9 (C X5 E))))))))))))))))))))))))"
  by (simp add: mont_rep_def k_s95_def a_s95_def)

lemma rep_s95_m1: "mont_rep 29047611873442575647497758179 (length k_s95) (length a_s95) 48055
    (C X2 (C X3 (C X7 (C X9 (C XC (C XD (C X4 (C X0 (C X4 (C XB (C X7 (C X3 (C X2 (C X2 (C XB (C X6 (C
    XF (C XF (C X6 (C X5 (C X6 (C X1 (C XA (C X7 E))))))))))))))))))))))))"
  by (rule mont_step[OF rep_s95_0 _ cancels_s95, of "[True, False, True, True, True, False, True, True, True, False, True, True, False, True, True, True]"],
      simp, simp only: mont_eval k_s95_def a_s95_def d_s95_def, simp)

lemma rep_s95_m2: "mont_rep 29047611873442575647497758179 (length k_s95) (length a_s95) 3149348389
    (C XC (C XF (C X3 (C XD (C X1 (C XC (C X2 (C X3 (C X9 (C X5 (C X5 (C X6 (C XA (C X7 (C X1 (C X2 (C
    XD (C XC (C X3 (C X0 (C X8 (C X4 (C X8 (C XB E))))))))))))))))))))))))"
  by (rule mont_step[OF rep_s95_m1 _ cancels_s95, of "[False, False, True, True, True, True, True, False, False, False, True, False, False, True, False, True]"],
      simp, simp only: mont_eval k_s95_def a_s95_def d_s95_def, simp)

lemma rep_s95_m3: "mont_rep 29047611873442575647497758179 (length k_s95) (length a_s95) 206395696078534
    (C XA (C X6 (C XC (C X8 (C X9 (C XC (C XD (C X6 (C XF (C X8 (C X6 (C XE (C X7 (C X4 (C XB (C X1 (C
    X5 (C XB (C X5 (C X1 (C X5 (C XF (C X2 (C X1 E))))))))))))))))))))))))"
  by (rule mont_step[OF rep_s95_m2 _ cancels_s95, of "[True, True, False, True, True, True, True, False, True, True, False, False, False, True, True, False]"],
      simp, simp only: mont_eval k_s95_def a_s95_def d_s95_def, simp)

lemma rep_s95_m4: "mont_rep 29047611873442575647497758179 (length k_s95) (length a_s95) 13526348338202841415
    (C XE (C X3 (C X9 (C X5 (C X6 (C X6 (C X9 (C XF (C X8 (C XD (C XD (C XF (C X5 (C XA (C XD (C X1 (C
    X4 (C XB (C X7 (C X8 (C X7 (C XE (C X8 (C X8 E))))))))))))))))))))))))"
  by (rule mont_step[OF rep_s95_m3 _ cancels_s95, of "[True, False, False, True, False, False, False, True, False, True, False, False, False, True, True, True]"],
      simp, simp only: mont_eval k_s95_def a_s95_def d_s95_def, simp)

lemma rep_s95_m5: "mont_rep 29047611873442575647497758179 (length k_s95) (length a_s95) 886462764692461415023735
    (C XE (C XF (C X4 (C X7 (C XC (C X3 (C XD (C X2 (C X6 (C X7 (C X4 (C X4 (C XC (C X7 (C XC (C XE (C
    X7 (C X8 (C XA (C X5 (C X7 (C X3 (C X6 (C X4 E))))))))))))))))))))))))"
  by (rule mont_step[OF rep_s95_m4 _ cancels_s95, of "[True, True, False, False, False, True, False, False, False, True, True, True, False, True, True, True]"],
      simp, simp only: mont_eval k_s95_def a_s95_def d_s95_def, simp)

lemma rep_s95_m6: "mont_rep 29047611873442575647497758179 (length k_s95) (length a_s95) 29047611873442575647497758178
    (C X7 (C X7 (C XF (C X3 (C X8 (C X2 (C XF (C XE (C X6 (C XA (C X8 (C X3 (C X5 (C X9 (C X6 (C XE (C
    XB (C XB (C X8 (C X8 (C X1 (C X7 (C X9 (C X5 E))))))))))))))))))))))))"
  by (rule mont_step[OF rep_s95_m5 _ cancels_s95, of "[False, True, False, False, True, False, True, True, True, True, False, False, False, True, False]"],
      simp, simp only: mont_eval k_s95_def a_s95_def d_s95_def, simp)

lemma fermat_s95: "length a_s95 ^ 29047611873442575647497758178 mod 29047611873442575647497758179 = 1"
  using mont_rep_one[OF _ rep_s95_m6 rep_s95_0, of 0] by (simp add: a_s95_def)

lemma rep_s95_q0_1: "mont_rep 29047611873442575647497758179 (length k_s95) (length a_s95) 44451
    (C XC (C X1 (C XB (C X4 (C XB (C X5 (C XC (C XE (C XE (C XD (C X7 (C X4 (C X5 (C XD (C X6 (C X1 (C
    XC (C X2 (C X3 (C X8 (C X7 (C X3 (C X8 (C X6 E))))))))))))))))))))))))"
  by (rule mont_step[OF rep_s95_0 _ cancels_s95, of "[True, False, True, False, True, True, False, True, True, False, True, False, False, False, True, True]"],
      simp, simp only: mont_eval k_s95_def a_s95_def d_s95_def, simp)

lemma rep_s95_q0_2: "mont_rep 29047611873442575647497758179 (length k_s95) (length a_s95) 2913205513
    (C XE (C X0 (C X6 (C X9 (C XC (C XD (C XB (C X4 (C XB (C X8 (C XB (C X0 (C X4 (C XC (C X4 (C X1 (C
    XD (C X6 (C X8 (C XF (C X3 (C X1 (C X2 E)))))))))))))))))))))))"
  by (rule mont_step[OF rep_s95_q0_1 _ cancels_s95, of "[True, True, True, True, True, True, False, True, False, False, False, False, True, False, False, True]"],
      simp, simp only: mont_eval k_s95_def a_s95_def d_s95_def, simp)

lemma rep_s95_q0_3: "mont_rep 29047611873442575647497758179 (length k_s95) (length a_s95) 190919836512049
    (C XE (C X7 (C X1 (C XD (C XD (C XB (C XC (C X6 (C XA (C XF (C X2 (C X9 (C X5 (C XA (C X8 (C X7 (C
    X1 (C X1 (C X1 (C X7 (C X8 (C XC (C X9 (C X4 E))))))))))))))))))))))))"
  by (rule mont_step[OF rep_s95_q0_2 _ cancels_s95, of "[False, False, True, False, True, True, True, True, False, False, True, True, False, False, False, True]"],
      simp, simp only: mont_eval k_s95_def a_s95_def d_s95_def, simp)

lemma rep_s95_q0_4: "mont_rep 29047611873442575647497758179 (length k_s95) (length a_s95) 97750956294169114
    (C X5 (C XF (C XE (C X2 (C X4 (C XA (C XC (C X1 (C X1 (C X4 (C X5 (C X5 (C X5 (C XC (C X2 (C X1 (C
    XE (C XF (C XE (C XB (C X6 (C X4 (C X4 (C X3 E))))))))))))))))))))))))"
  by (rule mont_step[OF rep_s95_q0_3 _ cancels_s95, of "[False, False, False, False, True, True, False, True, False]"],
      simp, simp only: mont_eval k_s95_def a_s95_def d_s95_def, simp)

lemma pock_s95_0: "pocklington_cond 29047611873442575647497758179 (length a_s95) 297159362677"
proof -
  have "mont k_s95 (cancel_of d_s95) (mults_of (C XD (C XD (C X0 (C X6 (C X5 (C X3 (C X0 (C XC (C X6 (C X0 (C XE (C X2 (C XA (C XE (C X8 (C X4 (C
    X4 (C X4 (C XC (C X2 (C X7 (C X7 (C X9 (C X1 E)))))))))))))))))))))))))
    (C X5 (C XF (C XE (C X2 (C X4 (C XA (C XC (C X1 (C X1 (C X4 (C X5 (C X5 (C X5 (C XC (C X2 (C X1 (C
    XE (C XF (C XE (C XB (C X6 (C X4 (C X4 (C X3 E)))))))))))))))))))))))) E = Done (C XE (C XD (C X0 (C X6 (C X5 (C X3 (C X0 (C XC (C X6 (C X0 (C XE (C X2 (C XA (C XE (C X8 (C X4 (C
    X4 (C X4 (C XC (C X2 (C X7 (C X7 (C X9 (C X1 E))))))))))))))))))))))))"
    by (simp only: mont_eval k_s95_def d_s95_def)
  from mont_cond[OF _ cancels_s95 rep_s95_q0_4 this, of 0]
  show ?thesis by (intro pocklington_condI[of _ _ 97750956294169114]) (simp_all add: fermat_s95)
qed

lemma rep_s95_q1_1: "mont_rep 29047611873442575647497758179 (length k_s95) (length a_s95) 47307
    (C XE (C XF (C XD (C X0 (C XB (C X7 (C X6 (C X6 (C X5 (C XC (C XF (C X5 (C X5 (C X7 (C X2 (C X6 (C
    XF (C X1 (C XA (C X9 (C X1 (C XA (C XB (C X5 E))))))))))))))))))))))))"
  by (rule mont_step[OF rep_s95_0 _ cancels_s95, of "[True, False, True, True, True, False, False, False, True, True, False, False, True, False, True, True]"],
      simp, simp only: mont_eval k_s95_def a_s95_def d_s95_def, simp)

lemma rep_s95_q1_2: "mont_rep 29047611873442575647497758179 (length k_s95) (length a_s95) 3100332867
    (C X2 (C X8 (C XE (C X0 (C X8 (C XB (C X3 (C XF (C X7 (C X0 (C XB (C X6 (C X4 (C XD (C X1 (C XB (C
    X5 (C X7 (C XD (C X2 (C X5 (C XE (C X8 (C XA E))))))))))))))))))))))))"
  by (rule mont_step[OF rep_s95_q1_1 _ cancels_s95, of "[False, True, False, True, False, False, True, True, False, True, False, False, False, False, True, True]"],
      simp, simp only: mont_eval k_s95_def a_s95_def d_s95_def, simp)

lemma rep_s95_q1_3: "mont_rep 29047611873442575647497758179 (length k_s95) (length a_s95) 203183414778517
    (C XE (C X2 (C X1 (C X4 (C X7 (C X7 (C X9 (C XA (C X7 (C X0 (C X5 (C X4 (C X7 (C X1 (C X7 (C X0 (C
    X6 (C X1 (C XF (C X4 (C X0 (C XE (C X7 (C X4 E))))))))))))))))))))))))"
  by (rule mont_step[OF rep_s95_q1_2 _ cancels_s95, of "[False, False, False, True, True, False, True, False, True, False, False, True, False, True, False, True]"],
      simp, simp only: mont_eval k_s95_def a_s95_def d_s95_def, simp)

lemma rep_s95_q1_4: "mont_rep 29047611873442575647497758179 (length k_s95) (length a_s95) 13315828270924946076
    (C X2 (C X3 (C XA (C X8 (C X2 (C XD (C XE (C X7 (C X5 (C X5 (C X8 (C XC (C X8 (C XF (C X2 (C XC (C
    X6 (C X1 (C X1 (C X6 (C X7 (C X3 (C XF (C X4 E))))))))))))))))))))))))"
  by (rule mont_step[OF rep_s95_q1_3 _ cancels_s95, of "[True, True, False, True, True, False, True, False, True, False, False, True, True, True, False, False]"],
      simp, simp only: mont_eval k_s95_def a_s95_def d_s95_def, simp)

lemma rep_s95_q1_5: "mont_rep 29047611873442575647497758179 (length k_s95) (length a_s95) 53263313083699784306
    (C X6 (C X6 (C XF (C X7 (C X0 (C XD (C XC (C X8 (C X1 (C X6 (C XD (C X6 (C X5 (C XB (C X8 (C XD (C
    X4 (C X0 (C X7 (C XC (C XF (C X7 (C X6 (C X3 E))))))))))))))))))))))))"
  by (rule mont_step[OF rep_s95_q1_4 _ cancels_s95, of "[True, False]"],
      simp, simp only: mont_eval k_s95_def a_s95_def d_s95_def, simp)

lemma pock_s95_1: "pocklington_cond 29047611873442575647497758179 (length a_s95) 545358713"
proof -
  have "mont k_s95 (cancel_of d_s95) (mults_of (C XF (C XE (C X9 (C XA (C XF (C XE (C X9 (C XE (C XC (C X0 (C XF (C X3 (C X0 (C X3 (C X0 (C X9 (C
    XD (C XF (C XA (C X0 (C X9 (C X2 (C XF (C X1 E)))))))))))))))))))))))))
    (C X6 (C X6 (C XF (C X7 (C X0 (C XD (C XC (C X8 (C X1 (C X6 (C XD (C X6 (C X5 (C XB (C X8 (C XD (C
    X4 (C X0 (C X7 (C XC (C XF (C X7 (C X6 (C X3 E)))))))))))))))))))))))) E = Done (C X0 (C XF (C X9 (C XA (C XF (C XE (C X9 (C XE (C XC (C X0 (C XF (C X3 (C X0 (C X3 (C X0 (C X9 (C
    XD (C XF (C XA (C X0 (C X9 (C X2 (C XF (C X1 E))))))))))))))))))))))))"
    by (simp only: mont_eval k_s95_def d_s95_def)
  from mont_cond[OF _ cancels_s95 rep_s95_q1_5 this, of 0]
  show ?thesis by (intro pocklington_condI[of _ _ 53263313083699784306]) (simp_all add: fermat_s95)
qed

lemma prime_s95: "is_prime 29047611873442575647497758179"
  by (rule pocklington[of _ "[297159362677, 545358713]" "length a_s95"])
    (simp_all add: prime_c297159362677 pock_s95_0 prime_c545358713 pock_s95_1)

subsection \<open>341948486974166000522343609283189\<close>

definition k_s108 :: "unit list" where
  "k_s108 = [(), (), (), (), (), (), (), (), (), (), (), (), (), (), (), (), (), (), (), (), (), (), (), (),
    (), (), (), (), (), (), ()]"

definition a_s108 :: "unit list" where
  "a_s108 = [(), ()]"

definition d_s108 :: digits where
  "d_s108 = (C X5 (C X7 (C X2 (C X3 (C X0 (C XE (C XE (C X2 (C X7 (C X1 (C X0 (C X5 (C X0 (C X8 (C X9 (C X1 (C
    X8 (C XB (C XA (C XE (C X6 (C X2 (C XF (C XF (C XB (C XD (C X0 (C X1
    E))))))))))))))))))))))))))))"

lemma dval_s108: "dval d_s108 = 341948486974166000522343609283189"
  by (simp add: d_s108_def)

lemma cancels_s108: "cancels (cancel_of d_s108) 341948486974166000522343609283189"
  using cancels_of[of d_s108] by (simp add: dval_s108)

lemma rep_s108_0: "mont_rep 341948486974166000522343609283189 (length k_s108) (length a_s108) 0
    (C X1 (C XF (C X0 (C X8 (C XD (C X7 (C X1 (C X9 (C XE (C XA (C XF (C X0 (C XE (C X7 (C XF (C X7 (C
    X4 (C X2 (C XB (C X2 (C XD (C X2 (C X4 (C X0 (C XA (C XF (C X7 E)))))))))))))))))))))))))))"
  by (simp add: mont_rep_def k_s108_def a_s108_def)

lemma rep_s108_m1: "mont_rep 341948486974166000522343609283189 (length k_s108) (length a_s108) 34527
    (C X8 (C X4 (C X2 (C XC (C X6 (C XF (C X8 (C X9 (C X2 (C X3 (C XA (C X3 (C XE (C X2 (C X1 (C XE (C
    X5 (C XA (C X3 (C X5 (C X3 (C X5 (C XF (C X5 (C X7 (C X6 (C X7 (C X1
    E))))))))))))))))))))))))))))"
  by (rule mont_step[OF rep_s108_0 _ cancels_s108, of "[True, False, False, False, False, True, True, False, True, True, False, True, True, True, True, True]"],
      simp, simp only: mont_eval k_s108_def a_s108_def d_s108_def, simp)

lemma rep_s108_m2: "mont_rep 341948486974166000522343609283189 (length k_s108) (length a_s108) 2262825271
    (C X8 (C X7 (C XD (C XC (C XC (C X6 (C X7 (C X4 (C X2 (C XA (C XE (C X7 (C X5 (C X7 (C XC (C XE (C
    X1 (C X7 (C XE (C X3 (C X1 (C X1 (C X3 (C XD (C X4 (C X6 (C XB (C X1
    E))))))))))))))))))))))))))))"
  by (rule mont_step[OF rep_s108_m1 _ cancels_s108, of "[True, True, True, True, True, False, False, True, False, False, True, True, False, True, True, True]"],
      simp, simp only: mont_eval k_s108_def a_s108_def d_s108_def, simp)

lemma rep_s108_m3: "mont_rep 341948486974166000522343609283189 (length k_s108) (length a_s108) 148296516982208
    (C X9 (C XD (C X0 (C XB (C XC (C XE (C X2 (C X7 (C XA (C X0 (C X2 (C X7 (C XD (C XE (C XA (C X1 (C
    X0 (C XC (C XF (C XD (C XD (C X4 (C XE (C X5 (C XB (C X6 (C X5 E)))))))))))))))))))))))))))"
  by (rule mont_step[OF rep_s108_m2 _ cancels_s108, of "[False, True, False, True, False, True, False, True, True, True, False, False, False, False, False, False]"],
      simp, simp only: mont_eval k_s108_def a_s108_def d_s108_def, simp)

lemma rep_s108_m4: "mont_rep 341948486974166000522343609283189 (length k_s108) (length a_s108) 9718760536946035714
    (C X0 (C X9 (C XF (C XE (C XF (C X6 (C XE (C XA (C X8 (C XB (C XD (C X7 (C XE (C XC (C X9 (C X3 (C
    XA (C X2 (C XE (C X5 (C X4 (C X5 (C XF (C X5 (C XA (C X4 (C X2 E)))))))))))))))))))))))))))"
  by (rule mont_step[OF rep_s108_m3 _ cancels_s108, of "[True, True, False, False, True, True, False, False, False, False, False, False, False, False, True, False]"],
      simp, simp only: mont_eval k_s108_def a_s108_def d_s108_def, simp)

lemma rep_s108_m5: "mont_rep 341948486974166000522343609283189 (length k_s108) (length a_s108) 636928690549295396585657
    (C XA (C XF (C XD (C XE (C X9 (C X8 (C X3 (C X3 (C XD (C XB (C XA (C XB (C X6 (C XF (C X5 (C X6 (C
    XD (C XD (C XA (C XE (C X4 (C XB (C X3 (C X1 (C X8 (C XC (C X4 (C X1
    E))))))))))))))))))))))))))))"
  by (rule mont_step[OF rep_s108_m4 _ cancels_s108, of "[True, False, False, False, False, False, False, False, True, False, True, True, True, False, False, True]"],
      simp, simp only: mont_eval k_s108_def a_s108_def d_s108_def, simp)

lemma rep_s108_m6: "mont_rep 341948486974166000522343609283189 (length k_s108) (length a_s108) 41741758663838623110637647617
    (C X6 (C X2 (C XD (C X0 (C X8 (C XF (C X8 (C XE (C X2 (C X4 (C X4 (C X3 (C X8 (C XC (C X6 (C XB (C
    XC (C XA (C XC (C X8 (C X4 (C XC (C XD (C X6 (C X7 (C X3 (C X1 (C X2
    E))))))))))))))))))))))))))))"
  by (rule mont_step[OF rep_s108_m5 _ cancels_s108, of "[False, True, True, True, False, True, True, True, False, False, False, False, False, False, False, True]"],
      simp, simp only: mont_eval k_s108_def a_s108_def d_s108_def, simp)

lemma rep_s108_m7: "mont_rep 341948486974166000522343609283189 (length k_s108) (length a_s108) 341948486974166000522343609283188
    (C X1 (C XF (C X0 (C X8 (C XD (C X7 (C X1 (C X9 (C XE (C XA (C XF (C X0 (C XE (C X7 (C XF (C X7 (C
    X4 (C X2 (C XB (C X2 (C XD (C X2 (C X4 (C X0 (C XA (C XF (C X7 E)))))))))))))))))))))))))))"
  by (rule mont_step[OF rep_s108_m6 _ cancels_s108, of "[True, False, False, True, False, False, True, True, True, False, True, False, False]"],
      simp, simp only: mont_eval k_s108_def a_s108_def d_s108_def, simp)

lemma fermat_s108: "length a_s108 ^ 341948486974166000522343609283188 mod 341948486974166000522343609283189 = 1"
  using mont_rep_one[OF _ rep_s108_m7 rep_s108_0, of 0] by (simp add: a_s108_def)

lemma rep_s108_q0_1: "mont_rep 341948486974166000522343609283189 (length k_s108) (length a_s108) 11772
    (C X3 (C X1 (C X6 (C XE (C XD (C X6 (C XB (C X1 (C X2 (C XE (C X4 (C X2 (C XF (C X7 (C X9 (C X6 (C
    XC (C XC (C XB (C XE (C XD (C XD (C XF (C X8 (C X8 (C X5 (C X7 E)))))))))))))))))))))))))))"
  by (rule mont_step[OF rep_s108_0 _ cancels_s108, of "[True, False, True, True, False, True, True, True, True, True, True, True, False, False]"],
      simp, simp only: mont_eval k_s108_def a_s108_def d_s108_def, simp)

lemma pock_s108_0: "pocklington_cond 341948486974166000522343609283189 (length a_s108) 29047611873442575647497758179"
proof -
  have "mont k_s108 (cancel_of d_s108) (mults_of (C XA (C X0 (C XC (C XA (C X2 (C XC (C X6 (C XB (C XE (C XE (C X1 (C X9 (C X8 (C XC (C XB (C X3 (C
    XE (C X3 (C X0 (C XE (C X5 (C X4 (C X6 (C X8 (C X2 (C X6 (C XB E))))))))))))))))))))))))))))
    (C X3 (C X1 (C X6 (C XE (C XD (C X6 (C XB (C X1 (C X2 (C XE (C X4 (C X2 (C XF (C X7 (C X9 (C X6 (C
    XC (C XC (C XB (C XE (C XD (C XD (C XF (C X8 (C X8 (C X5 (C X7 E))))))))))))))))))))))))))) E = Done (C XB (C X0 (C XC (C XA (C X2 (C XC (C X6 (C XB (C XE (C XE (C X1 (C X9 (C X8 (C XC (C XB (C X3 (C
    XE (C X3 (C X0 (C XE (C X5 (C X4 (C X6 (C X8 (C X2 (C X6 (C XB E)))))))))))))))))))))))))))"
    by (simp only: mont_eval k_s108_def d_s108_def)
  from mont_cond[OF _ cancels_s108 rep_s108_q0_1 this, of 0]
  show ?thesis by (intro pocklington_condI[of _ _ 11772]) (simp_all add: fermat_s108)
qed

lemma prime_s108: "is_prime 341948486974166000522343609283189"
  by (rule pocklington[of _ "[29047611873442575647497758179]" "length a_s108"])
    (simp_all add: prime_s95 pock_s108_0)

lemma prime_c2011: "is_prime 2011"
  by (rule is_prime_trial[of _ 45]) (simp_all add: upt_rec)

lemma prime_c97: "is_prime 97"
  by (rule is_prime_trial[of _ 10]) (simp_all add: upt_rec)

subsection \<open>4681609\<close>

definition k_c4681609 :: "unit list" where
  "k_c4681609 = [(), (), (), (), (), (), (), (), ()]"

definition a_c4681609 :: "unit list" where
  "a_c4681609 = [(), ()]"

definition d_c4681609 :: digits where
  "d_c4681609 = (C X9 (C X8 (C XF (C X6 (C X7 (C X4 E))))))"

lemma dval_c4681609: "dval d_c4681609 = 4681609"
  by (simp add: d_c4681609_def)

lemma cancels_c4681609: "cancels (cancel_of d_c4681609) 4681609"
  using cancels_of[of d_c4681609] by (simp add: dval_c4681609)

lemma rep_c4681609_0: "mont_rep 4681609 (length k_c4681609) (length a_c4681609) 0
    (C XA (C XF (C X6 (C X0 (C XB (C X2 E))))))"
  by (simp add: mont_rep_def k_c4681609_def a_c4681609_def)

lemma rep_c4681609_m1: "mont_rep 4681609 (length k_c4681609) (length a_c4681609) 36575
    (C X6 (C X7 (C X0 (C X3 (C X7 (C X3 E))))))"
  by (rule mont_step[OF rep_c4681609_0 _ cancels_c4681609, of "[True, False, False, False, True, True, True, False, True, True, False, True, True, True, True, True]"],
      simp, simp only: mont_eval k_c4681609_def a_c4681609_def d_c4681609_def, simp)

lemma rep_c4681609_m2: "mont_rep 4681609 (length k_c4681609) (length a_c4681609) 4681608
    (C XA (C XF (C X6 (C X0 (C XB (C X2 E))))))"
  by (rule mont_step[OF rep_c4681609_m1 _ cancels_c4681609, of "[False, False, False, True, False, False, False]"],
      simp, simp only: mont_eval k_c4681609_def a_c4681609_def d_c4681609_def, simp)

lemma fermat_c4681609: "length a_c4681609 ^ 4681608 mod 4681609 = 1"
  using mont_rep_one[OF _ rep_c4681609_m2 rep_c4681609_0, of 0] by (simp add: a_c4681609_def)

lemma rep_c4681609_q0_1: "mont_rep 4681609 (length k_c4681609) (length a_c4681609) 2328
    (C XF (C XF (C X5 (C X4 (C X5 (C X1 E))))))"
  by (rule mont_step[OF rep_c4681609_0 _ cancels_c4681609, of "[True, False, False, True, False, False, False, True, True, False, False, False]"],
      simp, simp only: mont_eval k_c4681609_def a_c4681609_def d_c4681609_def, simp)

lemma pock_c4681609_0: "pocklington_cond 4681609 (length a_c4681609) 2011"
proof -
  have "mont k_c4681609 (cancel_of d_c4681609) (mults_of (C XC (C XF (C XC (C XF (C X6 (C X1 E)))))))
    (C XF (C XF (C X5 (C X4 (C X5 (C X1 E)))))) E = Done (C XD (C XF (C XC (C XF (C X6 (C X1 E))))))"
    by (simp only: mont_eval k_c4681609_def d_c4681609_def)
  from mont_cond[OF _ cancels_c4681609 rep_c4681609_q0_1 this, of 0]
  show ?thesis by (intro pocklington_condI[of _ _ 2328]) (simp_all add: fermat_c4681609)
qed

lemma rep_c4681609_q1_1: "mont_rep 4681609 (length k_c4681609) (length a_c4681609) 48264
    (C X4 (C X1 (C X8 (C X0 (C XF (C X1 E))))))"
  by (rule mont_step[OF rep_c4681609_0 _ cancels_c4681609, of "[True, False, True, True, True, True, False, False, True, False, False, False, True, False, False, False]"],
      simp, simp only: mont_eval k_c4681609_def a_c4681609_def d_c4681609_def, simp)

lemma pock_c4681609_1: "pocklington_cond 4681609 (length a_c4681609) 97"
proof -
  have "mont k_c4681609 (cancel_of d_c4681609) (mults_of (C X8 (C XA (C X5 (C XF (C XD E))))))
    (C X4 (C X1 (C X8 (C X0 (C XF (C X1 E)))))) E = Done (C X9 (C XA (C X5 (C XF (C XD E)))))"
    by (simp only: mont_eval k_c4681609_def d_c4681609_def)
  from mont_cond[OF _ cancels_c4681609 rep_c4681609_q1_1 this, of 0]
  show ?thesis by (intro pocklington_condI[of _ _ 48264]) (simp_all add: fermat_c4681609)
qed

lemma prime_c4681609: "is_prime 4681609"
  by (rule pocklington[of _ "[2011, 97]" "length a_c4681609"])
    (simp_all add: prime_c2011 pock_c4681609_0 prime_c97 pock_c4681609_1)

lemma prime_c2861: "is_prime 2861"
  by (rule is_prime_trial[of _ 54]) (simp_all add: upt_rec)

subsection \<open>85831\<close>

definition k_c85831 :: "unit list" where
  "k_c85831 = [(), (), (), (), (), (), (), ()]"

definition a_c85831 :: "unit list" where
  "a_c85831 = [(), ()]"

definition d_c85831 :: digits where
  "d_c85831 = (C X7 (C X4 (C XF (C X4 (C X1 E)))))"

lemma dval_c85831: "dval d_c85831 = 85831"
  by (simp add: d_c85831_def)

lemma cancels_c85831: "cancels (cancel_of d_c85831) 85831"
  using cancels_of[of d_c85831] by (simp add: dval_c85831)

lemma rep_c85831_0: "mont_rep 85831 (length k_c85831) (length a_c85831) 0
    (C XF (C XF (C X0 (C X1 (C X1 E)))))"
  by (simp add: mont_rep_def k_c85831_def a_c85831_def)

lemma rep_c85831_m1: "mont_rep 85831 (length k_c85831) (length a_c85831) 42915
    (C X6 (C X4 (C X0 (C X6 (C X2 E)))))"
  by (rule mont_step[OF rep_c85831_0 _ cancels_c85831, of "[True, False, True, False, False, True, True, True, True, False, True, False, False, False, True, True]"],
      simp, simp only: mont_eval k_c85831_def a_c85831_def d_c85831_def, simp)

lemma rep_c85831_m2: "mont_rep 85831 (length k_c85831) (length a_c85831) 85830
    (C XF (C XF (C X0 (C X1 (C X1 E)))))"
  by (rule mont_step[OF rep_c85831_m1 _ cancels_c85831, of "[False]"],
      simp, simp only: mont_eval k_c85831_def a_c85831_def d_c85831_def, simp)

lemma fermat_c85831: "length a_c85831 ^ 85830 mod 85831 = 1"
  using mont_rep_one[OF _ rep_c85831_m2 rep_c85831_0, of 0] by (simp add: a_c85831_def)

lemma rep_c85831_q0_1: "mont_rep 85831 (length k_c85831) (length a_c85831) 30
    (C X4 (C XD (C X3 (C X9 E))))"
  by (rule mont_step[OF rep_c85831_0 _ cancels_c85831, of "[True, True, True, True, False]"],
      simp, simp only: mont_eval k_c85831_def a_c85831_def d_c85831_def, simp)

lemma pock_c85831_0: "pocklington_cond 85831 (length a_c85831) 2861"
proof -
  have "mont k_c85831 (cancel_of d_c85831) (mults_of (C XD (C XA (C X4 (C X9 E)))))
    (C X4 (C XD (C X3 (C X9 E)))) E = Done (C XE (C XA (C X4 (C X9 E))))"
    by (simp only: mont_eval k_c85831_def d_c85831_def)
  from mont_cond[OF _ cancels_c85831 rep_c85831_q0_1 this, of 0]
  show ?thesis by (intro pocklington_condI[of _ _ 30]) (simp_all add: fermat_c85831)
qed

lemma prime_c85831: "is_prime 85831"
  by (rule pocklington[of _ "[2861]" "length a_c85831"])
    (simp_all add: prime_c2861 pock_c85831_0)

subsection \<open>107361793816595537\<close>

definition k_s57 :: "unit list" where
  "k_s57 = [(), (), (), (), (), (), (), (), (), (), (), (), (), (), (), (), (), ()]"

definition a_s57 :: "unit list" where
  "a_s57 = [(), ()]"

definition d_s57 :: digits where
  "d_s57 = (C X1 (C X5 (C XC (C X0 (C X3 (C XE (C XE (C X8 (C XB (C XF (C XC (C X6 (C XD (C X7 (C X1
    E)))))))))))))))"

lemma dval_s57: "dval d_s57 = 107361793816595537"
  by (simp add: d_s57_def)

lemma cancels_s57: "cancels (cancel_of d_s57) 107361793816595537"
  using cancels_of[of d_s57] by (simp add: dval_s57)

lemma rep_s57_0: "mont_rep 107361793816595537 (length k_s57) (length a_s57) 0
    (C XF (C XD (C X6 (C XD (C X8 (C X6 (C XF (C XA (C XE (C X2 (C XE (C XF (C XD (C XC
    E))))))))))))))"
  by (simp add: mont_rep_def k_s57_def a_s57_def)

lemma rep_s57_m1: "mont_rep 107361793816595537 (length k_s57) (length a_s57) 48822
    (C X5 (C XC (C XB (C X1 (C XB (C XF (C XA (C X6 (C XA (C X2 (C XA (C X0 (C X5 (C XE
    E))))))))))))))"
  by (rule mont_step[OF rep_s57_0 _ cancels_s57, of "[True, False, True, True, True, True, True, False, True, False, True, True, False, True, True, False]"],
      simp, simp only: mont_eval k_s57_def a_s57_def d_s57_def, simp)

lemma rep_s57_m2: "mont_rep 107361793816595537 (length k_s57) (length a_s57) 3199630791
    (C X8 (C X3 (C X5 (C X7 (C X2 (C XD (C X3 (C XD (C XE (C X1 (C X8 (C XA (C X8 E)))))))))))))"
  by (rule mont_step[OF rep_s57_m1 _ cancels_s57, of "[False, True, True, True, True, True, False, True, True, True, False, False, False, True, True, True]"],
      simp, simp only: mont_eval k_s57_def a_s57_def d_s57_def, simp)

lemma rep_s57_m3: "mont_rep 107361793816595537 (length k_s57) (length a_s57) 209691003548038
    (C XA (C X7 (C X6 (C X0 (C XD (C X3 (C X2 (C X2 (C XF (C X6 (C X1 (C X5 (C X2 (C XD
    E))))))))))))))"
  by (rule mont_step[OF rep_s57_m2 _ cancels_s57, of "[False, True, True, True, False, False, False, True, True, False, False, False, False, True, True, False]"],
      simp, simp only: mont_eval k_s57_def a_s57_def d_s57_def, simp)

lemma rep_s57_m4: "mont_rep 107361793816595537 (length k_s57) (length a_s57) 107361793816595536
    (C XF (C XD (C X6 (C XD (C X8 (C X6 (C XF (C XA (C XE (C X2 (C XE (C XF (C XD (C XC
    E))))))))))))))"
  by (rule mont_step[OF rep_s57_m3 _ cancels_s57, of "[False, False, True, False, True, False, False, False, False]"],
      simp, simp only: mont_eval k_s57_def a_s57_def d_s57_def, simp)

lemma fermat_s57: "length a_s57 ^ 107361793816595536 mod 107361793816595537 = 1"
  using mont_rep_one[OF _ rep_s57_m4 rep_s57_0, of 0] by (simp add: a_s57_def)

lemma rep_s57_q0_1: "mont_rep 107361793816595537 (length k_s57) (length a_s57) 43740
    (C XA (C X7 (C XA (C XF (C X4 (C XC (C X2 (C XF (C X1 (C X0 (C X1 (C X1 (C X9 (C X2 (C X1
    E)))))))))))))))"
  by (rule mont_step[OF rep_s57_0 _ cancels_s57, of "[True, False, True, False, True, False, True, False, True, True, False, True, True, True, False, False]"],
      simp, simp only: mont_eval k_s57_def a_s57_def d_s57_def, simp)

lemma rep_s57_q0_2: "mont_rep 107361793816595537 (length k_s57) (length a_s57) 2866583738
    (C XE (C X8 (C X6 (C XD (C X9 (C X3 (C X7 (C X0 (C X3 (C XB (C X2 (C X5 (C X4 (C X2
    E))))))))))))))"
  by (rule mont_step[OF rep_s57_q0_1 _ cancels_s57, of "[True, False, False, True, True, False, False, False, True, False, True, True, True, False, True, False]"],
      simp, simp only: mont_eval k_s57_def a_s57_def d_s57_def, simp)

lemma rep_s57_q0_3: "mont_rep 107361793816595537 (length k_s57) (length a_s57) 22932669904
    (C X8 (C X6 (C XC (C X6 (C XA (C X6 (C XE (C XE (C X6 (C XC (C XD (C X4 (C XF (C XE
    E))))))))))))))"
  by (rule mont_step[OF rep_s57_q0_2 _ cancels_s57, of "[False, False, False]"],
      simp, simp only: mont_eval k_s57_def a_s57_def d_s57_def, simp)

lemma pock_s57_0: "pocklington_cond 107361793816595537 (length a_s57) 4681609"
proof -
  have "mont k_s57 (cancel_of d_s57) (mults_of (C X8 (C XF (C X7 (C X0 (C XA (C X5 (C X4 (C X4 (C X3 (C X0 (C X1 (C X4 (C XF (C X9
    E)))))))))))))))
    (C X8 (C X6 (C XC (C X6 (C XA (C X6 (C XE (C XE (C X6 (C XC (C XD (C X4 (C XF (C XE
    E)))))))))))))) E = Done (C X9 (C XF (C X7 (C X0 (C XA (C X5 (C X4 (C X4 (C X3 (C X0 (C X1 (C X4 (C XF (C X9
    E))))))))))))))"
    by (simp only: mont_eval k_s57_def d_s57_def)
  from mont_cond[OF _ cancels_s57 rep_s57_q0_3 this, of 0]
  show ?thesis by (intro pocklington_condI[of _ _ 22932669904]) (simp_all add: fermat_s57)
qed

lemma rep_s57_q1_1: "mont_rep 107361793816595537 (length k_s57) (length a_s57) 37278
    (C X2 (C X1 (C X0 (C XF (C XF (C X8 (C X1 (C X1 (C X0 (C X8 (C XB (C XC (C X9 (C X3 (C X1
    E)))))))))))))))"
  by (rule mont_step[OF rep_s57_0 _ cancels_s57, of "[True, False, False, True, False, False, False, True, True, False, False, True, True, True, True, False]"],
      simp, simp only: mont_eval k_s57_def a_s57_def d_s57_def, simp)

lemma rep_s57_q1_2: "mont_rep 107361793816595537 (length k_s57) (length a_s57) 2443068396
    (C X2 (C X2 (C X8 (C XA (C X9 (C X1 (C X5 (C X3 (C XB (C X8 (C XE (C X2 (C X2 (C X2 (C X1
    E)))))))))))))))"
  by (rule mont_step[OF rep_s57_q1_1 _ cancels_s57, of "[False, True, False, False, False, False, True, True, True, True, True, False, True, True, False, False]"],
      simp, simp only: mont_eval k_s57_def a_s57_def d_s57_def, simp)

lemma rep_s57_q1_3: "mont_rep 107361793816595537 (length k_s57) (length a_s57) 1250851019056
    (C X7 (C X9 (C XD (C XA (C X8 (C X7 (C X4 (C X6 (C XB (C X5 (C X8 (C X5 (C X9 (C X6
    E))))))))))))))"
  by (rule mont_step[OF rep_s57_q1_2 _ cancels_s57, of "[True, False, False, True, True, False, False, False, False]"],
      simp, simp only: mont_eval k_s57_def a_s57_def d_s57_def, simp)

lemma pock_s57_1: "pocklington_cond 107361793816595537 (length a_s57) 85831"
proof -
  have "mont k_s57 (cancel_of d_s57) (mults_of (C X2 (C X2 (C X4 (C XA (C X5 (C X2 (C X2 (C XA (C X5 (C X8 (C XC (C X8 (C XD (C X3 (C X1
    E))))))))))))))))
    (C X7 (C X9 (C XD (C XA (C X8 (C X7 (C X4 (C X6 (C XB (C X5 (C X8 (C X5 (C X9 (C X6
    E)))))))))))))) E = Done (C X3 (C X2 (C X4 (C XA (C X5 (C X2 (C X2 (C XA (C X5 (C X8 (C XC (C X8 (C XD (C X3 (C X1
    E)))))))))))))))"
    by (simp only: mont_eval k_s57_def d_s57_def)
  from mont_cond[OF _ cancels_s57 rep_s57_q1_3 this, of 0]
  show ?thesis by (intro pocklington_condI[of _ _ 1250851019056]) (simp_all add: fermat_s57)
qed

lemma prime_s57: "is_prime 107361793816595537"
  by (rule pocklington[of _ "[4681609, 85831]" "length a_s57"])
    (simp_all add: prime_c4681609 pock_s57_0 prime_c85831 pock_s57_1)

subsection \<open>115792089237316195423570985008687907852837564279074904382605163141518161494337\<close>

definition k_n :: "unit list" where
  "k_n = [(), (), (), (), (), (), (), (), (), (), (), (), (), (), (), (), (), (), (), (), (), (), (), (),
    (), (), (), (), (), (), (), (), (), (), (), (), (), (), (), (), (), (), (), (), (), (), (),
    (), (), (), (), (), (), (), (), (), (), (), (), (), (), (), (), (), (), (), ()]"

definition a_n :: "unit list" where
  "a_n = [(), ()]"

definition d_n :: digits where
  "d_n = (C X1 (C X4 (C X1 (C X4 (C X6 (C X3 (C X0 (C XD (C XC (C X8 (C XE (C X5 (C X2 (C XD (C XF (C XB (C
    XB (C X3 (C X0 (C XA (C X8 (C X4 (C XF (C XA (C X6 (C XE (C XC (C XD (C XE (C XA (C XA (C XB
    (C XE (C XF (C XF (C XF (C XF (C XF (C XF (C XF (C XF (C XF (C XF (C XF (C XF (C XF (C XF (C
    XF (C XF (C XF (C XF (C XF (C XF (C XF (C XF (C XF (C XF (C XF (C XF (C XF (C XF (C XF (C XF
    (C XF E))))))))))))))))))))))))))))))))))))))))))))))))))))))))))))))))"

lemma dval_n: "dval d_n = 115792089237316195423570985008687907852837564279074904382605163141518161494337"
  by (simp add: d_n_def)

lemma cancels_n: "cancels (cancel_of d_n) 115792089237316195423570985008687907852837564279074904382605163141518161494337"
  using cancels_of[of d_n] by (simp add: dval_n)

lemma rep_n_0: "mont_rep 115792089237316195423570985008687907852837564279074904382605163141518161494337 (length k_n) (length a_n) 0
    (C X0 (C X0 (C X0 (C XF (C XB (C XE (C XB (C X9 (C XC (C XF (C X2 (C X3 (C X7 (C X1 (C XA (C XD (C
    X2 (C X0 (C X4 (C X4 (C XC (C XF (C X5 (C X7 (C XB (C X0 (C X5 (C X9 (C X1 (C X3 (C X2 (C X1
    (C X5 (C X5 (C X4 (C X1 E))))))))))))))))))))))))))))))))))))"
  by (simp add: mont_rep_def k_n_def a_n_def)

lemma rep_n_m1: "mont_rep 115792089237316195423570985008687907852837564279074904382605163141518161494337 (length k_n) (length a_n) 65535
    (C XE (C X8 (C XB (C XD (C X7 (C X6 (C X1 (C XE (C XE (C XF (C X4 (C X3 (C X4 (C XB (C X4 (C X7 (C
    XB (C X6 (C X3 (C X1 (C X0 (C X6 (C XB (C X7 (C XE (C X7 (C X7 (C XA (C X1 (C X0 (C XC (C XB
    (C XF (C XD (C X3 (C XC (C X1 (C X2 (C X8 (C X7 (C X8 (C X2 (C X5 (C XC (C X9 (C X2 (C X0 (C
    XB (C X1 (C XB (C X3 (C XF (C X7 (C XA (C X9 (C XA (C XB (C X0 (C X6 (C XF (C XB (C X7 (C X6
    (C X6 (C X1 E)))))))))))))))))))))))))))))))))))))))))))))))))))))))))))))))))"
  by (rule mont_step[OF rep_n_0 _ cancels_n, of "[True, True, True, True, True, True, True, True, True, True, True, True, True, True, True, True]"],
      simp, simp only: mont_eval k_n_def a_n_def d_n_def, simp)

lemma rep_n_m2: "mont_rep 115792089237316195423570985008687907852837564279074904382605163141518161494337 (length k_n) (length a_n) 4294967295
    (C X6 (C XB (C XA (C X6 (C X0 (C X7 (C X4 (C X7 (C X9 (C X6 (C X1 (C XF (C X3 (C XE (C XF (C X2 (C
    X2 (C XA (C XD (C XE (C X6 (C X0 (C X5 (C X0 (C XD (C X0 (C X1 (C XF (C X2 (C X0 (C X3 (C X4
    (C X3 (C XF (C XD (C XE (C X7 (C X0 (C XE (C X7 (C XD (C X7 (C X8 (C XD (C XB (C XA (C XE (C
    X4 (C XD (C XF (C XD (C X6 (C X3 (C X9 (C X0 (C X4 (C XC (C X5 (C XE (C X2 (C XD (C XB (C X5
    (C X0 (C X1 E)))))))))))))))))))))))))))))))))))))))))))))))))))))))))))))))))"
  by (rule mont_step[OF rep_n_m1 _ cancels_n, of "[True, True, True, True, True, True, True, True, True, True, True, True, True, True, True, True]"],
      simp, simp only: mont_eval k_n_def a_n_def d_n_def, simp)

lemma rep_n_m3: "mont_rep 115792089237316195423570985008687907852837564279074904382605163141518161494337 (length k_n) (length a_n) 281474976710655
    (C XA (C X8 (C XF (C X1 (C X7 (C X1 (C XD (C XF (C XF (C X5 (C X4 (C X9 (C X4 (C X5 (C X9 (C XC (C
    X2 (C X3 (C X3 (C X8 (C XE (C X1 (C X7 (C XB (C XB (C X7 (C XD (C X9 (C X3 (C X3 (C XA (C XE
    (C XB (C X8 (C X9 (C XF (C XD (C XD (C X3 (C X3 (C XC (C X3 (C XF (C X4 (C XC (C XB (C X2 (C
    XE (C X7 (C XF (C XF (C XE (C XF (C X6 (C XE (C X4 (C X7 (C X6 (C XB (C X3 (C X3 (C X5 (C X4
    (C XA E))))))))))))))))))))))))))))))))))))))))))))))))))))))))))))))))"
  by (rule mont_step[OF rep_n_m2 _ cancels_n, of "[True, True, True, True, True, True, True, True, True, True, True, True, True, True, True, True]"],
      simp, simp only: mont_eval k_n_def a_n_def d_n_def, simp)

lemma rep_n_m4: "mont_rep 115792089237316195423570985008687907852837564279074904382605163141518161494337 (length k_n) (length a_n) 18446744073709551615
    (C X8 (C X6 (C X9 (C XC (C X2 (C XA (C XE (C XC (C X6 (C X5 (C XA (C X5 (C X0 (C X5 (C XD (C XB (C
    XE (C X4 (C X3 (C X2 (C X7 (C X2 (C XF (C X5 (C X4 (C XE (C X3 (C XD (C X6 (C X6 (C XF (C XA
    (C X6 (C XB (C X1 (C XC (C X1 (C X8 (C X1 (C XD (C XD (C X5 (C XF (C X1 (C XC (C X1 (C X1 (C
    X5 (C X4 (C XA (C X0 (C X9 (C XD (C X5 (C X9 (C X4 (C X5 (C X5 (C X5 (C XC (C XA (C X7 (C XE
    (C X1 (C X1 E)))))))))))))))))))))))))))))))))))))))))))))))))))))))))))))))))"
  by (rule mont_step[OF rep_n_m3 _ cancels_n, of "[True, True, True, True, True, True, True, True, True, True, True, True, True, True, True, True]"],
      simp, simp only: mont_eval k_n_def a_n_def d_n_def, simp)

lemma rep_n_m5: "mont_rep 115792089237316195423570985008687907852837564279074904382605163141518161494337 (length k_n) (length a_n) 1208925819614629174706175
    (C X8 (C X9 (C XB (C XA (C X1 (C XE (C X2 (C X6 (C X9 (C X8 (C X6 (C X5 (C X9 (C XA (C XB (C X9 (C
    X5 (C XE (C X3 (C XC (C XA (C X0 (C X7 (C X3 (C X7 (C XA (C XE (C X4 (C X9 (C X1 (C XA (C X8
    (C X5 (C X8 (C XF (C X5 (C X2 (C X4 (C X3 (C XE (C X1 (C X2 (C XE (C X0 (C XB (C X3 (C X8 (C
    X8 (C X3 (C XB (C X8 (C X4 (C X6 (C X1 (C X2 (C X3 (C X3 (C X2 (C XB (C X7 (C XA (C XA (C X7
    E)))))))))))))))))))))))))))))))))))))))))))))))))))))))))))))))"
  by (rule mont_step[OF rep_n_m4 _ cancels_n, of "[True, True, True, True, True, True, True, True, True, True, True, True, True, True, True, True]"],
      simp, simp only: mont_eval k_n_def a_n_def d_n_def, simp)

lemma rep_n_m6: "mont_rep 115792089237316195423570985008687907852837564279074904382605163141518161494337 (length k_n) (length a_n) 79228162514264337593543950335
    (C XE (C XE (C XF (C X4 (C X8 (C XE (C X9 (C X2 (C X3 (C XB (C X1 (C X9 (C X9 (C X9 (C X3 (C XA (C
    XE (C X0 (C X5 (C X1 (C XB (C XC (C X2 (C XA (C XC (C XB (C X7 (C XB (C X2 (C X6 (C X3 (C X2
    (C X7 (C X5 (C X9 (C XA (C X0 (C X6 (C XA (C XC (C X6 (C X2 (C X5 (C XC (C XB (C XC (C XC (C
    X1 (C X0 (C X9 (C XB (C X1 (C XA (C XF (C XC (C X1 (C X0 (C X9 (C X0 (C X6 (C X1 (C XA (C XB
    (C XC E))))))))))))))))))))))))))))))))))))))))))))))))))))))))))))))))"
  by (rule mont_step[OF rep_n_m5 _ cancels_n, of "[True, True, True, True, True, True, True, True, True, True, True, True, True, True, True, True]"],
      simp, simp only: mont_eval k_n_def a_n_def d_n_def, simp)

lemma rep_n_m7: "mont_rep 115792089237316195423570985008687907852837564279074904382605163141518161494337 (length k_n) (length a_n) 5192296858534827628530496329220095
    (C XC (C X0 (C X7 (C X2 (C X2 (C XC (C XD (C XF (C X8 (C X7 (C X5 (C XA (C X8 (C X9 (C X6 (C XE (C
    X7 (C X2 (C XD (C XD (C X9 (C X0 (C X4 (C X6 (C XF (C XD (C XB (C XB (C X9 (C X7 (C XB (C X6
    (C X6 (C XA (C XD (C X5 (C X6 (C XA (C X2 (C X4 (C XB (C XF (C X5 (C XC (C X3 (C X1 (C XA (C
    XA (C X9 (C XD (C XC (C XB (C X9 (C XE (C X3 (C XE (C XB (C X6 (C X3 (C XD (C X4 (C X2 (C XF
    (C X1 E))))))))))))))))))))))))))))))))))))))))))))))))))))))))))))))))"
  by (rule mont_step[OF rep_n_m6 _ cancels_n, of "[True, True, True, True, True, True, True, True, True, True, True, True, True, True, True, True]"],
      simp, simp only: mont_eval k_n_def a_n_def d_n_def, simp)

lemma rep_n_m8: "mont_rep 115792089237316195423570985008687907852837564279074904382605163141518161494337 (length k_n) (length a_n) 340282366920938463463374607431768211454
    (C XD (C X0 (C XF (C X5 (C XE (C X8 (C X7 (C XC (C X0 (C X3 (C X5 (C XB (C X4 (C X9 (C X7 (C X7 (C
    XB (C X6 (C XC (C XF (C X3 (C X7 (C XD (C X7 (C XB (C X0 (C X8 (C XB (C XF (C X1 (C X8 (C XF
    (C X9 (C X3 (C X1 (C XE (C X0 (C X9 (C X5 (C XE (C X5 (C XE (C XA (C XC (C XA (C XF (C X0 (C
    XC (C X6 (C X2 (C X8 (C X9 (C XF (C XF (C X8 (C X0 (C X4 (C X5 (C X6 (C X1 (C XC (C XD (C X6
    (C XA E))))))))))))))))))))))))))))))))))))))))))))))))))))))))))))))))"
  by (rule mont_step[OF rep_n_m7 _ cancels_n, of "[True, True, True, True, True, True, True, True, True, True, True, True, True, True, True, False]"],
      simp, simp only: mont_eval k_n_def a_n_def d_n_def, simp)

lemma rep_n_m9: "mont_rep 115792089237316195423570985008687907852837564279074904382605163141518161494337 (length k_n) (length a_n) 22300745198530623141535718272648361505897134
    (C X9 (C X7 (C XE (C X4 (C X2 (C XC (C XA (C XB (C XC (C X0 (C XA (C X1 (C XB (C XB (C X9 (C XD (C
    X0 (C X7 (C X1 (C X0 (C X7 (C X7 (C XE (C X4 (C X8 (C X7 (C X1 (C X6 (C X0 (C X4 (C X6 (C X4
    (C XB (C XD (C XA (C X6 (C X6 (C X2 (C X9 (C X3 (C X2 (C XE (C X7 (C XA (C X5 (C XA (C XB (C
    XB (C X9 (C XE (C X8 (C XE (C X6 (C X8 (C X5 (C X5 (C XB (C X6 (C X9 (C X6 (C X2 (C X2 (C X6
    (C X5 E))))))))))))))))))))))))))))))))))))))))))))))))))))))))))))))))"
  by (rule mont_step[OF rep_n_m8 _ cancels_n, of "[True, False, True, True, True, False, True, False, True, False, True, False, True, True, True, False]"],
      simp, simp only: mont_eval k_n_def a_n_def d_n_def, simp)

lemma rep_n_m10: "mont_rep 115792089237316195423570985008687907852837564279074904382605163141518161494337 (length k_n) (length a_n) 1461501637330902918203684832716283019650474630374
    (C X5 (C X3 (C X0 (C XD (C XB (C X2 (C XA (C X1 (C X0 (C XD (C X5 (C XB (C XF (C XE (C X1 (C XD (C
    X7 (C XF (C XC (C XB (C X0 (C X9 (C X4 (C X4 (C XF (C XF (C X4 (C XB (C XB (C X8 (C X7 (C X7
    (C X7 (C X1 (C X0 (C X9 (C X3 (C XA (C XE (C XE (C XC (C X6 (C XD (C X5 (C X0 (C X0 (C X1 (C
    X4 (C X9 (C XC (C XC (C X4 (C XC (C XE (C XB (C XB (C X7 (C X4 (C XB (C XA (C XF (C XC (C X2
    (C XB E))))))))))))))))))))))))))))))))))))))))))))))))))))))))))))))))"
  by (rule mont_step[OF rep_n_m9 _ cancels_n, of "[True, True, False, True, True, True, False, False, True, True, True, False, False, True, True, False]"],
      simp, simp only: mont_eval k_n_def a_n_def d_n_def, simp)

lemma rep_n_m11: "mont_rep 115792089237316195423570985008687907852837564279074904382605163141518161494337 (length k_n) (length a_n) 95780971304118053647396689196894323975813505376235336
    (C X2 (C XE (C X6 (C X5 (C XD (C X8 (C XE (C X6 (C XE (C X3 (C X4 (C X7 (C XB (C XD (C X2 (C X8 (C
    X7 (C X3 (C XC (C XA (C X2 (C X6 (C X2 (C X0 (C XF (C XC (C X3 (C XD (C X0 (C X8 (C X9 (C X6
    (C X0 (C X0 (C XE (C XE (C X4 (C X4 (C XD (C XE (C X3 (C XD (C XF (C XC (C X4 (C XE (C X9 (C
    XF (C XD (C XD (C XC (C XC (C X2 (C X6 (C XE (C XB (C X0 (C X5 (C X6 (C XF (C XE (C X3 (C X4
    (C X7 E))))))))))))))))))))))))))))))))))))))))))))))))))))))))))))))))"
  by (rule mont_step[OF rep_n_m10 _ cancels_n, of "[True, False, True, False, True, True, True, True, False, True, False, False, True, False, False, False]"],
      simp, simp only: mont_eval k_n_def a_n_def d_n_def, simp)

lemma rep_n_m12: "mont_rep 115792089237316195423570985008687907852837564279074904382605163141518161494337 (length k_n) (length a_n) 6277101735386680763835789423207666416078913888336959021115
    (C X8 (C XC (C XE (C XD (C X0 (C X3 (C X9 (C XD (C X9 (C XD (C X3 (C XD (C X8 (C X6 (C X7 (C XC (C
    XE (C XB (C X5 (C X6 (C XC (C XC (C X6 (C XA (C XF (C XA (C X6 (C XD (C XA (C XD (C X6 (C X8
    (C X0 (C X1 (C X2 (C X4 (C X5 (C XA (C X6 (C X7 (C XC (C XB (C XC (C XD (C XB (C XE (C XD (C
    XE (C X9 (C X9 (C X3 (C XC (C X8 (C X6 (C X7 (C X3 (C X1 (C X2 (C XC (C XB (C XF (C X1 (C XD
    (C X5 E))))))))))))))))))))))))))))))))))))))))))))))))))))))))))))))))"
  by (rule mont_step[OF rep_n_m11 _ cancels_n, of "[True, False, True, False, False, False, False, False, False, False, True, True, True, False, True, True]"],
      simp, simp only: mont_eval k_n_def a_n_def d_n_def, simp)

lemma rep_n_m13: "mont_rep 115792089237316195423570985008687907852837564279074904382605163141518161494337 (length k_n) (length a_n) 411376139330301510538742295639337626244147700586050946407841746
    (C X0 (C X8 (C X3 (C X7 (C X4 (C X5 (C XE (C X9 (C XC (C X0 (C X8 (C X1 (C XE (C X0 (C XB (C X5 (C
    X7 (C XA (C X8 (C X8 (C X8 (C X6 (C XA (C X5 (C X8 (C X5 (C XC (C X9 (C X6 (C XD (C X9 (C XF
    (C X6 (C X0 (C X5 (C X8 (C XC (C X8 (C X1 (C XF (C X5 (C X9 (C X5 (C X5 (C X5 (C XB (C XA (C
    XF (C X7 (C X1 (C XE (C X1 (C XA (C XB (C XA (C X2 (C X2 (C X0 (C X5 (C X0 (C X1 (C XC (C XC
    (C XF E))))))))))))))))))))))))))))))))))))))))))))))))))))))))))))))))"
  by (rule mont_step[OF rep_n_m12 _ cancels_n, of "[True, False, True, True, True, True, True, True, True, True, False, True, False, False, True, False]"],
      simp, simp only: mont_eval k_n_def a_n_def d_n_def, simp)

lemma rep_n_m14: "mont_rep 115792089237316195423570985008687907852837564279074904382605163141518161494337 (length k_n) (length a_n) 26959946667150639794667015087019630673536463705607434823784316690060
    (C X4 (C XE (C XE (C X2 (C X6 (C X7 (C X3 (C XE (C X5 (C XC (C X9 (C XF (C XB (C XB (C X2 (C XC (C
    X1 (C XC (C X0 (C X3 (C X9 (C X8 (C X5 (C X9 (C X1 (C XC (C X5 (C X7 (C XE (C X1 (C X5 (C XB
    (C XD (C XD (C XE (C X8 (C X0 (C X8 (C XD (C XB (C X5 (C X2 (C X4 (C XC (C XF (C XD (C X6 (C
    X2 (C X6 (C X9 (C XE (C XE (C XB (C X0 (C X0 (C XA (C XF (C X7 (C XA (C XC (C X0 (C X1 (C XF
    (C XF E))))))))))))))))))))))))))))))))))))))))))))))))))))))))))))))))"
  by (rule mont_step[OF rep_n_m13 _ cancels_n, of "[False, True, False, True, True, True, True, False, True, False, False, False, True, True, False, False]"],
      simp, simp only: mont_eval k_n_def a_n_def d_n_def, simp)

lemma rep_n_m15: "mont_rep 115792089237316195423570985008687907852837564279074904382605163141518161494337 (length k_n) (length a_n) 1766847064778384329583297500742918515820885685410688848611528978599825462
    (C XB (C XD (C XC (C XC (C X0 (C X6 (C X3 (C X8 (C XA (C XD (C XE (C X4 (C X0 (C X4 (C X3 (C XC (C
    XA (C X3 (C XD (C XE (C XF (C XE (C X3 (C X9 (C X4 (C XA (C X4 (C XB (C X3 (C XE (C X9 (C XE
    (C X7 (C X7 (C X7 (C X5 (C X6 (C X0 (C X1 (C XB (C XC (C XB (C XD (C XA (C X6 (C X5 (C X1 (C
    XD (C X9 (C X9 (C XA (C X3 (C X9 (C XF (C X4 (C X4 (C X5 (C XE (C X5 (C XC (C X9 (C XF (C X1
    E)))))))))))))))))))))))))))))))))))))))))))))))))))))))))))))))"
  by (rule mont_step[OF rep_n_m14 _ cancels_n, of "[True, True, False, True, False, False, False, False, False, False, True, True, False, True, True, False]"],
      simp, simp only: mont_eval k_n_def a_n_def d_n_def, simp)

lemma rep_n_m16: "mont_rep 115792089237316195423570985008687907852837564279074904382605163141518161494337 (length k_n) (length a_n) 115792089237316195423570985008687907852837564279074904382605163141518161494336
    (C X1 (C X4 (C X1 (C X3 (C X2 (C X2 (C XC (C X6 (C X9 (C X8 (C X1 (C X9 (C X9 (C XE (C X9 (C X9 (C
    XE (C X3 (C X4 (C XE (C X4 (C X4 (C X5 (C X2 (C X2 (C XF (C X1 (C X7 (C X0 (C XE (C XC (C XC
    (C X3 (C X5 (C X4 (C X1 (C X0 (C X0 (C X0 (C X0 (C X0 (C X0 (C X0 (C X0 (C X0 (C X0 (C X0 (C
    X0 (C X0 (C X0 (C X0 (C X0 (C X0 (C X0 (C X0 (C X0 (C X0 (C X0 (C X0 (C X0 (C X0 (C X0 (C X0
    (C X0 (C X1 E)))))))))))))))))))))))))))))))))))))))))))))))))))))))))))))))))"
  by (rule mont_step[OF rep_n_m15 _ cancels_n, of "[False, True, False, False, False, False, False, True, False, True, False, False, False, False, False, False]"],
      simp, simp only: mont_eval k_n_def a_n_def d_n_def, simp)

lemma fermat_n: "length a_n ^ 115792089237316195423570985008687907852837564279074904382605163141518161494336 mod 115792089237316195423570985008687907852837564279074904382605163141518161494337 = 1"
  using mont_rep_one[OF _ rep_n_m16 rep_n_0, of 1] by (simp add: a_n_def)

lemma rep_n_q0_1: "mont_rep 115792089237316195423570985008687907852837564279074904382605163141518161494337 (length k_n) (length a_n) 62195
    (C X0 (C X4 (C X9 (C XD (C XE (C XB (C X2 (C XD (C X0 (C X7 (C X1 (C X8 (C X7 (C X7 (C X8 (C X2 (C
    XD (C X4 (C X8 (C X2 (C XF (C X4 (C XA (C XF (C X8 (C XA (C XF (C X8 (C X1 (C X3 (C X8 (C X1
    (C X2 (C X9 (C XC (C XB (C XC (C X9 (C X2 (C X3 (C X9 (C X4 (C XB (C X4 (C XC (C X0 (C X9 (C
    X9 (C X2 (C XD (C X9 (C X3 (C X1 (C XA (C X9 (C X8 (C X3 (C XA (C XC (C X9 (C X1 (C XB (C XB
    (C XE (C X1 E)))))))))))))))))))))))))))))))))))))))))))))))))))))))))))))))))"
  by (rule mont_step[OF rep_n_0 _ cancels_n, of "[True, True, True, True, False, False, True, False, True, True, True, True, False, False, True, True]"],
      simp, simp only: mont_eval k_n_def a_n_def d_n_def, simp)

lemma rep_n_q0_2: "mont_rep 115792089237316195423570985008687907852837564279074904382605163141518161494337 (length k_n) (length a_n) 4076042526
    (C XB (C X4 (C X1 (C XB (C X5 (C XA (C X8 (C XD (C X6 (C X9 (C XA (C X9 (C XB (C X2 (C X1 (C X7 (C
    X7 (C XD (C XA (C XC (C X4 (C XC (C XC (C X4 (C X5 (C X7 (C X6 (C X9 (C XA (C X0 (C X8 (C XA
    (C X8 (C X9 (C XF (C X6 (C XD (C X9 (C XB (C XD (C XE (C X5 (C X6 (C XE (C XD (C X4 (C X8 (C
    X2 (C X4 (C XC (C X2 (C X2 (C XA (C XE (C X6 (C XD (C XB (C XD (C XD (C XA (C XB (C X3 (C XD
    (C X3 E))))))))))))))))))))))))))))))))))))))))))))))))))))))))))))))))"
  by (rule mont_step[OF rep_n_q0_1 _ cancels_n, of "[False, True, True, True, True, False, False, True, False, False, False, True, True, True, True, False]"],
      simp, simp only: mont_eval k_n_def a_n_def d_n_def, simp)

lemma rep_n_q0_3: "mont_rep 115792089237316195423570985008687907852837564279074904382605163141518161494337 (length k_n) (length a_n) 267127523041452
    (C X8 (C XD (C XC (C XC (C X1 (C XE (C XA (C XA (C X2 (C XB (C XA (C XA (C X9 (C X8 (C XE (C X1 (C
    X6 (C X1 (C X0 (C XB (C X3 (C X9 (C XE (C X2 (C X4 (C XE (C XB (C X8 (C X1 (C XA (C XE (C X3
    (C X6 (C XC (C X8 (C X4 (C X4 (C X9 (C X6 (C X8 (C X1 (C X8 (C X4 (C X6 (C X3 (C X4 (C XC (C
    XB (C X8 (C XC (C XF (C X3 (C X7 (C XD (C X9 (C XB (C X7 (C XE (C X7 (C X8 (C X1 (C X9 (C X1
    (C X1 E))))))))))))))))))))))))))))))))))))))))))))))))))))))))))))))))"
  by (rule mont_step[OF rep_n_q0_2 _ cancels_n, of "[True, True, True, False, False, False, False, False, True, False, True, False, True, True, False, False]"],
      simp, simp only: mont_eval k_n_def a_n_def d_n_def, simp)

lemma rep_n_q0_4: "mont_rep 115792089237316195423570985008687907852837564279074904382605163141518161494337 (length k_n) (length a_n) 17506469350044647143
    (C X2 (C X0 (C XB (C XA (C X5 (C XA (C X3 (C X4 (C X7 (C X3 (C X2 (C X0 (C XD (C X6 (C X9 (C XC (C
    X4 (C X1 (C X2 (C XE (C X9 (C X0 (C XD (C XF (C XC (C XD (C X9 (C XF (C XA (C XE (C X4 (C XE
    (C X3 (C XD (C X2 (C X0 (C X5 (C XD (C X6 (C XE (C XD (C XE (C X1 (C X5 (C X5 (C XD (C XD (C
    X7 (C X8 (C XD (C X2 (C X5 (C X3 (C XE (C X6 (C X3 (C X5 (C XE (C XA (C XF (C X1 (C XC (C X2
    (C XF (C X1 E)))))))))))))))))))))))))))))))))))))))))))))))))))))))))))))))))"
  by (rule mont_step[OF rep_n_q0_3 _ cancels_n, of "[True, False, True, True, True, True, True, False, True, True, True, False, False, True, True, True]"],
      simp, simp only: mont_eval k_n_def a_n_def d_n_def, simp)

lemma rep_n_q0_5: "mont_rep 115792089237316195423570985008687907852837564279074904382605163141518161494337 (length k_n) (length a_n) 1147303975324525995165417
    (C XC (C X2 (C XC (C X9 (C X4 (C X4 (C X5 (C X2 (C X7 (C XA (C X6 (C XF (C X6 (C XF (C X7 (C XD (C
    XC (C X3 (C XB (C X2 (C X9 (C XD (C X9 (C X1 (C X8 (C X7 (C XC (C XB (C X3 (C X5 (C XF (C XE
    (C X7 (C X3 (C X5 (C XD (C X3 (C X6 (C XE (C X1 (C X9 (C X9 (C X2 (C XA (C X2 (C XB (C X8 (C
    X2 (C X5 (C X4 (C XE (C X0 (C XC (C X9 (C X9 (C X9 (C X0 (C X8 (C XF (C XC (C X6 (C XF (C X9
    (C X6 (C X1 E)))))))))))))))))))))))))))))))))))))))))))))))))))))))))))))))))"
  by (rule mont_step[OF rep_n_q0_4 _ cancels_n, of "[False, False, False, False, False, True, True, False, True, True, True, False, True, False, False, True]"],
      simp, simp only: mont_eval k_n_def a_n_def d_n_def, simp)

lemma rep_n_q0_6: "mont_rep 115792089237316195423570985008687907852837564279074904382605163141518161494337 (length k_n) (length a_n) 75189713326868135619160785036
    (C X8 (C X5 (C X6 (C XF (C X2 (C X5 (C XB (C X0 (C X4 (C XB (C X3 (C XE (C X1 (C X4 (C XC (C X5 (C
    X6 (C XF (C XA (C X1 (C XA (C XF (C XC (C X0 (C XF (C X0 (C X2 (C X2 (C X2 (C XF (C XC (C XC
    (C XA (C X0 (C XC (C X0 (C X4 (C X7 (C XB (C X6 (C XB (C X7 (C X2 (C X1 (C X4 (C XA (C X9 (C
    XF (C X1 (C X6 (C XF (C X1 (C XD (C X2 (C X8 (C XF (C X9 (C X4 (C XC (C X8 (C X1 (C XC (C XD
    (C X4 E))))))))))))))))))))))))))))))))))))))))))))))))))))))))))))))))"
  by (rule mont_step[OF rep_n_q0_5 _ cancels_n, of "[False, True, False, False, False, False, False, False, True, False, False, False, True, True, False, False]"],
      simp, simp only: mont_eval k_n_def a_n_def d_n_def, simp)

lemma rep_n_q0_7: "mont_rep 115792089237316195423570985008687907852837564279074904382605163141518161494337 (length k_n) (length a_n) 4927633052589630135937321208143628
    (C XF (C XD (C XA (C X2 (C X5 (C X1 (C X9 (C X7 (C X8 (C X4 (C XE (C X0 (C XF (C X8 (C XB (C X3 (C
    XA (C X1 (C X8 (C X8 (C X7 (C X7 (C X4 (C XA (C X1 (C XB (C X2 (C XC (C X1 (C XC (C X3 (C XD
    (C X9 (C XF (C X9 (C X4 (C X9 (C X4 (C X8 (C X6 (C X6 (C XD (C X7 (C XF (C X4 (C X5 (C X1 (C
    X2 (C X7 (C X5 (C X7 (C X7 (C XD (C X5 (C X4 (C XE (C X0 (C XF (C X6 (C X8 (C XB (C X3 (C XC
    (C X7 E))))))))))))))))))))))))))))))))))))))))))))))))))))))))))))))))"
  by (rule mont_step[OF rep_n_q0_6 _ cancels_n, of "[False, True, False, True, True, True, True, True, False, False, False, False, True, True, False, False]"],
      simp, simp only: mont_eval k_n_def a_n_def d_n_def, simp)

lemma rep_n_q0_8: "mont_rep 115792089237316195423570985008687907852837564279074904382605163141518161494337 (length k_n) (length a_n) 322937359734514000588788282696900866356
    (C X9 (C XF (C X6 (C XB (C X9 (C X4 (C X3 (C X5 (C X5 (C X9 (C X1 (C XB (C XC (C XD (C X2 (C X2 (C
    X0 (C X5 (C X1 (C XA (C X7 (C X4 (C X9 (C X7 (C X0 (C X2 (C XB (C X7 (C X0 (C X2 (C XF (C X7
    (C X3 (C X8 (C XA (C XD (C X3 (C X4 (C XF (C XB (C X7 (C X8 (C X3 (C XE (C X5 (C X4 (C X3 (C
    XA (C X4 (C X8 (C X9 (C X6 (C XD (C X0 (C XB (C X0 (C X7 (C X7 (C XE (C X7 (C X0 (C X8 (C XC
    (C XD E))))))))))))))))))))))))))))))))))))))))))))))))))))))))))))))))"
  by (rule mont_step[OF rep_n_q0_7 _ cancels_n, of "[True, True, True, True, False, False, False, True, False, False, True, True, False, True, False, False]"],
      simp, simp only: mont_eval k_n_def a_n_def d_n_def, simp)

lemma rep_n_q0_9: "mont_rep 115792089237316195423570985008687907852837564279074904382605163141518161494337 (length k_n) (length a_n) 21164022807561109542586828894824095177533764
    (C XA (C X2 (C X3 (C XC (C X1 (C XC (C XF (C X2 (C XB (C X1 (C XE (C XC (C X1 (C X5 (C X1 (C X6 (C
    X9 (C X3 (C X5 (C X8 (C X5 (C X8 (C XD (C X6 (C X0 (C X7 (C XA (C XC (C XB (C XE (C X7 (C XD
    (C X3 (C X6 (C XD (C X2 (C XC (C XF (C X1 (C X3 (C XF (C X6 (C XD (C X4 (C X0 (C XB (C XE (C
    X3 (C X8 (C XA (C X0 (C X5 (C X0 (C X3 (C X3 (C XD (C X9 (C X1 (C X2 (C X3 (C XC (C XC (C XA
    (C XE E))))))))))))))))))))))))))))))))))))))))))))))))))))))))))))))))"
  by (rule mont_step[OF rep_n_q0_8 _ cancels_n, of "[False, True, True, False, True, False, False, True, False, True, False, False, False, True, False, False]"],
      simp, simp only: mont_eval k_n_def a_n_def d_n_def, simp)

lemma rep_n_q0_10: "mont_rep 115792089237316195423570985008687907852837564279074904382605163141518161494337 (length k_n) (length a_n) 338624364920977752681389262317185522840540224
    (C X2 (C XA (C X8 (C XA (C XC (C X6 (C X2 (C XD (C XE (C X1 (C XA (C X1 (C X9 (C X0 (C XA (C X8 (C
    X5 (C X7 (C X5 (C XB (C X7 (C XC (C XF (C X8 (C XF (C X8 (C XE (C XA (C XB (C XD (C X5 (C XD
    (C XC (C XB (C X2 (C X5 (C X3 (C XC (C X0 (C XA (C XA (C X8 (C X1 (C X2 (C XA (C X7 (C X4 (C
    X9 (C X8 (C X1 (C XB (C X7 (C XD (C XA (C XE (C XC (C X6 (C XC (C XA (C X0 (C X9 (C X0 (C XC
    (C X3 E))))))))))))))))))))))))))))))))))))))))))))))))))))))))))))))))"
  by (rule mont_step[OF rep_n_q0_9 _ cancels_n, of "[False, False, False, False]"],
      simp, simp only: mont_eval k_n_def a_n_def d_n_def, simp)

lemma pock_n_0: "pocklington_cond 115792089237316195423570985008687907852837564279074904382605163141518161494337 (length a_n) 341948486974166000522343609283189"
proof -
  have "mont k_n (cancel_of d_n) (mults_of (C X1 (C X4 (C X5 (C XF (C XC (C XD (C X1 (C XF (C X4 (C X9 (C X7 (C X7 (C X2 (C X8 (C X7 (C X3 (C
    X5 (C X2 (C X2 (C XE (C XC (C XC (C X4 (C X0 (C XD (C XF (C XF (C XF (C X6 (C X6 (C XB (C X5
    (C X4 (C X6 (C X6 (C X8 (C XE (C X3 (C X4 (C X2 (C X1 (C X9 (C XD (C X7 (C X1 (C X4 (C XA (C
    XC (C X5 (C X0 (C X0 (C XB (C X6 (C X4 (C XB (C X4 (C XD (C X2 (C X5 (C XA (C X4 (C X4 (C XE
    (C X7 E)))))))))))))))))))))))))))))))))))))))))))))))))))))))))))))))))
    (C X2 (C XA (C X8 (C XA (C XC (C X6 (C X2 (C XD (C XE (C X1 (C XA (C X1 (C X9 (C X0 (C XA (C X8 (C
    X5 (C X7 (C X5 (C XB (C X7 (C XC (C XF (C X8 (C XF (C X8 (C XE (C XA (C XB (C XD (C X5 (C XD
    (C XC (C XB (C X2 (C X5 (C X3 (C XC (C X0 (C XA (C XA (C X8 (C X1 (C X2 (C XA (C X7 (C X4 (C
    X9 (C X8 (C X1 (C XB (C X7 (C XD (C XA (C XE (C XC (C X6 (C XC (C XA (C X0 (C X9 (C X0 (C XC
    (C X3 E)))))))))))))))))))))))))))))))))))))))))))))))))))))))))))))))) E = Done (C X2 (C X4 (C X5 (C XF (C XC (C XD (C X1 (C XF (C X4 (C X9 (C X7 (C X7 (C X2 (C X8 (C X7 (C X3 (C
    X5 (C X2 (C X2 (C XE (C XC (C XC (C X4 (C X0 (C XD (C XF (C XF (C XF (C X6 (C X6 (C XB (C X5
    (C X4 (C X6 (C X6 (C X8 (C XE (C X3 (C X4 (C X2 (C X1 (C X9 (C XD (C X7 (C X1 (C X4 (C XA (C
    XC (C X5 (C X0 (C X0 (C XB (C X6 (C X4 (C XB (C X4 (C XD (C X2 (C X5 (C XA (C X4 (C X4 (C XE
    (C X7 E))))))))))))))))))))))))))))))))))))))))))))))))))))))))))))))))"
    by (simp only: mont_eval k_n_def d_n_def)
  from mont_cond[OF _ cancels_n rep_n_q0_10 this, of 0]
  show ?thesis by (intro pocklington_condI[of _ _ 338624364920977752681389262317185522840540224]) (simp_all add: fermat_n)
qed

lemma rep_n_q1_1: "mont_rep 115792089237316195423570985008687907852837564279074904382605163141518161494337 (length k_n) (length a_n) 43985
    (C X8 (C X2 (C X6 (C X5 (C XB (C X6 (C X0 (C X8 (C X3 (C X0 (C X6 (C X7 (C X0 (C X5 (C X9 (C XF (C
    X0 (C X4 (C X2 (C XC (C X8 (C XB (C XC (C XD (C X9 (C XF (C X1 (C XA (C X9 (C X5 (C X0 (C X1
    (C X5 (C X8 (C XA (C XB (C XE (C X2 (C XA (C XF (C XB (C XA (C X3 (C X5 (C XA (C X5 (C X7 (C
    XC (C X6 (C X5 (C XE (C XE (C XB (C X7 (C X9 (C X4 (C X2 (C XA (C X3 (C X4 (C X0 (C X1 (C X6
    E)))))))))))))))))))))))))))))))))))))))))))))))))))))))))))))))"
  by (rule mont_step[OF rep_n_0 _ cancels_n, of "[True, False, True, False, True, False, True, True, True, True, False, True, False, False, False, True]"],
      simp, simp only: mont_eval k_n_def a_n_def d_n_def, simp)

lemma rep_n_q1_2: "mont_rep 115792089237316195423570985008687907852837564279074904382605163141518161494337 (length k_n) (length a_n) 2882636353
    (C XE (C X6 (C X2 (C X4 (C X6 (C X8 (C X6 (C X6 (C XF (C X1 (C X8 (C X4 (C X0 (C X2 (C X2 (C XE (C
    X1 (C X0 (C X5 (C X4 (C X9 (C X1 (C X7 (C X7 (C X0 (C XA (C X4 (C XE (C X9 (C X9 (C X0 (C X0
    (C X5 (C X9 (C XE (C X2 (C X2 (C X8 (C X0 (C X2 (C XC (C X4 (C XB (C X6 (C X5 (C X7 (C X9 (C
    X8 (C XE (C XF (C XA (C X8 (C X0 (C XC (C XA (C X1 (C X9 (C XA (C XE (C X4 (C X0 (C XD (C X2
    E)))))))))))))))))))))))))))))))))))))))))))))))))))))))))))))))"
  by (rule mont_step[OF rep_n_q1_1 _ cancels_n, of "[True, False, False, False, True, False, True, False, False, True, False, False, False, False, False, True]"],
      simp, simp only: mont_eval k_n_def a_n_def d_n_def, simp)

lemma rep_n_q1_3: "mont_rep 115792089237316195423570985008687907852837564279074904382605163141518161494337 (length k_n) (length a_n) 188916456056050
    (C XE (C XB (C X8 (C X9 (C X3 (C XD (C XA (C X8 (C XE (C X2 (C X3 (C X0 (C X5 (C X7 (C XF (C X4 (C
    X2 (C XB (C XA (C X7 (C XA (C XF (C X2 (C X9 (C X3 (C X7 (C X6 (C X2 (C XB (C X7 (C XC (C X4
    (C X0 (C XE (C X8 (C XC (C XB (C X9 (C X0 (C X6 (C X9 (C XF (C X2 (C X2 (C XD (C XD (C X8 (C
    X3 (C X2 (C X9 (C X3 (C X6 (C X8 (C X6 (C X4 (C XC (C XF (C XF (C XF (C XA (C XF (C X1 (C XA
    (C XE E))))))))))))))))))))))))))))))))))))))))))))))))))))))))))))))))"
  by (rule mont_step[OF rep_n_q1_2 _ cancels_n, of "[False, True, True, False, False, True, False, False, True, True, True, True, False, False, True, False]"],
      simp, simp only: mont_eval k_n_def a_n_def d_n_def, simp)

lemma rep_n_q1_4: "mont_rep 115792089237316195423570985008687907852837564279074904382605163141518161494337 (length k_n) (length a_n) 12380828864089353259
    (C X6 (C XC (C X5 (C X6 (C X7 (C XC (C X5 (C XA (C XC (C XF (C XF (C X1 (C XB (C X5 (C X9 (C X9 (C
    XD (C XF (C X4 (C X9 (C X5 (C XC (C XB (C XE (C XE (C X9 (C XD (C X1 (C X9 (C X1 (C X8 (C XE
    (C XB (C X3 (C X0 (C X6 (C XA (C X7 (C XA (C X6 (C X0 (C X7 (C XA (C XC (C X7 (C XB (C X0 (C
    XC (C X8 (C XE (C XE (C X5 (C X4 (C X1 (C X2 (C X7 (C X0 (C X2 (C XF (C X1 (C XF (C XD (C X8
    (C XE (C X1 E)))))))))))))))))))))))))))))))))))))))))))))))))))))))))))))))))"
  by (rule mont_step[OF rep_n_q1_3 _ cancels_n, of "[True, True, True, False, True, True, False, False, False, False, True, False, True, False, True, True]"],
      simp, simp only: mont_eval k_n_def a_n_def d_n_def, simp)

lemma rep_n_q1_5: "mont_rep 115792089237316195423570985008687907852837564279074904382605163141518161494337 (length k_n) (length a_n) 811390000436959855200764
    (C X6 (C XA (C XD (C X9 (C XE (C X1 (C X0 (C X0 (C X1 (C X7 (C X9 (C X8 (C X6 (C X9 (C XE (C X3 (C
    X3 (C X0 (C X3 (C X9 (C X8 (C X8 (C XC (C X1 (C X4 (C X6 (C XE (C X8 (C XB (C X4 (C X5 (C X3
    (C XC (C X9 (C X3 (C XB (C X7 (C XB (C XB (C XD (C X7 (C X6 (C XA (C X3 (C XC (C X8 (C XB (C
    XE (C XD (C X2 (C XB (C X2 (C XF (C X5 (C X9 (C X3 (C XD (C X5 (C XC (C X9 (C X9 (C X9 (C X3
    (C XB E))))))))))))))))))))))))))))))))))))))))))))))))))))))))))))))))"
  by (rule mont_step[OF rep_n_q1_4 _ cancels_n, of "[False, True, False, False, True, False, False, True, True, True, True, True, True, True, False, False]"],
      simp, simp only: mont_eval k_n_def a_n_def d_n_def, simp)

lemma rep_n_q1_6: "mont_rep 115792089237316195423570985008687907852837564279074904382605163141518161494337 (length k_n) (length a_n) 53175255068636601070437290189
    (C X2 (C X2 (C X0 (C X0 (C XA (C X3 (C X8 (C X6 (C XC (C X9 (C XF (C XF (C X0 (C X0 (C X6 (C X6 (C
    XD (C X5 (C XC (C X2 (C X0 (C X9 (C X2 (C XB (C X8 (C XE (C X6 (C X7 (C XB (C XA (C X2 (C X0
    (C X8 (C X9 (C X8 (C X4 (C X8 (C X7 (C XF (C XA (C XB (C XC (C X7 (C X0 (C X3 (C X0 (C X3 (C
    XB (C X1 (C X5 (C X4 (C XC (C X1 (C X6 (C X4 (C X6 (C X8 (C X7 (C XD (C XF (C X5 (C X3 (C X0
    (C X8 E))))))))))))))))))))))))))))))))))))))))))))))))))))))))))))))))"
  by (rule mont_step[OF rep_n_q1_5 _ cancels_n, of "[False, True, False, True, False, False, False, False, True, True, False, False, True, True, False, True]"],
      simp, simp only: mont_eval k_n_def a_n_def d_n_def, simp)

lemma rep_n_q1_7: "mont_rep 115792089237316195423570985008687907852837564279074904382605163141518161494337 (length k_n) (length a_n) 3484893516178168287752178249873378
    (C X6 (C X5 (C XB (C X0 (C XE (C X7 (C X4 (C X6 (C XC (C XB (C X2 (C X0 (C XA (C XE (C X6 (C XE (C
    XB (C X5 (C XD (C X3 (C X7 (C X8 (C X3 (C XE (C X0 (C X9 (C X1 (C X4 (C X9 (C XD (C XC (C XF
    (C XE (C XE (C X6 (C XA (C X4 (C XD (C X6 (C X7 (C XC (C X3 (C X1 (C X4 (C X2 (C X4 (C XB (C
    XF (C X2 (C X3 (C XF (C X1 (C XF (C XE (C XF (C X7 (C X3 (C X4 (C X2 (C XC (C XD (C X2 (C X3
    (C X3 E))))))))))))))))))))))))))))))))))))))))))))))))))))))))))))))))"
  by (rule mont_step[OF rep_n_q1_6 _ cancels_n, of "[True, False, True, True, False, True, True, True, True, True, True, False, False, False, True, False]"],
      simp, simp only: mont_eval k_n_def a_n_def d_n_def, simp)

lemma rep_n_q1_8: "mont_rep 115792089237316195423570985008687907852837564279074904382605163141518161494337 (length k_n) (length a_n) 228385981476252436906126753783701729364
    (C X4 (C X9 (C XA (C X5 (C X6 (C X8 (C X6 (C XF (C X6 (C XF (C XA (C XC (C X0 (C XF (C X1 (C XF (C
    X9 (C XA (C XC (C X9 (C XE (C X0 (C X4 (C XB (C X9 (C XF (C X1 (C X7 (C X5 (C X6 (C X5 (C X2
    (C X0 (C X8 (C X2 (C X2 (C XB (C X3 (C XC (C X7 (C X5 (C X4 (C X7 (C X3 (C X2 (C X9 (C X3 (C
    X0 (C X8 (C X3 (C X2 (C XD (C X4 (C X6 (C X1 (C X4 (C XF (C XF (C X3 (C X2 (C X2 (C X2 (C XD
    (C XE E))))))))))))))))))))))))))))))))))))))))))))))))))))))))))))))))"
  by (rule mont_step[OF rep_n_q1_7 _ cancels_n, of "[False, True, True, True, False, False, False, False, False, True, False, True, False, True, False, False]"],
      simp, simp only: mont_eval k_n_def a_n_def d_n_def, simp)

lemma rep_n_q1_9: "mont_rep 115792089237316195423570985008687907852837564279074904382605163141518161494337 (length k_n) (length a_n) 14967503682027679705079922935968676535611173
    (C X8 (C XE (C X8 (C X0 (C X3 (C XB (C XA (C XE (C X7 (C X6 (C XA (C X3 (C X7 (C X8 (C X2 (C X8 (C
    X5 (C XC (C X3 (C X8 (C XA (C X0 (C X1 (C X4 (C XB (C XB (C X5 (C X4 (C X3 (C X8 (C X6 (C X2
    (C X7 (C X8 (C X4 (C XB (C X4 (C X8 (C XA (C XD (C X4 (C X9 (C XA (C XA (C XB (C X6 (C X2 (C
    X7 (C XD (C XD (C XF (C XF (C X9 (C XA (C X0 (C X8 (C XC (C X7 (C XC (C XE (C X4 (C X1 (C XB
    (C XB (C X1 E)))))))))))))))))))))))))))))))))))))))))))))))))))))))))))))))))"
  by (rule mont_step[OF rep_n_q1_8 _ cancels_n, of "[False, False, True, False, True, True, True, True, False, False, True, False, False, True, False, True]"],
      simp, simp only: mont_eval k_n_def a_n_def d_n_def, simp)

lemma rep_n_q1_10: "mont_rep 115792089237316195423570985008687907852837564279074904382605163141518161494337 (length k_n) (length a_n) 980910321305366017152117829531643185437813858464
    (C XD (C X2 (C X7 (C XA (C X7 (C XD (C XE (C X7 (C XB (C XA (C XE (C X7 (C X1 (C XE (C X1 (C X2 (C
    X7 (C X9 (C X3 (C X3 (C X5 (C X4 (C XB (C X8 (C X5 (C XB (C X1 (C XC (C XE (C XF (C X2 (C XA
    (C X0 (C XB (C X6 (C XC (C X6 (C X0 (C X3 (C X2 (C X6 (C X3 (C XC (C X4 (C XA (C X0 (C X7 (C
    XB (C X2 (C X9 (C X5 (C X8 (C X5 (C X2 (C XC (C X1 (C X2 (C XD (C X0 (C XA (C XE (C XE (C X8
    (C X6 E))))))))))))))))))))))))))))))))))))))))))))))))))))))))))))))))"
  by (rule mont_step[OF rep_n_q1_9 _ cancels_n, of "[False, True, True, False, False, False, False, False, True, False, True, False, False, False, False, False]"],
      simp, simp only: mont_eval k_n_def a_n_def d_n_def, simp)

lemma rep_n_q1_11: "mont_rep 115792089237316195423570985008687907852837564279074904382605163141518161494337 (length k_n) (length a_n) 64284938817068467300081194076185767800852569028359936
    (C XD (C X4 (C XE (C XB (C X0 (C X0 (C XC (C X4 (C XA (C X0 (C X4 (C X6 (C XF (C X0 (C X1 (C X5 (C
    X9 (C XA (C XD (C XD (C X4 (C XB (C XF (C X2 (C XD (C X4 (C X2 (C XB (C XC (C X1 (C XB (C X9
    (C X4 (C X3 (C X6 (C XE (C X9 (C X0 (C X0 (C XC (C XC (C X4 (C X0 (C X1 (C X6 (C XE (C XE (C
    X9 (C X8 (C X8 (C X0 (C X9 (C X4 (C X8 (C XF (C XE (C XE (C X9 (C XD (C XE (C X7 (C XC (C X2
    (C X7 E))))))))))))))))))))))))))))))))))))))))))))))))))))))))))))))))"
  by (rule mont_step[OF rep_n_q1_10 _ cancels_n, of "[True, True, True, True, False, True, True, True, False, False, False, False, False, False, False, False]"],
      simp, simp only: mont_eval k_n_def a_n_def d_n_def, simp)

lemma rep_n_q1_12: "mont_rep 115792089237316195423570985008687907852837564279074904382605163141518161494337 (length k_n) (length a_n) 4212977750315399072978121134976910478596673963842596810269
    (C XA (C XA (C X4 (C X3 (C X8 (C XB (C X7 (C XC (C X0 (C X1 (C X3 (C X3 (C X9 (C XD (C X4 (C X5 (C
    X3 (C XB (C X4 (C X3 (C XB (C XC (C XE (C X3 (C X1 (C X8 (C XA (C XA (C XE (C XE (C XE (C XE
    (C XF (C X3 (C X6 (C X3 (C XB (C X5 (C X9 (C XE (C X0 (C X1 (C X2 (C X1 (C XF (C X8 (C X7 (C
    XF (C X5 (C XA (C XA (C XD (C X6 (C X3 (C X2 (C X0 (C X7 (C X5 (C XD (C XA (C X7 (C X2 (C X7
    (C XD (C X1 E)))))))))))))))))))))))))))))))))))))))))))))))))))))))))))))))))"
  by (rule mont_step[OF rep_n_q1_11 _ cancels_n, of "[True, False, True, False, True, True, True, False, False, False, False, True, True, True, False, True]"],
      simp, simp only: mont_eval k_n_def a_n_def d_n_def, simp)

lemma rep_n_q1_13: "mont_rep 115792089237316195423570985008687907852837564279074904382605163141518161494337 (length k_n) (length a_n) 1078522304080742162682399010554089082520748534743704783428928
    (C X8 (C X3 (C X7 (C X7 (C X5 (C X0 (C X2 (C X5 (C X3 (C X8 (C X5 (C XB (C XF (C X7 (C X8 (C X3 (C
    X2 (C X3 (C X4 (C XE (C X8 (C X4 (C X3 (C X9 (C X9 (C XA (C X2 (C X2 (C X8 (C XE (C XE (C X6
    (C X8 (C X3 (C X5 (C X2 (C X6 (C X3 (C XC (C X2 (C X4 (C X8 (C XB (C XE (C X2 (C X9 (C XB (C
    X6 (C XC (C XA (C X0 (C XE (C XF (C XF (C XB (C X5 (C X0 (C X3 (C X0 (C X7 (C XB (C X8 (C X6
    (C XB E))))))))))))))))))))))))))))))))))))))))))))))))))))))))))))))))"
  by (rule mont_step[OF rep_n_q1_12 _ cancels_n, of "[False, True, False, False, False, False, False, False]"],
      simp, simp only: mont_eval k_n_def a_n_def d_n_def, simp)

lemma pock_n_1: "pocklington_cond 115792089237316195423570985008687907852837564279074904382605163141518161494337 (length a_n) 107361793816595537"
proof -
  have "mont k_n (cancel_of d_n) (mults_of (C X1 (C X7 (C XC (C XE (C X7 (C X6 (C XA (C XE (C X2 (C XE (C X2 (C XD (C XC (C X9 (C X1 (C XF (C
    X6 (C X0 (C X9 (C XD (C X5 (C X8 (C XA (C X9 (C X1 (C XA (C XB (C XB (C X9 (C XB (C X4 (C XB
    (C X8 (C XF (C X9 (C X9 (C X6 (C X5 (C X9 (C X2 (C X9 (C X0 (C XE (C XE (C X8 (C X9 (C XE (C
    XE (C XA (C X0 (C X0 (C XC (C XE (C XF (C X3 (C XE (C X6 (C XA (C X6 (C X3 (C X4 (C XC (C X7
    (C XA E)))))))))))))))))))))))))))))))))))))))))))))))))))))))))))))))))
    (C X8 (C X3 (C X7 (C X7 (C X5 (C X0 (C X2 (C X5 (C X3 (C X8 (C X5 (C XB (C XF (C X7 (C X8 (C X3 (C
    X2 (C X3 (C X4 (C XE (C X8 (C X4 (C X3 (C X9 (C X9 (C XA (C X2 (C X2 (C X8 (C XE (C XE (C X6
    (C X8 (C X3 (C X5 (C X2 (C X6 (C X3 (C XC (C X2 (C X4 (C X8 (C XB (C XE (C X2 (C X9 (C XB (C
    X6 (C XC (C XA (C X0 (C XE (C XF (C XF (C XB (C X5 (C X0 (C X3 (C X0 (C X7 (C XB (C X8 (C X6
    (C XB E)))))))))))))))))))))))))))))))))))))))))))))))))))))))))))))))) E = Done (C X2 (C X7 (C XC (C XE (C X7 (C X6 (C XA (C XE (C X2 (C XE (C X2 (C XD (C XC (C X9 (C X1 (C XF (C
    X6 (C X0 (C X9 (C XD (C X5 (C X8 (C XA (C X9 (C X1 (C XA (C XB (C XB (C X9 (C XB (C X4 (C XB
    (C X8 (C XF (C X9 (C X9 (C X6 (C X5 (C X9 (C X2 (C X9 (C X0 (C XE (C XE (C X8 (C X9 (C XE (C
    XE (C XA (C X0 (C X0 (C XC (C XE (C XF (C X3 (C XE (C X6 (C XA (C X6 (C X3 (C X4 (C XC (C X7
    (C XA E))))))))))))))))))))))))))))))))))))))))))))))))))))))))))))))))"
    by (simp only: mont_eval k_n_def d_n_def)
  from mont_cond[OF _ cancels_n rep_n_q1_13 this, of 0]
  show ?thesis by (intro pocklington_condI[of _ _ 1078522304080742162682399010554089082520748534743704783428928]) (simp_all add: fermat_n)
qed

lemma prime_n: "is_prime 115792089237316195423570985008687907852837564279074904382605163141518161494337"
  by (rule pocklington[of _ "[341948486974166000522343609283189, 107361793816595537]" "length a_n"])
    (simp_all add: prime_s108 pock_n_0 prime_s57 pock_n_1)

end
