(* ===== verification/Prime_Field.thy ===== *)
theory Prime_Field
  imports Secp_Params Secp_Primes
begin

text \<open>
  The prime field of the curve as a type.  The abstraction of a field element of the program is
  an integer below \<^term>\<open>secp_p\<close>; \<^term>\<open>of_int\<close> maps it into this type, where the field
  automation of the library proves the identities between curve formulas.
\<close>

lemma secp_p_prime: "is_prime (nat secp_p)"
  using prime_p by (simp add: secp_p_def)

lemma secp_n_prime: "is_prime (nat secp_n)"
  using prime_n by (simp add: secp_n_def)

lemma fermat_int:
  assumes p: "is_prime (nat p)" and a: "a mod p \<noteq> 0"
  shows "a ^ nat (p - 1) mod p = (1::int)"
proof -
  have "1 < p" using is_prime_gt_1[OF p] by simp
  define b where "b = nat (a mod p)"
  have b: "int b = a mod p" using \<open>1 < p\<close> by (simp add: b_def)
  have "\<not> nat p dvd b"
  proof
    assume "nat p dvd b"
    then have "int (nat p) \<le> int b" using a b by (intro iffD2[OF zle_int] dvd_imp_le) auto
    then show False using b pos_mod_bound[of p a] \<open>1 < p\<close> by linarith
  qed
  from fermat_little[OF p this] have "int (b ^ (nat p - 1) mod nat p) = 1" by simp
  then have "(a mod p) ^ nat (p - 1) mod p = 1"
    using \<open>1 < p\<close> b by (simp add: zmod_int nat_diff_distrib)
  then show ?thesis by (simp add: power_mod)
qed

lemma inverse_mod:
  assumes p: "is_prime (nat p)" and a: "a mod p \<noteq> 0"
  shows "a * a ^ nat (p - 2) mod p = (1::int)"
proof -
  have "1 < p" using is_prime_gt_1[OF p] by simp
  then have "Suc (nat (p - 2)) = nat (p - 1)" by simp
  then show ?thesis using fermat_int[OF assms] by (simp flip: power_Suc)
qed

typedef fp = "{0..<secp_p}"
  morphisms fp_rep fp_of
  by (rule exI[of _ 0]) simp

setup_lifting type_definition_fp

instantiation fp :: comm_ring_1
begin

lift_definition zero_fp :: fp is 0 by simp
lift_definition one_fp :: fp is 1 by (simp add: secp_p_def)
lift_definition plus_fp :: "fp \<Rightarrow> fp \<Rightarrow> fp" is "\<lambda>x y. (x + y) mod secp_p" by simp
lift_definition minus_fp :: "fp \<Rightarrow> fp \<Rightarrow> fp" is "\<lambda>x y. (x - y) mod secp_p" by simp
lift_definition uminus_fp :: "fp \<Rightarrow> fp" is "\<lambda>x. (- x) mod secp_p" by simp
lift_definition times_fp :: "fp \<Rightarrow> fp \<Rightarrow> fp" is "\<lambda>x y. x * y mod secp_p" by simp

instance
proof
  fix a b c :: fp
  show "a + b + c = a + (b + c)" by transfer (simp add: mod_simps add.assoc)
  show "a + b = b + a" by transfer (simp add: add.commute)
  show "0 + a = a" by transfer simp
  show "- a + a = 0" by transfer (simp add: mod_simps)
  show "a - b = a + - b" by transfer (simp add: mod_simps)
  show "a * b * c = a * (b * c)" by transfer (simp add: mod_simps mult.assoc)
  show "a * b = b * a" by transfer (simp add: mult.commute)
  show "1 * a = a" by transfer simp
  show "(a + b) * c = a * c + b * c" by transfer (simp add: mod_simps distrib_right)
  show "(0 :: fp) \<noteq> 1" by transfer simp
qed

end

lemma fp_rep_range: "0 \<le> fp_rep x" "fp_rep x < secp_p"
  using fp_rep[of x] by simp_all

lemma fp_rep_of_nat: "fp_rep (of_nat k) = int k mod secp_p"
  by (induction k) (simp_all add: zero_fp.rep_eq plus_fp.rep_eq one_fp.rep_eq mod_simps add.commute)

lemma fp_rep_of_int [simp]: "fp_rep (of_int i) = i mod secp_p"
  by (cases i rule: int_cases2) (simp_all add: fp_rep_of_nat uminus_fp.rep_eq mod_simps)

lemma fp_rep_power: "fp_rep (x ^ k) = fp_rep x ^ k mod secp_p"
  by (induction k) (simp_all add: one_fp.rep_eq times_fp.rep_eq mod_simps secp_p_def)

lemma of_int_fp_eq_iff: "(of_int i :: fp) = of_int j \<longleftrightarrow> i mod secp_p = j mod secp_p"
  by (metis fp_rep_inject fp_rep_of_int)

lemma of_int_fp_mod [simp]: "(of_int (i mod secp_p) :: fp) = of_int i"
  by (simp add: of_int_fp_eq_iff)

lemma of_int_fp_rep [simp]: "of_int (fp_rep x) = x"
  using fp_rep_range[of x] by (simp add: fp_rep_inject[symmetric])

lemma of_int_fp_0_iff: "(of_int i :: fp) = 0 \<longleftrightarrow> i mod secp_p = 0"
  using of_int_fp_eq_iff[of i 0] by simp

instantiation fp :: field
begin

definition inverse_fp :: "fp \<Rightarrow> fp" where
  "inverse_fp x = x ^ nat (secp_p - 2)"

definition divide_fp :: "fp \<Rightarrow> fp \<Rightarrow> fp" where
  "divide_fp x y = x * inverse y"

instance
proof
  fix a b :: fp
  show "inverse a * a = 1" if "a \<noteq> 0"
  proof -
    have "fp_rep a mod secp_p \<noteq> 0"
      using that fp_rep_range[of a] by (metis fp_rep_inject mod_pos_pos_trivial zero_fp.rep_eq)
    from inverse_mod[OF secp_p_prime this] have "fp_rep (a * a ^ nat (secp_p - 2)) = 1"
      by (simp add: times_fp.rep_eq fp_rep_power mod_simps)
    then show ?thesis by (metis fp_rep_inject inverse_fp_def mult.commute one_fp.rep_eq)
  qed
  show "a div b = a * inverse b" by (rule divide_fp_def)
  show "inverse (0 :: fp) = 0" by (simp add: inverse_fp_def secp_p_def)
qed

end

end
