(* ===== verification/Field_Impl.thy ===== *)
theory Field_Impl
  imports Field_5x52 Prime_Field
begin

text \<open>
  \<^verbatim>\<open>field_impl.h\<close>: equality, square roots, inverses and batch inversion, written on the
  functions of \<^verbatim>\<open>field.h\<close> only.  Every definition takes the record of field operations; the
  lemmas are proved once in the locale \<open>field_repr\<close>.
\<close>

section \<open>Definitions\<close>

definition fe_equal :: "('fe, 'st) field_ops \<Rightarrow> 'fe \<Rightarrow> 'fe \<Rightarrow> bool" where
  "fe_equal F a b = (let na = fo_negate F a 1; na = fo_add F na b in fo_normalizes_to_zero F na)"

definition fe_equal_var :: "('fe, 'st) field_ops \<Rightarrow> 'fe \<Rightarrow> 'fe \<Rightarrow> bool" where
  "fe_equal_var F a b = (let na = fo_negate F a 1; na = fo_add F na b in fo_normalizes_to_zero_var F na)"

text \<open>\<^verbatim>\<open>for (j=0; j<n; j++) secp256k1_fe_sqr(&x, &x)\<close>\<close>

definition fe_sqr_n :: "('fe, 'st) field_ops \<Rightarrow> nat \<Rightarrow> 'fe \<Rightarrow> 'fe" where
  "fe_sqr_n F n x = (fo_sqr F ^^ n) x"

text \<open>The common part of the two addition chains: the powers of exponent \<open>2 ^ 2 - 1\<close>,
  \<open>2 ^ 22 - 1\<close> and \<open>2 ^ 223 - 1\<close>.\<close>

definition fe_chain_x223 :: "('fe, 'st) field_ops \<Rightarrow> 'fe \<Rightarrow> 'fe \<times> 'fe \<times> 'fe" where
  "fe_chain_x223 F a =
    (let x2 = fo_sqr F a; x2 = fo_mul F x2 a;
         x3 = fo_sqr F x2; x3 = fo_mul F x3 a;
         x6 = fe_sqr_n F 3 x3; x6 = fo_mul F x6 x3;
         x9 = fe_sqr_n F 3 x6; x9 = fo_mul F x9 x3;
         x11 = fe_sqr_n F 2 x9; x11 = fo_mul F x11 x2;
         x22 = fe_sqr_n F 11 x11; x22 = fo_mul F x22 x11;
         x44 = fe_sqr_n F 22 x22; x44 = fo_mul F x44 x22;
         x88 = fe_sqr_n F 44 x44; x88 = fo_mul F x88 x44;
         x176 = fe_sqr_n F 88 x88; x176 = fo_mul F x176 x88;
         x220 = fe_sqr_n F 44 x176; x220 = fo_mul F x220 x44;
         x223 = fe_sqr_n F 3 x220; x223 = fo_mul F x223 x3
     in (x2, x22, x223))"

definition fe_sqrt :: "('fe, 'st) field_ops \<Rightarrow> 'fe \<Rightarrow> 'fe \<times> bool" where
  "fe_sqrt F a =
    (let (x2, x22, x223) = fe_chain_x223 F a;
         t1 = fe_sqr_n F 23 x223; t1 = fo_mul F t1 x22;
         t1 = fe_sqr_n F 6 t1; t1 = fo_mul F t1 x2;
         t1 = fo_sqr F t1;
         r = fo_sqr F t1;
         t1 = fo_sqr F r
     in (r, fe_equal F t1 a))"

definition fe_inv :: "('fe, 'st) field_ops \<Rightarrow> 'fe \<Rightarrow> 'fe" where
  "fe_inv F a =
    (let (x2, x22, x223) = fe_chain_x223 F a;
         t1 = fe_sqr_n F 23 x223; t1 = fo_mul F t1 x22;
         t1 = fe_sqr_n F 5 t1; t1 = fo_mul F t1 a;
         t1 = fe_sqr_n F 3 t1; t1 = fo_mul F t1 x2;
         t1 = fe_sqr_n F 2 t1
     in fo_mul F a t1)"

definition fe_inv_var :: "('fe, 'st) field_ops \<Rightarrow> 'fe \<Rightarrow> 'fe" where
  "fe_inv_var F a = fe_inv F a"

text \<open>
  Batch inversion.  The first loop fills \<open>r\<close> with the running products, the second walks back
  from the last index with the inverse of the product in \<open>u\<close>.
\<close>

fun fe_inv_all_products :: "('fe, 'st) field_ops \<Rightarrow> 'fe list \<Rightarrow> nat \<Rightarrow> 'fe list \<Rightarrow> 'fe list" where
  "fe_inv_all_products F a 0 r = r"
| "fe_inv_all_products F a (Suc n) r =
    (let i = length a - Suc n in
     fe_inv_all_products F a n (r[i := fo_mul F (r ! (i - 1)) (a ! i)]))"

fun fe_inv_all_back :: "('fe, 'st) field_ops \<Rightarrow> 'fe list \<Rightarrow> nat \<Rightarrow> 'fe \<Rightarrow> 'fe list \<Rightarrow> 'fe \<times> 'fe list" where
  "fe_inv_all_back F a 0 u r = (u, r)"
| "fe_inv_all_back F a (Suc i) u r =
    (let j = Suc i in
     fe_inv_all_back F a i (fo_mul F u (a ! j)) (r[j := fo_mul F (r ! i) u]))"

definition fe_inv_all_var :: "('fe, 'st) field_ops \<Rightarrow> 'fe list \<Rightarrow> 'fe list \<Rightarrow> 'fe list" where
  "fe_inv_all_var F r a =
    (let len = length a in
     if len < 1 then r
     else
      (let r = r[0 := a ! 0];
           r = fe_inv_all_products F a (len - 1) r;
           u = fe_inv_var F (r ! (len - 1));
           (u, r) = fe_inv_all_back F a (len - 1) u r
       in r[0 := u]))"

definition fe_is_quad_var :: "('fe, 'st) field_ops \<Rightarrow> 'fe \<Rightarrow> bool" where
  "fe_is_quad_var F a = snd (fe_sqrt F a)"

section \<open>Lemmas for every representation\<close>

text \<open>\<open>x\<close> represents the \<open>k\<close>-th power of \<open>a\<close>.\<close>

definition fe_pow :: "('fe \<Rightarrow> int) \<Rightarrow> (nat \<Rightarrow> 'fe \<Rightarrow> bool) \<Rightarrow> 'fe \<Rightarrow> nat \<Rightarrow> 'fe \<Rightarrow> bool" where
  "fe_pow fabs fmag a k x \<longleftrightarrow> fmag 8 x \<and> fabs x = fabs a ^ k mod secp_p"

text \<open>The value of an element in the prime field.\<close>

definition fpv :: "('fe \<Rightarrow> int) \<Rightarrow> 'fe \<Rightarrow> fp" where
  "fpv fabs a = of_int (fabs a)"

context field_repr
begin

lemma pow_self: "fmag 8 a \<Longrightarrow> fe_pow fabs fmag a 1 a"
  using abs_range[of a] by (simp add: fe_pow_def)

lemma pow_mul:
  "fe_pow fabs fmag a k x \<Longrightarrow> fe_pow fabs fmag a l y \<Longrightarrow> fe_pow fabs fmag a (k + l) (fo_mul F x y)"
  using mul[of x y] mag_1_8 by (auto simp: fe_pow_def power_add mod_mult_eq)

lemma pow_sqr: "fe_pow fabs fmag a k x \<Longrightarrow> fe_pow fabs fmag a (k * 2) (fo_sqr F x)"
  using sqr[of x] mag_1_8 by (auto simp: fe_pow_def power_mult power2_eq_square mod_mult_eq power_mod)

lemma pow_sqr_n: "fe_pow fabs fmag a k x \<Longrightarrow> fe_pow fabs fmag a (k * 2 ^ n) (fe_sqr_n F n x)"
  unfolding fe_sqr_n_def
proof (induction n)
  case (Suc n)
  then show ?case using pow_sqr[OF Suc.IH] by (simp add: mult_ac)
qed simp

lemma pow_weaken: "fe_pow fabs fmag a k x \<Longrightarrow> k = l \<Longrightarrow> fe_pow fabs fmag a l x"
  by simp

lemmas pow_rules = pow_mul pow_sqr pow_sqr_n

lemma chain_x223:
  assumes a: "fmag 8 a" and c: "fe_chain_x223 F a = (x2, x22, x223)"
  shows "fe_pow fabs fmag a (2 ^ 2 - 1) x2 \<and> fe_pow fabs fmag a (2 ^ 22 - 1) x22 \<and> fe_pow fabs fmag a (2 ^ 223 - 1) x223"
  using c unfolding fe_chain_x223_def
  apply (elim LetE)
  subgoal premises p for y2 y2' y3 y3' y6 y6' y9 y9' y11 y11' y22 y22' y44 y44' y88 y88' y176 y176' y220 y220' y223 y223'
  proof -
    note a = pow_self[OF a]
    have y2: "fe_pow fabs fmag a (2 ^ 2 - 1) y2'"
      unfolding p(1-2) by (rule pow_weaken, (rule pow_rules a)+) simp
    have y3: "fe_pow fabs fmag a (2 ^ 3 - 1) y3'"
      unfolding p(3-4) by (rule pow_weaken, (rule pow_rules a y2)+) simp
    have y6: "fe_pow fabs fmag a (2 ^ 6 - 1) y6'"
      unfolding p(5-6) by (rule pow_weaken, (rule pow_rules y3)+) simp
    have y9: "fe_pow fabs fmag a (2 ^ 9 - 1) y9'"
      unfolding p(7-8) by (rule pow_weaken, (rule pow_rules y6 y3)+) simp
    have y11: "fe_pow fabs fmag a (2 ^ 11 - 1) y11'"
      unfolding p(9-10) by (rule pow_weaken, (rule pow_rules y9 y2)+) simp
    have y22: "fe_pow fabs fmag a (2 ^ 22 - 1) y22'"
      unfolding p(11-12) by (rule pow_weaken, (rule pow_rules y11)+) simp
    have y44: "fe_pow fabs fmag a (2 ^ 44 - 1) y44'"
      unfolding p(13-14) by (rule pow_weaken, (rule pow_rules y22)+) simp
    have y88: "fe_pow fabs fmag a (2 ^ 88 - 1) y88'"
      unfolding p(15-16) by (rule pow_weaken, (rule pow_rules y44)+) simp
    have y176: "fe_pow fabs fmag a (2 ^ 176 - 1) y176'"
      unfolding p(17-18) by (rule pow_weaken, (rule pow_rules y88)+) simp
    have y220: "fe_pow fabs fmag a (2 ^ 220 - 1) y220'"
      unfolding p(19-20) by (rule pow_weaken, (rule pow_rules y176 y44)+) simp
    have y223: "fe_pow fabs fmag a (2 ^ 223 - 1) y223'"
      unfolding p(21-22) by (rule pow_weaken, (rule pow_rules y220 y3)+) simp
    show ?thesis using p(23) y2 y22 y223 by simp
  qed
  done

lemma inv_pow:
  assumes a: "fmag 8 a"
  shows "fmag 1 (fe_inv F a)" "fabs (fe_inv F a) = fabs a ^ nat (secp_p - 2) mod secp_p"
proof -
  obtain x2 x22 x223 where c: "fe_chain_x223 F a = (x2, x22, x223)" by (metis prod_cases3)
  note x = chain_x223[OF a c, THEN conjunct1] chain_x223[OF a c, THEN conjunct2, THEN conjunct1]
    chain_x223[OF a c, THEN conjunct2, THEN conjunct2] pow_self[OF a]
  define t where "t = fe_sqr_n F 2 (fo_mul F (fe_sqr_n F 3 (fo_mul F (fe_sqr_n F 5 (fo_mul F (fe_sqr_n F 23 x223) x22)) a)) x2)"
  have i: "fe_inv F a = fo_mul F a t"
    unfolding fe_inv_def c t_def Let_def by simp
  have t: "fe_pow fabs fmag a (nat (secp_p - 3)) t"
    unfolding t_def by (rule pow_weaken, (rule pow_rules x)+) (simp add: secp_p_def)
  then show "fmag 1 (fe_inv F a)" unfolding i using mul[OF a, of t] by (simp add: fe_pow_def)
  have "1 + nat (secp_p - 3) = nat (secp_p - 2)" by (simp add: secp_p_def)
  from pow_weaken[OF pow_mul[OF x(4) t] this]
  show "fabs (fe_inv F a) = fabs a ^ nat (secp_p - 2) mod secp_p"
    unfolding i fe_pow_def by simp
qed

lemma sub_mod_zero:
  assumes "0 \<le> x" "x < secp_p" "0 \<le> y" "y < secp_p"
  shows "((- x) mod secp_p + y) mod secp_p = 0 \<longleftrightarrow> x = y"
proof -
  have "((- x) mod secp_p + y) mod secp_p = 0 \<longleftrightarrow> y mod secp_p = x mod secp_p"
    using mod_add_left_eq[of "- x" secp_p y] mod_eq_dvd_iff[of y secp_p x] by (simp add: dvd_eq_mod_eq_0)
  then show ?thesis using assms by auto
qed

lemma equal:
  assumes "fmag 1 a" "fmag m b" "m \<le> 29"
  shows "fe_equal F a b \<longleftrightarrow> fabs a = fabs b" "fe_equal_var F a b \<longleftrightarrow> fabs a = fabs b"
proof -
  have n: "fmag (1 + 1) (fo_negate F a (int 1))" "fabs (fo_negate F a (int 1)) = (- fabs a) mod secp_p"
    using negate[OF assms(1)] by simp_all
  have s: "fmag 31 (fo_add F (fo_negate F a 1) b)"
    "fabs (fo_add F (fo_negate F a 1) b) = ((- fabs a) mod secp_p + fabs b) mod secp_p"
    using add[OF n(1) assms(2)] n(2) assms(3) mag_mono[of "1 + 1 + m" _ 31] by simp_all
  show "fe_equal F a b \<longleftrightarrow> fabs a = fabs b" "fe_equal_var F a b \<longleftrightarrow> fabs a = fabs b"
    unfolding fe_equal_def fe_equal_var_def Let_def normalizes_to_zero[OF s(1)] normalizes_to_zero_var[OF s(1)] s(2)
    using sub_mod_zero[OF abs_range abs_range] by simp_all
qed

lemma sqrt_pow:
  assumes a: "fmag 8 a" and s: "fe_sqrt F a = (r, ok)"
  shows "fmag 1 r" "fabs r = fabs a ^ nat ((secp_p + 1) div 4) mod secp_p"
    "ok \<longleftrightarrow> fabs r * fabs r mod secp_p = fabs a"
proof -
  obtain x2 x22 x223 where c: "fe_chain_x223 F a = (x2, x22, x223)" by (metis prod_cases3)
  note x = chain_x223[OF a c, THEN conjunct1] chain_x223[OF a c, THEN conjunct2, THEN conjunct1]
    chain_x223[OF a c, THEN conjunct2, THEN conjunct2] pow_self[OF a]
  define t where "t = fo_sqr F (fo_mul F (fe_sqr_n F 6 (fo_mul F (fe_sqr_n F 23 x223) x22)) x2)"
  have r: "r = fo_sqr F t" "ok = fe_equal F (fo_sqr F r) a"
    using s unfolding fe_sqrt_def c t_def Let_def by auto
  have t: "fe_pow fabs fmag a (nat ((secp_p + 1) div 8)) t"
    unfolding t_def by (rule pow_weaken, (rule pow_rules x)+) (simp add: secp_p_def)
  have "nat ((secp_p + 1) div 8) * 2 = nat ((secp_p + 1) div 4)" by (simp add: secp_p_def)
  from pow_weaken[OF pow_sqr[OF t] this]
  show "fabs r = fabs a ^ nat ((secp_p + 1) div 4) mod secp_p"
    unfolding r(1) fe_pow_def by simp
  show m: "fmag 1 r" unfolding r(1) using sqr[of t] t by (simp add: fe_pow_def)
  show "ok \<longleftrightarrow> fabs r * fabs r mod secp_p = fabs a"
    unfolding r(2) using sqr[OF mag_1_8[OF m]] equal[of "fo_sqr F r" 8 a] a by simp
qed

text \<open>The interface in the prime field.\<close>

lemma fpv_ops:
  "fmag 31 a \<Longrightarrow> fpv fabs (fo_normalize F a) = fpv fabs a"
  "fmag 31 a \<Longrightarrow> fpv fabs (fo_normalize_weak F a) = fpv fabs a"
  "fmag 31 a \<Longrightarrow> fpv fabs (fo_normalize_var F a) = fpv fabs a"
  "0 \<le> v \<Longrightarrow> v < 2 ^ 26 \<Longrightarrow> fpv fabs (fo_set_int F v) = of_int v"
  "fmag m a \<Longrightarrow> m \<le> 30 \<Longrightarrow> fpv fabs (fo_negate F a (int m)) = - fpv fabs a"
  "fmag m a \<Longrightarrow> i \<le> 31 \<Longrightarrow> m * i \<le> 31 \<Longrightarrow> fpv fabs (fo_mul_int F a (int i)) = fpv fabs a * of_nat i"
  "fmag m a \<Longrightarrow> fmag k b \<Longrightarrow> m + k \<le> 31 \<Longrightarrow> fpv fabs (fo_add F a b) = fpv fabs a + fpv fabs b"
  "fmag 8 a \<Longrightarrow> fmag 8 b \<Longrightarrow> fpv fabs (fo_mul F a b) = fpv fabs a * fpv fabs b"
  "fmag 8 a \<Longrightarrow> fpv fabs (fo_sqr F a) = fpv fabs a * fpv fabs a"
  using normalize[of a] normalize_weak[of a] normalize_var[of a] set_int[of v] negate[of m a] mul_int[of m a i]
    add[of m a k b] mul[of a b] sqr[of a]
  by (simp_all add: fpv_def)

lemma fpv_eq_iff: "fpv fabs a = fpv fabs b \<longleftrightarrow> fabs a = fabs b"
  using abs_range[of a] abs_range[of b] by (simp add: fpv_def of_int_fp_eq_iff)

lemma fpv_0_iff: "fpv fabs a = 0 \<longleftrightarrow> fabs a = 0"
  using abs_range[of a] by (simp add: fpv_def of_int_fp_0_iff)

lemma inv_fpv:
  assumes "fmag 8 a"
  shows "fpv fabs (fe_inv F a) = inverse (fpv fabs a)"
  using inv_pow(2)[OF assms] by (simp add: fpv_def inverse_fp_def)

lemma inv_mult:
  assumes "fmag 8 a" "fabs a \<noteq> 0"
  shows "fabs a * fabs (fe_inv F a) mod secp_p = 1"
  using inverse_mod[OF secp_p_prime, of "fabs a"] assms abs_range[of a] inv_pow(2)[OF assms(1)]
  by (simp add: mod_simps)

lemma sqrt_complete:
  assumes a: "fmag 8 a" and s: "fe_sqrt F a = (r, ok)"
  shows "ok \<longleftrightarrow> (\<exists>x. x * x mod secp_p = fabs a)"
proof
  assume ok
  then show "\<exists>x. x * x mod secp_p = fabs a" using sqrt_pow(3)[OF a s] by blast
next
  assume "\<exists>x. x * x mod secp_p = fabs a"
  then obtain x where x: "x * x mod secp_p = fabs a" by blast
  let ?x = "of_int x :: fp" and ?e = "nat ((secp_p + 1) div 4)"
  have "fpv fabs a = ?x * ?x" unfolding fpv_def x[symmetric] by simp
  moreover have "fpv fabs r = fpv fabs a ^ ?e" unfolding fpv_def sqrt_pow(2)[OF a s] by simp
  ultimately have "fpv fabs r * fpv fabs r = ?x ^ (?e + ?e + (?e + ?e))"
    by (simp add: power_add power_mult_distrib)
  also have "?e + ?e + (?e + ?e) = nat (secp_p - 2) + 1 + 2" by (simp add: secp_p_def)
  also have "?x ^ \<dots> = ?x * ?x"
  proof (cases "?x = 0")
    case False
    then have "?x ^ (nat (secp_p - 2) + 1) = 1"
      unfolding power_add inverse_fp_def[symmetric] by simp
    then show ?thesis by (simp add: power_add power2_eq_square)
  qed (simp add: power_add)
  finally have "fpv fabs r * fpv fabs r = fpv fabs a" using \<open>fpv fabs a = ?x * ?x\<close> by simp
  then have "fabs r * fabs r mod secp_p = fabs a mod secp_p"
    unfolding fpv_def by (simp only: of_int_mult[symmetric] of_int_fp_eq_iff)
  then show ok using sqrt_pow(3)[OF a s] abs_range[of a] by simp
qed

text \<open>Batch inversion: the running products, then the walk back.\<close>

lemma inv_all_products:
  assumes "length r = length a" "\<forall>x\<in>set a. fmag 8 x" "n < length a"
    and "\<forall>i<length a - n. fmag 8 (r ! i) \<and> fpv fabs (r ! i) = (\<Prod>j\<le>i. fpv fabs (a ! j))"
  shows "length (fe_inv_all_products F a n r) = length a \<and> (\<forall>i<length a.
    fmag 8 (fe_inv_all_products F a n r ! i) \<and> fpv fabs (fe_inv_all_products F a n r ! i) = (\<Prod>j\<le>i. fpv fabs (a ! j)))"
  using assms
proof (induction n arbitrary: r)
  case (Suc n)
  define k where "k = length a - Suc n"
  define r' where "r' = r[k := fo_mul F (r ! (k - 1)) (a ! k)]"
  have k: "0 < k" "k < length a" "length a - n = Suc k" using Suc.prems(3) by (auto simp: k_def)
  have p: "fmag 8 (r ! (k - 1))" "fpv fabs (r ! (k - 1)) = (\<Prod>j\<le>k - 1. fpv fabs (a ! j))"
    using Suc.prems(4) k by (auto simp: k_def)
  have "fmag 8 (r' ! i) \<and> fpv fabs (r' ! i) = (\<Prod>j\<le>i. fpv fabs (a ! j))" if "i < length a - n" for i
  proof (cases "i = k")
    case True
    have "fmag 8 (fo_mul F (r ! (k - 1)) (a ! k))" using mul[OF p(1)] Suc.prems(2) k mag_1_8 by simp
    moreover have "{..k} = insert k {..k - 1}" using k by auto
    ultimately show ?thesis
      using True Suc.prems(1,2) k p fpv_ops(8)[OF p(1), of "a ! k"] by (simp add: r'_def mult.commute)
  next
    case False
    then show ?thesis using that Suc.prems(4) k by (auto simp: r'_def k_def)
  qed
  then show ?case using Suc.IH[of r'] Suc.prems by (simp add: r'_def k_def Let_def)
qed simp

lemma inv_all_back:
  assumes "length r = length a" "\<forall>x\<in>set a. fmag 8 x \<and> fabs x \<noteq> 0" "i < length a"
    and u: "fmag 8 u" "fpv fabs u = inverse (\<Prod>j\<le>i. fpv fabs (a ! j))"
    and lo: "\<forall>k\<le>i. fmag 8 (r ! k) \<and> fpv fabs (r ! k) = (\<Prod>j\<le>k. fpv fabs (a ! j))"
    and hi: "\<forall>k. i < k \<and> k < length a \<longrightarrow> fmag 8 (r ! k) \<and> fpv fabs (r ! k) = inverse (fpv fabs (a ! k))"
    and f: "fe_inv_all_back F a i u r = (u', r')"
  shows "length r' = length a \<and> fmag 8 u' \<and> fpv fabs u' = inverse (fpv fabs (a ! 0))
    \<and> (\<forall>k. 0 < k \<and> k < length a \<longrightarrow> fmag 8 (r' ! k) \<and> fpv fabs (r' ! k) = inverse (fpv fabs (a ! k)))"
  using assms
proof (induction i arbitrary: u r)
  case (Suc i)
  define P where "P = (\<Prod>j\<le>i. fpv fabs (a ! j))"
  have nz: "fpv fabs (a ! j) \<noteq> 0" if "j < length a" for j using Suc.prems(2) that by (simp add: fpv_0_iff)
  then have "P \<noteq> 0" using Suc.prems(3) by (simp add: P_def)
  have a: "fmag 8 (a ! Suc i)" "fpv fabs (a ! Suc i) \<noteq> 0" using Suc.prems(2,3) nz by simp_all
  have uP: "fpv fabs u = inverse (fpv fabs (a ! Suc i) * P)" using Suc.prems(5) by (simp add: P_def mult.commute)
  define v w where "v = fo_mul F u (a ! Suc i)" and "w = fo_mul F (r ! i) u"
  have v: "fmag 8 v" "fpv fabs v = inverse P"
    using mul[OF Suc.prems(4) a(1)] mag_1_8 fpv_ops(8)[OF Suc.prems(4) a(1)] uP a(2) by (simp_all add: v_def)
  have ri: "fmag 8 (r ! i)" "fpv fabs (r ! i) = P" using Suc.prems(6) by (simp_all add: P_def)
  have w: "fmag 8 w" "fpv fabs w = inverse (fpv fabs (a ! Suc i))"
    using mul[OF ri(1) Suc.prems(4)] mag_1_8 fpv_ops(8)[OF ri(1) Suc.prems(4)] uP ri(2) \<open>P \<noteq> 0\<close>
    by (simp_all add: w_def)
  show ?case
  proof (rule Suc.IH)
    show "fe_inv_all_back F a i v (r[Suc i := w]) = (u', r')"
      using Suc.prems(8) by (simp add: v_def w_def Let_def)
    show "\<forall>k. i < k \<and> k < length a \<longrightarrow> fmag 8 (r[Suc i := w] ! k)
        \<and> fpv fabs (r[Suc i := w] ! k) = inverse (fpv fabs (a ! k))"
      using Suc.prems(1,7) w by (auto simp: nth_list_update)
  qed (use Suc.prems v in \<open>simp_all add: P_def\<close>)
qed auto

lemma inv_all:
  assumes "length r = length a" "\<forall>x\<in>set a. fmag 8 x \<and> fabs x \<noteq> 0" "i < length a"
  shows "fmag 8 (fe_inv_all_var F r a ! i) \<and> fpv fabs (fe_inv_all_var F r a ! i) = inverse (fpv fabs (a ! i))"
proof -
  let ?n = "length a - 1"
  define r1 where "r1 = fe_inv_all_products F a ?n (r[0 := a ! 0])"
  have n: "?n < length a" "length a - ?n = 1" using assms(3) by auto
  have z: "r[0 := a ! 0] ! 0 = a ! 0" "fmag 8 (a ! 0)"
    using assms(1,3) bspec[OF assms(2) nth_mem, of 0] by (cases a; simp)+
  have r1: "length r1 = length a" "\<forall>i<length a. fmag 8 (r1 ! i) \<and> fpv fabs (r1 ! i) = (\<Prod>j\<le>i. fpv fabs (a ! j))"
    using inv_all_products[of "r[0 := a ! 0]" a ?n] assms(1,2) n z unfolding r1_def by simp_all
  obtain u' r' where b: "fe_inv_all_back F a ?n (fe_inv_var F (r1 ! ?n)) r1 = (u', r')" by fastforce
  have f: "fe_inv_all_var F r a = r'[0 := u']"
    using assms(3) b unfolding fe_inv_all_var_def r1_def Let_def by (auto split: prod.splits)
  have "fmag 8 (fe_inv_var F (r1 ! ?n))" "fpv fabs (fe_inv_var F (r1 ! ?n)) = inverse (\<Prod>j\<le>?n. fpv fabs (a ! j))"
    unfolding fe_inv_var_def using inv_pow(1)[of "r1 ! ?n"] inv_fpv[of "r1 ! ?n"] mag_1_8 r1(2) n(1) by auto
  moreover have "\<forall>k\<le>?n. fmag 8 (r1 ! k) \<and> fpv fabs (r1 ! k) = (\<Prod>j\<le>k. fpv fabs (a ! j))"
    using r1(2) n(1) by auto
  moreover have "\<forall>k. ?n < k \<and> k < length a \<longrightarrow> fmag 8 (r1 ! k) \<and> fpv fabs (r1 ! k) = inverse (fpv fabs (a ! k))"
    by auto
  ultimately
  have "length r' = length a" "fmag 8 u'" "fpv fabs u' = inverse (fpv fabs (a ! 0))"
    "\<forall>k. 0 < k \<and> k < length a \<longrightarrow> fmag 8 (r' ! k) \<and> fpv fabs (r' ! k) = inverse (fpv fabs (a ! k))"
    using inv_all_back[OF r1(1) assms(2) n(1) _ _ _ _ b] by blast+
  then show ?thesis unfolding f using assms(3) by (cases i) auto
qed

end

section \<open>Properties\<close>

text \<open>C11: the inversion chain. For every element of magnitude at most 8 that is not zero modulo
  the field characteristic, the product with its computed inverse is 1; zero modulo the characteristic is mapped to zero. The
  variable-time entry point returns the same element.\<close>

theorem fe_inv_5x52_spec:
  assumes "fe_verify_5x52 a 8 False"
  shows "fe_verify_5x52 (fe_inv fe_ops_5x52 a) 1 False
    \<and> fe_val_5x52 a * fe_val_5x52 (fe_inv fe_ops_5x52 a) mod secp_p = (if secp_p dvd fe_val_5x52 a then 0 else 1)
    \<and> (secp_p dvd fe_val_5x52 a \<longrightarrow> fe_val_5x52 (fe_inv fe_ops_5x52 a) mod secp_p = 0)
    \<and> fe_inv_var fe_ops_5x52 a = fe_inv fe_ops_5x52 a"
proof -
  have m: "fe_mag_5x52 8 a" using assms by (simp add: fe_mag_5x52_def)
  have "fe_abs_5x52 a * fe_abs_5x52 (fe_inv fe_ops_5x52 a) mod secp_p = (if fe_abs_5x52 a = 0 then 0 else 1)"
    using f52.inv_mult[OF m] by simp
  moreover have "fe_abs_5x52 (fe_inv fe_ops_5x52 a) = 0" if "fe_abs_5x52 a = 0"
    using f52.inv_pow(2)[OF m] that by (simp add: secp_p_def zero_power)
  ultimately show ?thesis
    using f52.inv_pow(1)[OF m] by (simp add: fe_abs_5x52_def fe_mag_5x52_def fe_inv_var_def mod_simps dvd_eq_mod_eq_0)
qed

theorem fe_inv_5x52_spec_witness:
  "fe_val_5x52 (fe_set_int_5x52 7) * fe_val_5x52 (fe_inv fe_ops_5x52 (fe_set_int_5x52 7)) mod secp_p = 1"
proof -
  have "fe_verify_5x52 (fe_set_int_5x52 7) 8 False" "\<not> secp_p dvd fe_val_5x52 (fe_set_int_5x52 7)" by code_simp+
  then show ?thesis using fe_inv_5x52_spec[of "fe_set_int_5x52 7"] by simp
qed

text \<open>C14: the square root. The returned flag tells exactly whether the argument is a square
  modulo the field characteristic, and if it is, the returned element is a square root. The
  quadratic-residue test is that flag.\<close>

theorem fe_sqrt_5x52_spec:
  assumes "fe_verify_5x52 a 8 False" "fe_sqrt fe_ops_5x52 a = (r, ok)"
  shows "(ok \<longleftrightarrow> (\<exists>x. x * x mod secp_p = fe_val_5x52 a mod secp_p))
    \<and> (ok \<longrightarrow> fe_val_5x52 r * fe_val_5x52 r mod secp_p = fe_val_5x52 a mod secp_p)
    \<and> fe_verify_5x52 r 1 False \<and> fe_is_quad_var fe_ops_5x52 a = ok"
proof -
  have m: "fe_mag_5x52 8 a" using assms(1) by (simp add: fe_mag_5x52_def)
  show ?thesis
    using f52.sqrt_complete[OF m assms(2)] f52.sqrt_pow(1,3)[OF m assms(2)] assms(2)
    by (auto simp: fe_abs_5x52_def fe_mag_5x52_def fe_is_quad_var_def mod_simps)
qed

theorem fe_sqrt_5x52_spec_witness:
  "snd (fe_sqrt fe_ops_5x52 (fe_set_int_5x52 4))
    \<and> fe_val_5x52 (fst (fe_sqrt fe_ops_5x52 (fe_set_int_5x52 4))) * fe_val_5x52 (fst (fe_sqrt fe_ops_5x52 (fe_set_int_5x52 4))) mod secp_p
      = fe_val_5x52 (fe_set_int_5x52 4) mod secp_p"
proof -
  have v: "fe_verify_5x52 (fe_set_int_5x52 4) 8 False" by code_simp
  have "2 * 2 mod secp_p = fe_val_5x52 (fe_set_int_5x52 4) mod secp_p" by code_simp
  then have "\<exists>x. x * x mod secp_p = fe_val_5x52 (fe_set_int_5x52 4) mod secp_p" by blast
  then show ?thesis using fe_sqrt_5x52_spec[OF v surjective_pairing] by blast
qed

text \<open>C16: batch inversion. With one inversion and three multiplications per entry the routine
  leaves in every slot the inverse of the corresponding entry, when no entry is zero.\<close>

theorem fe_inv_all_var_5x52_spec:
  assumes "length r = length a" "i < length a"
    and "list_all (\<lambda>x. fe_verify_5x52 x 8 False \<and> \<not> secp_p dvd fe_val_5x52 x) a"
  shows "fe_val_5x52 (a ! i) * fe_val_5x52 (fe_inv_all_var fe_ops_5x52 r a ! i) mod secp_p = 1"
proof -
  have h: "\<forall>x\<in>set a. fe_mag_5x52 8 x \<and> fe_abs_5x52 x \<noteq> 0"
    using assms(3) by (simp add: list_all_iff fe_mag_5x52_def fe_abs_5x52_def dvd_eq_mod_eq_0)
  have "fpv fe_abs_5x52 (a ! i) * fpv fe_abs_5x52 (fe_inv_all_var fe_ops_5x52 r a ! i) = 1"
    using f52.inv_all[OF assms(1) h assms(2)] h assms(2) by (simp add: f52.fpv_0_iff)
  then have "(of_int (fe_val_5x52 (a ! i) * fe_val_5x52 (fe_inv_all_var fe_ops_5x52 r a ! i)) :: fp) = of_int 1"
    by (simp add: fpv_def fe_abs_5x52_def)
  then show ?thesis unfolding of_int_fp_eq_iff by (simp add: secp_p_def)
qed

theorem fe_inv_all_var_5x52_spec_witness:
  "fe_val_5x52 (fe_set_int_5x52 5) * fe_val_5x52 (fe_inv_all_var fe_ops_5x52 [fe_set_int_5x52 0, fe_set_int_5x52 0]
     [fe_set_int_5x52 3, fe_set_int_5x52 5] ! 1) mod secp_p = 1"
proof -
  have "list_all (\<lambda>x. fe_verify_5x52 x 8 False \<and> \<not> secp_p dvd fe_val_5x52 x) [fe_set_int_5x52 3, fe_set_int_5x52 5]"
    by code_simp
  from fe_inv_all_var_5x52_spec[OF _ _ this, of "[fe_set_int_5x52 0, fe_set_int_5x52 0]" 1]
  show ?thesis by simp
qed

end
