(* ===== verification/Scalar_Interface.thy ===== *)
theory Scalar_Interface
  imports Secp_Params
begin

text \<open>
  The interface of \<^verbatim>\<open>scalar.h\<close>: numbers modulo the group order.  As for the field, the
  record has one entry per function that a representation provides, and the locale states what
  the code above relies on: the integer \<open>sval\<close> of a scalar
  determines it, and the operations compute modulo \<open>secp_n\<close>.
\<close>

record 'sc scalar_ops =
  so_clear :: "'sc \<Rightarrow> 'sc"
  so_set_int :: "u32 \<Rightarrow> 'sc"
  so_get_bits :: "'sc \<Rightarrow> nat \<Rightarrow> nat \<Rightarrow> u32"
  so_get_bits_var :: "'sc \<Rightarrow> nat \<Rightarrow> nat \<Rightarrow> u32"
  so_set_b32 :: "bytes \<Rightarrow> 'sc \<times> bool"
  so_get_b32 :: "'sc \<Rightarrow> bytes"
  so_add :: "'sc \<Rightarrow> 'sc \<Rightarrow> 'sc \<times> bool"
  so_cadd_bit :: "'sc \<Rightarrow> nat \<Rightarrow> int \<Rightarrow> 'sc"
  so_mul :: "'sc \<Rightarrow> 'sc \<Rightarrow> 'sc"
  so_sqr :: "'sc \<Rightarrow> 'sc"
  so_shr_int :: "'sc \<Rightarrow> nat \<Rightarrow> 'sc \<times> int"
  so_negate :: "'sc \<Rightarrow> 'sc"
  so_cond_negate :: "'sc \<Rightarrow> int \<Rightarrow> 'sc \<times> int"
  so_is_zero :: "'sc \<Rightarrow> bool"
  so_is_one :: "'sc \<Rightarrow> bool"
  so_is_even :: "'sc \<Rightarrow> bool"
  so_is_high :: "'sc \<Rightarrow> bool"
  so_eq :: "'sc \<Rightarrow> 'sc \<Rightarrow> bool"
  so_split_128 :: "'sc \<Rightarrow> 'sc \<times> 'sc"
  so_mul_shift_var :: "'sc \<Rightarrow> 'sc \<Rightarrow> nat \<Rightarrow> 'sc"
  so_const :: "u32 \<Rightarrow> u32 \<Rightarrow> u32 \<Rightarrow> u32 \<Rightarrow> u32 \<Rightarrow> u32 \<Rightarrow> u32 \<Rightarrow> u32 \<Rightarrow> 'sc"

locale scalar_repr =
  fixes S :: "'sc scalar_ops"
    and sval :: "'sc \<Rightarrow> int"
  assumes val_nonneg: "0 \<le> sval a"
    and val_inject: "sval a = sval b \<Longrightarrow> a = b"
    and clear: "sval (so_clear S a) = 0"
    and set_int: "sval (so_set_int S v) = uint v"
    and get_bits: "0 < count \<Longrightarrow> count \<le> 32 \<Longrightarrow> (off + count - 1) div 32 = off div 32 \<Longrightarrow> off + count \<le> 256 \<Longrightarrow>
      uint (so_get_bits S a off count) = sval a div 2 ^ off mod 2 ^ count"
    and get_bits_var: "0 < count \<Longrightarrow> count < 32 \<Longrightarrow> off + count \<le> 256 \<Longrightarrow>
      uint (so_get_bits_var S a off count) = sval a div 2 ^ off mod 2 ^ count"
    and set_b32: "length bs = 32 \<Longrightarrow> sval (fst (so_set_b32 S bs)) = be_val bs mod secp_n
      \<and> (snd (so_set_b32 S bs) \<longleftrightarrow> secp_n \<le> be_val bs)"
    and get_b32: "length (so_get_b32 S a) = 32 \<and> be_val (so_get_b32 S a) = sval a"
    and add: "sval a < secp_n \<Longrightarrow> sval b < secp_n \<Longrightarrow> sval (fst (so_add S a b)) = (sval a + sval b) mod secp_n
      \<and> (snd (so_add S a b) \<longleftrightarrow> secp_n \<le> sval a + sval b)"
    and cadd_bit: "i < 256 \<Longrightarrow> (flag = 0 \<or> flag = 1) \<Longrightarrow> sval a + flag * 2 ^ i < 2 ^ 256 \<Longrightarrow>
      sval (so_cadd_bit S a i flag) = sval a + flag * 2 ^ i"
    and mul: "sval (so_mul S a b) = sval a * sval b mod secp_n"
    and sqr: "sval (so_sqr S a) = sval a * sval a mod secp_n"
    and shr_int: "0 < k \<Longrightarrow> k < 16 \<Longrightarrow> sval (fst (so_shr_int S a k)) = sval a div 2 ^ k
      \<and> snd (so_shr_int S a k) = sval a mod 2 ^ k"
    and negate: "sval a < secp_n \<Longrightarrow> sval (so_negate S a) = (- sval a) mod secp_n"
    and cond_negate: "sval a < secp_n \<Longrightarrow>
      so_cond_negate S a flag = (if flag = 0 then (a, 1) else (so_negate S a, -1))"
    and is_zero: "so_is_zero S a \<longleftrightarrow> sval a = 0"
    and is_one: "so_is_one S a \<longleftrightarrow> sval a = 1"
    and is_even: "so_is_even S a \<longleftrightarrow> even (sval a)"
    and is_high: "so_is_high S a \<longleftrightarrow> secp_n div 2 < sval a"
    and eq: "so_eq S a b \<longleftrightarrow> a = b"
    and split_128: "so_split_128 S a = (r1, r2) \<Longrightarrow> sval r1 = sval a mod 2 ^ 128 \<and> sval r2 = sval a div 2 ^ 128"
    and mul_shift_var: "256 \<le> shift \<Longrightarrow> shift < 512 \<Longrightarrow>
      sval (so_mul_shift_var S a b shift) = (sval a * sval b + 2 ^ (shift - 1)) div 2 ^ shift"
    and const: "sval (so_const S d7 d6 d5 d4 d3 d2 d1 d0) = digits_val d7 d6 d5 d4 d3 d2 d1 d0"
begin

lemma b32_roundtrip: "sval a < secp_n \<Longrightarrow> so_set_b32 S (so_get_b32 S a) = (a, False)"
  using set_b32[of "so_get_b32 S a"] get_b32[of a] val_nonneg[of a]
    val_inject[of "fst (so_set_b32 S (so_get_b32 S a))" a]
  by (cases "so_set_b32 S (so_get_b32 S a)") simp

lemma b32_roundtrip_bytes:
  assumes "length bs = 32" "be_val bs < secp_n"
  shows "so_get_b32 S (fst (so_set_b32 S bs)) = bs"
  using set_b32[OF assms(1)] get_b32[of "fst (so_set_b32 S bs)"] assms
    be_val_inject[of "so_get_b32 S (fst (so_set_b32 S bs))" bs] by simp

end

end
