(* ===== verification/Scalar_4x64.thy ===== *)
theory Scalar_4x64
  imports Scalar_Interface
begin

text \<open>
  \<^verbatim>\<open>scalar_4x64.h\<close> and the portable parts of \<^verbatim>\<open>scalar_4x64_impl.h\<close>: scalars as four
  64-bit limbs.  The accumulator macros \<^verbatim>\<open>muladd\<close>, \<^verbatim>\<open>sumadd\<close>,
  \<^verbatim>\<open>extract\<close> and their fast variants are functions on the triple
  \<^verbatim>\<open>(c0, c1, c2)\<close>; the width of \<^verbatim>\<open>c2\<close> is 32 bits in the products and 64 bits in
  the reduction, as in the source.
\<close>

section \<open>Definitions\<close>

record scalar_4x64 =
  sc_d0 :: u64
  sc_d1 :: u64
  sc_d2 :: u64
  sc_d3 :: u64

definition sc_of_limbs_4x64 :: "u64 \<times> u64 \<times> u64 \<times> u64 \<Rightarrow> scalar_4x64" where
  "sc_of_limbs_4x64 t = (case t of (t0, t1, t2, t3) \<Rightarrow> \<lparr>sc_d0 = t0, sc_d1 = t1, sc_d2 = t2, sc_d3 = t3\<rparr>)"

definition sc_val_4x64 :: "scalar_4x64 \<Rightarrow> int" where
  "sc_val_4x64 a = uint (sc_d0 a) + uint (sc_d1 a) * 2 ^ 64 + uint (sc_d2 a) * 2 ^ 128 + uint (sc_d3 a) * 2 ^ 192"

text \<open>\<^verbatim>\<open>a->d[i]\<close>\<close>

definition sc_limb_4x64 :: "scalar_4x64 \<Rightarrow> nat \<Rightarrow> u64" where
  "sc_limb_4x64 a i = (if i = 0 then sc_d0 a else if i = 1 then sc_d1 a else if i = 2 then sc_d2 a else sc_d3 a)"

definition SECP256K1_N_0 :: u64 where "SECP256K1_N_0 = 0xBFD25E8CD0364141"
definition SECP256K1_N_1 :: u64 where "SECP256K1_N_1 = 0xBAAEDCE6AF48A03B"
definition SECP256K1_N_2 :: u64 where "SECP256K1_N_2 = 0xFFFFFFFFFFFFFFFE"
definition SECP256K1_N_3 :: u64 where "SECP256K1_N_3 = 0xFFFFFFFFFFFFFFFF"
definition SECP256K1_N_C_0 :: u64 where "SECP256K1_N_C_0 = NOT SECP256K1_N_0 + 1"
definition SECP256K1_N_C_1 :: u64 where "SECP256K1_N_C_1 = NOT SECP256K1_N_1"
definition SECP256K1_N_C_2 :: u64 where "SECP256K1_N_C_2 = 1"
definition SECP256K1_N_H_0 :: u64 where "SECP256K1_N_H_0 = 0xDFE92F46681B20A0"
definition SECP256K1_N_H_1 :: u64 where "SECP256K1_N_H_1 = 0x5D576E7357A4501D"
definition SECP256K1_N_H_2 :: u64 where "SECP256K1_N_H_2 = 0xFFFFFFFFFFFFFFFF"
definition SECP256K1_N_H_3 :: u64 where "SECP256K1_N_H_3 = 0x7FFFFFFFFFFFFFFF"

definition scalar_clear_4x64 :: "scalar_4x64 \<Rightarrow> scalar_4x64" where
  "scalar_clear_4x64 r = sc_of_limbs_4x64 (0, 0, 0, 0)"

definition scalar_set_int_4x64 :: "u32 \<Rightarrow> scalar_4x64" where
  "scalar_set_int_4x64 v = sc_of_limbs_4x64 (ucast v, 0, 0, 0)"

definition scalar_get_bits_4x64 :: "scalar_4x64 \<Rightarrow> nat \<Rightarrow> nat \<Rightarrow> u32" where
  "scalar_get_bits_4x64 a offset count =
    ucast (drop_bit (offset mod 64) (sc_limb_4x64 a (offset div 64)) AND (push_bit count 1 - 1))"

definition scalar_get_bits_var_4x64 :: "scalar_4x64 \<Rightarrow> nat \<Rightarrow> nat \<Rightarrow> u32" where
  "scalar_get_bits_var_4x64 a offset count =
    (if (offset + count - 1) div 64 = offset div 64 then scalar_get_bits_4x64 a offset count
     else ucast ((drop_bit (offset mod 64) (sc_limb_4x64 a (offset div 64))
            OR push_bit (64 - offset mod 64) (sc_limb_4x64 a (offset div 64 + 1))) AND (push_bit count 1 - 1)))"

definition scalar_check_overflow_4x64 :: "scalar_4x64 \<Rightarrow> bool" where
  "scalar_check_overflow_4x64 a =
    (let yes = False; no = False;
         no = (no \<or> sc_d3 a < SECP256K1_N_3);
         no = (no \<or> sc_d2 a < SECP256K1_N_2);
         yes = (yes \<or> (sc_d2 a > SECP256K1_N_2 \<and> \<not> no));
         no = (no \<or> sc_d1 a < SECP256K1_N_1);
         yes = (yes \<or> (sc_d1 a > SECP256K1_N_1 \<and> \<not> no));
         yes = (yes \<or> (sc_d0 a \<ge> SECP256K1_N_0 \<and> \<not> no))
     in yes)"

definition scalar_reduce_4x64 :: "scalar_4x64 \<Rightarrow> u32 \<Rightarrow> scalar_4x64" where
  "scalar_reduce_4x64 r overflow =
    (let t = (ucast (sc_d0 r) + ucast (ucast overflow * SECP256K1_N_C_0) :: u128);
         d0 = (ucast (t AND 0xFFFFFFFFFFFFFFFF) :: u64); t = drop_bit 64 t;
         t = t + (ucast (sc_d1 r) + ucast (ucast overflow * SECP256K1_N_C_1));
         d1 = (ucast (t AND 0xFFFFFFFFFFFFFFFF) :: u64); t = drop_bit 64 t;
         t = t + (ucast (sc_d2 r) + ucast (ucast overflow * SECP256K1_N_C_2));
         d2 = (ucast (t AND 0xFFFFFFFFFFFFFFFF) :: u64); t = drop_bit 64 t;
         t = t + ucast (sc_d3 r);
         d3 = (ucast (t AND 0xFFFFFFFFFFFFFFFF) :: u64)
     in sc_of_limbs_4x64 (d0, d1, d2, d3))"

definition scalar_add_4x64 :: "scalar_4x64 \<Rightarrow> scalar_4x64 \<Rightarrow> scalar_4x64 \<times> bool" where
  "scalar_add_4x64 a b =
    (let t = (ucast (sc_d0 a) + ucast (sc_d0 b) :: u128);
         d0 = (ucast (t AND 0xFFFFFFFFFFFFFFFF) :: u64); t = drop_bit 64 t;
         t = t + (ucast (sc_d1 a) + ucast (sc_d1 b));
         d1 = (ucast (t AND 0xFFFFFFFFFFFFFFFF) :: u64); t = drop_bit 64 t;
         t = t + (ucast (sc_d2 a) + ucast (sc_d2 b));
         d2 = (ucast (t AND 0xFFFFFFFFFFFFFFFF) :: u64); t = drop_bit 64 t;
         t = t + (ucast (sc_d3 a) + ucast (sc_d3 b));
         d3 = (ucast (t AND 0xFFFFFFFFFFFFFFFF) :: u64); t = drop_bit 64 t;
         r = sc_of_limbs_4x64 (d0, d1, d2, d3);
         overflow = ucast t + of_bool (scalar_check_overflow_4x64 r)
     in (scalar_reduce_4x64 r overflow, overflow \<noteq> 0))"

definition scalar_cadd_bit_4x64 :: "scalar_4x64 \<Rightarrow> nat \<Rightarrow> int \<Rightarrow> scalar_4x64" where
  "scalar_cadd_bit_4x64 r n flag =
    (let b = of_nat n + ((word_of_int flag - 1) AND 0x100) :: u32;
         sh = unat (b AND 0x3F); limb = drop_bit 6 b;
         t = (ucast (sc_d0 r) + ucast (push_bit sh (of_bool (limb = 0)) :: u64) :: u128);
         d0 = (ucast (t AND 0xFFFFFFFFFFFFFFFF) :: u64); t = drop_bit 64 t;
         t = t + (ucast (sc_d1 r) + ucast (push_bit sh (of_bool (limb = 1)) :: u64));
         d1 = (ucast (t AND 0xFFFFFFFFFFFFFFFF) :: u64); t = drop_bit 64 t;
         t = t + (ucast (sc_d2 r) + ucast (push_bit sh (of_bool (limb = 2)) :: u64));
         d2 = (ucast (t AND 0xFFFFFFFFFFFFFFFF) :: u64); t = drop_bit 64 t;
         t = t + (ucast (sc_d3 r) + ucast (push_bit sh (of_bool (limb = 3)) :: u64));
         d3 = (ucast (t AND 0xFFFFFFFFFFFFFFFF) :: u64)
     in sc_of_limbs_4x64 (d0, d1, d2, d3))"

text \<open>Eight bytes, the one at index \<open>i\<close> the least significant.\<close>

definition be64 :: "bytes \<Rightarrow> nat \<Rightarrow> u64" where
  "be64 b i = ((((((ucast (b ! i) OR push_bit 8 (ucast (b ! (i - 1)))) OR push_bit 16 (ucast (b ! (i - 2))))
     OR push_bit 24 (ucast (b ! (i - 3)))) OR push_bit 32 (ucast (b ! (i - 4)))) OR push_bit 40 (ucast (b ! (i - 5))))
     OR push_bit 48 (ucast (b ! (i - 6)))) OR push_bit 56 (ucast (b ! (i - 7)))"

definition scalar_set_b32_4x64 :: "bytes \<Rightarrow> scalar_4x64 \<times> bool" where
  "scalar_set_b32_4x64 b32 =
    (let r = sc_of_limbs_4x64 (be64 b32 31, be64 b32 23, be64 b32 15, be64 b32 7);
         over = scalar_check_overflow_4x64 r
     in (scalar_reduce_4x64 r (of_bool over), over))"

definition store64 :: "u64 \<Rightarrow> bytes" where
  "store64 d = [ucast (drop_bit 56 d), ucast (drop_bit 48 d), ucast (drop_bit 40 d), ucast (drop_bit 32 d),
     ucast (drop_bit 24 d), ucast (drop_bit 16 d), ucast (drop_bit 8 d), ucast d]"

definition scalar_get_b32_4x64 :: "scalar_4x64 \<Rightarrow> bytes" where
  "scalar_get_b32_4x64 a = store64 (sc_d3 a) @ store64 (sc_d2 a) @ store64 (sc_d1 a) @ store64 (sc_d0 a)"

definition scalar_is_zero_4x64 :: "scalar_4x64 \<Rightarrow> bool" where
  "scalar_is_zero_4x64 a = ((sc_d0 a OR sc_d1 a OR sc_d2 a OR sc_d3 a) = 0)"

definition scalar_negate_4x64 :: "scalar_4x64 \<Rightarrow> scalar_4x64" where
  "scalar_negate_4x64 a =
    (let nonzero = 0xFFFFFFFFFFFFFFFF * of_bool (\<not> scalar_is_zero_4x64 a) :: u64;
         t = (ucast (NOT (sc_d0 a)) + ucast SECP256K1_N_0 + 1 :: u128);
         d0 = (ucast (t AND ucast nonzero) :: u64); t = drop_bit 64 t;
         t = t + (ucast (NOT (sc_d1 a)) + ucast SECP256K1_N_1);
         d1 = (ucast (t AND ucast nonzero) :: u64); t = drop_bit 64 t;
         t = t + (ucast (NOT (sc_d2 a)) + ucast SECP256K1_N_2);
         d2 = (ucast (t AND ucast nonzero) :: u64); t = drop_bit 64 t;
         t = t + (ucast (NOT (sc_d3 a)) + ucast SECP256K1_N_3);
         d3 = (ucast (t AND ucast nonzero) :: u64)
     in sc_of_limbs_4x64 (d0, d1, d2, d3))"

definition scalar_is_one_4x64 :: "scalar_4x64 \<Rightarrow> bool" where
  "scalar_is_one_4x64 a = (((sc_d0 a XOR 1) OR sc_d1 a OR sc_d2 a OR sc_d3 a) = 0)"

definition scalar_is_even_4x64 :: "scalar_4x64 \<Rightarrow> bool" where
  "scalar_is_even_4x64 a = (sc_d0 a AND 1 = 0)"

definition scalar_is_high_4x64 :: "scalar_4x64 \<Rightarrow> bool" where
  "scalar_is_high_4x64 a =
    (let yes = False; no = False;
         no = (no \<or> sc_d3 a < SECP256K1_N_H_3);
         yes = (yes \<or> (sc_d3 a > SECP256K1_N_H_3 \<and> \<not> no));
         no = (no \<or> (sc_d2 a < SECP256K1_N_H_2 \<and> \<not> yes));
         no = (no \<or> (sc_d1 a < SECP256K1_N_H_1 \<and> \<not> yes));
         yes = (yes \<or> (sc_d1 a > SECP256K1_N_H_1 \<and> \<not> no));
         yes = (yes \<or> (sc_d0 a > SECP256K1_N_H_0 \<and> \<not> no))
     in yes)"

definition scalar_cond_negate_4x64 :: "scalar_4x64 \<Rightarrow> int \<Rightarrow> scalar_4x64 \<times> int" where
  "scalar_cond_negate_4x64 r flag =
    (let mask = of_bool (flag = 0) - 1 :: u64;
         nonzero = of_bool (scalar_is_zero_4x64 r) - 1 :: u64;
         t = (ucast (sc_d0 r XOR mask) + ucast ((SECP256K1_N_0 + 1) AND mask) :: u128);
         d0 = (ucast (t AND ucast nonzero) :: u64); t = drop_bit 64 t;
         t = t + (ucast (sc_d1 r XOR mask) + ucast (SECP256K1_N_1 AND mask));
         d1 = (ucast (t AND ucast nonzero) :: u64); t = drop_bit 64 t;
         t = t + (ucast (sc_d2 r XOR mask) + ucast (SECP256K1_N_2 AND mask));
         d2 = (ucast (t AND ucast nonzero) :: u64); t = drop_bit 64 t;
         t = t + (ucast (sc_d3 r XOR mask) + ucast (SECP256K1_N_3 AND mask));
         d3 = (ucast (t AND ucast nonzero) :: u64)
     in (sc_of_limbs_4x64 (d0, d1, d2, d3), 2 * of_bool (mask = 0) - 1))"

subsection \<open>The accumulator macros\<close>

type_synonym 'c acc = "u64 \<times> u64 \<times> 'c word"

definition muladd :: "u64 \<Rightarrow> u64 \<Rightarrow> 'c::len acc \<Rightarrow> 'c acc" where
  "muladd a b c = (case c of (c0, c1, c2) \<Rightarrow>
    (let t = (ucast a * ucast b :: u128);
         th = (ucast (drop_bit 64 t) :: u64);
         tl = (ucast t :: u64);
         c0 = c0 + tl;
         th = th + (if c0 < tl then 1 else 0);
         c1 = c1 + th;
         c2 = c2 + (if c1 < th then 1 else 0)
     in (c0, c1, c2)))"

definition muladd_fast :: "u64 \<Rightarrow> u64 \<Rightarrow> 'c::len acc \<Rightarrow> 'c acc" where
  "muladd_fast a b c = (case c of (c0, c1, c2) \<Rightarrow>
    (let t = (ucast a * ucast b :: u128);
         th = (ucast (drop_bit 64 t) :: u64);
         tl = (ucast t :: u64);
         c0 = c0 + tl;
         th = th + (if c0 < tl then 1 else 0);
         c1 = c1 + th
     in (c0, c1, c2)))"

definition muladd2 :: "u64 \<Rightarrow> u64 \<Rightarrow> 'c::len acc \<Rightarrow> 'c acc" where
  "muladd2 a b c = (case c of (c0, c1, c2) \<Rightarrow>
    (let t = (ucast a * ucast b :: u128);
         th = (ucast (drop_bit 64 t) :: u64);
         tl = (ucast t :: u64);
         th2 = th + th;
         c2 = c2 + (if th2 < th then 1 else 0);
         tl2 = tl + tl;
         th2 = th2 + (if tl2 < tl then 1 else 0);
         c0 = c0 + tl2;
         th2 = th2 + (if c0 < tl2 then 1 else 0);
         c2 = c2 + of_bool (c0 < tl2 \<and> th2 = 0);
         c1 = c1 + th2;
         c2 = c2 + (if c1 < th2 then 1 else 0)
     in (c0, c1, c2)))"

definition sumadd :: "u64 \<Rightarrow> 'c::len acc \<Rightarrow> 'c acc" where
  "sumadd a c = (case c of (c0, c1, c2) \<Rightarrow>
    (let c0 = c0 + a;
         over = (if c0 < a then 1 else 0);
         c1 = c1 + over;
         c2 = c2 + (if c1 < over then 1 else 0)
     in (c0, c1, c2)))"

definition sumadd_fast :: "u64 \<Rightarrow> 'c::len acc \<Rightarrow> 'c acc" where
  "sumadd_fast a c = (case c of (c0, c1, c2) \<Rightarrow>
    (let c0 = c0 + a;
         c1 = c1 + (if c0 < a then 1 else 0)
     in (c0, c1, c2)))"

text \<open>\<^verbatim>\<open>extract(n)\<close> and \<^verbatim>\<open>extract_fast(n)\<close>: the limb and the shifted accumulator.\<close>

definition extract_limb :: "'c::len acc \<Rightarrow> u64" where
  "extract_limb c = (case c of (c0, c1, c2) \<Rightarrow> c0)"

definition extract_shift :: "'c::len acc \<Rightarrow> 'c acc" where
  "extract_shift c = (case c of (c0, c1, c2) \<Rightarrow> (c1, ucast c2, 0))"

definition extract_fast_shift :: "'c::len acc \<Rightarrow> 'c acc" where
  "extract_fast_shift c = (case c of (c0, c1, c2) \<Rightarrow> (c1, 0, c2))"

definition scalar_mul_512_4x64 :: "scalar_4x64 \<Rightarrow> scalar_4x64 \<Rightarrow> u64 list" where
  "scalar_mul_512_4x64 a b =
    (let c = (0, 0, 0) :: 32 acc;
         c = muladd_fast (sc_d0 a) (sc_d0 b) c;
         l0 = extract_limb c; c = extract_fast_shift c;
         c = muladd (sc_d0 a) (sc_d1 b) c;
         c = muladd (sc_d1 a) (sc_d0 b) c;
         l1 = extract_limb c; c = extract_shift c;
         c = muladd (sc_d0 a) (sc_d2 b) c;
         c = muladd (sc_d1 a) (sc_d1 b) c;
         c = muladd (sc_d2 a) (sc_d0 b) c;
         l2 = extract_limb c; c = extract_shift c;
         c = muladd (sc_d0 a) (sc_d3 b) c;
         c = muladd (sc_d1 a) (sc_d2 b) c;
         c = muladd (sc_d2 a) (sc_d1 b) c;
         c = muladd (sc_d3 a) (sc_d0 b) c;
         l3 = extract_limb c; c = extract_shift c;
         c = muladd (sc_d1 a) (sc_d3 b) c;
         c = muladd (sc_d2 a) (sc_d2 b) c;
         c = muladd (sc_d3 a) (sc_d1 b) c;
         l4 = extract_limb c; c = extract_shift c;
         c = muladd (sc_d2 a) (sc_d3 b) c;
         c = muladd (sc_d3 a) (sc_d2 b) c;
         l5 = extract_limb c; c = extract_shift c;
         c = muladd_fast (sc_d3 a) (sc_d3 b) c;
         l6 = extract_limb c; c = extract_fast_shift c;
         l7 = fst c
     in [l0, l1, l2, l3, l4, l5, l6, l7])"

definition scalar_sqr_512_4x64 :: "scalar_4x64 \<Rightarrow> u64 list" where
  "scalar_sqr_512_4x64 a =
    (let c = (0, 0, 0) :: 32 acc;
         c = muladd_fast (sc_d0 a) (sc_d0 a) c;
         l0 = extract_limb c; c = extract_fast_shift c;
         c = muladd2 (sc_d0 a) (sc_d1 a) c;
         l1 = extract_limb c; c = extract_shift c;
         c = muladd2 (sc_d0 a) (sc_d2 a) c;
         c = muladd (sc_d1 a) (sc_d1 a) c;
         l2 = extract_limb c; c = extract_shift c;
         c = muladd2 (sc_d0 a) (sc_d3 a) c;
         c = muladd2 (sc_d1 a) (sc_d2 a) c;
         l3 = extract_limb c; c = extract_shift c;
         c = muladd2 (sc_d1 a) (sc_d3 a) c;
         c = muladd (sc_d2 a) (sc_d2 a) c;
         l4 = extract_limb c; c = extract_shift c;
         c = muladd2 (sc_d2 a) (sc_d3 a) c;
         l5 = extract_limb c; c = extract_shift c;
         c = muladd_fast (sc_d3 a) (sc_d3 a) c;
         l6 = extract_limb c; c = extract_fast_shift c;
         l7 = fst c
     in [l0, l1, l2, l3, l4, l5, l6, l7])"

definition scalar_reduce_512_4x64 :: "u64 list \<Rightarrow> scalar_4x64" where
  "scalar_reduce_512_4x64 l =
    (let n0 = l ! 4; n1 = l ! 5; n2 = l ! 6; n3 = l ! 7;
         c = (l ! 0, 0, 0) :: 64 acc;
         c = muladd_fast n0 SECP256K1_N_C_0 c;
         m0 = extract_limb c; c = extract_fast_shift c;
         c = sumadd_fast (l ! 1) c;
         c = muladd n1 SECP256K1_N_C_0 c;
         c = muladd n0 SECP256K1_N_C_1 c;
         m1 = extract_limb c; c = extract_shift c;
         c = sumadd (l ! 2) c;
         c = muladd n2 SECP256K1_N_C_0 c;
         c = muladd n1 SECP256K1_N_C_1 c;
         c = sumadd n0 c;
         m2 = extract_limb c; c = extract_shift c;
         c = sumadd (l ! 3) c;
         c = muladd n3 SECP256K1_N_C_0 c;
         c = muladd n2 SECP256K1_N_C_1 c;
         c = sumadd n1 c;
         m3 = extract_limb c; c = extract_shift c;
         c = muladd n3 SECP256K1_N_C_1 c;
         c = sumadd n2 c;
         m4 = extract_limb c; c = extract_shift c;
         c = sumadd_fast n3 c;
         m5 = extract_limb c; c = extract_fast_shift c;
         m6 = (ucast (fst c) :: u32);
         c = (m0, 0, 0) :: 64 acc;
         c = muladd_fast m4 SECP256K1_N_C_0 c;
         p0 = extract_limb c; c = extract_fast_shift c;
         c = sumadd_fast m1 c;
         c = muladd m5 SECP256K1_N_C_0 c;
         c = muladd m4 SECP256K1_N_C_1 c;
         p1 = extract_limb c; c = extract_shift c;
         c = sumadd m2 c;
         c = muladd (ucast m6) SECP256K1_N_C_0 c;
         c = muladd m5 SECP256K1_N_C_1 c;
         c = sumadd m4 c;
         p2 = extract_limb c; c = extract_shift c;
         c = sumadd_fast m3 c;
         c = muladd_fast (ucast m6) SECP256K1_N_C_1 c;
         c = sumadd_fast m5 c;
         p3 = extract_limb c; c = extract_fast_shift c;
         p4 = (ucast (fst c + ucast m6) :: u32);
         t = (ucast p0 + ucast SECP256K1_N_C_0 * ucast p4 :: u128);
         d0 = (ucast (t AND 0xFFFFFFFFFFFFFFFF) :: u64); t = drop_bit 64 t;
         t = t + (ucast p1 + ucast SECP256K1_N_C_1 * ucast p4);
         d1 = (ucast (t AND 0xFFFFFFFFFFFFFFFF) :: u64); t = drop_bit 64 t;
         t = t + (ucast p2 + ucast p4);
         d2 = (ucast (t AND 0xFFFFFFFFFFFFFFFF) :: u64); t = drop_bit 64 t;
         t = t + ucast p3;
         d3 = (ucast (t AND 0xFFFFFFFFFFFFFFFF) :: u64); t = drop_bit 64 t;
         r = sc_of_limbs_4x64 (d0, d1, d2, d3)
     in scalar_reduce_4x64 r (ucast t + of_bool (scalar_check_overflow_4x64 r)))"

subsection \<open>Products, shifts and constants\<close>

definition scalar_mul_4x64 :: "scalar_4x64 \<Rightarrow> scalar_4x64 \<Rightarrow> scalar_4x64" where
  "scalar_mul_4x64 a b = scalar_reduce_512_4x64 (scalar_mul_512_4x64 a b)"

definition scalar_shr_int_4x64 :: "scalar_4x64 \<Rightarrow> nat \<Rightarrow> scalar_4x64 \<times> int" where
  "scalar_shr_int_4x64 r n =
    (let ret = uint (sc_d0 r AND (push_bit n 1 - 1))
     in (sc_of_limbs_4x64 (drop_bit n (sc_d0 r) + push_bit (64 - n) (sc_d1 r),
           drop_bit n (sc_d1 r) + push_bit (64 - n) (sc_d2 r),
           drop_bit n (sc_d2 r) + push_bit (64 - n) (sc_d3 r),
           drop_bit n (sc_d3 r)), ret))"

definition scalar_sqr_4x64 :: "scalar_4x64 \<Rightarrow> scalar_4x64" where
  "scalar_sqr_4x64 a = scalar_reduce_512_4x64 (scalar_sqr_512_4x64 a)"

definition scalar_split_128_4x64 :: "scalar_4x64 \<Rightarrow> scalar_4x64 \<times> scalar_4x64" where
  "scalar_split_128_4x64 a =
    (sc_of_limbs_4x64 (sc_d0 a, sc_d1 a, 0, 0), sc_of_limbs_4x64 (sc_d2 a, sc_d3 a, 0, 0))"

definition scalar_eq_4x64 :: "scalar_4x64 \<Rightarrow> scalar_4x64 \<Rightarrow> bool" where
  "scalar_eq_4x64 a b = (((sc_d0 a XOR sc_d0 b) OR (sc_d1 a XOR sc_d1 b) OR (sc_d2 a XOR sc_d2 b)
     OR (sc_d3 a XOR sc_d3 b)) = 0)"

definition scalar_mul_shift_var_4x64 :: "scalar_4x64 \<Rightarrow> scalar_4x64 \<Rightarrow> nat \<Rightarrow> scalar_4x64" where
  "scalar_mul_shift_var_4x64 a b shift =
    (let l = scalar_mul_512_4x64 a b;
         shiftlimbs = shift div 64; shiftlow = shift mod 64; shifthigh = 64 - shiftlow;
         d0 = (if shift < 512 then drop_bit shiftlow (l ! (0 + shiftlimbs))
                 OR (if shift < 448 \<and> shiftlow \<noteq> 0 then push_bit shifthigh (l ! (1 + shiftlimbs)) else 0) else 0);
         d1 = (if shift < 448 then drop_bit shiftlow (l ! (1 + shiftlimbs))
                 OR (if shift < 384 \<and> shiftlow \<noteq> 0 then push_bit shifthigh (l ! (2 + shiftlimbs)) else 0) else 0);
         d2 = (if shift < 384 then drop_bit shiftlow (l ! (2 + shiftlimbs))
                 OR (if shift < 320 \<and> shiftlow \<noteq> 0 then push_bit shifthigh (l ! (3 + shiftlimbs)) else 0) else 0);
         d3 = (if shift < 320 then drop_bit shiftlow (l ! (3 + shiftlimbs)) else 0)
     in scalar_cadd_bit_4x64 (sc_of_limbs_4x64 (d0, d1, d2, d3)) 0
          (uint (drop_bit ((shift - 1) mod 64) (l ! ((shift - 1) div 64)) AND 1)))"

definition scalar_const_4x64 ::
  "u32 \<Rightarrow> u32 \<Rightarrow> u32 \<Rightarrow> u32 \<Rightarrow> u32 \<Rightarrow> u32 \<Rightarrow> u32 \<Rightarrow> u32 \<Rightarrow> scalar_4x64" where
  "scalar_const_4x64 d7 d6 d5 d4 d3 d2 d1 d0 = sc_of_limbs_4x64 (
     push_bit 32 (ucast d1) OR ucast d0, push_bit 32 (ucast d3) OR ucast d2,
     push_bit 32 (ucast d5) OR ucast d4, push_bit 32 (ucast d7) OR ucast d6)"

section \<open>Limbs\<close>

lemma sc_of_limbs_4x64_simps [simp]:
  "sc_d0 (sc_of_limbs_4x64 (t0, t1, t2, t3)) = t0" "sc_d1 (sc_of_limbs_4x64 (t0, t1, t2, t3)) = t1"
  "sc_d2 (sc_of_limbs_4x64 (t0, t1, t2, t3)) = t2" "sc_d3 (sc_of_limbs_4x64 (t0, t1, t2, t3)) = t3"
  by (simp_all add: sc_of_limbs_4x64_def)

lemma sc_val_of_limbs_4x64:
  "sc_val_4x64 (sc_of_limbs_4x64 (t0, t1, t2, t3)) = uint t0 + uint t1 * 2 ^ 64 + uint t2 * 2 ^ 128 + uint t3 * 2 ^ 192"
  by (simp add: sc_val_4x64_def)

lemma uint_u64_le: "0 \<le> uint (x :: u64)" "uint x \<le> 0xFFFFFFFFFFFFFFFF"
  using uint_lt2p[of x] by simp_all

lemma sc_val_range_4x64: "0 \<le> sc_val_4x64 a" "sc_val_4x64 a < 2 ^ 256"
  using uint_u64_le[of "sc_d0 a"] uint_u64_le[of "sc_d1 a"] uint_u64_le[of "sc_d2 a"] uint_u64_le[of "sc_d3 a"]
  unfolding sc_val_4x64_def by simp_all

lemma sc_val_limbs_4x64: "sc_val_4x64 a = limbs_val 64 [sc_d3 a, sc_d2 a, sc_d1 a, sc_d0 a]"
  by (simp add: sc_val_4x64_def)

lemma sc_val_inject_4x64: "sc_val_4x64 a = sc_val_4x64 b \<Longrightarrow> a = b"
  using limbs_val_inject[of "[sc_d3 a, sc_d2 a, sc_d1 a, sc_d0 a]" "[sc_d3 b, sc_d2 b, sc_d1 b, sc_d0 b]" 64]
    uint_lt2p[where 'a=64] unfolding sc_val_limbs_4x64 by simp

section \<open>The accumulator\<close>

definition acc_val :: "'c::len acc \<Rightarrow> int" where
  "acc_val c = (case c of (c0, c1, c2) \<Rightarrow> uint c0 + 2 ^ 64 * uint c1 + 2 ^ 128 * uint c2)"

definition aurep :: "'c::len acc \<Rightarrow> int \<Rightarrow> int \<Rightarrow> bool" where
  "aurep c i B \<longleftrightarrow> acc_val c = i \<and> i \<le> B"

lemma aurepD: "aurep c i B \<Longrightarrow> acc_val c = i" "aurep c i B \<Longrightarrow> i \<le> B"
  by (simp_all add: aurep_def)

lemma aurep_self: "aurep c i B \<Longrightarrow> aurep c (acc_val c) B"
  by (simp add: aurep_def)

lemma acc_val_nonneg: "0 \<le> acc_val c"
  by (simp add: acc_val_def split: prod.split)

named_theorems aurep_intros "exactness of the accumulator macros"

lemma aurep_init [aurep_intros]: "urep x i B \<Longrightarrow> aurep (x, 0, 0) i B"
  by (simp add: aurep_def acc_val_def urep_def)

lemma mul_parts:
  fixes a b :: u64
  assumes t: "t = (ucast a * ucast b :: u128)" and th: "th = (ucast (drop_bit 64 t) :: u64)" and lo: "lo = (ucast t :: u64)"
  shows "uint lo + 2 ^ 64 * uint th = uint a * uint b" "uint th \<le> 2 ^ 64 - 2"
proof -
  have t1: "urep t (uint a * uint b) (0xFFFFFFFFFFFFFFFF * 0xFFFFFFFFFFFFFFFF)"
    unfolding t by (intro urep_mult urep_ucast urep_self) (simp_all add: uint_u64_le)
  have "urep th (hi_bits 64 (uint a * uint b)) (0xFFFFFFFFFFFFFFFF * 0xFFFFFFFFFFFFFFFF div 2 ^ 64)"
    unfolding th by (intro urep_ucast urep_drop_bit t1) simp
  moreover have "uint lo = lo_bits 64 (uint a * uint b)"
    unfolding lo uint_ucast_mod lo_bits_def using urepD(1)[OF t1] by simp
  ultimately show "uint lo + 2 ^ 64 * uint th = uint a * uint b" "uint th \<le> 2 ^ 64 - 2"
    using lo_hi_bits[of 64 "uint a * uint b"] by (simp_all add: urep_def)
qed

lemma uint_carry [simp]: "uint (if P then 1 else 0 :: 'a::len word) = (if P then 1 else 0)"
  by simp

lemma muladd_val:
  fixes c :: "'c::len acc"
  assumes "acc_val c + uint a * uint b < 2 ^ (128 + LENGTH('c))"
  shows "acc_val (muladd a b c) = acc_val c + uint a * uint b"
proof -
  obtain c0 c1 c2 where c: "c = (c0, c1, c2)" by (cases c)
  define t where "t = (ucast a * ucast b :: u128)"
  define th where "th = (ucast (drop_bit 64 t) :: u64)"
  define lo where "lo = (ucast t :: u64)"
  define c0' where "c0' = c0 + lo"
  define k :: u64 where "k = (if c0' < lo then 1 else 0)"
  define c1' where "c1' = c1 + (th + k)"
  define k' :: "'c word" where "k' = (if c1' < th + k then 1 else 0)"
  have m: "muladd a b c = (c0', c1', c2 + k')"
    by (simp add: muladd_def c Let_def k'_def c1'_def k_def c0'_def lo_def th_def t_def)
  note mp = mul_parts[OF t_def th_def lo_def]
  have e1: "uint c0' + 2 ^ 64 * uint k = uint c0 + uint lo"
    using carry_out[of c0 lo] unfolding c0'_def[symmetric] k_def by simp
  have e2: "uint (th + k) = uint th + uint k"
    using mp(2) by (intro add_no_wrap) (simp add: k_def)
  have e3: "uint c1' + 2 ^ 64 * uint k' = uint c1 + uint th + uint k"
    using carry_out[of c1 "th + k"] e2 unfolding c1'_def[symmetric] k'_def by simp
  have tot: "uint c0' + 2 ^ 64 * uint c1' + 2 ^ 128 * (uint c2 + uint k') = acc_val c + uint a * uint b"
    using e1 e3 mp(1) unfolding c acc_val_def by simp
  have "uint c2 + uint k' < 2 ^ LENGTH('c)"
    using assms unfolding tot[symmetric] by (rule high_less[rotated]) simp
  then show ?thesis unfolding m using tot by (simp add: acc_val_def add_no_wrap)
qed

lemma low_acc:
  fixes c :: "'c::len acc"
  assumes "acc_val (c0, c1, c2 :: 'c::len word) < 2 ^ 128"
  shows "uint c2 = 0" "c2 = 0"
proof -
  show "uint c2 = 0"
  proof -
    have "uint c2 < 1"
      using high_less[of "uint c0 + 2 ^ 64 * uint c1" 128 "uint c2" 0] assms unfolding acc_val_def by simp
    then show ?thesis using uint_ge_0[of c2] by linarith
  qed
  then show "c2 = 0" by (simp add: word_uint_eq_iff)
qed

lemma muladd_fast_val:
  fixes c :: "'c::len acc"
  assumes b: "acc_val c + uint a * uint b < 2 ^ 128"
  shows "acc_val (muladd_fast a b c) = acc_val c + uint a * uint b"
proof -
  have "acc_val c + uint a * uint b < 2 ^ (128 + LENGTH('c))"
    using b by (rule order.strict_trans2) (intro power_increasing, simp_all)
  then have v: "acc_val (muladd a b c) = acc_val c + uint a * uint b"
    by (rule muladd_val)
  obtain c0 c1 c2 where c: "c = (c0, c1, c2)" by (cases c)
  obtain e0 e1 e2 where e: "muladd a b c = (e0, e1, e2)" by (cases "muladd a b c")
  have "c2 = 0" "e2 = 0"
    using low_acc(2)[of e0 e1 e2] low_acc(2)[of c0 c1 c2] b v c e
      order.strict_trans1[of "acc_val c" "acc_val c + uint a * uint b" "2 ^ 128"] by simp_all
  moreover have "muladd_fast a b c = (e0, e1, c2)"
    using e unfolding c muladd_def muladd_fast_def by (auto simp: Let_def)
  ultimately show ?thesis using v e by simp
qed

lemma widen_u64: "ucast (ucast a :: u128) = a" "drop_bit 64 (ucast a :: u128) = 0" for a :: u64
  using uint_lt2p[of a] by (simp_all add: word_uint_eq_iff uint_ucast_mod uint_drop_bit_div)

lemma sumadd_muladd: "sumadd a c = muladd a 1 c"
  by (simp add: sumadd_def muladd_def Let_def widen_u64 split: prod.split)

lemma sumadd_fast_muladd: "sumadd_fast a c = muladd_fast a 1 c"
  by (simp add: sumadd_fast_def muladd_fast_def Let_def widen_u64 split: prod.split)

lemma muladd2_val:
  fixes c :: "'c::len acc"
  assumes "acc_val c + 2 * (uint a * uint b) < 2 ^ (128 + LENGTH('c))"
  shows "acc_val (muladd2 a b c) = acc_val c + 2 * (uint a * uint b)"
proof -
  obtain c0 c1 c2 where c: "c = (c0, c1, c2)" by (cases c)
  define t where "t = (ucast a * ucast b :: u128)"
  define th where "th = (ucast (drop_bit 64 t) :: u64)"
  define lo where "lo = (ucast t :: u64)"
  define k1 where "k1 \<longleftrightarrow> th + th < th"
  define k2 where "k2 \<longleftrightarrow> lo + lo < lo"
  define k3 where "k3 \<longleftrightarrow> c0 + (lo + lo) < lo + lo"
  define w where "w = th + th + (if k2 then 1 else 0)"
  define w' where "w' = w + (if k3 then 1 else 0)"
  define k4 where "k4 \<longleftrightarrow> k3 \<and> w' = 0"
  define k5 where "k5 \<longleftrightarrow> c1 + w' < w'"
  have m: "muladd2 a b c = (c0 + (lo + lo), c1 + w',
     c2 + (if k1 then 1 else 0) + of_bool k4 + (if k5 then 1 else 0))"
    by (simp add: muladd2_def c Let_def k5_def k4_def w'_def w_def k3_def k2_def k1_def lo_def th_def t_def)
  note mp = mul_parts[OF t_def th_def lo_def]
  have e1: "uint (th + th) + 2 ^ 64 * of_bool k1 = 2 * uint th"
    using carry_out[of th th] unfolding k1_def of_bool_def by simp
  have e2: "uint (lo + lo) + 2 ^ 64 * of_bool k2 = 2 * uint lo"
    using carry_out[of lo lo] unfolding k2_def of_bool_def by simp
  have e3: "uint (c0 + (lo + lo)) + 2 ^ 64 * of_bool k3 = uint c0 + uint (lo + lo)"
    using carry_out[of c0 "lo + lo"] unfolding k3_def of_bool_def by simp
  have ev: "even (uint (th + th))"
    using e1 by (metis dvd_add_left_iff dvd_mult2 dvd_power dvd_triv_left zero_less_numeral)
  have "uint (th + th) < 2 ^ 64 - 1"
    using uint_lt2p[of "th + th"] ev by (cases "uint (th + th) = 2 ^ 64 - 1") simp_all
  then have e4: "uint w = uint (th + th) + of_bool k2"
    unfolding w_def by (subst add_no_wrap) simp_all
  have e5: "uint w' + 2 ^ 64 * of_bool k4 = uint w + of_bool k3"
    using carry_out[of w 1] unfolding w'_def k4_def by (cases k3; cases "w + 1 = 0") (simp_all add: word_less_1 word_uint_eq_iff)
  have e6: "uint (c1 + w') + 2 ^ 64 * of_bool k5 = uint c1 + uint w'"
    using carry_out[of c1 w'] unfolding k5_def of_bool_def by simp
  have tot: "uint (c0 + (lo + lo)) + 2 ^ 64 * uint (c1 + w') + 2 ^ 128 * (uint c2 + of_bool k1 + of_bool k4 + of_bool k5)
      = acc_val c + 2 * (uint a * uint b)"
    using e1 e2 e3 e4 e5 e6 mp(1) unfolding c acc_val_def by simp
  have "uint c2 + of_bool k1 + of_bool k4 + of_bool k5 < 2 ^ LENGTH('c)"
    using assms(1) unfolding tot[symmetric] by (rule high_less[rotated]) simp
  then have "uint (c2 + (if k1 then 1 else 0) + of_bool k4 + (if k5 then 1 else 0)) = uint c2 + of_bool k1 + of_bool k4 + of_bool k5"
    using add3_no_wrap[of c2 "if k1 then 1 else 0" "of_bool k4" "if k5 then 1 else 0"]
    by (simp add: of_bool_def)
  then show ?thesis unfolding m using tot by (simp add: acc_val_def)
qed

lemma aurep_macros [aurep_intros]:
  fixes c :: "'c::len acc"
  assumes c: "aurep c i C"
  shows "urep a x A \<Longrightarrow> urep b y B \<Longrightarrow> C + A * B < 2 ^ (128 + LENGTH('c)) \<Longrightarrow> aurep (muladd a b c) (i + x * y) (C + A * B)"
    and "urep a x A \<Longrightarrow> urep b y B \<Longrightarrow> C + A * B < 2 ^ 128 \<Longrightarrow> aurep (muladd_fast a b c) (i + x * y) (C + A * B)"
    and "urep a x A \<Longrightarrow> urep b y B \<Longrightarrow> C + 2 * (A * B) < 2 ^ (128 + LENGTH('c)) \<Longrightarrow>
      aurep (muladd2 a b c) (i + 2 * (x * y)) (C + 2 * (A * B))"
    and "urep a x A \<Longrightarrow> C + A < 2 ^ (128 + LENGTH('c)) \<Longrightarrow> aurep (sumadd a c) (i + x) (C + A)"
    and "urep a x A \<Longrightarrow> C + A < 2 ^ 128 \<Longrightarrow> aurep (sumadd_fast a c) (i + x) (C + A)"
proof -
  have m: "uint a * uint b \<le> A * B" if "urep a x A" "urep b y B" for a b :: u64 and x y A B
    using urepD[OF that(1)] urepD[OF that(2)] by (intro mult_mono) simp_all
  note d = aurepD[OF c]
  { assume ab: "urep a x A" "urep b y B"
    note m = m[OF ab] urepD(1)[OF ab(1)] urepD(1)[OF ab(2)]
    show "C + A * B < 2 ^ (128 + LENGTH('c)) \<Longrightarrow> aurep (muladd a b c) (i + x * y) (C + A * B)"
      using m d muladd_val[of c a b] by (simp only: aurep_def) simp
    show "C + A * B < 2 ^ 128 \<Longrightarrow> aurep (muladd_fast a b c) (i + x * y) (C + A * B)"
      using m d muladd_fast_val[of c a b] by (simp only: aurep_def) simp
    show "C + 2 * (A * B) < 2 ^ (128 + LENGTH('c)) \<Longrightarrow> aurep (muladd2 a b c) (i + 2 * (x * y)) (C + 2 * (A * B))"
      using m d muladd2_val[of c a b] by (simp only: aurep_def) simp }
  assume a: "urep a x A"
  note m = urepD(1,2)[OF a]
  show "C + A < 2 ^ (128 + LENGTH('c)) \<Longrightarrow> aurep (sumadd a c) (i + x) (C + A)"
    using m d muladd_val[of c a 1] unfolding sumadd_muladd by (simp only: aurep_def) simp
  show "C + A < 2 ^ 128 \<Longrightarrow> aurep (sumadd_fast a c) (i + x) (C + A)"
    using m d muladd_fast_val[of c a 1] unfolding sumadd_fast_muladd by (simp only: aurep_def) simp
qed

lemma aurep_extract [aurep_intros]:
  fixes c :: "'c::len acc"
  assumes c: "aurep c i B"
  shows "urep (extract_limb c) (lo_bits 64 i) (2 ^ 64 - 1)"
    and "LENGTH('c) \<le> 64 \<Longrightarrow> aurep (extract_shift c) (hi_bits 64 i) (B div 2 ^ 64)"
    and "B < 2 ^ 128 \<Longrightarrow> aurep (extract_fast_shift c) (hi_bits 64 i) (B div 2 ^ 64)"
proof -
  obtain c0 c1 c2 where e: "c = (c0, c1, c2)" by (cases c)
  have i: "i = uint c0 + 2 ^ 64 * (uint c1 + 2 ^ 64 * uint c2)" "i \<le> B"
    using aurepD[OF c] by (simp_all add: e acc_val_def)
  have d: "i div 2 ^ 64 = uint c1 + 2 ^ 64 * uint c2" "i mod 2 ^ 64 = uint c0"
    unfolding i(1) using uint_lt2p[of c0] radix_div_mod[of "uint c0" "2 ^ 64" "uint c1 + 2 ^ 64 * uint c2"]
    by simp_all
  show "urep (extract_limb c) (lo_bits 64 i) (2 ^ 64 - 1)"
    using d uint_lt2p[of c0] by (simp add: urep_def lo_bits_def extract_limb_def e)
  show "aurep (extract_shift c) (hi_bits 64 i) (B div 2 ^ 64)" if l: "LENGTH('c) \<le> 64"
  proof -
    have "(2::int) ^ LENGTH('c) \<le> 2 ^ 64" using l by (intro power_increasing) simp_all
    then have "uint (ucast c2 :: u64) = uint c2"
      using order.strict_trans2[OF uint_lt2p[of c2]] by (simp add: uint_ucast_mod)
    then show ?thesis
      using d i(2) zdiv_mono1[OF i(2), of "2 ^ 64"] by (simp add: aurep_def acc_val_def extract_shift_def e hi_bits_def)
  qed
  show "aurep (extract_fast_shift c) (hi_bits 64 i) (B div 2 ^ 64)" if "B < 2 ^ 128"
    using d i(2) zdiv_mono1[OF i(2), of "2 ^ 64"] low_acc[of c0 c1 c2] aurepD[OF c] that
    by (simp add: aurep_def acc_val_def extract_fast_shift_def e hi_bits_def)
qed

text \<open>One column of a product: the extracted limb and the carried accumulator.\<close>

lemma acc_column:
  fixes c :: "'c::len acc"
  assumes "l = extract_limb c" "c' = extract_shift c" "aurep c i B" "LENGTH('c) \<le> 64" "B div 2 ^ 64 \<le> C"
  shows "uint l + 2 ^ 64 * acc_val c' = i \<and> aurep c' (acc_val c') C"
  using urepD(1)[OF aurep_extract(1)[OF assms(3)]] aurep_extract(2)[OF assms(3,4)] assms lo_hi_bits[of 64 i]
  by (auto simp: aurep_def)

lemma acc_column_fast:
  fixes c :: "'c::len acc"
  assumes "l = extract_limb c" "c' = extract_fast_shift c" "aurep c i B" "B < 2 ^ 128" "B div 2 ^ 64 \<le> C"
  shows "uint l + 2 ^ 64 * acc_val c' = i \<and> aurep c' (acc_val c') C"
  using urepD(1)[OF aurep_extract(1)[OF assms(3)]] aurep_extract(3)[OF assms(3,4)] assms lo_hi_bits[of 64 i]
  by (auto simp: aurep_def)

lemma acc_fst: "aurep c i B \<Longrightarrow> B < 2 ^ 64 \<Longrightarrow> urep (fst c) i B"
proof -
  assume c: "aurep c i B" "B < 2 ^ 64"
  obtain c0 c1 c2 where e: "c = (c0, c1, c2)" by (cases c)
  have v: "uint c0 + 2 ^ 64 * uint c1 + 2 ^ 128 * uint c2 = i" "i < 2 ^ 64"
    using c unfolding e aurep_def acc_val_def by simp_all
  have "uint c2 = 0" using low_acc(1)[of c0 c1 c2] v unfolding acc_val_def by simp
  moreover have "uint c1 < 1" using high_less[of "uint c0" 64 "uint c1" 0] v calculation by simp
  then have "uint c1 = 0" using uint_ge_0[of c1] by linarith
  ultimately show ?thesis using v(1) c by (simp add: e aurep_def urep_def)
qed

lemma urep_u64: "urep (x :: u64) (uint x) 0xFFFFFFFFFFFFFFFF"
  by (rule urep_self) (rule uint_u64_le)

lemma scalar_mul_512_4x64_algebra:
  fixes l0 :: int
  assumes "l0 + 2 ^ 64 * c2 = 0 + A0 * B0"
    "l1 + 2 ^ 64 * c5 = c2 + A0 * B1 + A1 * B0"
    "l2 + 2 ^ 64 * c9 = c5 + A0 * B2 + A1 * B1 + A2 * B0"
    "l3 + 2 ^ 64 * c14 = c9 + A0 * B3 + A1 * B2 + A2 * B1 + A3 * B0"
    "l4 + 2 ^ 64 * c18 = c14 + A1 * B3 + A2 * B2 + A3 * B1"
    "l5 + 2 ^ 64 * c21 = c18 + A2 * B3 + A3 * B2"
    "l6 + 2 ^ 64 * c23 = c21 + A3 * B3"
  shows "(A0 + A1*2^64 + A2*2^128 + A3*2^192) * (B0 + B1*2^64 + B2*2^128 + B3*2^192)
    = l0 + l1*2^64 + l2*2^128 + l3*2^192 + l4*2^256 + l5*2^320 + l6*2^384 + c23*2^448"
  using assms by algebra

lemma scalar_mul_512_4x64_val:
  assumes "scalar_mul_512_4x64 a b = l"
  shows "length l = 8 \<and> limbs_val 64 (rev l) = sc_val_4x64 a * sc_val_4x64 b"
  using assms unfolding scalar_mul_512_4x64_def
  apply (elim LetE)
  subgoal premises p for c0 c1 l0 c2 c3 c4 l1 c5 c6 c7 c8 l2 c9 c10 c11 c12 c13 l3 c14 c15 c16 c17 l4 c18 c19 c20 l5 c21 c22 l6 c23 l7
  proof -
    have k0: "uint l0 + 2 ^ 64 * acc_val c2 = 0 + uint (sc_d0 a) * uint (sc_d0 b) \<and> aurep c2 (acc_val c2) 0xFFFFFFFFFFFFFFFE"
      by (rule acc_column_fast[OF p(3,4)], unfold p(1-2), (rule aurep_intros urep_intros urep_u64 | simp)+)
    have k1: "uint l1 + 2 ^ 64 * acc_val c5 = acc_val c2 + uint (sc_d0 a) * uint (sc_d1 b) + uint (sc_d1 a) * uint (sc_d0 b) \<and> aurep c5 (acc_val c5) 0x1FFFFFFFFFFFFFFFD"
      by (rule acc_column[OF p(7,8)], unfold p(5-6), (rule aurep_intros urep_intros urep_u64 k0[THEN conjunct2] | simp)+)
    have k2: "uint l2 + 2 ^ 64 * acc_val c9 = acc_val c5 + uint (sc_d0 a) * uint (sc_d2 b) + uint (sc_d1 a) * uint (sc_d1 b) + uint (sc_d2 a) * uint (sc_d0 b) \<and> aurep c9 (acc_val c9) 0x2FFFFFFFFFFFFFFFC"
      by (rule acc_column[OF p(12,13)], unfold p(9-11), (rule aurep_intros urep_intros urep_u64 k1[THEN conjunct2] | simp)+)
    have k3: "uint l3 + 2 ^ 64 * acc_val c14 = acc_val c9 + uint (sc_d0 a) * uint (sc_d3 b) + uint (sc_d1 a) * uint (sc_d2 b) + uint (sc_d2 a) * uint (sc_d1 b) + uint (sc_d3 a) * uint (sc_d0 b) \<and> aurep c14 (acc_val c14) 0x3FFFFFFFFFFFFFFFB"
      by (rule acc_column[OF p(18,19)], unfold p(14-17), (rule aurep_intros urep_intros urep_u64 k2[THEN conjunct2] | simp)+)
    have k4: "uint l4 + 2 ^ 64 * acc_val c18 = acc_val c14 + uint (sc_d1 a) * uint (sc_d3 b) + uint (sc_d2 a) * uint (sc_d2 b) + uint (sc_d3 a) * uint (sc_d1 b) \<and> aurep c18 (acc_val c18) 0x2FFFFFFFFFFFFFFFD"
      by (rule acc_column[OF p(23,24)], unfold p(20-22), (rule aurep_intros urep_intros urep_u64 k3[THEN conjunct2] | simp)+)
    have k5: "uint l5 + 2 ^ 64 * acc_val c21 = acc_val c18 + uint (sc_d2 a) * uint (sc_d3 b) + uint (sc_d3 a) * uint (sc_d2 b) \<and> aurep c21 (acc_val c21) 0x1FFFFFFFFFFFFFFFE"
      by (rule acc_column[OF p(27,28)], unfold p(25-26), (rule aurep_intros urep_intros urep_u64 k4[THEN conjunct2] | simp)+)
    have k6: "uint l6 + 2 ^ 64 * acc_val c23 = acc_val c21 + uint (sc_d3 a) * uint (sc_d3 b) \<and> aurep c23 (acc_val c23) 0xFFFFFFFFFFFFFFFF"
      by (rule acc_column_fast[OF p(30,31)], unfold p(29), (rule aurep_intros urep_intros urep_u64 k5[THEN conjunct2] | simp)+)
    have l7: "uint l7 = acc_val c23"
      unfolding p(32) by (rule urepD(1)[OF acc_fst[OF k6[THEN conjunct2]]]) simp
    note alg = scalar_mul_512_4x64_algebra[OF k0[THEN conjunct1] k1[THEN conjunct1] k2[THEN conjunct1] k3[THEN conjunct1] k4[THEN conjunct1] k5[THEN conjunct1] k6[THEN conjunct1]]
    show ?thesis
      unfolding p(33)[symmetric] sc_val_4x64_def by (simp only: alg l7[symmetric]) simp
  qed
  done

lemma scalar_sqr_512_4x64_algebra:
  fixes l0 :: int
  assumes "l0 + 2 ^ 64 * c2 = 0 + A0 * A0"
    "l1 + 2 ^ 64 * c4 = c2 + 2 * (A0 * A1)"
    "l2 + 2 ^ 64 * c7 = c4 + 2 * (A0 * A2) + A1 * A1"
    "l3 + 2 ^ 64 * c10 = c7 + 2 * (A0 * A3) + 2 * (A1 * A2)"
    "l4 + 2 ^ 64 * c13 = c10 + 2 * (A1 * A3) + A2 * A2"
    "l5 + 2 ^ 64 * c15 = c13 + 2 * (A2 * A3)"
    "l6 + 2 ^ 64 * c17 = c15 + A3 * A3"
  shows "(A0 + A1*2^64 + A2*2^128 + A3*2^192) * (A0 + A1*2^64 + A2*2^128 + A3*2^192)
    = l0 + l1*2^64 + l2*2^128 + l3*2^192 + l4*2^256 + l5*2^320 + l6*2^384 + c17*2^448"
  using assms by algebra

lemma scalar_sqr_512_4x64_val:
  assumes "scalar_sqr_512_4x64 a = l"
  shows "length l = 8 \<and> limbs_val 64 (rev l) = sc_val_4x64 a * sc_val_4x64 a"
  using assms unfolding scalar_sqr_512_4x64_def
  apply (elim LetE)
  subgoal premises p for c0 c1 l0 c2 c3 l1 c4 c5 c6 l2 c7 c8 c9 l3 c10 c11 c12 l4 c13 c14 l5 c15 c16 l6 c17 l7
  proof -
    have k0: "uint l0 + 2 ^ 64 * acc_val c2 = 0 + uint (sc_d0 a) * uint (sc_d0 a) \<and> aurep c2 (acc_val c2) 0xFFFFFFFFFFFFFFFE"
      by (rule acc_column_fast[OF p(3,4)], unfold p(1-2), (rule aurep_intros urep_intros urep_u64 | simp)+)
    have k1: "uint l1 + 2 ^ 64 * acc_val c4 = acc_val c2 + 2 * (uint (sc_d0 a) * uint (sc_d1 a)) \<and> aurep c4 (acc_val c4) 0x1FFFFFFFFFFFFFFFD"
      by (rule acc_column[OF p(6,7)], unfold p(5), (rule aurep_intros urep_intros urep_u64 k0[THEN conjunct2] | simp)+)
    have k2: "uint l2 + 2 ^ 64 * acc_val c7 = acc_val c4 + 2 * (uint (sc_d0 a) * uint (sc_d2 a)) + uint (sc_d1 a) * uint (sc_d1 a) \<and> aurep c7 (acc_val c7) 0x2FFFFFFFFFFFFFFFC"
      by (rule acc_column[OF p(10,11)], unfold p(8-9), (rule aurep_intros urep_intros urep_u64 k1[THEN conjunct2] | simp)+)
    have k3: "uint l3 + 2 ^ 64 * acc_val c10 = acc_val c7 + 2 * (uint (sc_d0 a) * uint (sc_d3 a)) + 2 * (uint (sc_d1 a) * uint (sc_d2 a)) \<and> aurep c10 (acc_val c10) 0x3FFFFFFFFFFFFFFFB"
      by (rule acc_column[OF p(14,15)], unfold p(12-13), (rule aurep_intros urep_intros urep_u64 k2[THEN conjunct2] | simp)+)
    have k4: "uint l4 + 2 ^ 64 * acc_val c13 = acc_val c10 + 2 * (uint (sc_d1 a) * uint (sc_d3 a)) + uint (sc_d2 a) * uint (sc_d2 a) \<and> aurep c13 (acc_val c13) 0x2FFFFFFFFFFFFFFFD"
      by (rule acc_column[OF p(18,19)], unfold p(16-17), (rule aurep_intros urep_intros urep_u64 k3[THEN conjunct2] | simp)+)
    have k5: "uint l5 + 2 ^ 64 * acc_val c15 = acc_val c13 + 2 * (uint (sc_d2 a) * uint (sc_d3 a)) \<and> aurep c15 (acc_val c15) 0x1FFFFFFFFFFFFFFFE"
      by (rule acc_column[OF p(21,22)], unfold p(20), (rule aurep_intros urep_intros urep_u64 k4[THEN conjunct2] | simp)+)
    have k6: "uint l6 + 2 ^ 64 * acc_val c17 = acc_val c15 + uint (sc_d3 a) * uint (sc_d3 a) \<and> aurep c17 (acc_val c17) 0xFFFFFFFFFFFFFFFF"
      by (rule acc_column_fast[OF p(24,25)], unfold p(23), (rule aurep_intros urep_intros urep_u64 k5[THEN conjunct2] | simp)+)
    have l7: "uint l7 = acc_val c17"
      unfolding p(26) by (rule urepD(1)[OF acc_fst[OF k6[THEN conjunct2]]]) simp
    note alg = scalar_sqr_512_4x64_algebra[OF k0[THEN conjunct1] k1[THEN conjunct1] k2[THEN conjunct1] k3[THEN conjunct1] k4[THEN conjunct1] k5[THEN conjunct1] k6[THEN conjunct1]]
    show ?thesis
      unfolding p(27)[symmetric] sc_val_4x64_def by (simp only: alg l7[symmetric]) simp
  qed
  done

section \<open>Comparison with the order and reduction\<close>

lemmas scalar_N_4x64 = SECP256K1_N_0_def SECP256K1_N_1_def SECP256K1_N_2_def SECP256K1_N_3_def
lemmas scalar_NC_4x64 = SECP256K1_N_C_0_def SECP256K1_N_C_1_def SECP256K1_N_C_2_def scalar_N_4x64
lemmas scalar_NH_4x64 = SECP256K1_N_H_0_def SECP256K1_N_H_1_def SECP256K1_N_H_2_def SECP256K1_N_H_3_def

lemma scalar_NC_val_4x64:
  "SECP256K1_N_C_0 = 0x402DA1732FC9BEBF" "SECP256K1_N_C_1 = 0x4551231950B75FC4" "SECP256K1_N_C_2 = 1"
  by (simp_all add: scalar_NC_4x64)

lemma sc_val_le_4x64:
  "sc_val_4x64 a \<le> sc_val_4x64 b \<longleftrightarrow> sc_d3 a < sc_d3 b \<or> sc_d3 a = sc_d3 b \<and> (sc_d2 a < sc_d2 b
    \<or> sc_d2 a = sc_d2 b \<and> (sc_d1 a < sc_d1 b \<or> sc_d1 a = sc_d1 b \<and> sc_d0 a \<le> sc_d0 b))"
proof -
  have v: "sc_val_4x64 c = uint (sc_d0 c) + 2 ^ 64 * (uint (sc_d1 c) + 2 ^ 64 * (uint (sc_d2 c) + 2 ^ 64 * uint (sc_d3 c)))"
    for c by (simp add: sc_val_4x64_def)
  have l: "uint (x :: u64) < 2 ^ 64" for x using uint_lt2p[of x] by simp
  show ?thesis
    unfolding v by (simp only: radix_le radix_less radix_inject uint_ge_0 l word_less_def word_le_def word_uint_eq_iff) blast
qed

lemma scalar_check_overflow_4x64_iff: "scalar_check_overflow_4x64 a \<longleftrightarrow> secp_n \<le> sc_val_4x64 a"
proof -
  have n: "secp_n = sc_val_4x64 (sc_of_limbs_4x64 (SECP256K1_N_0, SECP256K1_N_1, SECP256K1_N_2, SECP256K1_N_3))"
    by (simp add: sc_val_of_limbs_4x64 scalar_N_4x64 secp_n_def)
  have "sc_d3 a \<le> SECP256K1_N_3"
    using uint_u64_le(2)[of "sc_d3 a"] by (simp add: SECP256K1_N_3_def word_le_def)
  then show ?thesis
    unfolding n sc_val_le_4x64 sc_of_limbs_4x64_simps scalar_check_overflow_4x64_def Let_def by auto
qed

lemma scalar_is_high_4x64_iff: "scalar_is_high_4x64 a \<longleftrightarrow> secp_n div 2 < sc_val_4x64 a"
proof -
  have n: "secp_n div 2 = sc_val_4x64 (sc_of_limbs_4x64 (SECP256K1_N_H_0, SECP256K1_N_H_1, SECP256K1_N_H_2, SECP256K1_N_H_3))"
    by (simp add: sc_val_of_limbs_4x64 scalar_NH_4x64 secp_n_def)
  have "sc_d2 a \<le> SECP256K1_N_H_2"
    using uint_u64_le(2)[of "sc_d2 a"] by (simp add: SECP256K1_N_H_2_def word_le_def)
  then show ?thesis
    unfolding n not_le[symmetric] sc_val_le_4x64 sc_of_limbs_4x64_simps scalar_is_high_4x64_def Let_def by auto
qed

text \<open>Four additions with carry, as the functions below unroll them.\<close>

lemma carry_chain_4x64:
  fixes t0 t1 t2 t3 c0 c1 c2 c3 :: u128 and d0 d1 d2 d3 :: u64
  assumes t0: "t0 = x0" and d0: "d0 = ucast (t0 AND 0xFFFFFFFFFFFFFFFF)" and c0: "c0 = drop_bit 64 t0"
    and t1: "t1 = c0 + x1" and d1: "d1 = ucast (t1 AND 0xFFFFFFFFFFFFFFFF)" and c1: "c1 = drop_bit 64 t1"
    and t2: "t2 = c1 + x2" and d2: "d2 = ucast (t2 AND 0xFFFFFFFFFFFFFFFF)" and c2: "c2 = drop_bit 64 t2"
    and t3: "t3 = c2 + x3" and d3: "d3 = ucast (t3 AND 0xFFFFFFFFFFFFFFFF)" and c3: "c3 = drop_bit 64 t3"
    and x: "urep x0 y0 (2 ^ 127)" "urep x1 y1 (2 ^ 127)" "urep x2 y2 (2 ^ 127)" "urep x3 y3 (2 ^ 127)"
  shows "uint d0 + uint d1 * 2 ^ 64 + uint d2 * 2 ^ 128 + uint d3 * 2 ^ 192 + uint c3 * 2 ^ 256
    = y0 + y1 * 2 ^ 64 + y2 * 2 ^ 128 + y3 * 2 ^ 192"
proof -
  have s: "uint (ucast (t AND 0xFFFFFFFFFFFFFFFF) :: u64) + 2 ^ 64 * uint (drop_bit 64 t) = uint t"
    "uint (drop_bit 64 t) \<le> 2 ^ 64" for t :: u128
  proof -
    have t: "urep t (uint t) (2 ^ 128 - 1)" using uint_lt2p[of t] by (simp add: urep_def)
    have "urep (ucast (t AND 0xFFFFFFFFFFFFFFFF) :: u64) (lo_bits 64 (uint t)) (2 ^ 64 - 1)"
      by (intro urep_ucast urep_and_masks(1)[OF t]) simp
    with urep_drop_bit[OF t, of 64] lo_hi_bits[of 64 "uint t"]
    show "uint (ucast (t AND 0xFFFFFFFFFFFFFFFF) :: u64) + 2 ^ 64 * uint (drop_bit 64 t) = uint t"
      "uint (drop_bit 64 t) \<le> 2 ^ 64" by (simp_all add: urep_def)
  qed
  have e: "uint t1 = uint c0 + y1" "uint t2 = uint c1 + y2" "uint t3 = uint c2 + y3"
    using urepD(1)[OF urep_add[OF urep_self[OF s(2)[of t0]] x(2)]] urepD(1)[OF urep_add[OF urep_self[OF s(2)[of t1]] x(3)]]
      urepD(1)[OF urep_add[OF urep_self[OF s(2)[of t2]] x(4)]]
    unfolding t1 t2 t3 c0 c1 c2 by simp_all
  show ?thesis
    using s(1)[of t0] s(1)[of t1] s(1)[of t2] s(1)[of t3] e urepD(1)[OF x(1)]
    unfolding c3 d0 d1 d2 d3 c0[symmetric] c1[symmetric] c2[symmetric] t0[symmetric] by simp
qed

lemma scalar_reduce_4x64_val:
  assumes "scalar_reduce_4x64 r over = s" and o: "uint over \<le> 1"
  shows "sc_val_4x64 s = (sc_val_4x64 r + uint over * (2 ^ 256 - secp_n)) mod 2 ^ 256"
  using assms(1) unfolding scalar_reduce_4x64_def scalar_NC_val_4x64
  apply (elim LetE)
  subgoal premises p for t0 d0 c0 t1 d1 c1 t2 d2 c2 t3 d3
  proof -
    note u = urep_intros urep_self[OF o] urep_u64
    have "uint d0 + uint d1 * 2 ^ 64 + uint d2 * 2 ^ 128 + uint d3 * 2 ^ 192 + uint (drop_bit 64 t3) * 2 ^ 256
      = (uint (sc_d0 r) + uint over * 0x402DA1732FC9BEBF) + (uint (sc_d1 r) + uint over * 0x4551231950B75FC4) * 2 ^ 64
        + (uint (sc_d2 r) + uint over * 1) * 2 ^ 128 + uint (sc_d3 r) * 2 ^ 192"
      by (rule carry_chain_4x64[OF p(1-11) refl]; rule urep_weaken, (rule urep_add urep_mult urep_ucast urep_numeral urep_1 urep_self[OF o] urep_u64 | simp)+)
    then have "sc_val_4x64 s + 2 ^ 256 * uint (drop_bit 64 t3) = sc_val_4x64 r + uint over * (2 ^ 256 - secp_n)"
      unfolding p(12)[symmetric] sc_val_of_limbs_4x64 sc_val_4x64_def secp_n_def by simp
    then show ?thesis
      using radix_div_mod(2)[OF sc_val_range_4x64] by metis
  qed
  done

lemma scalar_final_reduce_4x64:
  assumes v: "V = sc_val_4x64 r + 2 ^ 256 * uint c" "V < 2 * secp_n"
  shows "sc_val_4x64 (scalar_reduce_4x64 r (ucast (c :: u128) + of_bool (scalar_check_overflow_4x64 r))) = V mod secp_n"
    and "ucast c + of_bool (scalar_check_overflow_4x64 r) \<noteq> (0::u32) \<longleftrightarrow> secp_n \<le> V"
proof -
  have n: "secp_n < 2 ^ 256" "2 ^ 256 < 2 * secp_n" by (simp_all add: secp_n_def)
  note r = sc_val_range_4x64[of r] uint_ge_0[of c]
  define ov where "ov = (ucast c + of_bool (scalar_check_overflow_4x64 r) :: u32)"
  have "2 ^ 256 * uint c < 2 ^ 256 * 2" using v n r by linarith
  then have "uint c < 2" by simp
  then have "uint c = 0 \<or> uint c = 1" using r(3) by linarith
  then have c1: "uint c = 0 \<or> uint c = 1 \<and> sc_val_4x64 r < secp_n"
    using v n r by auto
  then have "c = 0 \<or> c = 1 \<and> \<not> scalar_check_overflow_4x64 r"
    by (auto simp: word_uint_eq_iff scalar_check_overflow_4x64_iff)
  then have o: "uint ov = of_bool (secp_n \<le> V)"
    using v n r unfolding ov_def by (auto simp: scalar_check_overflow_4x64_iff)
  then show "ucast c + of_bool (scalar_check_overflow_4x64 r) \<noteq> (0::u32) \<longleftrightarrow> secp_n \<le> V"
    unfolding ov_def[symmetric] by (auto simp: word_uint_eq_iff)
  have "sc_val_4x64 (scalar_reduce_4x64 r ov) = (sc_val_4x64 r + uint ov * (2 ^ 256 - secp_n)) mod 2 ^ 256"
    using o by (intro scalar_reduce_4x64_val[OF refl]) simp
  also have "\<dots> = V mod secp_n"
  proof (cases "secp_n \<le> V")
    case True
    then have "sc_val_4x64 r + uint ov * (2 ^ 256 - secp_n) = V - secp_n + 2 ^ 256 * (1 - uint c)"
      using o v by simp
    then have "(sc_val_4x64 r + uint ov * (2 ^ 256 - secp_n)) mod 2 ^ 256 = V - secp_n"
      using True v n by (simp only: mod_mult_self2) simp
    then show ?thesis using True v mod_sub_once[of secp_n V] by simp
  next
    case False
    then have "uint c = 0" using v r n c1 by auto
    then show ?thesis using False o v r by simp
  qed
  finally show "sc_val_4x64 (scalar_reduce_4x64 r (ucast c + of_bool (scalar_check_overflow_4x64 r))) = V mod secp_n"
    unfolding ov_def .
qed

lemma scalar_limbs8:
  fixes l :: "u64 list"
  assumes "length l = 8"
  shows "limbs_val 64 (rev l) = uint (l ! 0) + uint (l ! 1) * 2 ^ 64 + uint (l ! 2) * 2 ^ 128 + uint (l ! 3) * 2 ^ 192
    + uint (l ! 4) * 2 ^ 256 + uint (l ! 5) * 2 ^ 320 + uint (l ! 6) * 2 ^ 384 + uint (l ! 7) * 2 ^ 448"
proof -
  obtain l0 l1 l2 l3 l4 l5 l6 l7 where "l = [l0, l1, l2, l3, l4, l5, l6, l7]"
    using assms by (auto simp: eval_nat_numeral length_Suc_conv)
  then show ?thesis by simp
qed

lemma scalar_reduce_512_4x64_algebra:
  fixes n0 :: int
  assumes "m0 + 2 ^ 64 * c2 = L0 + n0 * 0x402DA1732FC9BEBF"
    "m1 + 2 ^ 64 * c6 = c2 + L1 + n1 * 0x402DA1732FC9BEBF + n0 * 0x4551231950B75FC4"
    "m2 + 2 ^ 64 * c11 = c6 + L2 + n2 * 0x402DA1732FC9BEBF + n1 * 0x4551231950B75FC4 + n0"
    "m3 + 2 ^ 64 * c16 = c11 + L3 + n3 * 0x402DA1732FC9BEBF + n2 * 0x4551231950B75FC4 + n1"
    "m4 + 2 ^ 64 * c19 = c16 + n3 * 0x4551231950B75FC4 + n2"
    "m5 + 2 ^ 64 * c21 = c19 + n3"
    "p0 + 2 ^ 64 * c24 = m0 + m4 * 0x402DA1732FC9BEBF"
    "p1 + 2 ^ 64 * c28 = c24 + m1 + m5 * 0x402DA1732FC9BEBF + m4 * 0x4551231950B75FC4"
    "p2 + 2 ^ 64 * c33 = c28 + m2 + m6 * 0x402DA1732FC9BEBF + m5 * 0x4551231950B75FC4 + m4"
    "p3 + 2 ^ 64 * c37 = c33 + m3 + m6 * 0x4551231950B75FC4 + m5"
    "m6 = c21" "p4 = c37 + m6"
  shows "L0 + L1*2^64 + L2*2^128 + L3*2^192 + n0*2^256 + n1*2^320 + n2*2^384 + n3*2^448
    = (p0 + 0x402DA1732FC9BEBF * p4) + (p1 + 0x4551231950B75FC4 * p4) * 2^64 + (p2 + p4) * 2^128 + p3 * 2^192
      + 0xFFFFFFFFFFFFFFFFFFFFFFFFFFFFFFFEBAAEDCE6AF48A03BBFD25E8CD0364141
        * (n0 + n1*2^64 + n2*2^128 + n3*2^192 + m4 + m5*2^64 + m6*2^128 + p4)"
  using assms by algebra

lemma scalar_reduce_512_4x64_val:
  assumes "length l = 8"
  shows "sc_val_4x64 (scalar_reduce_512_4x64 l) = limbs_val 64 (rev l) mod secp_n"
proof -
  obtain s where "scalar_reduce_512_4x64 l = s" by simp
  then have "sc_val_4x64 s = limbs_val 64 (rev l) mod secp_n"
  unfolding scalar_reduce_512_4x64_def scalar_NC_val_4x64
  apply (elim LetE)
  subgoal premises p for n0 n1 n2 n3 c0 c1 m0 c2 c3 c4 c5 m1 c6 c7 c8 c9 c10 m2 c11 c12 c13 c14 c15 m3 c16 c17 c18 m4 c19 c20 m5 c21 m6 c22 c23 p0 c24 c25 c26 c27 p1 c28 c29 c30 c31 c32 p2 c33 c34 c35 c36 p3 c37 p4 t0 d0 t1 t2 d1 t3 t4 d2 t5 t6 d3 t7 r
  proof -
    have k0: "uint m0 + 2 ^ 64 * acc_val c2 = uint (l ! 0) + uint n0 * 0x402DA1732FC9BEBF \<and> aurep c2 (acc_val c2) 0x402DA1732FC9BEBF"
      by (rule acc_column_fast[OF p(7,8)], unfold p(5-6), (rule aurep_intros urep_add urep_mult urep_ucast urep_numeral urep_u64 | simp)+)
    have k1: "uint m1 + 2 ^ 64 * acc_val c6 = acc_val c2 + uint (l ! 1) + uint n1 * 0x402DA1732FC9BEBF + uint n0 * 0x4551231950B75FC4 \<and> aurep c6 (acc_val c6) 0x857EC48C80811E83"
      by (rule acc_column[OF p(12,13)], unfold p(9-11), (rule aurep_intros urep_add urep_mult urep_ucast urep_numeral urep_u64 k0[THEN conjunct2] | simp)+)
    have k2: "uint m2 + 2 ^ 64 * acc_val c11 = acc_val c6 + uint (l ! 2) + uint n2 * 0x402DA1732FC9BEBF + uint n1 * 0x4551231950B75FC4 + uint n0 \<and> aurep c11 (acc_val c11) 0x857EC48C80811E84"
      by (rule acc_column[OF p(18,19)], unfold p(14-17), (rule aurep_intros urep_add urep_mult urep_ucast urep_numeral urep_u64 k1[THEN conjunct2] | simp)+)
    have k3: "uint m3 + 2 ^ 64 * acc_val c16 = acc_val c11 + uint (l ! 3) + uint n3 * 0x402DA1732FC9BEBF + uint n2 * 0x4551231950B75FC4 + uint n1 \<and> aurep c16 (acc_val c16) 0x857EC48C80811E84"
      by (rule acc_column[OF p(24,25)], unfold p(20-23), (rule aurep_intros urep_add urep_mult urep_ucast urep_numeral urep_u64 k2[THEN conjunct2] | simp)+)
    have k4: "uint m4 + 2 ^ 64 * acc_val c19 = acc_val c16 + uint n3 * 0x4551231950B75FC4 + uint n2 \<and> aurep c19 (acc_val c19) 0x4551231950B75FC5"
      by (rule acc_column[OF p(28,29)], unfold p(26-27), (rule aurep_intros urep_add urep_mult urep_ucast urep_numeral urep_u64 k3[THEN conjunct2] | simp)+)
    have k5: "uint m5 + 2 ^ 64 * acc_val c21 = acc_val c19 + uint n3 \<and> aurep c21 (acc_val c21) 0x1"
      by (rule acc_column_fast[OF p(31,32)], unfold p(30), (rule aurep_intros urep_add urep_mult urep_ucast urep_numeral urep_u64 k4[THEN conjunct2] | simp)+)
    have m6: "urep m6 (uint m6) 0x1" and m6e: "uint m6 = acc_val c21"
      using urep_ucast[OF acc_fst[OF k5[THEN conjunct2]], where 'b=32] unfolding p(33) by (simp_all add: urep_def)
    have k6: "uint p0 + 2 ^ 64 * acc_val c24 = uint m0 + uint m4 * 0x402DA1732FC9BEBF \<and> aurep c24 (acc_val c24) 0x402DA1732FC9BEBF"
      by (rule acc_column_fast[OF p(36,37)], unfold p(34-35), (rule aurep_intros urep_add urep_mult urep_ucast urep_numeral m6 urep_u64 | simp)+)
    have k7: "uint p1 + 2 ^ 64 * acc_val c28 = acc_val c24 + uint m1 + uint m5 * 0x402DA1732FC9BEBF + uint m4 * 0x4551231950B75FC4 \<and> aurep c28 (acc_val c28) 0x857EC48C80811E83"
      by (rule acc_column[OF p(41,42)], unfold p(38-40), (rule aurep_intros urep_add urep_mult urep_ucast urep_numeral m6 urep_u64 k6[THEN conjunct2] | simp)+)
    have k8: "uint p2 + 2 ^ 64 * acc_val c33 = acc_val c28 + uint m2 + uint m6 * 0x402DA1732FC9BEBF + uint m5 * 0x4551231950B75FC4 + uint m4 \<and> aurep c33 (acc_val c33) 0x4551231950B75FC6"
      by (rule acc_column[OF p(47,48)], unfold p(43-46), (rule aurep_intros urep_add urep_mult urep_ucast urep_numeral m6 urep_u64 k7[THEN conjunct2] | simp)+)
    have k9: "uint p3 + 2 ^ 64 * acc_val c37 = acc_val c33 + uint m3 + uint m6 * 0x4551231950B75FC4 + uint m5 \<and> aurep c37 (acc_val c37) 0x2"
      by (rule acc_column_fast[OF p(52,53)], unfold p(49-51), (rule aurep_intros urep_add urep_mult urep_ucast urep_numeral m6 urep_u64 k8[THEN conjunct2] | simp)+)
    have p4: "urep p4 (acc_val c37 + uint m6) 0x3"
      unfolding p(54) by (rule urep_weaken, (rule urep_ucast urep_add acc_fst k9[THEN conjunct2] m6 | simp)+)
    note alg = scalar_reduce_512_4x64_algebra[OF k0[THEN conjunct1] k1[THEN conjunct1] k2[THEN conjunct1] k3[THEN conjunct1] k4[THEN conjunct1] k5[THEN conjunct1] k6[THEN conjunct1] k7[THEN conjunct1] k8[THEN conjunct1] k9[THEN conjunct1] m6e urepD(1)[OF p4]]
    have ch: "uint d0 + uint d1 * 2 ^ 64 + uint d2 * 2 ^ 128 + uint d3 * 2 ^ 192 + uint t7 * 2 ^ 256
      = (uint p0 + 0x402DA1732FC9BEBF * uint p4) + (uint p1 + 0x4551231950B75FC4 * uint p4) * 2 ^ 64
        + (uint p2 + uint p4) * 2 ^ 128 + uint p3 * 2 ^ 192"
      by (rule carry_chain_4x64[OF p(55-66)]; rule urep_weaken, (rule urep_add urep_mult urep_ucast urep_numeral p4[THEN urep_uint] urep_u64 | simp)+)
    have V: "sc_val_4x64 r + 2 ^ 256 * uint t7 = (uint p0 + 0x402DA1732FC9BEBF * uint p4) + (uint p1 + 0x4551231950B75FC4 * uint p4) * 2 ^ 64
        + (uint p2 + uint p4) * 2 ^ 128 + uint p3 * 2 ^ 192"
      using ch unfolding p(67) sc_val_of_limbs_4x64 by (simp only: mult.commute[of "2 ^ 256" "uint t7"])
    have "sc_val_4x64 r + 2 ^ 256 * uint t7 < 2 * secp_n"
      unfolding V secp_n_def using uint_u64_le(2)[of p0] uint_u64_le(2)[of p1] uint_u64_le(2)[of p2] uint_u64_le(2)[of p3] urepD(5)[OF p4] by simp
    then have "sc_val_4x64 s = (sc_val_4x64 r + 2 ^ 256 * uint t7) mod secp_n"
      unfolding p(68)[symmetric] by (rule scalar_final_reduce_4x64(1)[OF refl])
    also have "\<dots> = limbs_val 64 (rev l) mod secp_n"
      unfolding V scalar_limbs8[OF assms] p(1-4)[symmetric] secp_n_def by (simp only: alg mod_mult_self2)
    finally show ?thesis .
  qed
  done
  then show ?thesis using \<open>scalar_reduce_512_4x64 l = s\<close> by simp
qed

section \<open>The remaining operations\<close>

lemma scalar_mul_4x64_val: "sc_val_4x64 (scalar_mul_4x64 a b) = sc_val_4x64 a * sc_val_4x64 b mod secp_n"
  using scalar_mul_512_4x64_val[OF refl, of a b] by (simp add: scalar_mul_4x64_def scalar_reduce_512_4x64_val)

lemma scalar_sqr_4x64_val: "sc_val_4x64 (scalar_sqr_4x64 a) = sc_val_4x64 a * sc_val_4x64 a mod secp_n"
  using scalar_sqr_512_4x64_val[OF refl, of a] by (simp add: scalar_sqr_4x64_def scalar_reduce_512_4x64_val)

lemma scalar_add_4x64_val:
  assumes "scalar_add_4x64 a b = s" and lim: "sc_val_4x64 a < secp_n" "sc_val_4x64 b < secp_n"
  shows "sc_val_4x64 (fst s) = (sc_val_4x64 a + sc_val_4x64 b) mod secp_n \<and> (snd s \<longleftrightarrow> secp_n \<le> sc_val_4x64 a + sc_val_4x64 b)"
  using assms(1) unfolding scalar_add_4x64_def
  apply (elim LetE)
  subgoal premises p for t0 d0 c0 t1 d1 c1 t2 d2 c2 t3 d3 c3 r over
  proof -
    have "uint d0 + uint d1 * 2 ^ 64 + uint d2 * 2 ^ 128 + uint d3 * 2 ^ 192 + uint c3 * 2 ^ 256
      = (uint (sc_d0 a) + uint (sc_d0 b)) + (uint (sc_d1 a) + uint (sc_d1 b)) * 2 ^ 64
        + (uint (sc_d2 a) + uint (sc_d2 b)) * 2 ^ 128 + (uint (sc_d3 a) + uint (sc_d3 b)) * 2 ^ 192"
      by (rule carry_chain_4x64[OF p(1-12)]; rule urep_weaken, (rule urep_add urep_ucast urep_u64 | simp)+)
    then have V: "sc_val_4x64 a + sc_val_4x64 b = sc_val_4x64 r + 2 ^ 256 * uint c3"
      unfolding p(13) sc_val_of_limbs_4x64 sc_val_4x64_def by simp
    have l: "sc_val_4x64 a + sc_val_4x64 b < 2 * secp_n" using lim by simp
    show ?thesis
      using scalar_final_reduce_4x64[OF V l] unfolding p(15)[symmetric] p(14) by simp
  qed
  done

lemma scalar_cadd_bit_4x64_pos:
  assumes f: "flag = 0 \<or> flag = 1" and n: "n < 256" and b: "b = (of_nat n + ((word_of_int flag - 1) AND 0x100) :: u32)"
  shows "unat (b AND 0x3F) = n mod 64" "i < 4 \<Longrightarrow> drop_bit 6 b = of_nat i \<longleftrightarrow> flag = 1 \<and> n div 64 = i"
proof -
  have "uint b = int n + 256 * (1 - flag)"
    using f n unfolding b by (auto simp: uint_word_ariths unsigned_of_nat take_bit_eq_mod)
  then have ub: "unat b = n + 256 * nat (1 - flag)"
    using f by (auto simp flip: nat_uint_eq)
  have "uint (b AND 0x3F) = uint b mod 64"
    using uint_and_mask[of b 6] by (simp add: mask_numeral)
  then have "unat (b AND 0x3F) = unat b mod 64"
    by (simp add: nat_mod_distrib flip: nat_uint_eq)
  then show "unat (b AND 0x3F) = n mod 64"
    using ub f mod_mult_self2[of n 64 4] by auto
  have "uint (drop_bit 6 b) = uint b div 64" by (simp add: uint_drop_bit_div)
  then have d: "unat (drop_bit 6 b) = unat b div 64"
    by (simp add: nat_div_distrib flip: nat_uint_eq)
  assume "i < 4"
  then have "unat (of_nat i :: u32) = i" by (simp add: unat_of_nat take_bit_eq_mod)
  with d ub f n \<open>i < 4\<close> show "drop_bit 6 b = of_nat i \<longleftrightarrow> flag = 1 \<and> n div 64 = i"
    unfolding word_unat_eq_iff by auto
qed

lemma scalar_cadd_bit_4x64_val:
  assumes c: "scalar_cadd_bit_4x64 r n flag = s" and f: "flag = 0 \<or> flag = 1" and n: "n < 256"
    and lim: "sc_val_4x64 r + flag * 2 ^ n < 2 ^ 256"
  shows "sc_val_4x64 s = sc_val_4x64 r + flag * 2 ^ n"
  using c unfolding scalar_cadd_bit_4x64_def
  apply (elim LetE)
  subgoal premises p for b sh limb t0 d0 c0 t1 d1 c1 t2 d2 c2 t3 d3
  proof -
    note pos = scalar_cadd_bit_4x64_pos[OF f n p(1)]
    have sh: "sh = n mod 64" unfolding p(2) by (rule pos)
    have limb: "limb = of_nat i \<longleftrightarrow> flag = 1 \<and> n div 64 = i" if "i < 4" for i
      unfolding p(3) by (rule pos(2)[OF that])
    have u: "urep (push_bit sh (of_bool P) :: u64) (of_bool P * 2 ^ sh) (1 * 2 ^ sh)" for P
    proof (rule urep_push_bit)
      have "(2::int) ^ sh < 2 ^ 64" unfolding sh by (rule power_strict_increasing) simp_all
      then show "1 * 2 ^ sh < (2::int) ^ LENGTH(64)" by simp
    qed (simp add: urep_def)
    have u': "urep (ucast x + ucast (push_bit sh (of_bool P) :: u64) :: u128) (uint x + of_bool P * 2 ^ sh) (2 ^ 127)" for x :: u64 and P
    proof -
      have "(2::int) ^ sh < 2 ^ 64" unfolding sh by (rule power_strict_increasing) simp_all
      then show ?thesis
        by (intro urep_weaken[OF urep_add[OF urep_ucast[OF urep_u64] urep_ucast[OF u]]]) simp_all
    qed
    have "uint d0 + uint d1 * 2 ^ 64 + uint d2 * 2 ^ 128 + uint d3 * 2 ^ 192 + uint (drop_bit 64 t3) * 2 ^ 256
      = (uint (sc_d0 r) + of_bool (limb = 0) * 2 ^ sh) + (uint (sc_d1 r) + of_bool (limb = 1) * 2 ^ sh) * 2 ^ 64
        + (uint (sc_d2 r) + of_bool (limb = 2) * 2 ^ sh) * 2 ^ 128 + (uint (sc_d3 r) + of_bool (limb = 3) * 2 ^ sh) * 2 ^ 192"
      by (rule carry_chain_4x64[OF p(4-14) refl]; rule u')
    moreover have "of_bool (limb = 0) * 2 ^ sh + of_bool (limb = 1) * 2 ^ sh * 2 ^ 64 + of_bool (limb = 2) * 2 ^ sh * 2 ^ 128
        + of_bool (limb = 3) * 2 ^ sh * 2 ^ 192 = flag * 2 ^ n"
    proof -
      have "n div 64 \<in> {0, 1, 2, 3}" using n by auto
      moreover have "(2::int) ^ n = 2 ^ sh * (2 ^ 64) ^ (n div 64)"
        unfolding sh power_mult[symmetric] power_add[symmetric] by simp
      ultimately show ?thesis
        using limb[of 0] limb[of 1] limb[of 2] limb[of 3] f by (elim insertE emptyE) auto
    qed
    ultimately have e: "sc_val_4x64 s + 2 ^ 256 * uint (drop_bit 64 t3) = sc_val_4x64 r + flag * 2 ^ n"
      unfolding p(15)[symmetric] sc_val_of_limbs_4x64 sc_val_4x64_def by (simp add: algebra_simps)
    have "0 \<le> sc_val_4x64 r + flag * 2 ^ n" using f sc_val_range_4x64(1)[of r] by auto
    with e lim show ?thesis
      using radix_div_mod(2)[OF sc_val_range_4x64, of s "uint (drop_bit 64 t3)"] by simp
  qed
  done

lemma scalar_is_zero_4x64_iff: "scalar_is_zero_4x64 a \<longleftrightarrow> sc_val_4x64 a = 0"
proof -
  have "sc_val_4x64 a = 0 \<longleftrightarrow> a = sc_of_limbs_4x64 (0, 0, 0, 0)"
    using sc_val_inject_4x64[of a "sc_of_limbs_4x64 (0, 0, 0, 0)"] by (auto simp: sc_val_of_limbs_4x64)
  then show ?thesis
    unfolding scalar_is_zero_4x64_def by (cases a) (auto simp: or_eq_0_iff sc_of_limbs_4x64_def)
qed

lemma scalar_is_one_4x64_iff: "scalar_is_one_4x64 a \<longleftrightarrow> sc_val_4x64 a = 1"
proof -
  have "sc_val_4x64 a = 1 \<longleftrightarrow> a = sc_of_limbs_4x64 (1, 0, 0, 0)"
    using sc_val_inject_4x64[of a "sc_of_limbs_4x64 (1, 0, 0, 0)"] by (auto simp: sc_val_of_limbs_4x64)
  then show ?thesis
    unfolding scalar_is_one_4x64_def by (cases a) (auto simp: or_eq_0_iff xor_eq_iff sc_of_limbs_4x64_def)
qed

lemma scalar_is_even_4x64_iff: "scalar_is_even_4x64 a \<longleftrightarrow> even (sc_val_4x64 a)"
proof -
  have "uint (sc_d0 a AND 1) = uint (sc_d0 a) mod 2"
    using uint_and_mask[of "sc_d0 a" 1] by simp
  then show ?thesis
    unfolding scalar_is_even_4x64_def sc_val_4x64_def word_uint_eq_iff by (simp flip: even_iff_mod_2_eq_zero)
qed

lemma scalar_eq_4x64_iff: "scalar_eq_4x64 a b \<longleftrightarrow> a = b"
  unfolding scalar_eq_4x64_def by (cases a; cases b) (auto simp: or_eq_0_iff xor_eq_iff)

section \<open>Negation\<close>

lemma mask64_128: "t AND ucast (0xFFFFFFFFFFFFFFFF :: u64) = t AND (0xFFFFFFFFFFFFFFFF :: u128)"
  by simp

lemma uint_not_u64: "uint (NOT x) = 0xFFFFFFFFFFFFFFFF - uint x" for x :: u64
proof -
  have "(- uint x - 1) mod 2 ^ 64 = (2 ^ 64 - 1 - uint x) mod 2 ^ 64"
    using mod_add_self2[of "- uint x - 1" "2 ^ 64"] by (simp add: algebra_simps)
  also have "\<dots> = 2 ^ 64 - 1 - uint x"
    using uint_lt2p[of x] uint_ge_0[of x] by (intro mod_pos_pos_trivial) (simp, linarith)
  finally show ?thesis by (simp add: unsigned_not_eq take_bit_int_def not_int_def algebra_simps)
qed

lemma scalar_negate_4x64_val:
  assumes f: "scalar_negate_4x64 a = s" and lim: "sc_val_4x64 a < secp_n"
  shows "sc_val_4x64 s = (- sc_val_4x64 a) mod secp_n"
proof (cases "sc_val_4x64 a = 0")
  case True
  then have "s = sc_of_limbs_4x64 (0, 0, 0, 0)"
    using f by (simp add: scalar_negate_4x64_def scalar_is_zero_4x64_iff Let_def)
  then show ?thesis using True by (simp add: sc_val_of_limbs_4x64)
next
  case False
  then have z: "\<not> scalar_is_zero_4x64 a" by (simp add: scalar_is_zero_4x64_iff)
  show ?thesis
    using f unfolding scalar_negate_4x64_def scalar_N_4x64
    apply (elim LetE)
    subgoal premises p for nz t0 d0 c0 t1 d1 c1 t2 d2 c2 t3 d3
    proof -
      have nz: "nz = 0xFFFFFFFFFFFFFFFF" using z p(1) by simp
      note p' = p(2-12)[unfolded nz mask64_128]
      have "uint d0 + uint d1 * 2 ^ 64 + uint d2 * 2 ^ 128 + uint d3 * 2 ^ 192 + uint (drop_bit 64 t3) * 2 ^ 256
        = (uint (NOT (sc_d0 a)) + 0xBFD25E8CD0364141 + 1) + (uint (NOT (sc_d1 a)) + 0xBAAEDCE6AF48A03B) * 2 ^ 64
        + (uint (NOT (sc_d2 a)) + 0xFFFFFFFFFFFFFFFE) * 2 ^ 128 + (uint (NOT (sc_d3 a)) + 0xFFFFFFFFFFFFFFFF) * 2 ^ 192"
        by (rule carry_chain_4x64[OF p' refl]; rule urep_weaken, (rule urep_add urep_ucast urep_numeral urep_1 urep_u64 | simp)+)
      then have "sc_val_4x64 s + 2 ^ 256 * (uint (drop_bit 64 t3) - 1) = secp_n - sc_val_4x64 a"
        unfolding p(13)[symmetric] sc_val_of_limbs_4x64 sc_val_4x64_def secp_n_def uint_not_u64 by simp
      then have "sc_val_4x64 s = (secp_n - sc_val_4x64 a) mod 2 ^ 256"
        using radix_div_mod(2)[OF sc_val_range_4x64] by metis
      also have "\<dots> = secp_n - sc_val_4x64 a"
        using lim sc_val_range_4x64(1)[of a] by (intro mod_pos_pos_trivial) (simp_all add: secp_n_def)
      also have "\<dots> = (- sc_val_4x64 a) mod secp_n"
        using lim sc_val_range_4x64(1)[of a] False by (simp add: zmod_zminus1_eq_if)
      finally show ?thesis .
    qed
    done
qed

lemma scalar_cond_negate_4x64_flag:
  "scalar_cond_negate_4x64 r flag = (if flag = 0 then (r, 1) else (scalar_negate_4x64 r, -1))"
proof -
  have m: "ucast (- 1 :: u64) = (0xFFFFFFFFFFFFFFFF :: u128)"
    by (subst word_uint_eq_iff, subst uint_ucast_mod) (simp add: unsigned_minus_1_eq_mask mask_numeral)
  have w: "ucast (ucast d AND ucast (- 1 :: u64) :: u128) = d" for d :: u64
    using uint_lt2p[of d] uint_and_mask[of "ucast d :: u128" 64]
    by (simp only: m) (simp add: word_uint_eq_iff uint_ucast_mod mask_numeral)
  have z: "r = sc_of_limbs_4x64 (0, 0, 0, 0)" if "scalar_is_zero_4x64 r"
    using that unfolding scalar_is_zero_4x64_def by (cases r) (simp add: or_eq_0_iff sc_of_limbs_4x64_def)
  show ?thesis
  proof (cases "flag = 0")
    case True
    have "sc_of_limbs_4x64 (sc_d0 r, sc_d1 r, sc_d2 r, sc_d3 r) = r" by (simp add: sc_of_limbs_4x64_def)
    with True show ?thesis
      using z by (cases "scalar_is_zero_4x64 r") (simp_all add: scalar_cond_negate_4x64_def Let_def w widen_u64)
  next
    case False
    then show ?thesis
      by (cases "scalar_is_zero_4x64 r") (simp_all add: scalar_cond_negate_4x64_def scalar_negate_4x64_def Let_def scalar_N_4x64 m add.assoc)
  qed
qed

section \<open>Bytes, bits and shifts\<close>

lemma be64_val:
  assumes "7 \<le> i"
  shows "uint (be64 b i) = be_val [b ! (i - 7), b ! (i - 6), b ! (i - 5), b ! (i - 4), b ! (i - 3), b ! (i - 2), b ! (i - 1), b ! i]"
proof -
  have u: "urep (ucast x :: u64) (uint x) 0xFF" for x :: u8
    using uint_lt2p[of x] by (intro urep_ucast urep_self) simp_all
  have "urep (be64 b i) (uint (b ! i) + uint (b ! (i - 1)) * 2 ^ 8 + uint (b ! (i - 2)) * 2 ^ 16 + uint (b ! (i - 3)) * 2 ^ 24
    + uint (b ! (i - 4)) * 2 ^ 32 + uint (b ! (i - 5)) * 2 ^ 40 + uint (b ! (i - 6)) * 2 ^ 48 + uint (b ! (i - 7)) * 2 ^ 56) (2 ^ 64)"
    unfolding be64_def by (rule urep_weaken, (rule urep_push_or u | simp)+)
  then show ?thesis by (simp add: urep_def be_val_def)
qed

lemma scalar_set_b32_4x64_val:
  assumes "length bs = 32"
  shows "sc_val_4x64 (fst (scalar_set_b32_4x64 bs)) = be_val bs mod secp_n \<and> (snd (scalar_set_b32_4x64 bs) \<longleftrightarrow> secp_n \<le> be_val bs)"
proof -
  define r where "r = sc_of_limbs_4x64 (be64 bs 31, be64 bs 23, be64 bs 15, be64 bs 7)"
  have "bs = map ((!) bs) [0..<32]" using assms map_nth[of bs] by simp
  also have "\<dots> = [bs!0,bs!1,bs!2,bs!3,bs!4,bs!5,bs!6,bs!7] @ [bs!8,bs!9,bs!10,bs!11,bs!12,bs!13,bs!14,bs!15]
     @ [bs!16,bs!17,bs!18,bs!19,bs!20,bs!21,bs!22,bs!23] @ [bs!24,bs!25,bs!26,bs!27,bs!28,bs!29,bs!30,bs!31]"
    by (simp add: upt_rec eval_nat_numeral)
  finally have "be_val bs = be_val \<dots>" by (rule arg_cong)
  then have v: "be_val bs = sc_val_4x64 r"
    unfolding r_def sc_val_of_limbs_4x64 be_val_append by (simp add: be64_val)
  have "(0 :: u128) = 0 \<longrightarrow> be_val bs < 2 * secp_n"
    using sc_val_range_4x64(2)[of r] v by (simp add: secp_n_def)
  then show ?thesis
    using scalar_final_reduce_4x64[of "be_val bs" r 0] v
    by (simp add: scalar_set_b32_4x64_def Let_def scalar_check_overflow_4x64_iff flip: r_def)
qed

lemma store64_val: "length (store64 d) = 8 \<and> be_val (store64 d) = uint d"
proof -
  have b: "uint (ucast (drop_bit n d) :: u8) = uint d div 2 ^ n mod 256" for n
    by (simp add: uint_ucast_mod uint_drop_bit_div)
  have "uint d = uint d mod 256 ^ 8" using uint_lt2p[of d] by simp
  also have "\<dots> = (\<Sum>j<8. (uint d div 256 ^ j mod 256) * 256 ^ j)" by (simp only: digit_sum zero_less_numeral)
  finally show ?thesis
    using b[of 0] by (simp add: store64_def be_val_def b eval_nat_numeral)
qed

lemma scalar_get_b32_4x64_val: "length (scalar_get_b32_4x64 a) = 32 \<and> be_val (scalar_get_b32_4x64 a) = sc_val_4x64 a"
  using store64_val by (simp add: scalar_get_b32_4x64_def be_val_append sc_val_4x64_def)

lemma sc_val_limbs_rev_4x64: "sc_val_4x64 a = limbs_val 64 (rev [sc_d0 a, sc_d1 a, sc_d2 a, sc_d3 a])"
  by (simp add: sc_val_4x64_def)

lemma sc_limb_nth_4x64: "i < 4 \<Longrightarrow> sc_limb_4x64 a i = [sc_d0 a, sc_d1 a, sc_d2 a, sc_d3 a] ! i"
  by (auto simp: sc_limb_4x64_def less_Suc_eq eval_nat_numeral)

lemma limb_window_64:
  fixes l :: "u64 list"
  assumes "Suc i < length l" "0 < s" "s < 64"
  shows "uint (drop_bit s (l ! i) OR push_bit (64 - s) (l ! Suc i)) = limbs_val 64 (rev l) div 2 ^ (64 * i + s) mod 2 ^ 64"
  using limb_window[of i l s] assms by simp

lemma limb_field_64:
  fixes l :: "u64 list"
  assumes "i < length l" "s + c \<le> 64"
  shows "uint (l ! i) div 2 ^ s mod 2 ^ c = limbs_val 64 (rev l) div 2 ^ (64 * i + s) mod 2 ^ c"
  using limb_field[of i l s c] assms by simp

lemma uint_field32: "c \<le> 32 \<Longrightarrow> uint (ucast (x AND (2 ^ c - 1) :: u64) :: u32) = uint x mod 2 ^ c"
proof -
  assume c: "c \<le> 32"
  have "x AND (2 ^ c - 1) = x AND mask c" by (simp add: mask_eq_exp_minus_1)
  moreover have "uint x mod 2 ^ c < 2 ^ 32"
    using power_increasing[OF c, of "2::int"] by (intro order.strict_trans2[OF pos_mod_bound]) simp_all
  ultimately show ?thesis by (simp add: uint_ucast_mod uint_and_mask)
qed

lemma scalar_get_bits_4x64_val:
  assumes "0 < c" "c \<le> 32" "(off + c - 1) div 64 = off div 64" "off + c \<le> 256"
  shows "uint (scalar_get_bits_4x64 a off c) = sc_val_4x64 a div 2 ^ off mod 2 ^ c"
proof -
  have i: "off div 64 < 4" "off mod 64 + c \<le> 64"
    using assms field_in_limb[of c 64 off] by auto
  have "uint (scalar_get_bits_4x64 a off c) = uint (sc_limb_4x64 a (off div 64)) div 2 ^ (off mod 64) mod 2 ^ c"
    using assms(2) by (simp add: scalar_get_bits_4x64_def uint_field32 uint_drop_bit_div)
  also have "\<dots> = sc_val_4x64 a div 2 ^ (64 * (off div 64) + off mod 64) mod 2 ^ c"
    unfolding sc_val_limbs_rev_4x64 sc_limb_nth_4x64[OF i(1)] by (rule limb_field_64) (use i in simp_all)
  finally show ?thesis by simp
qed

lemma scalar_get_bits_var_4x64_val:
  assumes "0 < c" "c \<le> 32" "off + c \<le> 256"
  shows "uint (scalar_get_bits_var_4x64 a off c) = sc_val_4x64 a div 2 ^ off mod 2 ^ c"
proof (cases "(off + c - 1) div 64 = off div 64")
  case True
  then show ?thesis using assms scalar_get_bits_4x64_val by (simp add: scalar_get_bits_var_4x64_def)
next
  case False
  let ?l = "[sc_d0 a, sc_d1 a, sc_d2 a, sc_d3 a]"
  have i: "Suc (off div 64) < 4" "0 < off mod 64" "c \<le> 64"
    using assms False field_in_limb[of c 64 off] by auto
  have "uint (scalar_get_bits_var_4x64 a off c)
      = uint (drop_bit (off mod 64) (?l ! (off div 64)) OR push_bit (64 - off mod 64) (?l ! Suc (off div 64))) mod 2 ^ c"
    using False assms(2) i by (simp add: scalar_get_bits_var_4x64_def uint_field32 sc_limb_nth_4x64)
  also have "\<dots> = sc_val_4x64 a div 2 ^ (64 * (off div 64) + off mod 64) mod 2 ^ 64 mod 2 ^ c"
    unfolding sc_val_limbs_rev_4x64
    by (rule arg_cong[where f="\<lambda>x. x mod 2 ^ c"], rule limb_window_64) (use i in simp_all)
  also have "\<dots> = sc_val_4x64 a div 2 ^ off mod 2 ^ c"
    by (simp only: mod_mod_cancel le_imp_power_dvd[OF i(3)]) simp
  finally show ?thesis .
qed

lemma scalar_split_128_4x64_val:
  "sc_val_4x64 (fst (scalar_split_128_4x64 a)) = sc_val_4x64 a mod 2 ^ 128"
  "sc_val_4x64 (snd (scalar_split_128_4x64 a)) = sc_val_4x64 a div 2 ^ 128"
proof -
  have e: "sc_val_4x64 a = (uint (sc_d0 a) + uint (sc_d1 a) * 2 ^ 64) + 2 ^ 128 * (uint (sc_d2 a) + uint (sc_d3 a) * 2 ^ 64)"
    by (simp add: sc_val_4x64_def)
  have "uint (sc_d0 a) + uint (sc_d1 a) * 2 ^ 64 < 2 ^ 128"
    using uint_u64_le(2)[of "sc_d0 a"] uint_u64_le(2)[of "sc_d1 a"] by simp
  then show "sc_val_4x64 (fst (scalar_split_128_4x64 a)) = sc_val_4x64 a mod 2 ^ 128"
    "sc_val_4x64 (snd (scalar_split_128_4x64 a)) = sc_val_4x64 a div 2 ^ 128"
    unfolding e by (simp_all only: radix_div_mod uint_ge_0 add_nonneg_nonneg mult_nonneg_nonneg zero_le_power zero_le_numeral)
      (simp_all add: scalar_split_128_4x64_def sc_val_of_limbs_4x64)
qed

lemma scalar_const_4x64_val: "sc_val_4x64 (scalar_const_4x64 d7 d6 d5 d4 d3 d2 d1 d0) = digits_val d7 d6 d5 d4 d3 d2 d1 d0"
proof -
  have "urep (push_bit 32 (ucast h) OR ucast l :: u64) (uint h * 2 ^ 32 + uint l) ((2 ^ 32 - 1) * 2 ^ 32 + (2 ^ 32 - 1))" for h l :: u32
    by (intro urep_or_push urep_ucast urep_u32) simp_all
  then have "uint (push_bit 32 (ucast h) OR ucast l :: u64) = uint h * 2 ^ 32 + uint l" for h l :: u32
    by (rule urepD(1))
  then show ?thesis by (simp add: scalar_const_4x64_def sc_val_of_limbs_4x64 digits_val_def)
qed

lemma scalar_set_int_4x64_val: "sc_val_4x64 (scalar_set_int_4x64 v) = uint v"
  using urepD(1)[OF urep_ucast[OF urep_u32[of v], where 'b=64]] by (simp add: scalar_set_int_4x64_def sc_val_of_limbs_4x64)

lemma shr_limb_4x64:
  assumes "0 < n" "n < 64"
  shows "drop_bit n x + push_bit (64 - n) y = drop_bit n x OR push_bit (64 - n) (y :: u64)"
proof -
  have "uint (drop_bit n x) < 2 ^ (64 - n)"
    using hi_bits_less[of "uint x" 64 n] uint_lt2p[of x] assms by (simp add: uint_drop_bit_div hi_bits_def)
  then have "drop_bit n x AND push_bit (64 - n) y = 0"
    using and_eq_0_if_low[of "drop_bit n x" "64 - n" y] by (simp add: and.commute)
  then show ?thesis by (simp add: disjunctive_add_eq_or)
qed

text \<open>A number below \<open>2 ^ 256\<close> is put together from its four windows.\<close>

lemma windows_4x64:
  assumes "0 \<le> x" "x < 2 ^ 256" "uint d0 = x mod 2 ^ 64" "uint d1 = x div 2 ^ 64 mod 2 ^ 64"
    "uint d2 = x div 2 ^ 128 mod 2 ^ 64" "uint d3 = x div 2 ^ 192 mod 2 ^ 64"
  shows "sc_val_4x64 (sc_of_limbs_4x64 (d0, d1, d2, d3)) = x"
proof -
  have "x mod (2 ^ 64) ^ 4 = x" using assms(1,2) by (intro mod_pos_pos_trivial) simp_all
  then have "x = (\<Sum>j<4. (x div (2 ^ 64) ^ j mod 2 ^ 64) * (2 ^ 64) ^ j)" by (subst digit_sum) simp_all
  also have "\<dots> = x mod 2 ^ 64 + x div 2 ^ 64 mod 2 ^ 64 * 2 ^ 64 + x div 2 ^ 128 mod 2 ^ 64 * 2 ^ 128 + x div 2 ^ 192 mod 2 ^ 64 * 2 ^ 192"
    unfolding sum4 by simp
  finally show ?thesis using assms by (simp only: sc_val_of_limbs_4x64)
qed

lemma scalar_shr_int_4x64_val:
  assumes n: "0 < n" "n < 16"
  shows "sc_val_4x64 (fst (scalar_shr_int_4x64 a n)) = sc_val_4x64 a div 2 ^ n \<and> snd (scalar_shr_int_4x64 a n) = sc_val_4x64 a mod 2 ^ n"
proof -
  let ?l = "[sc_d0 a, sc_d1 a, sc_d2 a, sc_d3 a]"
  let ?x = "sc_val_4x64 a"
  have e: "?x div 2 ^ n div 2 ^ k = ?x div 2 ^ (k + n)" for k
    using zdiv_zmult2_eq[of "2 ^ k" ?x "2 ^ n"] by (simp add: power_add mult.commute)
  have w: "uint (drop_bit n (?l ! i) OR push_bit (64 - n) (?l ! Suc i)) = ?x div 2 ^ (64 * i + n) mod 2 ^ 64" if "i < 3" for i
    unfolding sc_val_limbs_rev_4x64 by (rule limb_window_64) (use that n in simp_all)
  have t: "uint (drop_bit n (sc_d3 a)) = ?x div 2 ^ (192 + n) mod 2 ^ 64"
  proof -
    have "?x div 2 ^ (64 * 3) = uint (?l ! 3) + 2 ^ 64 * limbs_val 64 (rev (drop (Suc 3) ?l))"
      unfolding sc_val_limbs_rev_4x64 by (rule limbs_val_nth_div) (use uint_lt2p[where 'a=64] in simp_all)
    then have "?x div 2 ^ (192 + n) = uint (sc_d3 a) div 2 ^ n"
      by (simp add: power_add zdiv_zmult2_eq)
    moreover have "uint (drop_bit n (sc_d3 a)) < 2 ^ 64" using uint_lt2p[of "drop_bit n (sc_d3 a)"] by simp
    ultimately show ?thesis
      using mod_pos_pos_trivial[of "uint (sc_d3 a) div 2 ^ n" "2 ^ 64"] by (simp add: uint_drop_bit_div pos_imp_zdiv_nonneg_iff)
  qed
  define X where "X = ?x div 2 ^ n"
  have w0: "uint (drop_bit n (?l ! i) + push_bit (64 - n) (?l ! Suc i)) = X div 2 ^ (64 * i) mod 2 ^ 64" if "i < 3" for i
    using w[OF that] shr_limb_4x64[of n "?l ! i" "?l ! Suc i"] n unfolding X_def e by (simp only:)
  have "X < 2 ^ 256" "0 \<le> X"
    using sc_val_range_4x64[of a] div_le_dividend_int_pow[of ?x n] unfolding X_def
    by (linarith, simp add: pos_imp_zdiv_nonneg_iff)
  then have "sc_val_4x64 (fst (scalar_shr_int_4x64 a n)) = X"
    unfolding scalar_shr_int_4x64_def Let_def fst_conv
  proof (intro windows_4x64)
    show "uint (drop_bit n (sc_d3 a)) = X div 2 ^ 192 mod 2 ^ 64" using t unfolding X_def e .
    show "uint (drop_bit n (sc_d0 a) + push_bit (64 - n) (sc_d1 a)) = X mod 2 ^ 64" using w0[of 0] by simp
    show "uint (drop_bit n (sc_d1 a) + push_bit (64 - n) (sc_d2 a)) = X div 2 ^ 64 mod 2 ^ 64" using w0[of 1] by simp
    show "uint (drop_bit n (sc_d2 a) + push_bit (64 - n) (sc_d3 a)) = X div 2 ^ 128 mod 2 ^ 64" using w0[of 2] by simp
  qed
  moreover have "snd (scalar_shr_int_4x64 a n) = ?x mod 2 ^ n"
    unfolding scalar_shr_int_4x64_def Let_def snd_conv
    using uint_and_mask[of "sc_d0 a" n] limb_field_64[of 0 ?l 0 n, folded sc_val_limbs_rev_4x64] n
    by (simp add: mask_eq_exp_minus_1)
  ultimately show ?thesis unfolding X_def ..
qed

text \<open>The limbs of a product from the bit position \<open>shift\<close> on.\<close>

lemma shifted_limb_4x64:
  fixes l :: "u64 list"
  assumes len: "length l = 8" and X: "X = limbs_val 64 (rev l)" and shift: "256 \<le> shift" and k: "k < 4"
  shows "uint (if shift < 512 - 64 * k then drop_bit (shift mod 64) (l ! (k + shift div 64))
      OR (if shift < 448 - 64 * k \<and> shift mod 64 \<noteq> 0 then push_bit (64 - shift mod 64) (l ! (Suc k + shift div 64)) else 0) else 0)
    = X div 2 ^ shift div 2 ^ (64 * k) mod 2 ^ 64"
proof -
  have e: "X div 2 ^ shift div 2 ^ (64 * k) = X div 2 ^ (64 * (k + shift div 64) + shift mod 64)"
  proof -
    have "64 * (k + shift div 64) + shift mod 64 = shift + 64 * k" by simp
    then show ?thesis using zdiv_zmult2_eq[of "2 ^ (64 * k)" X "2 ^ shift"] by (simp only: power_add[symmetric]) simp
  qed
  have b: "\<forall>x \<in> set l. uint x < 2 ^ 64" using uint_lt2p[where 'a=64] by simp
  consider (out) "8 \<le> k + shift div 64" | (last) "k + shift div 64 = 7" | (mid) "Suc (k + shift div 64) < 8" by linarith
  then show ?thesis
  proof cases
    case out
    then have "\<not> shift < 512 - 64 * k" by linarith
    moreover have "X div 2 ^ (64 * (k + shift div 64)) = 0"
      using limbs_val_drop[OF b, of "k + shift div 64"] out len unfolding X by simp
    ultimately show ?thesis unfolding e div_pow_add by (simp only:) simp
  next
    case last
    then have c: "shift < 512 - 64 * k" "\<not> shift < 448 - 64 * k" using k by linarith+
    have "X div 2 ^ (64 * (k + shift div 64)) = uint (l ! 7)"
      using limbs_val_nth_div[OF b, of 7] last len unfolding X by simp
    then have "X div 2 ^ (64 * (k + shift div 64) + shift mod 64) = uint (drop_bit (shift mod 64) (l ! 7))"
      by (simp only: div_pow_add uint_drop_bit_div)
    then show ?thesis
      unfolding e using c last uint_lt2p[of "drop_bit (shift mod 64) (l ! 7)"] by (simp add: mod_pos_pos_trivial)
  next
    case mid
    then have c: "shift < 512 - 64 * k" "shift < 448 - 64 * k" by linarith+
    define q m where "q = k + shift div 64" and "m = shift mod 64"
    have m: "m < 64" by (simp add: m_def)
    have q: "Suc q < length l" using mid len by (simp only: q_def)
    have s: "Suc k + shift div 64 = Suc q" by (simp only: q_def add_Suc)
    show ?thesis
      unfolding e s q_def[symmetric] m_def[symmetric] if_P[OF c(1)]
    proof (cases "m = 0")
      case True
      have "drop_bit 0 (l ! q) OR 0 = l ! q" by simp
      moreover have "uint (l ! q) div 2 ^ 0 mod 2 ^ 64 = uint (l ! q)" using uint_lt2p[of "l ! q"] by simp
      moreover have "q < length l" using q by linarith
      ultimately show "uint (drop_bit m (l ! q) OR (if shift < 448 - 64 * k \<and> m \<noteq> 0 then push_bit (64 - m) (l ! Suc q) else 0))
          = X div 2 ^ (64 * q + m) mod 2 ^ 64"
        using limb_field_64[of q l 0 64] unfolding True X by (simp only: simp_thms if_False add_0 order_refl)
    next
      case False
      then have "shift < 448 - 64 * k \<and> m \<noteq> 0" "0 < m" using c(2) by simp_all
      then show "uint (drop_bit m (l ! q) OR (if shift < 448 - 64 * k \<and> m \<noteq> 0 then push_bit (64 - m) (l ! Suc q) else 0))
          = X div 2 ^ (64 * q + m) mod 2 ^ 64"
        using limb_window_64[OF q _ m] unfolding X by (simp only: if_True simp_thms)
    qed
  qed
qed

lemma scalar_mul_shift_var_4x64_val:
  assumes s: "256 \<le> shift" "shift < 512"
  shows "sc_val_4x64 (scalar_mul_shift_var_4x64 a b shift) = (sc_val_4x64 a * sc_val_4x64 b + 2 ^ (shift - 1)) div 2 ^ shift"
proof -
  define X where "X = sc_val_4x64 a * sc_val_4x64 b"
  define l where "l = scalar_mul_512_4x64 a b"
  have l: "length l = 8" "X = limbs_val 64 (rev l)"
    using scalar_mul_512_4x64_val[OF refl, of a b] by (simp_all add: l_def X_def)
  note w = shifted_limb_4x64[OF l s(1)]
  have X: "0 \<le> X" "X \<le> (2 ^ 256 - 1) * (2 ^ 256 - 1)"
    unfolding X_def using sc_val_range_4x64[of a] sc_val_range_4x64[of b] by (simp, intro mult_mono) simp_all
  have bit: "uint (drop_bit ((shift - 1) mod 64) (l ! ((shift - 1) div 64)) AND 1) = X div 2 ^ (shift - 1) mod 2"
  proof -
    have "(shift - 1) div 64 < length l" "(shift - 1) mod 64 + 1 \<le> 64"
      using s l(1) by (simp_all add: Suc_le_eq less_mult_imp_div_less)
    from limb_field_64[OF this]
    have "uint (l ! ((shift - 1) div 64)) div 2 ^ ((shift - 1) mod 64) mod 2 = X div 2 ^ (shift - 1) mod 2"
      unfolding l(2) by (simp only: mult_div_mod_eq power_one_right)
    then show ?thesis
      using uint_and_mask[of "drop_bit ((shift - 1) mod 64) (l ! ((shift - 1) div 64))" 1]
      by (simp only: uint_drop_bit_div mask_1 power_one_right)
  qed
  define r where "r = X div 2 ^ shift"
  have r: "0 \<le> r" "r < 2 ^ 256 - 1"
  proof -
    show r0: "0 \<le> r" unfolding r_def using X by (simp add: pos_imp_zdiv_nonneg_iff)
    have "2 ^ 256 * r \<le> 2 ^ shift * r" using power_increasing[OF s(1), of "2::int"] r0 by (intro mult_right_mono) simp_all
    also have "\<dots> \<le> X" unfolding r_def hi_bits_def[symmetric] using lo_hi_bits[of shift X] lo_bits_range(1)[of shift X] by linarith
    finally show "r < 2 ^ 256 - 1" using X(2) by simp
  qed
  define L where "L k = (if shift < 512 - 64 * k then drop_bit (shift mod 64) (l ! (k + shift div 64))
      OR (if shift < 448 - 64 * k \<and> shift mod 64 \<noteq> 0 then push_bit (64 - shift mod 64) (l ! (Suc k + shift div 64)) else 0) else 0)" for k
  have lim: "uint (L k) = r div 2 ^ (64 * k) mod 2 ^ 64" if "k < 4" for k
    using w[OF that] unfolding L_def r_def .
  have L: "L 0 = (if shift < 512 then drop_bit (shift mod 64) (l ! (0 + shift div 64))
      OR (if shift < 448 \<and> shift mod 64 \<noteq> 0 then push_bit (64 - shift mod 64) (l ! (1 + shift div 64)) else 0) else 0)"
    "L 1 = (if shift < 448 then drop_bit (shift mod 64) (l ! (1 + shift div 64))
      OR (if shift < 384 \<and> shift mod 64 \<noteq> 0 then push_bit (64 - shift mod 64) (l ! (2 + shift div 64)) else 0) else 0)"
    "L 2 = (if shift < 384 then drop_bit (shift mod 64) (l ! (2 + shift div 64))
      OR (if shift < 320 \<and> shift mod 64 \<noteq> 0 then push_bit (64 - shift mod 64) (l ! (3 + shift div 64)) else 0) else 0)"
    "L 3 = (if shift < 320 then drop_bit (shift mod 64) (l ! (3 + shift div 64)) else 0)"
    using s(1) by (simp_all only: L_def) simp_all
  have v: "sc_val_4x64 (sc_of_limbs_4x64 (L 0, L 1, L 2, L 3)) = r"
  proof (intro windows_4x64)
    show "uint (L 0) = r mod 2 ^ 64" using lim[of 0] by simp
    show "uint (L 1) = r div 2 ^ 64 mod 2 ^ 64" using lim[of 1] by simp
    show "uint (L 2) = r div 2 ^ 128 mod 2 ^ 64" using lim[of 2] by simp
    show "uint (L 3) = r div 2 ^ 192 mod 2 ^ 64" using lim[of 3] by simp
  qed (use r in linarith)+
  have "scalar_mul_shift_var_4x64 a b shift = scalar_cadd_bit_4x64 (sc_of_limbs_4x64 (L 0, L 1, L 2, L 3)) 0
      (X div 2 ^ (shift - 1) mod 2)"
    unfolding scalar_mul_shift_var_4x64_def l_def[symmetric] Let_def bit L by (rule refl)
  moreover define f where "f = X div 2 ^ (shift - 1) mod 2"
  moreover have "f = 0 \<or> f = 1" unfolding f_def by linarith
  ultimately have "sc_val_4x64 (scalar_mul_shift_var_4x64 a b shift) = r + f"
    using scalar_cadd_bit_4x64_val[OF refl, of f 0 "sc_of_limbs_4x64 (L 0, L 1, L 2, L 3)"] v r by auto
  also have "\<dots> = (X + 2 ^ (shift - 1)) div 2 ^ shift"
    unfolding r_def f_def using s by (intro round_shift) simp
  finally show ?thesis unfolding X_def .
qed

section \<open>The interface\<close>

definition scalar_ops_4x64 :: "scalar_4x64 scalar_ops" where
  "scalar_ops_4x64 = \<lparr>so_clear = scalar_clear_4x64, so_set_int = scalar_set_int_4x64,
    so_get_bits = scalar_get_bits_4x64, so_get_bits_var = scalar_get_bits_var_4x64,
    so_set_b32 = scalar_set_b32_4x64, so_get_b32 = scalar_get_b32_4x64, so_add = scalar_add_4x64,
    so_cadd_bit = scalar_cadd_bit_4x64, so_mul = scalar_mul_4x64, so_sqr = scalar_sqr_4x64,
    so_shr_int = scalar_shr_int_4x64, so_negate = scalar_negate_4x64, so_cond_negate = scalar_cond_negate_4x64,
    so_is_zero = scalar_is_zero_4x64, so_is_one = scalar_is_one_4x64, so_is_even = scalar_is_even_4x64,
    so_is_high = scalar_is_high_4x64, so_eq = scalar_eq_4x64, so_split_128 = scalar_split_128_4x64,
    so_mul_shift_var = scalar_mul_shift_var_4x64, so_const = scalar_const_4x64\<rparr>"

lemma scalar_ops_4x64_simps [simp]:
  "so_clear scalar_ops_4x64 = scalar_clear_4x64" "so_set_int scalar_ops_4x64 = scalar_set_int_4x64"
  "so_get_bits scalar_ops_4x64 = scalar_get_bits_4x64" "so_get_bits_var scalar_ops_4x64 = scalar_get_bits_var_4x64"
  "so_set_b32 scalar_ops_4x64 = scalar_set_b32_4x64" "so_get_b32 scalar_ops_4x64 = scalar_get_b32_4x64"
  "so_add scalar_ops_4x64 = scalar_add_4x64" "so_cadd_bit scalar_ops_4x64 = scalar_cadd_bit_4x64"
  "so_mul scalar_ops_4x64 = scalar_mul_4x64" "so_sqr scalar_ops_4x64 = scalar_sqr_4x64"
  "so_shr_int scalar_ops_4x64 = scalar_shr_int_4x64" "so_negate scalar_ops_4x64 = scalar_negate_4x64"
  "so_cond_negate scalar_ops_4x64 = scalar_cond_negate_4x64" "so_is_zero scalar_ops_4x64 = scalar_is_zero_4x64"
  "so_is_one scalar_ops_4x64 = scalar_is_one_4x64" "so_is_even scalar_ops_4x64 = scalar_is_even_4x64"
  "so_is_high scalar_ops_4x64 = scalar_is_high_4x64" "so_eq scalar_ops_4x64 = scalar_eq_4x64"
  "so_split_128 scalar_ops_4x64 = scalar_split_128_4x64" "so_mul_shift_var scalar_ops_4x64 = scalar_mul_shift_var_4x64"
  "so_const scalar_ops_4x64 = scalar_const_4x64"
  by (simp_all add: scalar_ops_4x64_def)

interpretation s64: scalar_repr scalar_ops_4x64 sc_val_4x64
proof (unfold_locales, unfold scalar_ops_4x64_simps)
  show "(off + c - 1) div 32 = off div 32 \<Longrightarrow> 0 < c \<Longrightarrow> c \<le> 32 \<Longrightarrow> off + c \<le> 256 \<Longrightarrow>
      uint (scalar_get_bits_4x64 a off c) = sc_val_4x64 a div 2 ^ off mod 2 ^ c" for a off c
  proof -
    assume a: "(off + c - 1) div 32 = off div 32" "0 < c" "c \<le> 32" "off + c \<le> 256"
    have "(off + c - 1) div 32 div 2 = off div 32 div 2" using a by simp
    then have "(off + c - 1) div 64 = off div 64" by (simp only: div_mult2_eq[symmetric]) simp
    then show ?thesis using a by (intro scalar_get_bits_4x64_val) simp_all
  qed
  show "scalar_split_128_4x64 a = (r1, r2) \<Longrightarrow> sc_val_4x64 r1 = sc_val_4x64 a mod 2 ^ 128 \<and> sc_val_4x64 r2 = sc_val_4x64 a div 2 ^ 128"
    for a r1 r2 using scalar_split_128_4x64_val[of a] by simp
  show "sc_val_4x64 (scalar_clear_4x64 a) = 0" for a by (simp add: scalar_clear_4x64_def sc_val_of_limbs_4x64)
  show "0 < c \<Longrightarrow> c < 32 \<Longrightarrow> off + c \<le> 256 \<Longrightarrow>
      uint (scalar_get_bits_var_4x64 a off c) = sc_val_4x64 a div 2 ^ off mod 2 ^ c" for a off c
    by (rule scalar_get_bits_var_4x64_val) simp_all
qed (rule sc_val_range_4x64(1) sc_val_inject_4x64 scalar_set_int_4x64_val
  scalar_set_b32_4x64_val scalar_get_b32_4x64_val scalar_add_4x64_val[OF refl] scalar_cadd_bit_4x64_val[OF refl]
  scalar_mul_4x64_val scalar_sqr_4x64_val scalar_shr_int_4x64_val scalar_negate_4x64_val[OF refl]
  scalar_cond_negate_4x64_flag scalar_is_zero_4x64_iff scalar_is_one_4x64_iff scalar_is_even_4x64_iff
  scalar_is_high_4x64_iff scalar_eq_4x64_iff scalar_mul_shift_var_4x64_val scalar_const_4x64_val; assumption)+

section \<open>Properties\<close>

text \<open>C3: The product and the square of any two 256-bit scalars are exact modulo the group order: the
  512-bit product, the two folding rounds and the final subtraction lose no carry.\<close>

theorem scalar_mul_4x64_spec:
  "sc_val_4x64 (scalar_mul_4x64 a b) = sc_val_4x64 a * sc_val_4x64 b mod secp_n
   \<and> sc_val_4x64 (scalar_sqr_4x64 a) = sc_val_4x64 a * sc_val_4x64 a mod secp_n"
  by (simp add: scalar_mul_4x64_val scalar_sqr_4x64_val)

text \<open>C18: Addition and negation of reduced scalars are exact modulo the group order, the returned overflow
  flag of the addition tells whether the order was subtracted, and the conditional negation is a
  negation for every flag other than zero.\<close>

theorem scalar_add_negate_4x64_spec:
  assumes "sc_val_4x64 a < secp_n" "sc_val_4x64 b < secp_n"
  shows "sc_val_4x64 (fst (scalar_add_4x64 a b)) = (sc_val_4x64 a + sc_val_4x64 b) mod secp_n
    \<and> (snd (scalar_add_4x64 a b) \<longleftrightarrow> secp_n \<le> sc_val_4x64 a + sc_val_4x64 b)
    \<and> sc_val_4x64 (scalar_negate_4x64 a) = (- sc_val_4x64 a) mod secp_n
    \<and> scalar_cond_negate_4x64 a flag = (if flag = 0 then (a, 1) else (scalar_negate_4x64 a, -1))"
  using scalar_add_4x64_val[OF refl assms] scalar_negate_4x64_val[OF refl assms(1)] scalar_cond_negate_4x64_flag
  by simp

theorem scalar_add_negate_4x64_spec_witness:
  "sc_val_4x64 (scalar_set_int_4x64 5) < secp_n \<and> sc_val_4x64 (scalar_set_int_4x64 7) < secp_n
   \<and> sc_val_4x64 (fst (scalar_add_4x64 (scalar_set_int_4x64 5) (scalar_set_int_4x64 7))) = 12
   \<and> sc_val_4x64 (scalar_negate_4x64 (scalar_set_int_4x64 5)) = secp_n - 5"
proof -
  have h: "sc_val_4x64 (scalar_set_int_4x64 5) < secp_n" "sc_val_4x64 (scalar_set_int_4x64 7) < secp_n"
    by (simp_all add: scalar_set_int_4x64_val secp_n_def)
  show ?thesis using h scalar_add_negate_4x64_spec[OF h, of 0] by (simp add: scalar_set_int_4x64_val secp_n_def)
qed

text \<open>C21: Parsing 32 bytes reduces modulo the order and reports exactly the inputs that are not below it;
  printing is the inverse of parsing on reduced values.\<close>

theorem scalar_b32_4x64_spec:
  assumes "length bs = 32"
  shows "sc_val_4x64 (fst (scalar_set_b32_4x64 bs)) = be_val bs mod secp_n
    \<and> (snd (scalar_set_b32_4x64 bs) \<longleftrightarrow> secp_n \<le> be_val bs)
    \<and> (be_val bs < secp_n \<longrightarrow> scalar_get_b32_4x64 (fst (scalar_set_b32_4x64 bs)) = bs)
    \<and> (sc_val_4x64 a < secp_n \<longrightarrow> scalar_set_b32_4x64 (scalar_get_b32_4x64 a) = (a, False))"
  using scalar_set_b32_4x64_val[OF assms] s64.b32_roundtrip_bytes[OF assms] s64.b32_roundtrip[of a] by simp

theorem scalar_b32_4x64_spec_witness:
  "length (replicate 32 (255 :: u8)) = 32 \<and> snd (scalar_set_b32_4x64 (replicate 32 255))
   \<and> sc_val_4x64 (fst (scalar_set_b32_4x64 (replicate 32 255))) = 2 ^ 256 - 1 - secp_n"
proof -
  have h: "length (replicate 32 (255 :: u8)) = 32" by simp
  have "be_val (replicate n (255 :: u8)) = 256 ^ n - 1" for n
    by (induction n) (simp_all add: be_val_Cons)
  then have v: "be_val (replicate 32 (255 :: u8)) = 2 ^ 256 - 1" by simp
  show ?thesis using h scalar_b32_4x64_spec[OF h, unfolded v] by (simp add: secp_n_def)
qed

text \<open>C23: The rounded shift of a product used by the scalar decomposition, the extraction of bit fields
  (also across a limb boundary) and the test for the upper half of the order.\<close>

theorem scalar_bits_4x64_spec:
  assumes "256 \<le> shift" "shift < 512" "0 < c" "c < 32" "off + c \<le> 256"
  shows "sc_val_4x64 (scalar_mul_shift_var_4x64 a b shift) = (sc_val_4x64 a * sc_val_4x64 b + 2 ^ (shift - 1)) div 2 ^ shift
    \<and> uint (scalar_get_bits_var_4x64 a off c) = sc_val_4x64 a div 2 ^ off mod 2 ^ c
    \<and> (scalar_is_high_4x64 a \<longleftrightarrow> secp_n div 2 < sc_val_4x64 a)"
  using scalar_mul_shift_var_4x64_val[OF assms(1,2)] scalar_get_bits_var_4x64_val[of c off] assms(3-) scalar_is_high_4x64_iff by simp

theorem scalar_bits_4x64_spec_witness:
  "uint (scalar_get_bits_var_4x64 (scalar_const_4x64 0 0 0 0 0 1 0xF0000000 0) 60 5) = 31"
proof -
  have v: "sc_val_4x64 (scalar_const_4x64 0 0 0 0 0 1 0xF0000000 0) = 2 ^ 64 + 0xF0000000 * 2 ^ 32" by (simp add: scalar_const_4x64_val digits_val_def)
  have "256 \<le> (256::nat)" "256 < (512::nat)" "0 < (5::nat)" "5 < (32::nat)" "60 + 5 \<le> (256::nat)" by simp_all
  from scalar_bits_4x64_spec[OF this, of "scalar_const_4x64 0 0 0 0 0 1 0xF0000000 0" "scalar_set_int_4x64 1"]
  show ?thesis unfolding v by simp
qed

end
