(* ===== verification/Scalar_Impl.thy ===== *)
theory Scalar_Impl
  imports Scalar_4x64 Prime_Field
begin

text \<open>
  \<^verbatim>\<open>scalar_impl.h\<close>, in the configuration without GMP: the inverse modulo the group order by a
  fixed addition chain for the exponent \<open>secp_n - 2\<close>, and the decomposition of a scalar into two
  short halves along the endomorphism.  The definitions use the interface of \<^verbatim>\<open>scalar.h\<close> only.
\<close>

section \<open>Definitions\<close>

definition scalar_sqr_n :: "'sc scalar_ops \<Rightarrow> nat \<Rightarrow> 'sc \<Rightarrow> 'sc" where
  "scalar_sqr_n S n x = (so_sqr S ^^ n) x"

text \<open>First part: \<open>x ^ (2 ^ N - 1)\<close> for several \<open>N\<close>.\<close>

definition scalar_inverse_chain :: "'sc scalar_ops \<Rightarrow> 'sc \<Rightarrow> 'sc \<times> 'sc \<times> 'sc \<times> 'sc \<times> 'sc \<times> 'sc" where
  "scalar_inverse_chain S x =
    (let x2 = so_sqr S x; x2 = so_mul S x2 x; x3 = so_sqr S x2; x3 = so_mul S x3 x; x4 = so_sqr S x3; x4 = so_mul S x4 x;
         x6 = so_sqr S x4; x6 = so_sqr S x6; x6 = so_mul S x6 x2; x7 = so_sqr S x6; x7 = so_mul S x7 x; x8 = so_sqr S x7;
         x8 = so_mul S x8 x; x15 = so_sqr S x8; x15 = scalar_sqr_n S 6 x15; x15 = so_mul S x15 x7; x30 = so_sqr S x15;
         x30 = scalar_sqr_n S 14 x30; x30 = so_mul S x30 x15; x60 = so_sqr S x30; x60 = scalar_sqr_n S 29 x60;
         x60 = so_mul S x60 x30; x120 = so_sqr S x60; x120 = scalar_sqr_n S 59 x120; x120 = so_mul S x120 x60;
         x127 = so_sqr S x120; x127 = scalar_sqr_n S 6 x127; x127 = so_mul S x127 x7
     in (x2, x3, x4, x6, x8, x127))"

definition scalar_inverse :: "'sc scalar_ops \<Rightarrow> 'sc \<Rightarrow> 'sc" where
  "scalar_inverse S x = (case scalar_inverse_chain S x of (x2, x3, x4, x6, x8, x127) \<Rightarrow>
    (let t = x127; t = scalar_sqr_n S 2 t; t = so_mul S t x; t = scalar_sqr_n S 4 t; t = so_mul S t x3; t = scalar_sqr_n S 2 t;
         t = so_mul S t x; t = scalar_sqr_n S 2 t; t = so_mul S t x; t = scalar_sqr_n S 2 t; t = so_mul S t x;
         t = scalar_sqr_n S 4 t; t = so_mul S t x3; t = scalar_sqr_n S 3 t; t = so_mul S t x2; t = scalar_sqr_n S 4 t;
         t = so_mul S t x3; t = scalar_sqr_n S 5 t; t = so_mul S t x3; t = scalar_sqr_n S 4 t; t = so_mul S t x2;
         t = scalar_sqr_n S 2 t; t = so_mul S t x; t = scalar_sqr_n S 2 t; t = so_mul S t x; t = scalar_sqr_n S 5 t;
         t = so_mul S t x4; t = scalar_sqr_n S 2 t; t = so_mul S t x; t = scalar_sqr_n S 3 t; t = so_mul S t x;
         t = scalar_sqr_n S 4 t; t = so_mul S t x; t = scalar_sqr_n S 2 t; t = so_mul S t x; t = scalar_sqr_n S 10 t;
         t = so_mul S t x3; t = scalar_sqr_n S 4 t; t = so_mul S t x3; t = scalar_sqr_n S 9 t; t = so_mul S t x8;
         t = scalar_sqr_n S 2 t; t = so_mul S t x; t = scalar_sqr_n S 3 t; t = so_mul S t x; t = scalar_sqr_n S 3 t;
         t = so_mul S t x; t = scalar_sqr_n S 5 t; t = so_mul S t x4; t = scalar_sqr_n S 2 t; t = so_mul S t x;
         t = scalar_sqr_n S 5 t; t = so_mul S t x2; t = scalar_sqr_n S 4 t; t = so_mul S t x2; t = scalar_sqr_n S 2 t;
         t = so_mul S t x; t = scalar_sqr_n S 8 t; t = so_mul S t x2; t = scalar_sqr_n S 3 t; t = so_mul S t x2;
         t = scalar_sqr_n S 3 t; t = so_mul S t x; t = scalar_sqr_n S 6 t; t = so_mul S t x; t = scalar_sqr_n S 8 t
     in so_mul S t x6))"

definition scalar_inverse_var :: "'sc scalar_ops \<Rightarrow> 'sc \<Rightarrow> 'sc" where
  "scalar_inverse_var S x = scalar_inverse S x"

definition minus_lambda :: "'sc scalar_ops \<Rightarrow> 'sc" where
  "minus_lambda S = so_const S 0xAC9C52B3 0x3FA3CF1F 0x5AD9E3FD 0x77ED9BA4 0xA880B9FC 0x8EC739C2 0xE0CFC810 0xB51283CF"

definition minus_b1 :: "'sc scalar_ops \<Rightarrow> 'sc" where
  "minus_b1 S = so_const S 0 0 0 0 0xE4437ED6 0x010E8828 0x6F547FA9 0x0ABFE4C3"

definition minus_b2 :: "'sc scalar_ops \<Rightarrow> 'sc" where
  "minus_b2 S = so_const S 0xFFFFFFFF 0xFFFFFFFF 0xFFFFFFFF 0xFFFFFFFE 0x8A280AC5 0x0774346D 0xD765CDA8 0x3DB1562C"

definition split_g1 :: "'sc scalar_ops \<Rightarrow> 'sc" where
  "split_g1 S = so_const S 0 0 0 0x00003086 0xD221A7D4 0x6BCDE86C 0x90E49284 0xEB153DAB"

definition split_g2 :: "'sc scalar_ops \<Rightarrow> 'sc" where
  "split_g2 S = so_const S 0 0 0 0x0000E443 0x7ED6010E 0x88286F54 0x7FA90ABF 0xE4C42212"

definition scalar_split_lambda :: "'sc scalar_ops \<Rightarrow> 'sc \<Rightarrow> 'sc \<times> 'sc" where
  "scalar_split_lambda S a =
    (let c1 = so_mul_shift_var S a (split_g1 S) 272;
         c2 = so_mul_shift_var S a (split_g2 S) 272;
         c1 = so_mul S c1 (minus_b1 S);
         c2 = so_mul S c2 (minus_b2 S);
         r2 = fst (so_add S c1 c2);
         r1 = so_mul S r2 (minus_lambda S);
         r1 = fst (so_add S r1 a)
     in (r1, r2))"

section \<open>The inverse\<close>

text \<open>\<open>sc_pow sval a k x\<close>: the scalar \<open>x\<close> is the power \<open>a ^ k\<close>.\<close>

definition sc_pow :: "('sc \<Rightarrow> int) \<Rightarrow> 'sc \<Rightarrow> nat \<Rightarrow> 'sc \<Rightarrow> bool" where
  "sc_pow sval a k x \<longleftrightarrow> sval x = sval a ^ k mod secp_n"

text \<open>The eigenvalue of the endomorphism and the short lattice basis of the decomposition.\<close>

definition secp_lambda :: int where
  "secp_lambda = 0x5363AD4CC05C30E0A5261C028812645A122E22EA20816678DF02967C1B23BD72"

context scalar_repr
begin

lemma pow_self: "sval a < secp_n \<Longrightarrow> sc_pow sval a 1 a"
  using val_nonneg[of a] by (simp add: sc_pow_def)

lemma pow_mul: "sc_pow sval a k x \<Longrightarrow> sc_pow sval a l y \<Longrightarrow> sc_pow sval a (k + l) (so_mul S x y)"
  by (simp add: sc_pow_def mul power_add mod_mult_eq)

lemma pow_sqr: "sc_pow sval a k x \<Longrightarrow> sc_pow sval a (k * 2) (so_sqr S x)"
  by (simp add: sc_pow_def sqr power_mult power2_eq_square mod_mult_eq)

lemma pow_sqr_n: "sc_pow sval a k x \<Longrightarrow> sc_pow sval a (k * 2 ^ n) (scalar_sqr_n S n x)"
  unfolding scalar_sqr_n_def
proof (induction n)
  case (Suc n)
  then show ?case using pow_sqr[OF Suc.IH] by (simp add: mult_ac)
qed simp

lemma pow_weaken: "sc_pow sval a k x \<Longrightarrow> k = l \<Longrightarrow> sc_pow sval a l x"
  by simp

lemmas pow_rules = pow_mul pow_sqr pow_sqr_n

lemma inverse_chain:
  assumes a: "sval x < secp_n" and c: "scalar_inverse_chain S x = (x2, x3, x4, x6, x8, x127)"
  shows "sc_pow sval x (2 ^ 2 - 1) x2" "sc_pow sval x (2 ^ 3 - 1) x3" "sc_pow sval x (2 ^ 4 - 1) x4"
    "sc_pow sval x (2 ^ 6 - 1) x6" "sc_pow sval x (2 ^ 8 - 1) x8" "sc_pow sval x (2 ^ 127 - 1) x127"
proof -
  have "sc_pow sval x (2 ^ 2 - 1) x2 \<and> sc_pow sval x (2 ^ 3 - 1) x3 \<and> sc_pow sval x (2 ^ 4 - 1) x4
    \<and> sc_pow sval x (2 ^ 6 - 1) x6 \<and> sc_pow sval x (2 ^ 8 - 1) x8 \<and> sc_pow sval x (2 ^ 127 - 1) x127"
  using c unfolding scalar_inverse_chain_def
  apply (elim LetE)
  subgoal premises p for y2 y2' y3 y3' y4 y4' y6 y6' y6'' y7 y7' y8 y8' y15 y15' y15'' y30 y30' y30'' y60 y60' y60'' y120 y120' y120'' y127 y127' y127''
  proof -
    note a = pow_self[OF a]
    have y2: "sc_pow sval x (2 ^ 2 - 1) y2'"
      unfolding p(1-2) by (rule pow_weaken, (rule pow_rules a)+) simp
    have y3: "sc_pow sval x (2 ^ 3 - 1) y3'"
      unfolding p(3-4) by (rule pow_weaken, (rule pow_rules a y2)+) simp
    have y4: "sc_pow sval x (2 ^ 4 - 1) y4'"
      unfolding p(5-6) by (rule pow_weaken, (rule pow_rules a y3)+) simp
    have y6: "sc_pow sval x (2 ^ 6 - 1) y6''"
      unfolding p(7-9) by (rule pow_weaken, (rule pow_rules a y2 y4)+) simp
    have y7: "sc_pow sval x (2 ^ 7 - 1) y7'"
      unfolding p(10-11) by (rule pow_weaken, (rule pow_rules a y6)+) simp
    have y8: "sc_pow sval x (2 ^ 8 - 1) y8'"
      unfolding p(12-13) by (rule pow_weaken, (rule pow_rules a y7)+) simp
    have y15: "sc_pow sval x (2 ^ 15 - 1) y15''"
      unfolding p(14-16) by (rule pow_weaken, (rule pow_rules a y7 y8)+) simp
    have y30: "sc_pow sval x (2 ^ 30 - 1) y30''"
      unfolding p(17-19) by (rule pow_weaken, (rule pow_rules a y15)+) simp
    have y60: "sc_pow sval x (2 ^ 60 - 1) y60''"
      unfolding p(20-22) by (rule pow_weaken, (rule pow_rules a y30)+) simp
    have y120: "sc_pow sval x (2 ^ 120 - 1) y120''"
      unfolding p(23-25) by (rule pow_weaken, (rule pow_rules a y60)+) simp
    have y127: "sc_pow sval x (2 ^ 127 - 1) y127''"
      unfolding p(26-28) by (rule pow_weaken, (rule pow_rules a y120 y7)+) simp
    show ?thesis using p(29) y2 y3 y4 y6 y8 y127 by simp
  qed
  done
  then show "sc_pow sval x (2 ^ 2 - 1) x2" "sc_pow sval x (2 ^ 3 - 1) x3" "sc_pow sval x (2 ^ 4 - 1) x4"
    "sc_pow sval x (2 ^ 6 - 1) x6" "sc_pow sval x (2 ^ 8 - 1) x8" "sc_pow sval x (2 ^ 127 - 1) x127" by simp_all
qed

lemma inverse_pow:
  assumes a: "sval x < secp_n"
  shows "sval (scalar_inverse S x) = sval x ^ nat (secp_n - 2) mod secp_n"
proof -
  obtain x2 x3 x4 x6 x8 x127 where c: "scalar_inverse_chain S x = (x2, x3, x4, x6, x8, x127)" by (metis prod.exhaust)
  note r = pow_rules pow_self[OF a] inverse_chain[OF a c]
  have "sc_pow sval x (nat (secp_n - 2)) (scalar_inverse S x)"
    unfolding scalar_inverse_def c Let_def prod.case
    by (rule pow_weaken, (rule r)+) (simp add: secp_n_def)
  then show ?thesis by (simp add: sc_pow_def)
qed

lemma inverse_mult:
  assumes a: "sval x < secp_n" "sval x \<noteq> 0"
  shows "sval x * sval (scalar_inverse S x) mod secp_n = 1"
proof -
  have "sval x mod secp_n \<noteq> 0" using a val_nonneg[of x] by simp
  from inverse_mod[OF secp_n_prime this] show ?thesis
    unfolding inverse_pow[OF a(1)] by (simp add: mod_mult_right_eq)
qed

lemma inverse_zero: "sval x = 0 \<Longrightarrow> sval (scalar_inverse S x) = 0"
  using inverse_pow[of x] by (simp add: secp_n_def zero_power)

end

section \<open>The decomposition\<close>

lemma round_div_error:
  fixes x :: int
  assumes "c = (x + 2 ^ t) div 2 ^ s" "s = Suc t"
  shows "\<bar>2 ^ s * c - x\<bar> \<le> 2 ^ t"
proof -
  have p: "(2::int) ^ s = 2 ^ t * 2" using assms(2) by simp
  have "lo_bits s (x + 2 ^ t) + 2 ^ s * c = x + 2 ^ t"
    using lo_hi_bits[of s "x + 2 ^ t"] assms(1) by (simp add: hi_bits_def)
  moreover note lo_bits_range[of s "x + 2 ^ t"]
  ultimately show ?thesis unfolding p abs_le_iff by linarith
qed

text \<open>The lattice vectors \<open>(a1, b1)\<close> and \<open>(a2, b2)\<close> of the comment, with \<open>b1\<close> negative.\<close>

definition split_a1 :: int where "split_a1 = 0x3086D221A7D46BCDE86C90E49284EB15"
definition split_b1 :: int where "split_b1 = - 0xE4437ED6010E88286F547FA90ABFE4C3"
definition split_a2 :: int where "split_a2 = 0x114CA50F7A8E2F3F657C1108D9D44CFD8"
definition split_b2 :: int where "split_b2 = 0x3086D221A7D46BCDE86C90E49284EB15"

lemmas split_consts = split_a1_def split_b1_def split_a2_def split_b2_def

lemma split_lattice:
  "split_a1 + secp_lambda * split_b1 = secp_n * (- 98834128363575826231712400374302886273)"
  "split_a2 + secp_lambda * split_b2 = secp_n * 21011179226632705335158493575954588082"
  by (simp_all add: split_consts secp_lambda_def secp_n_def)

lemma combination_bound:
  fixes K a D u v d1 d2 h n s L :: int
  assumes e: "s * K = a * D + u * d1 + v * d2" and b: "\<bar>a\<bar> \<le> n" "\<bar>d1\<bar> \<le> h" "\<bar>d2\<bar> \<le> h"
    and l: "n * \<bar>D\<bar> + \<bar>u\<bar> * h + \<bar>v\<bar> * h < s * L" and s: "0 < s"
  shows "\<bar>K\<bar> < L"
proof -
  have "\<bar>a * D\<bar> \<le> n * \<bar>D\<bar>" "\<bar>u * d1\<bar> \<le> \<bar>u\<bar> * h" "\<bar>v * d2\<bar> \<le> \<bar>v\<bar> * h"
    using b by (simp_all add: abs_mult mult_right_mono mult_left_mono)
  then have "\<bar>s * K\<bar> < s * L" using e l by linarith
  then show ?thesis using s by (simp add: abs_mult)
qed

lemma split_short:
  fixes a c1 c2 :: int
  assumes a: "0 \<le> a" "a < secp_n"
    and c1: "c1 = (a * 0x3086D221A7D46BCDE86C90E49284EB153DAB + 2 ^ 271) div 2 ^ 272"
    and c2: "c2 = (a * 0xE4437ED6010E88286F547FA90ABFE4C42212 + 2 ^ 271) div 2 ^ 272"
  shows "\<bar>- (c1 * split_b1) - c2 * split_b2\<bar> < 2 ^ 128" "\<bar>a - c1 * split_a1 - c2 * split_a2\<bar> < 2 ^ 128"
proof -
  define d1 where "d1 = 2 ^ 272 * c1 - a * 0x3086D221A7D46BCDE86C90E49284EB153DAB"
  define d2 where "d2 = 2 ^ 272 * c2 - a * 0xE4437ED6010E88286F547FA90ABFE4C42212"
  have d: "\<bar>d1\<bar> \<le> 2 ^ 271" "\<bar>d2\<bar> \<le> 2 ^ 271"
    unfolding d1_def d2_def by (rule round_div_error[OF c1] round_div_error[OF c2], simp)+
  have n: "\<bar>a\<bar> \<le> secp_n" using a by simp
  show "\<bar>- (c1 * split_b1) - c2 * split_b2\<bar> < 2 ^ 128"
  proof (rule combination_bound[OF _ n d])
    show "2 ^ 272 * (- (c1 * split_b1) - c2 * split_b2) = a * 141946052440701612755697007721951392711 + (- split_b1) * d1 + (- split_b2) * d2"
      by (simp add: d1_def d2_def split_consts algebra_simps)
  qed (simp_all add: split_consts secp_n_def)
  show "\<bar>a - c1 * split_a1 - c2 * split_a2\<bar> < 2 ^ 128"
  proof (rule combination_bound[OF _ n d])
    show "2 ^ 272 * (a - c1 * split_a1 - c2 * split_a2) = a * (- 17245230026954436818609043738908382519) + (- split_a1) * d1 + (- split_a2) * d2"
      by (simp add: d1_def d2_def split_consts algebra_simps)
  qed (simp_all add: split_consts secp_n_def)
qed

context scalar_repr
begin

lemma split_const_vals:
  "sval (minus_lambda S) = secp_n - secp_lambda" "sval (minus_b1 S) = - split_b1" "sval (minus_b2 S) = secp_n - split_b2"
  "sval (split_g1 S) = 0x3086D221A7D46BCDE86C90E49284EB153DAB" "sval (split_g2 S) = 0xE4437ED6010E88286F547FA90ABFE4C42212"
  by (simp_all add: minus_lambda_def minus_b1_def minus_b2_def split_g1_def split_g2_def const digits_val_def
      secp_n_def secp_lambda_def split_consts)

lemma split_lambda:
  assumes a: "sval a < secp_n" and s: "scalar_split_lambda S a = (r1, r2)"
    and c1: "c1 = (sval a * 0x3086D221A7D46BCDE86C90E49284EB153DAB + 2 ^ 271) div 2 ^ 272"
    and c2: "c2 = (sval a * 0xE4437ED6010E88286F547FA90ABFE4C42212 + 2 ^ 271) div 2 ^ 272"
  shows "(sval r1 + secp_lambda * sval r2) mod secp_n = sval a"
    and "sval r2 = (- (c1 * split_b1) - c2 * split_b2) mod secp_n"
    and "sval r1 = (sval a - c1 * split_a1 - c2 * split_a2) mod secp_n"
proof -
  define C1 where "C1 = so_mul S (so_mul_shift_var S a (split_g1 S) 272) (minus_b1 S)"
  define C2 where "C2 = so_mul S (so_mul_shift_var S a (split_g2 S) 272) (minus_b2 S)"
  have r2d: "r2 = fst (so_add S C1 C2)" and r1d: "r1 = fst (so_add S (so_mul S r2 (minus_lambda S)) a)"
    using s by (auto simp: scalar_split_lambda_def C1_def C2_def Let_def)
  have C: "sval C1 = c1 * (- split_b1) mod secp_n" "sval C2 = c2 * (secp_n - split_b2) mod secp_n"
    unfolding C1_def C2_def mul split_const_vals c1 c2 by (simp_all add: mul_shift_var split_const_vals)
  have r2: "sval r2 = (- (c1 * split_b1) - c2 * split_b2) mod secp_n"
  proof -
    have "sval r2 = (sval C1 + sval C2) mod secp_n" unfolding r2d using add[of C1 C2] C by simp
    also have "\<dots> = (c1 * (- split_b1) + c2 * (secp_n - split_b2)) mod secp_n" unfolding C by (rule mod_add_eq)
    also have "\<dots> = (- (c1 * split_b1) - c2 * split_b2) mod secp_n"
      by (rule mod_eq_if_diff_mult[of _ _ _ c2]) (simp add: algebra_simps)
    finally show ?thesis .
  qed
  show "sval r2 = (- (c1 * split_b1) - c2 * split_b2) mod secp_n" by (rule r2)
  have r1: "sval r1 = (sval a - secp_lambda * sval r2) mod secp_n"
  proof -
    have "sval r1 = (sval r2 * (secp_n - secp_lambda) mod secp_n + sval a) mod secp_n"
      unfolding r1d using add[of "so_mul S r2 (minus_lambda S)" a] a by (simp add: mul split_const_vals)
    also have "\<dots> = (sval r2 * (secp_n - secp_lambda) + sval a) mod secp_n" by (rule mod_add_left_eq)
    also have "\<dots> = (sval a - secp_lambda * sval r2) mod secp_n"
      by (rule mod_eq_if_diff_mult[of _ _ _ "sval r2"]) (simp add: algebra_simps)
    finally show ?thesis .
  qed
  show "(sval r1 + secp_lambda * sval r2) mod secp_n = sval a"
    unfolding r1 mod_add_left_eq using a val_nonneg[of a] by simp
  obtain q1 q2 where q: "split_a1 + secp_lambda * split_b1 = secp_n * q1" "split_a2 + secp_lambda * split_b2 = secp_n * q2"
    using split_lattice by blast
  have "sval r1 = (sval a - secp_lambda * (- (c1 * split_b1) - c2 * split_b2)) mod secp_n"
    unfolding r1 r2 by (metis mod_diff_right_eq mod_mult_right_eq)
  also have "sval a - secp_lambda * (- (c1 * split_b1) - c2 * split_b2)
      = sval a - c1 * split_a1 - c2 * split_a2 + c1 * (split_a1 + secp_lambda * split_b1) + c2 * (split_a2 + secp_lambda * split_b2)"
    by (simp add: algebra_simps)
  also have "\<dots> mod secp_n = (sval a - c1 * split_a1 - c2 * split_a2) mod secp_n"
    unfolding q by (rule mod_eq_if_diff_mult[of _ _ _ "c1 * q1 + c2 * q2"]) (simp add: algebra_simps)
  finally show "sval r1 = (sval a - c1 * split_a1 - c2 * split_a2) mod secp_n" .
qed

lemma split_lambda_short:
  assumes a: "sval a < secp_n" and s: "scalar_split_lambda S a = (r1, r2)"
  shows "\<exists>k1 k2. sval r1 = k1 mod secp_n \<and> sval r2 = k2 mod secp_n \<and> \<bar>k1\<bar> < 2 ^ 128 \<and> \<bar>k2\<bar> < 2 ^ 128"
  using split_lambda(2,3)[OF a s refl refl] split_short[OF val_nonneg a refl refl] by blast

end

section \<open>Properties of the 4x64 instance\<close>

text \<open>C12: For every reduced scalar other than zero, \<^verbatim>\<open>secp256k1_scalar_inverse\<close> (and its variable-time
  variant) returns the inverse modulo the group order, and zero for zero.\<close>

theorem scalar_inverse_4x64_spec:
  assumes "sc_val_4x64 x < secp_n"
  shows "(sc_val_4x64 x * sc_val_4x64 (scalar_inverse scalar_ops_4x64 x)) mod secp_n = (if sc_val_4x64 x = 0 then 0 else 1)
    \<and> scalar_inverse_var scalar_ops_4x64 x = scalar_inverse scalar_ops_4x64 x
    \<and> (sc_val_4x64 x = 0 \<longrightarrow> sc_val_4x64 (scalar_inverse scalar_ops_4x64 x) = 0)"
  using s64.inverse_mult[OF assms] s64.inverse_zero[of x] by (simp add: scalar_inverse_var_def)

theorem scalar_inverse_4x64_spec_witness:
  "sc_val_4x64 (scalar_set_int_4x64 3) < secp_n
   \<and> (sc_val_4x64 (scalar_set_int_4x64 3) * sc_val_4x64 (scalar_inverse scalar_ops_4x64 (scalar_set_int_4x64 3))) mod secp_n = 1"
proof -
  have v: "sc_val_4x64 (scalar_set_int_4x64 3) = 3" by (simp add: scalar_set_int_4x64_val)
  have h: "sc_val_4x64 (scalar_set_int_4x64 3) < secp_n" unfolding v by (simp add: secp_n_def)
  show ?thesis using h scalar_inverse_4x64_spec[OF h] v by simp
qed

text \<open>C13: \<^verbatim>\<open>secp256k1_scalar_split_lambda\<close> writes a reduced scalar as \<open>r1 + lambda * r2\<close> modulo the
  order, and both halves are congruent to integers of less than 128 bits and a sign.\<close>

theorem scalar_split_lambda_4x64_spec:
  assumes "sc_val_4x64 a < secp_n"
  shows "case scalar_split_lambda scalar_ops_4x64 a of (r1, r2) \<Rightarrow>
    (sc_val_4x64 r1 + secp_lambda * sc_val_4x64 r2) mod secp_n = sc_val_4x64 a
    \<and> (\<exists>k1 k2. sc_val_4x64 r1 = k1 mod secp_n \<and> sc_val_4x64 r2 = k2 mod secp_n \<and> \<bar>k1\<bar> < 2 ^ 128 \<and> \<bar>k2\<bar> < 2 ^ 128)"
  using s64.split_lambda(1)[OF assms _ refl refl] s64.split_lambda_short[OF assms] by (auto split: prod.splits)

theorem scalar_split_lambda_4x64_spec_witness:
  "sc_val_4x64 (scalar_const_4x64 0 0 0 1 0 0 0 0) < secp_n
   \<and> (case scalar_split_lambda scalar_ops_4x64 (scalar_const_4x64 0 0 0 1 0 0 0 0) of (r1, r2) \<Rightarrow>
        (sc_val_4x64 r1 + secp_lambda * sc_val_4x64 r2) mod secp_n = 2 ^ 128)"
proof -
  have v: "sc_val_4x64 (scalar_const_4x64 0 0 0 1 0 0 0 0) = 2 ^ 128" by (simp add: scalar_const_4x64_val digits_val_def)
  have h: "sc_val_4x64 (scalar_const_4x64 0 0 0 1 0 0 0 0) < secp_n" unfolding v by (simp add: secp_n_def)
  show ?thesis using h scalar_split_lambda_4x64_spec[OF h] v by (auto split: prod.splits)
qed

end
