(* ===== verification/Hash.thy ===== *)
theory Hash
  imports Secp_Prelude
begin

text \<open>
  \<^verbatim>\<open>hash.h\<close> and \<^verbatim>\<open>hash_impl.h\<close>: the streaming SHA-256, HMAC-SHA256 and the deterministic
  generator of RFC 6979.  The buffer of the C struct is an array of 32-bit words that is filled
  byte by byte; it is a byte list here, read in the little-endian order of the target, so that
  \<^verbatim>\<open>BE32\<close> swaps.  The specification is the one of FIPS 180-4: message schedule, 64 steps with one
  rotation of the eight registers each, padding to whole blocks.
\<close>

section \<open>Definitions\<close>

definition Ch :: "u32 \<Rightarrow> u32 \<Rightarrow> u32 \<Rightarrow> u32" where
  "Ch x y z = z XOR (x AND (y XOR z))"

definition Maj :: "u32 \<Rightarrow> u32 \<Rightarrow> u32 \<Rightarrow> u32" where
  "Maj x y z = (x AND y) OR (z AND (x OR y))"

definition Sigma0 :: "u32 \<Rightarrow> u32" where
  "Sigma0 x = ((drop_bit 2 x OR push_bit 30 x) XOR (drop_bit 13 x OR push_bit 19 x)) XOR (drop_bit 22 x OR push_bit 10 x)"

definition Sigma1 :: "u32 \<Rightarrow> u32" where
  "Sigma1 x = ((drop_bit 6 x OR push_bit 26 x) XOR (drop_bit 11 x OR push_bit 21 x)) XOR (drop_bit 25 x OR push_bit 7 x)"

definition sigma0 :: "u32 \<Rightarrow> u32" where
  "sigma0 x = ((drop_bit 7 x OR push_bit 25 x) XOR (drop_bit 18 x OR push_bit 14 x)) XOR drop_bit 3 x"

definition sigma1 :: "u32 \<Rightarrow> u32" where
  "sigma1 x = ((drop_bit 17 x OR push_bit 15 x) XOR (drop_bit 19 x OR push_bit 13 x)) XOR drop_bit 10 x"

text \<open>The macro \<^verbatim>\<open>Round\<close>: the new values of its arguments \<open>d\<close> and \<open>h\<close>.\<close>

definition Round_t1 :: "u32 \<Rightarrow> u32 \<Rightarrow> u32 \<Rightarrow> u32 \<Rightarrow> u32 \<Rightarrow> u32 \<Rightarrow> u32" where
  "Round_t1 e f g h k w = h + Sigma1 e + Ch e f g + k + w"

definition Round_d :: "u32 \<Rightarrow> u32 \<Rightarrow> u32 \<Rightarrow> u32 \<Rightarrow> u32 \<Rightarrow> u32 \<Rightarrow> u32 \<Rightarrow> u32 \<Rightarrow> u32 \<Rightarrow> u32 \<Rightarrow> u32" where
  "Round_d a b c d e f g h k w = d + Round_t1 e f g h k w"

definition Round_h :: "u32 \<Rightarrow> u32 \<Rightarrow> u32 \<Rightarrow> u32 \<Rightarrow> u32 \<Rightarrow> u32 \<Rightarrow> u32 \<Rightarrow> u32 \<Rightarrow> u32 \<Rightarrow> u32 \<Rightarrow> u32" where
  "Round_h a b c d e f g h k w = (let t1 = Round_t1 e f g h k w; t2 = Sigma0 a + Maj a b c in t1 + t2)"

definition BE32 :: "u32 \<Rightarrow> u32" where
  "BE32 p = ((push_bit 24 (p AND 0xFF) OR push_bit 8 (p AND 0xFF00)) OR drop_bit 8 (p AND 0xFF0000)) OR drop_bit 24 (p AND 0xFF000000)"

record sha256_t =
  sha_s :: "u32 list"
  sha_buf :: bytes
  sha_bytes :: u64

definition sha256_iv :: "u32 list" where
  "sha256_iv = [0x6A09E667, 0xBB67AE85, 0x3C6EF372, 0xA54FF53A, 0x510E527F, 0x9B05688C, 0x1F83D9AB, 0x5BE0CD19]"

definition sha256_initialize :: "sha256_t \<Rightarrow> sha256_t" where
  "sha256_initialize hash = hash\<lparr>sha_s := sha256_iv, sha_bytes := 0\<rparr>"

text \<open>
  The transformation is unrolled in the source, sixteen rounds to a block; the second, third and
  fourth block are the same text with other constants.
\<close>

type_synonym sha_regs = "u32 \<times> u32 \<times> u32 \<times> u32 \<times> u32 \<times> u32 \<times> u32 \<times> u32"

definition sha256_K0 :: "u32 list" where
  "sha256_K0 = [0x428A2F98, 0x71374491, 0xB5C0FBCF, 0xE9B5DBA5, 0x3956C25B, 0x59F111F1, 0x923F82A4, 0xAB1C5ED5,
     0xD807AA98, 0x12835B01, 0x243185BE, 0x550C7DC3, 0x72BE5D74, 0x80DEB1FE, 0x9BDC06A7, 0xC19BF174]"

definition sha256_K1 :: "u32 list" where
  "sha256_K1 = [0xE49B69C1, 0xEFBE4786, 0x0FC19DC6, 0x240CA1CC, 0x2DE92C6F, 0x4A7484AA, 0x5CB0A9DC, 0x76F988DA,
     0x983E5152, 0xA831C66D, 0xB00327C8, 0xBF597FC7, 0xC6E00BF3, 0xD5A79147, 0x06CA6351, 0x14292967]"

definition sha256_K2 :: "u32 list" where
  "sha256_K2 = [0x27B70A85, 0x2E1B2138, 0x4D2C6DFC, 0x53380D13, 0x650A7354, 0x766A0ABB, 0x81C2C92E, 0x92722C85,
     0xA2BFE8A1, 0xA81A664B, 0xC24B8B70, 0xC76C51A3, 0xD192E819, 0xD6990624, 0xF40E3585, 0x106AA070]"

definition sha256_K3 :: "u32 list" where
  "sha256_K3 = [0x19A4C116, 0x1E376C08, 0x2748774C, 0x34B0BCB5, 0x391C0CB3, 0x4ED8AA4A, 0x5B9CCA4F, 0x682E6FF3,
     0x748F82EE, 0x78A5636F, 0x84C87814, 0x8CC70208, 0x90BEFFFA, 0xA4506CEB, 0xBEF9A3F7, 0xC67178F2]"

definition sha256_rounds_first :: "u32 list \<Rightarrow> sha_regs \<Rightarrow> u32 list \<Rightarrow> sha_regs \<times> u32 list" where
  "sha256_rounds_first ks r chunk = (case r of (a, b, c, d, e, f, g, h) \<Rightarrow>
    (let w0 = BE32 (chunk ! 0); d = Round_d a b c d e f g h (ks ! 0) w0; h = Round_h a b c d e f g h (ks ! 0) w0;
         w1 = BE32 (chunk ! 1); c = Round_d h a b c d e f g (ks ! 1) w1; g = Round_h h a b c d e f g (ks ! 1) w1;
         w2 = BE32 (chunk ! 2); b = Round_d g h a b c d e f (ks ! 2) w2; f = Round_h g h a b c d e f (ks ! 2) w2;
         w3 = BE32 (chunk ! 3); a = Round_d f g h a b c d e (ks ! 3) w3; e = Round_h f g h a b c d e (ks ! 3) w3;
         w4 = BE32 (chunk ! 4); h = Round_d e f g h a b c d (ks ! 4) w4; d = Round_h e f g h a b c d (ks ! 4) w4;
         w5 = BE32 (chunk ! 5); g = Round_d d e f g h a b c (ks ! 5) w5; c = Round_h d e f g h a b c (ks ! 5) w5;
         w6 = BE32 (chunk ! 6); f = Round_d c d e f g h a b (ks ! 6) w6; b = Round_h c d e f g h a b (ks ! 6) w6;
         w7 = BE32 (chunk ! 7); e = Round_d b c d e f g h a (ks ! 7) w7; a = Round_h b c d e f g h a (ks ! 7) w7;
         w8 = BE32 (chunk ! 8); d = Round_d a b c d e f g h (ks ! 8) w8; h = Round_h a b c d e f g h (ks ! 8) w8;
         w9 = BE32 (chunk ! 9); c = Round_d h a b c d e f g (ks ! 9) w9; g = Round_h h a b c d e f g (ks ! 9) w9;
         w10 = BE32 (chunk ! 10); b = Round_d g h a b c d e f (ks ! 10) w10; f = Round_h g h a b c d e f (ks ! 10) w10;
         w11 = BE32 (chunk ! 11); a = Round_d f g h a b c d e (ks ! 11) w11; e = Round_h f g h a b c d e (ks ! 11) w11;
         w12 = BE32 (chunk ! 12); h = Round_d e f g h a b c d (ks ! 12) w12; d = Round_h e f g h a b c d (ks ! 12) w12;
         w13 = BE32 (chunk ! 13); g = Round_d d e f g h a b c (ks ! 13) w13; c = Round_h d e f g h a b c (ks ! 13) w13;
         w14 = BE32 (chunk ! 14); f = Round_d c d e f g h a b (ks ! 14) w14; b = Round_h c d e f g h a b (ks ! 14) w14;
         w15 = BE32 (chunk ! 15); e = Round_d b c d e f g h a (ks ! 15) w15; a = Round_h b c d e f g h a (ks ! 15) w15
     in ((a, b, c, d, e, f, g, h), [w0, w1, w2, w3, w4, w5, w6, w7, w8, w9, w10, w11, w12, w13, w14, w15])))"

definition sha256_rounds_next :: "u32 list \<Rightarrow> sha_regs \<Rightarrow> u32 list \<Rightarrow> sha_regs \<times> u32 list" where
  "sha256_rounds_next ks r w = (case r of (a, b, c, d, e, f, g, h) \<Rightarrow>
    (let w0 = w ! 0; w1 = w ! 1; w2 = w ! 2; w3 = w ! 3; w4 = w ! 4; w5 = w ! 5; w6 = w ! 6; w7 = w ! 7;
         w8 = w ! 8; w9 = w ! 9; w10 = w ! 10; w11 = w ! 11; w12 = w ! 12; w13 = w ! 13; w14 = w ! 14; w15 = w ! 15;
         w0 = w0 + (sigma1 w14 + w9 + sigma0 w1); d = Round_d a b c d e f g h (ks ! 0) w0; h = Round_h a b c d e f g h (ks ! 0) w0;
         w1 = w1 + (sigma1 w15 + w10 + sigma0 w2); c = Round_d h a b c d e f g (ks ! 1) w1; g = Round_h h a b c d e f g (ks ! 1) w1;
         w2 = w2 + (sigma1 w0 + w11 + sigma0 w3); b = Round_d g h a b c d e f (ks ! 2) w2; f = Round_h g h a b c d e f (ks ! 2) w2;
         w3 = w3 + (sigma1 w1 + w12 + sigma0 w4); a = Round_d f g h a b c d e (ks ! 3) w3; e = Round_h f g h a b c d e (ks ! 3) w3;
         w4 = w4 + (sigma1 w2 + w13 + sigma0 w5); h = Round_d e f g h a b c d (ks ! 4) w4; d = Round_h e f g h a b c d (ks ! 4) w4;
         w5 = w5 + (sigma1 w3 + w14 + sigma0 w6); g = Round_d d e f g h a b c (ks ! 5) w5; c = Round_h d e f g h a b c (ks ! 5) w5;
         w6 = w6 + (sigma1 w4 + w15 + sigma0 w7); f = Round_d c d e f g h a b (ks ! 6) w6; b = Round_h c d e f g h a b (ks ! 6) w6;
         w7 = w7 + (sigma1 w5 + w0 + sigma0 w8); e = Round_d b c d e f g h a (ks ! 7) w7; a = Round_h b c d e f g h a (ks ! 7) w7;
         w8 = w8 + (sigma1 w6 + w1 + sigma0 w9); d = Round_d a b c d e f g h (ks ! 8) w8; h = Round_h a b c d e f g h (ks ! 8) w8;
         w9 = w9 + (sigma1 w7 + w2 + sigma0 w10); c = Round_d h a b c d e f g (ks ! 9) w9; g = Round_h h a b c d e f g (ks ! 9) w9;
         w10 = w10 + (sigma1 w8 + w3 + sigma0 w11); b = Round_d g h a b c d e f (ks ! 10) w10; f = Round_h g h a b c d e f (ks ! 10) w10;
         w11 = w11 + (sigma1 w9 + w4 + sigma0 w12); a = Round_d f g h a b c d e (ks ! 11) w11; e = Round_h f g h a b c d e (ks ! 11) w11;
         w12 = w12 + (sigma1 w10 + w5 + sigma0 w13); h = Round_d e f g h a b c d (ks ! 12) w12; d = Round_h e f g h a b c d (ks ! 12) w12;
         w13 = w13 + (sigma1 w11 + w6 + sigma0 w14); g = Round_d d e f g h a b c (ks ! 13) w13; c = Round_h d e f g h a b c (ks ! 13) w13;
         w14 = w14 + (sigma1 w12 + w7 + sigma0 w15); f = Round_d c d e f g h a b (ks ! 14) w14; b = Round_h c d e f g h a b (ks ! 14) w14;
         w15 = w15 + (sigma1 w13 + w8 + sigma0 w0); e = Round_d b c d e f g h a (ks ! 15) w15; a = Round_h b c d e f g h a (ks ! 15) w15
     in ((a, b, c, d, e, f, g, h), [w0, w1, w2, w3, w4, w5, w6, w7, w8, w9, w10, w11, w12, w13, w14, w15])))"

definition sha256_transform :: "u32 list \<Rightarrow> u32 list \<Rightarrow> u32 list" where
  "sha256_transform s chunk =
    (case sha256_rounds_first sha256_K0 (s ! 0, s ! 1, s ! 2, s ! 3, s ! 4, s ! 5, s ! 6, s ! 7) chunk of (r, w) \<Rightarrow>
     case sha256_rounds_next sha256_K1 r w of (r, w) \<Rightarrow>
     case sha256_rounds_next sha256_K2 r w of (r, w) \<Rightarrow>
     case sha256_rounds_next sha256_K3 r w of (r, w) \<Rightarrow>
     case r of (a, b, c, d, e, f, g, h) \<Rightarrow>
       [s ! 0 + a, s ! 1 + b, s ! 2 + c, s ! 3 + d, s ! 4 + e, s ! 5 + f, s ! 6 + g, s ! 7 + h])"

text \<open>\<^verbatim>\<open>memcpy(buf + off, data, length data)\<close>\<close>

definition memcpy_at :: "bytes \<Rightarrow> nat \<Rightarrow> bytes \<Rightarrow> bytes" where
  "memcpy_at buf off data = take off buf @ data @ drop (off + length data) buf"

text \<open>The words of the buffer as the little-endian target reads and writes them.\<close>

definition le32 :: "bytes \<Rightarrow> nat \<Rightarrow> u32" where
  "le32 b i = ((ucast (b ! i) OR push_bit 8 (ucast (b ! (i + 1)))) OR push_bit 16 (ucast (b ! (i + 2)))) OR push_bit 24 (ucast (b ! (i + 3)))"

definition le32_bytes :: "u32 \<Rightarrow> bytes" where
  "le32_bytes x = [ucast x, ucast (drop_bit 8 x), ucast (drop_bit 16 x), ucast (drop_bit 24 x)]"

definition sha256_chunk :: "bytes \<Rightarrow> u32 list" where
  "sha256_chunk buf = map (\<lambda>i. le32 buf (4 * i)) [0..<16]"

function sha256_write_loop :: "u32 list \<Rightarrow> bytes \<Rightarrow> nat \<Rightarrow> bytes \<Rightarrow> u32 list \<times> bytes \<times> nat \<times> bytes" where
  "sha256_write_loop s buf bufsize data =
    (if bufsize + length data \<ge> 64 then
       let buf = memcpy_at buf bufsize (take (64 - bufsize) data);
           data = drop (64 - bufsize) data;
           s = sha256_transform s (sha256_chunk buf)
       in sha256_write_loop s buf 0 data
     else (s, buf, bufsize, data))"
  by pat_completeness auto

termination
  by (relation "measure (\<lambda>(s, buf, bufsize, data). 2 * length data + (if 64 \<le> bufsize then 1 else 0))") auto

declare sha256_write_loop.simps [simp del]

definition sha256_write :: "sha256_t \<Rightarrow> bytes \<Rightarrow> sha256_t" where
  "sha256_write hash data =
    (let bufsize = unat (sha_bytes hash AND 0x3F);
         bytes = sha_bytes hash + of_nat (length data)
     in case sha256_write_loop (sha_s hash) (sha_buf hash) bufsize data of (s, buf, bufsize, data) \<Rightarrow>
       \<lparr>sha_s = s, sha_buf = (if data \<noteq> [] then memcpy_at buf bufsize data else buf), sha_bytes = bytes\<rparr>)"

definition sha256_pad :: bytes where
  "sha256_pad = 0x80 # replicate 63 0"

definition sha256_finalize :: "sha256_t \<Rightarrow> sha256_t \<times> bytes" where
  "sha256_finalize hash =
    (let sizedesc = le32_bytes (BE32 (ucast (drop_bit 29 (sha_bytes hash)))) @ le32_bytes (BE32 (ucast (push_bit 3 (sha_bytes hash))));
         hash = sha256_write hash (take (1 + ((119 - unat (sha_bytes hash mod 64)) mod 64)) sha256_pad);
         hash = sha256_write hash sizedesc;
         out = concat (map (\<lambda>x. le32_bytes (BE32 x)) (sha_s hash))
     in (hash\<lparr>sha_s := replicate 8 0\<rparr>, out))"

record hmac_sha256_t =
  hmac_inner :: sha256_t
  hmac_outer :: sha256_t

text \<open>Structs on the stack whose contents do not matter before initialisation.\<close>

definition sha256_stack :: sha256_t where
  "sha256_stack = \<lparr>sha_s = replicate 8 0, sha_buf = replicate 64 0, sha_bytes = 0\<rparr>"

definition hmac_sha256_stack :: hmac_sha256_t where
  "hmac_sha256_stack = \<lparr>hmac_inner = sha256_stack, hmac_outer = sha256_stack\<rparr>"

definition hmac_sha256_initialize :: "hmac_sha256_t \<Rightarrow> bytes \<Rightarrow> hmac_sha256_t" where
  "hmac_sha256_initialize hash key =
    (let rkey = (if length key \<le> 64 then key @ replicate (64 - length key) 0
                 else snd (sha256_finalize (sha256_write (sha256_initialize sha256_stack) key)) @ replicate 32 0);
         outer = sha256_initialize (hmac_outer hash);
         rkey = map (\<lambda>b. b XOR 0x5C) rkey;
         outer = sha256_write outer rkey;
         inner = sha256_initialize (hmac_inner hash);
         rkey = map (\<lambda>b. b XOR (0x5C XOR 0x36)) rkey;
         inner = sha256_write inner rkey
     in \<lparr>hmac_inner = inner, hmac_outer = outer\<rparr>)"

definition hmac_sha256_write :: "hmac_sha256_t \<Rightarrow> bytes \<Rightarrow> hmac_sha256_t" where
  "hmac_sha256_write hash data = hash\<lparr>hmac_inner := sha256_write (hmac_inner hash) data\<rparr>"

definition hmac_sha256_finalize :: "hmac_sha256_t \<Rightarrow> hmac_sha256_t \<times> bytes" where
  "hmac_sha256_finalize hash =
    (case sha256_finalize (hmac_inner hash) of (inner, temp) \<Rightarrow>
     case sha256_finalize (sha256_write (hmac_outer hash) temp) of (outer, out32) \<Rightarrow>
       (\<lparr>hmac_inner = inner, hmac_outer = outer\<rparr>, out32))"

record rfc6979_hmac_sha256_t =
  rng_v :: bytes
  rng_k :: bytes
  rng_retry :: bool

text \<open>The recurring call sequence: initialise with a key, write the pieces, finalise.\<close>

definition hmac_sha256_run :: "bytes \<Rightarrow> bytes list \<Rightarrow> bytes" where
  "hmac_sha256_run key pieces =
    snd (hmac_sha256_finalize (foldl hmac_sha256_write (hmac_sha256_initialize hmac_sha256_stack key) pieces))"

definition rfc6979_hmac_sha256_initialize :: "bytes \<Rightarrow> rfc6979_hmac_sha256_t" where
  "rfc6979_hmac_sha256_initialize key =
    (let v = replicate 32 1;
         k = replicate 32 0;
         k = hmac_sha256_run k [v, [0], key];
         v = hmac_sha256_run k [v];
         k = hmac_sha256_run k [v, [1], key];
         v = hmac_sha256_run k [v]
     in \<lparr>rng_v = v, rng_k = k, rng_retry = False\<rparr>)"

text \<open>
  The output loop.  The source narrows the \<^verbatim>\<open>size_t\<close> count to an \<^verbatim>\<open>int\<close>: a count whose low 32 bits
  are zero makes no progress, and one whose bit 31 is set asks \<^verbatim>\<open>memcpy\<close> for a negative size, which is
  undefined.  The result is None when the loop does not end or reaches that call.
\<close>

partial_function (option) rfc6979_generate_loop :: "bytes \<Rightarrow> bytes \<Rightarrow> bytes \<Rightarrow> u64 \<Rightarrow> (bytes \<times> bytes) option" where
  "rfc6979_generate_loop k v out outlen =
    (if outlen > 0 then
       let now = sint (ucast outlen :: 32 word);
           v = hmac_sha256_run k [v];
           now = (if now > 32 then 32 else now)
       in if now < 0 then None
          else rfc6979_generate_loop k v (out @ take (nat now) v) (outlen - word_of_int now)
     else Some (out, v))"

definition rfc6979_hmac_sha256_generate :: "rfc6979_hmac_sha256_t \<Rightarrow> u64 \<Rightarrow> (rfc6979_hmac_sha256_t \<times> bytes) option" where
  "rfc6979_hmac_sha256_generate rng outlen =
    (let (k, v) = (if rng_retry rng then
            let k = hmac_sha256_run (rng_k rng) [rng_v rng, [0]];
                v = hmac_sha256_run k [rng_v rng]
            in (k, v)
          else (rng_k rng, rng_v rng))
     in case rfc6979_generate_loop k v [] outlen of
          None \<Rightarrow> None
        | Some (out, v) \<Rightarrow> Some (\<lparr>rng_v = v, rng_k = k, rng_retry = True\<rparr>, out))"

definition rfc6979_hmac_sha256_finalize :: "rfc6979_hmac_sha256_t \<Rightarrow> rfc6979_hmac_sha256_t" where
  "rfc6979_hmac_sha256_finalize rng = \<lparr>rng_v = replicate 32 0, rng_k = replicate 32 0, rng_retry = False\<rparr>"

section \<open>Specification: FIPS 180-4\<close>

definition fips_Ch :: "u32 \<Rightarrow> u32 \<Rightarrow> u32 \<Rightarrow> u32" where
  "fips_Ch x y z = (x AND y) XOR (NOT x AND z)"

definition fips_Maj :: "u32 \<Rightarrow> u32 \<Rightarrow> u32 \<Rightarrow> u32" where
  "fips_Maj x y z = (x AND y) XOR (x AND z) XOR (y AND z)"

definition fips_Sigma0 :: "u32 \<Rightarrow> u32" where
  "fips_Sigma0 x = word_rotr 2 x XOR word_rotr 13 x XOR word_rotr 22 x"

definition fips_Sigma1 :: "u32 \<Rightarrow> u32" where
  "fips_Sigma1 x = word_rotr 6 x XOR word_rotr 11 x XOR word_rotr 25 x"

definition fips_sigma0 :: "u32 \<Rightarrow> u32" where
  "fips_sigma0 x = word_rotr 7 x XOR word_rotr 18 x XOR drop_bit 3 x"

definition fips_sigma1 :: "u32 \<Rightarrow> u32" where
  "fips_sigma1 x = word_rotr 17 x XOR word_rotr 19 x XOR drop_bit 10 x"

text \<open>
  The constants, from their definition in the standard: the first 32 bits of the fractional parts of the
  square roots of the first eight primes (initial value) and of the cube roots of the first
  sixty-four primes (round constants).  \<open>floor_root k b n\<close> is the integer part of the \<open>k\<close>-th root of \<open>n\<close>,
  found bit by bit for a root of at most \<open>b\<close> bits; the roots here are below 8.
\<close>

primrec floor_root :: "nat \<Rightarrow> nat \<Rightarrow> int \<Rightarrow> int" where
  "floor_root k 0 n = 0"
| "floor_root k (Suc b) n = (let r = 2 * floor_root k b (n div 2 ^ k) in if (r + 1) ^ k \<le> n then r + 1 else r)"

definition fips_primes :: "int list" where
  "fips_primes = [2, 3, 5, 7, 11, 13, 17, 19, 23, 29, 31, 37, 41, 43, 47, 53, 59, 61, 67, 71, 73, 79, 83, 89, 97, 101, 103, 107, 109,
     113, 127, 131, 137, 139, 149, 151, 157, 163, 167, 173, 179, 181, 191, 193, 197, 199, 211, 223, 227, 229, 233, 239, 241, 251,
     257, 263, 269, 271, 277, 281, 283, 293, 307, 311]"

definition fips_frac :: "nat \<Rightarrow> int \<Rightarrow> u32" where
  "fips_frac k p = word_of_int (floor_root k 35 (p * 2 ^ (32 * k)))"

definition fips_H0 :: "u32 list" where
  "fips_H0 = map (fips_frac 2) (take 8 fips_primes)"

definition fips_K :: "u32 list" where
  "fips_K = map (fips_frac 3) fips_primes"

fun fips_W :: "u32 list \<Rightarrow> nat \<Rightarrow> u32" where
  "fips_W M t = (if t < 16 then M ! t
     else fips_sigma1 (fips_W M (t - 2)) + fips_W M (t - 7) + fips_sigma0 (fips_W M (t - 15)) + fips_W M (t - 16))"

declare fips_W.simps [simp del]

definition fips_step :: "sha_regs \<Rightarrow> u32 \<times> u32 \<Rightarrow> sha_regs" where
  "fips_step r kw = (case r of (a, b, c, d, e, f, g, h) \<Rightarrow> case kw of (k, w) \<Rightarrow>
    (let T1 = h + fips_Sigma1 e + fips_Ch e f g + k + w; T2 = fips_Sigma0 a + fips_Maj a b c
     in (T1 + T2, a, b, c, d + T1, e, f, g)))"

definition fips_compress :: "u32 list \<Rightarrow> u32 list \<Rightarrow> u32 list" where
  "fips_compress H M = (case foldl fips_step (H ! 0, H ! 1, H ! 2, H ! 3, H ! 4, H ! 5, H ! 6, H ! 7)
       (zip fips_K (map (fips_W M) [0..<64])) of (a, b, c, d, e, f, g, h) \<Rightarrow>
     [a + H ! 0, b + H ! 1, c + H ! 2, d + H ! 3, e + H ! 4, f + H ! 5, g + H ! 6, h + H ! 7])"

lemma floor_root_bounds:
  assumes "0 < k" "0 \<le> n" "n < 2 ^ (k * b)"
  shows "0 \<le> floor_root k b n \<and> floor_root k b n ^ k \<le> n \<and> n < (floor_root k b n + 1) ^ k"
  using assms(2,3)
proof (induction b arbitrary: n)
  case 0
  then show ?case using assms(1) by (simp add: zero_power)
next
  case (Suc b)
  define q where "q = n div 2 ^ k"
  define r where "r = floor_root k b q"
  have "q * 2 ^ k + n mod 2 ^ k = n" unfolding q_def by (rule div_mult_mod_eq)
  moreover have "0 \<le> n mod 2 ^ k" "n mod 2 ^ k < 2 ^ k" by simp_all
  ultimately have div: "q * 2 ^ k \<le> n" "n < (q + 1) * 2 ^ k" unfolding distrib_right mult_1_left by linarith+
  have "n < 2 ^ (k * b) * 2 ^ k" using Suc.prems(2) by (simp add: power_add mult.commute)
  then have "q * 2 ^ k < 2 ^ (k * b) * 2 ^ k" using div(1) by linarith
  then have "q < 2 ^ (k * b)" by (rule mult_right_less_imp_less) simp
  moreover have "0 \<le> q" using Suc.prems(1) by (simp add: q_def pos_imp_zdiv_nonneg_iff)
  ultimately have r: "0 \<le> r" "r ^ k \<le> q" "q < (r + 1) ^ k" using Suc.IH[of q] by (simp_all add: r_def)
  have "(2 * r) ^ k \<le> q * 2 ^ k" using r(2) by (simp add: power_mult_distrib mult.commute)
  then have lo: "(2 * r) ^ k \<le> n" using div(1) by linarith
  have "(q + 1) * 2 ^ k \<le> (2 * r + 1 + 1) ^ k"
  proof -
    have "(q + 1) * 2 ^ k \<le> (r + 1) ^ k * 2 ^ k" using r(3) by (intro mult_right_mono) simp_all
    also have "\<dots> = ((r + 1) * 2) ^ k" by (simp only: power_mult_distrib)
    finally show ?thesis by (simp add: algebra_simps)
  qed
  then have hi: "n < (2 * r + 1 + 1) ^ k" using div(2) by linarith
  show ?case
    unfolding floor_root.simps(2) Let_def q_def[symmetric] r_def[symmetric]
    using r(1) lo hi by (cases "(2 * r + 1) ^ k \<le> n") simp_all
qed

text \<open>The tables of the source are these constants.\<close>

lemma sha256_iv_fips: "sha256_iv = fips_H0"
  by code_simp

lemma sha256_K_fips: "sha256_K0 @ sha256_K1 @ sha256_K2 @ sha256_K3 = fips_K"
  by code_simp

lemma Ch_fips: "Ch x y z = fips_Ch x y z"
  unfolding Ch_def fips_Ch_def by (rule bit_word_eqI) (auto simp: bit_simps)

lemma Maj_fips: "Maj x y z = fips_Maj x y z"
  unfolding Maj_def fips_Maj_def by (rule bit_word_eqI) (auto simp: bit_simps)

lemma rotr_shifts:
  fixes x :: u32
  assumes n: "0 < n" "n < 32"
  shows "drop_bit n x OR push_bit (32 - n) x = word_rotr n x"
proof (rule bit_word_eqI)
  fix m assume m: "m < LENGTH(32)"
  have l: "bit x k \<Longrightarrow> k < 32" for k using bit_imp_le_length[of x k] by simp
  have r: "bit (word_rotr n x) m \<longleftrightarrow> bit x ((m + n) mod 32)" using m by (simp add: bit_word_rotr_iff)
  have s: "bit (drop_bit n x OR push_bit (32 - n) x) m \<longleftrightarrow> bit x (n + m) \<or> 32 - n \<le> m \<and> bit x (m - (32 - n))"
    using m by (simp add: bit_or_iff bit_drop_bit_eq bit_push_bit_iff)
  show "bit (drop_bit n x OR push_bit (32 - n) x) m \<longleftrightarrow> bit (word_rotr n x) m"
  proof (cases "n + m < 32")
    case True
    then show ?thesis unfolding r s using n by (auto simp: add.commute)
  next
    case False
    have "(m + n) mod 32 = (m + n - 32) mod 32" by (rule le_mod_geq) (use False in simp)
    also have "\<dots> = m - (32 - n)" using n m False by simp
    finally show ?thesis unfolding r s using False l[of "n + m"] by auto
  qed
qed

lemma Sigma_fips: "Sigma0 x = fips_Sigma0 x" "Sigma1 x = fips_Sigma1 x" "sigma0 x = fips_sigma0 x" "sigma1 x = fips_sigma1 x"
  unfolding Sigma0_def fips_Sigma0_def Sigma1_def fips_Sigma1_def sigma0_def fips_sigma0_def sigma1_def fips_sigma1_def
  using rotr_shifts[of 2 x] rotr_shifts[of 13 x] rotr_shifts[of 22 x] rotr_shifts[of 6 x] rotr_shifts[of 11 x]
    rotr_shifts[of 25 x] rotr_shifts[of 7 x] rotr_shifts[of 18 x] rotr_shifts[of 17 x] rotr_shifts[of 19 x]
  by (simp_all add: xor.assoc)

lemma Round_fips:
  assumes "d' = Round_d a b c d e f g h k w" "h' = Round_h a b c d0 e f g h k w"
  shows "fips_step (a, b, c, d, e, f, g, h) (k, w) = (h', a, b, c, d', e, f, g)"
  using assms by (simp add: fips_step_def Round_d_def Round_h_def Round_t1_def Ch_fips Maj_fips Sigma_fips Let_def)

lemma list16: "length xs = 16 \<Longrightarrow> xs = [xs ! 0, xs ! 1, xs ! 2, xs ! 3, xs ! 4, xs ! 5, xs ! 6, xs ! 7,
    xs ! 8, xs ! 9, xs ! 10, xs ! 11, xs ! 12, xs ! 13, xs ! 14, xs ! 15]"
  by (auto simp: eval_nat_numeral length_Suc_conv)

text \<open>Sixteen rounds are sixteen steps of the specification, with the registers back in place.\<close>

lemma sha256_rounds_first_fips:
  fixes w' :: "u32 list" and V :: "nat \<Rightarrow> u32"
  assumes f: "sha256_rounds_first ks (a, b, c, d, e, f, g, h) chunk = (r', w')" and ks: "length ks = 16"
    and w: "length chunk = 16"
  shows "r' = foldl fips_step (a, b, c, d, e, f, g, h) (zip ks w') \<and> length w' = 16 \<and> w' = map BE32 (take 16 chunk)"
  using f unfolding sha256_rounds_first_def prod.case
  apply (elim LetE)
  subgoal premises p for v0 d1 h1 v1 c1 g1 v2 b1 f1 v3 a1 e1 v4 h2 d2 v5 g2 c2 v6 f2 b2 v7 e2 a2 v8 d3 h3 v9 c3 g3 v10 b3 f3 v11 a3 e3 v12 h4 d4 v13 g4 c4 v14 f4 b4 v15 e4 a4
  proof -
    have e: "r' = (a4, b4, c4, d4, e4, f4, g4, h4)" "w' = [v0, v1, v2, v3, v4, v5, v6, v7, v8, v9, v10, v11, v12, v13, v14, v15]" using p(49) by simp_all
    have k: "ks = [ks ! 0, ks ! 1, ks ! 2, ks ! 3, ks ! 4, ks ! 5, ks ! 6, ks ! 7, ks ! 8, ks ! 9, ks ! 10, ks ! 11, ks ! 12, ks ! 13, ks ! 14, ks ! 15]" using list16[OF ks] .
    have "foldl fips_step (a, b, c, d, e, f, g, h) [(ks ! 0, v0), (ks ! 1, v1), (ks ! 2, v2), (ks ! 3, v3), (ks ! 4, v4), (ks ! 5, v5), (ks ! 6, v6), (ks ! 7, v7), (ks ! 8, v8), (ks ! 9, v9), (ks ! 10, v10), (ks ! 11, v11), (ks ! 12, v12), (ks ! 13, v13), (ks ! 14, v14), (ks ! 15, v15)] = (a4, b4, c4, d4, e4, f4, g4, h4)"
      by (simp only: foldl.simps Round_fips[OF p(2) p(3)] Round_fips[OF p(5) p(6)] Round_fips[OF p(8) p(9)] Round_fips[OF p(11) p(12)] Round_fips[OF p(14) p(15)] Round_fips[OF p(17) p(18)] Round_fips[OF p(20) p(21)] Round_fips[OF p(23) p(24)] Round_fips[OF p(26) p(27)] Round_fips[OF p(29) p(30)] Round_fips[OF p(32) p(33)] Round_fips[OF p(35) p(36)] Round_fips[OF p(38) p(39)] Round_fips[OF p(41) p(42)] Round_fips[OF p(44) p(45)] Round_fips[OF p(47) p(48)])
    then have 1: "r' = foldl fips_step (a, b, c, d, e, f, g, h) (zip ks w')"
      unfolding e by (subst k) (simp only: zip.simps zip_Cons_Cons list.case)
    moreover have "w' = map BE32 (take 16 chunk)"
      unfolding e using p(1,4,7,10,13,16,19,22,25,28,31,34,37,40,43,46) by (subst list16[OF w]) simp
    ultimately show ?thesis using w by simp
  qed
  done

lemma sha256_rounds_next_fips:
  fixes w' :: "u32 list" and V :: "nat \<Rightarrow> u32"
  assumes f: "sha256_rounds_next ks (a, b, c, d, e, f, g, h) w = (r', w')" and ks: "length ks = 16"
    and w: "\<And>j. V (16 + j) = sigma1 (V (14 + j)) + V (9 + j) + sigma0 (V (1 + j)) + V j" "w = [V 0, V 1, V 2, V 3, V 4, V 5, V 6, V 7, V 8, V 9, V 10, V 11, V 12, V 13, V 14, V 15]"
  shows "r' = foldl fips_step (a, b, c, d, e, f, g, h) (zip ks w') \<and> length w' = 16 \<and> w' = [V 16, V 17, V 18, V 19, V 20, V 21, V 22, V 23, V 24, V 25, V 26, V 27, V 28, V 29, V 30, V 31]"
  using f unfolding sha256_rounds_next_def prod.case
  apply (elim LetE)
  subgoal premises p for w0 w1 w2 w3 w4 w5 w6 w7 w8 w9 w10 w11 w12 w13 w14 w15 v0 d1 h1 v1 c1 g1 v2 b1 f1 v3 a1 e1 v4 h2 d2 v5 g2 c2 v6 f2 b2 v7 e2 a2 v8 d3 h3 v9 c3 g3 v10 b3 f3 v11 a3 e3 v12 h4 d4 v13 g4 c4 v14 f4 b4 v15 e4 a4
  proof -
    have e: "r' = (a4, b4, c4, d4, e4, f4, g4, h4)" "w' = [v0, v1, v2, v3, v4, v5, v6, v7, v8, v9, v10, v11, v12, v13, v14, v15]" using p(65) by simp_all
    have k: "ks = [ks ! 0, ks ! 1, ks ! 2, ks ! 3, ks ! 4, ks ! 5, ks ! 6, ks ! 7, ks ! 8, ks ! 9, ks ! 10, ks ! 11, ks ! 12, ks ! 13, ks ! 14, ks ! 15]" using list16[OF ks] .
    have "foldl fips_step (a, b, c, d, e, f, g, h) [(ks ! 0, v0), (ks ! 1, v1), (ks ! 2, v2), (ks ! 3, v3), (ks ! 4, v4), (ks ! 5, v5), (ks ! 6, v6), (ks ! 7, v7), (ks ! 8, v8), (ks ! 9, v9), (ks ! 10, v10), (ks ! 11, v11), (ks ! 12, v12), (ks ! 13, v13), (ks ! 14, v14), (ks ! 15, v15)] = (a4, b4, c4, d4, e4, f4, g4, h4)"
      by (simp only: foldl.simps Round_fips[OF p(18) p(19)] Round_fips[OF p(21) p(22)] Round_fips[OF p(24) p(25)] Round_fips[OF p(27) p(28)] Round_fips[OF p(30) p(31)] Round_fips[OF p(33) p(34)] Round_fips[OF p(36) p(37)] Round_fips[OF p(39) p(40)] Round_fips[OF p(42) p(43)] Round_fips[OF p(45) p(46)] Round_fips[OF p(48) p(49)] Round_fips[OF p(51) p(52)] Round_fips[OF p(54) p(55)] Round_fips[OF p(57) p(58)] Round_fips[OF p(60) p(61)] Round_fips[OF p(63) p(64)])
    then have 1: "r' = foldl fips_step (a, b, c, d, e, f, g, h) (zip ks w')"
      unfolding e by (subst k) (simp only: zip.simps zip_Cons_Cons list.case)
    have v0: "v0 = V 16"
      using w(1)[of 0, simplified add_numeral_left numeral_plus_one one_plus_numeral add_0_right one_add_one numeral_One arith_simps] unfolding p(17) p(1-16) w(2)  by (simp add: ac_simps)
    have v1: "v1 = V 17"
      using w(1)[of 1, simplified add_numeral_left numeral_plus_one one_plus_numeral add_0_right one_add_one numeral_One arith_simps] unfolding p(20) p(1-16) w(2)  by (simp add: ac_simps)
    have v2: "v2 = V 18"
      using w(1)[of 2, simplified add_numeral_left numeral_plus_one one_plus_numeral add_0_right one_add_one numeral_One arith_simps] unfolding p(23) p(1-16) w(2) v0 by (simp add: ac_simps)
    have v3: "v3 = V 19"
      using w(1)[of 3, simplified add_numeral_left numeral_plus_one one_plus_numeral add_0_right one_add_one numeral_One arith_simps] unfolding p(26) p(1-16) w(2) v1 by (simp add: ac_simps)
    have v4: "v4 = V 20"
      using w(1)[of 4, simplified add_numeral_left numeral_plus_one one_plus_numeral add_0_right one_add_one numeral_One arith_simps] unfolding p(29) p(1-16) w(2) v2 by (simp add: ac_simps)
    have v5: "v5 = V 21"
      using w(1)[of 5, simplified add_numeral_left numeral_plus_one one_plus_numeral add_0_right one_add_one numeral_One arith_simps] unfolding p(32) p(1-16) w(2) v3 by (simp add: ac_simps)
    have v6: "v6 = V 22"
      using w(1)[of 6, simplified add_numeral_left numeral_plus_one one_plus_numeral add_0_right one_add_one numeral_One arith_simps] unfolding p(35) p(1-16) w(2) v4 by (simp add: ac_simps)
    have v7: "v7 = V 23"
      using w(1)[of 7, simplified add_numeral_left numeral_plus_one one_plus_numeral add_0_right one_add_one numeral_One arith_simps] unfolding p(38) p(1-16) w(2) v5 v0 by (simp add: ac_simps)
    have v8: "v8 = V 24"
      using w(1)[of 8, simplified add_numeral_left numeral_plus_one one_plus_numeral add_0_right one_add_one numeral_One arith_simps] unfolding p(41) p(1-16) w(2) v6 v1 by (simp add: ac_simps)
    have v9: "v9 = V 25"
      using w(1)[of 9, simplified add_numeral_left numeral_plus_one one_plus_numeral add_0_right one_add_one numeral_One arith_simps] unfolding p(44) p(1-16) w(2) v7 v2 by (simp add: ac_simps)
    have v10: "v10 = V 26"
      using w(1)[of 10, simplified add_numeral_left numeral_plus_one one_plus_numeral add_0_right one_add_one numeral_One arith_simps] unfolding p(47) p(1-16) w(2) v8 v3 by (simp add: ac_simps)
    have v11: "v11 = V 27"
      using w(1)[of 11, simplified add_numeral_left numeral_plus_one one_plus_numeral add_0_right one_add_one numeral_One arith_simps] unfolding p(50) p(1-16) w(2) v9 v4 by (simp add: ac_simps)
    have v12: "v12 = V 28"
      using w(1)[of 12, simplified add_numeral_left numeral_plus_one one_plus_numeral add_0_right one_add_one numeral_One arith_simps] unfolding p(53) p(1-16) w(2) v10 v5 by (simp add: ac_simps)
    have v13: "v13 = V 29"
      using w(1)[of 13, simplified add_numeral_left numeral_plus_one one_plus_numeral add_0_right one_add_one numeral_One arith_simps] unfolding p(56) p(1-16) w(2) v11 v6 by (simp add: ac_simps)
    have v14: "v14 = V 30"
      using w(1)[of 14, simplified add_numeral_left numeral_plus_one one_plus_numeral add_0_right one_add_one numeral_One arith_simps] unfolding p(59) p(1-16) w(2) v12 v7 by (simp add: ac_simps)
    have v15: "v15 = V 31"
      using w(1)[of 15, simplified add_numeral_left numeral_plus_one one_plus_numeral add_0_right one_add_one numeral_One arith_simps] unfolding p(62) p(1-16) w(2) v13 v8 v0 by (simp add: ac_simps)
    from 1 show ?thesis unfolding e by (simp add: v0 v1 v2 v3 v4 v5 v6 v7 v8 v9 v10 v11 v12 v13 v14 v15)
  qed
  done

lemma upt_64: "[0..<64] = [0, 1, 2, 3, 4, 5, 6, 7, 8, 9, 10, 11, 12, 13, 14, 15] @ [16, 17, 18, 19, 20, 21, 22, 23, 24, 25, 26, 27, 28, 29, 30, 31]
    @ [32, 33, 34, 35, 36, 37, 38, 39, 40, 41, 42, 43, 44, 45, 46, 47] @ [48, 49, 50, 51, 52, 53, 54, 55, 56, 57, 58, 59, 60, 61, 62, 63 :: nat]"
  by code_simp

lemma sha256_K_length: "length sha256_K0 = 16" "length sha256_K1 = 16" "length sha256_K2 = 16" "length sha256_K3 = 16"
  by (simp_all add: sha256_K0_def sha256_K1_def sha256_K2_def sha256_K3_def)

lemma fips_W_first: "t < 16 \<Longrightarrow> fips_W M t = M ! t"
  by (simp add: fips_W.simps[of M t])

lemma fips_W_rec: "fips_W M (16 + j) = sigma1 (fips_W M (14 + j)) + fips_W M (9 + j) + sigma0 (fips_W M (1 + j)) + fips_W M j"
  by (simp add: fips_W.simps[of M "16 + j"] Sigma_fips)

lemma sha256_rounds_next_W:
  assumes f: "sha256_rounds_next ks r (map (\<lambda>j. fips_W M (t + j)) [0, 1, 2, 3, 4, 5, 6, 7, 8, 9, 10, 11, 12, 13, 14, 15]) = (r', w')"
    and ks: "length ks = 16"
  shows "r' = foldl fips_step r (zip ks w')"
    and "w' = map (\<lambda>j. fips_W M (t + j)) [16, 17, 18, 19, 20, 21, 22, 23, 24, 25, 26, 27, 28, 29, 30, 31]"
proof -
  obtain a b c d e f g h where r: "r = (a, b, c, d, e, f, g, h)" by (metis surj_pair)
  have rec: "fips_W M (t + (16 + j)) = sigma1 (fips_W M (t + (14 + j))) + fips_W M (t + (9 + j)) + sigma0 (fips_W M (t + (1 + j))) + fips_W M (t + j)"
    for j using fips_W_rec[of M "t + j"] by (simp add: add.left_commute)
  from sha256_rounds_next_fips[of ks a b c d e f g h _ r' w' "\<lambda>j. fips_W M (t + j)", OF f[unfolded r] ks rec]
  show "r' = foldl fips_step r (zip ks w')"
    and "w' = map (\<lambda>j. fips_W M (t + j)) [16, 17, 18, 19, 20, 21, 22, 23, 24, 25, 26, 27, 28, 29, 30, 31]"
    unfolding r by simp_all
qed

lemma sha256_transform_fips:
  assumes c: "length chunk = 16"
  shows "sha256_transform s chunk = fips_compress s (map BE32 chunk)"
proof -
  define M where "M = map BE32 chunk"
  define r0 where "r0 = (s ! 0, s ! 1, s ! 2, s ! 3, s ! 4, s ! 5, s ! 6, s ! 7)"
  define W where "W t = map (\<lambda>j. fips_W M (t + j)) [0, 1, 2, 3, 4, 5, 6, 7, 8, 9, 10, 11, 12, 13, 14, 15]" for t
  have Wl: "length (W t) = 16" for t by (simp add: W_def)
  have next_W: "r' = foldl fips_step r (zip ks (W (t + 16))) \<and> w' = W (t + 16)"
    if "sha256_rounds_next ks r (W t) = (r', w')" "length ks = 16" for ks r r' w' t
    using sha256_rounds_next_W[OF that[unfolded W_def]] unfolding W_def by (simp add: add.commute[of t])
  obtain r1 w1 where 1: "sha256_rounds_first sha256_K0 r0 chunk = (r1, w1)" by fastforce
  have M: "length M = 16" using c by (simp add: M_def)
  have "r1 = foldl fips_step r0 (zip sha256_K0 w1)" "w1 = M"
    using sha256_rounds_first_fips[OF 1[unfolded r0_def] sha256_K_length(1) c] c by (simp_all add: M_def r0_def)
  moreover have "M = W 0"
    unfolding W_def by (subst list16[OF M]) (simp add: fips_W_first)
  ultimately have i1: "r1 = foldl fips_step r0 (zip sha256_K0 (W 0))" "w1 = W 0" by simp_all
  obtain r2 w2 where 2: "sha256_rounds_next sha256_K1 r1 (W 0) = (r2, w2)" by fastforce
  note i2 = next_W[OF 2 sha256_K_length(2), simplified]
  obtain r3 w3 where 3: "sha256_rounds_next sha256_K2 r2 (W 16) = (r3, w3)" by fastforce
  note i3 = next_W[OF 3 sha256_K_length(3), simplified]
  obtain r4 w4 where 4: "sha256_rounds_next sha256_K3 r3 (W 32) = (r4, w4)" by fastforce
  note i4 = next_W[OF 4 sha256_K_length(4), simplified]
  have "map (fips_W M) [0..<64] = W 0 @ W 16 @ W 32 @ W 48" unfolding upt_64 W_def by simp
  then have f: "foldl fips_step r0 (zip fips_K (map (fips_W M) [0..<64])) = r4"
    using i1 i2 i3 i4 by (simp add: sha256_K_fips[symmetric] sha256_K_length Wl)
  obtain a b c d e f g h where r4: "r4 = (a, b, c, d, e, f, g, h)" by (metis surj_pair)
  have "sha256_transform s chunk = [s ! 0 + a, s ! 1 + b, s ! 2 + c, s ! 3 + d, s ! 4 + e, s ! 5 + f, s ! 6 + g, s ! 7 + h]"
    unfolding sha256_transform_def r0_def[symmetric] by (simp only: 1 prod.case i1(2) 2 i2[THEN conjunct2] 3 i3[THEN conjunct2] 4 r4)
  moreover have "fips_compress s M = [a + s ! 0, b + s ! 1, c + s ! 2, d + s ! 3, e + s ! 4, f + s ! 5, g + s ! 6, h + s ! 7]"
    unfolding fips_compress_def r0_def[symmetric] f r4 by simp
  ultimately show ?thesis by (simp add: M_def add.commute)
qed

section \<open>The stream\<close>

definition be32 :: "bytes \<Rightarrow> nat \<Rightarrow> u32" where
  "be32 b i = ((push_bit 24 (ucast (b ! i)) OR push_bit 16 (ucast (b ! (i + 1)))) OR push_bit 8 (ucast (b ! (i + 2)))) OR ucast (b ! (i + 3))"

definition fips_block :: "bytes \<Rightarrow> u32 list" where
  "fips_block b = map (\<lambda>i. be32 b (4 * i)) [0..<16]"

function fips_blocks :: "u32 list \<Rightarrow> bytes \<Rightarrow> u32 list" where
  "fips_blocks H m = (if 64 \<le> length m then fips_blocks (fips_compress H (fips_block (take 64 m))) (drop 64 m) else H)"
  by pat_completeness auto

termination
  by (relation "measure (\<lambda>(H, m). length m)") auto

declare fips_blocks.simps [simp del]

definition be32_bytes :: "u32 \<Rightarrow> bytes" where
  "be32_bytes x = [ucast (drop_bit 24 x), ucast (drop_bit 16 x), ucast (drop_bit 8 x), ucast x]"

text \<open>Padding: one bit, the fewest zeros that leave eight bytes of a block, the length in bits.\<close>

definition fips_pad :: "bytes \<Rightarrow> bytes" where
  "fips_pad m = m @ 0x80 # replicate ((119 - length m mod 64) mod 64) 0
     @ be32_bytes (word_of_nat (8 * length m div 2 ^ 32)) @ be32_bytes (word_of_nat (8 * length m))"

definition fips_sha256 :: "bytes \<Rightarrow> bytes" where
  "fips_sha256 m = concat (map be32_bytes (fips_blocks fips_H0 (fips_pad m)))"

lemma byte_masks: "(0xFF :: u32) = mask 8" "(0xFF00 :: u32) = push_bit 8 (mask 8)"
  "(0xFF0000 :: u32) = push_bit 16 (mask 8)" "(0xFF000000 :: u32) = push_bit 24 (mask 8)"
  by (simp_all add: mask_numeral)

lemma bit_BE32:
  assumes "j < 8"
  shows "bit (BE32 p) j = bit p (24 + j)" "bit (BE32 p) (8 + j) = bit p (16 + j)"
    "bit (BE32 p) (16 + j) = bit p (8 + j)" "bit (BE32 p) (24 + j) = bit p j"
  unfolding BE32_def byte_masks using assms by (simp_all add: bit_simps)

lemma bit_le32:
  assumes "j < 8"
  shows "bit (le32 b i) j = bit (b ! i) j" "bit (le32 b i) (8 + j) = bit (b ! (i + 1)) j"
    "bit (le32 b i) (16 + j) = bit (b ! (i + 2)) j" "bit (le32 b i) (24 + j) = bit (b ! (i + 3)) j"
  unfolding le32_def using assms by (auto simp add: bit_simps dest: bit_imp_le_length)

lemma bit_be32:
  assumes "j < 8"
  shows "bit (be32 b i) j = bit (b ! (i + 3)) j" "bit (be32 b i) (8 + j) = bit (b ! (i + 2)) j"
    "bit (be32 b i) (16 + j) = bit (b ! (i + 1)) j" "bit (be32 b i) (24 + j) = bit (b ! i) j"
  unfolding be32_def using assms by (auto simp add: bit_simps dest: bit_imp_le_length)

lemma u32_eqI:
  fixes x y :: u32
  assumes "\<And>j. j < 8 \<Longrightarrow> bit x j = bit y j" "\<And>j. j < 8 \<Longrightarrow> bit x (8 + j) = bit y (8 + j)"
    "\<And>j. j < 8 \<Longrightarrow> bit x (16 + j) = bit y (16 + j)" "\<And>j. j < 8 \<Longrightarrow> bit x (24 + j) = bit y (24 + j)"
  shows "x = y"
proof (rule bit_word_eqI)
  fix n assume n: "n < LENGTH(32)"
  then consider "n < 8" | "n - 8 < 8" "n = 8 + (n - 8)" | "n - 16 < 8" "n = 16 + (n - 16)" | "n - 24 < 8" "n = 24 + (n - 24)" by fastforce
  then show "bit x n = bit y n" using assms by cases metis+
qed

lemma BE32_le32: "BE32 (le32 b i) = be32 b i"
  by (rule u32_eqI) (simp_all only: bit_BE32 bit_le32 bit_be32)

lemma sha256_chunk_block: "map BE32 (sha256_chunk buf) = fips_block buf"
  by (simp add: sha256_chunk_def fips_block_def BE32_le32)

lemma le32_bytes_BE32: "le32_bytes (BE32 x) = be32_bytes x"
proof -
  have "bit (ucast (drop_bit k (BE32 x)) :: u8) n = bit (ucast (drop_bit (24 - k) x) :: u8) n"
    if "n < 8" "k = 0 \<or> k = 8 \<or> k = 16 \<or> k = 24" for n k
    using that bit_BE32[OF that(1), of x] by (auto simp: bit_simps)
  then have "ucast (drop_bit k (BE32 x)) = (ucast (drop_bit (24 - k) x) :: u8)" if "k = 0 \<or> k = 8 \<or> k = 16 \<or> k = 24" for k
    using that by (intro bit_word_eqI) simp
  from this[of 0] this[of 8] this[of 16] this[of 24] show ?thesis
    by (simp add: le32_bytes_def be32_bytes_def)
qed

lemma fips_blocks_rest:
  "fips_blocks (fips_blocks H m) (drop (64 * (length m div 64)) m @ d) = fips_blocks H (m @ d)"
proof (induction H m rule: fips_blocks.induct)
  case (1 H m)
  show ?case
  proof (cases "64 \<le> length m")
    case True
    have "drop (64 * (length m div 64)) m = drop (64 * ((length m - 64) div 64)) (drop 64 m)"
      using True by (simp add: le_div_geq add.commute)
    then show ?thesis
      using True "1.IH"[OF True] by (simp add: fips_blocks.simps[of H m] fips_blocks.simps[of H "m @ d"])
  next
    case False
    then show ?thesis by (simp add: fips_blocks.simps[of H m])
  qed
qed

lemma memcpy_at_length: "off + length data \<le> length buf \<Longrightarrow> length (memcpy_at buf off data) = length buf"
  by (simp add: memcpy_at_def)

lemma memcpy_at_prefix: "off + length data \<le> length buf \<Longrightarrow> take (off + length data) (memcpy_at buf off data) = take off buf @ data"
  by (simp add: memcpy_at_def)

lemma sha256_write_loop_fips:
  assumes "bufsize < 64" "length buf = 64" "sha256_write_loop s buf bufsize data = (s', buf', bufsize', data')"
  shows "s' = fips_blocks s (take bufsize buf @ data) \<and> length buf' = 64
    \<and> bufsize' + length data' = (bufsize + length data) mod 64
    \<and> take bufsize' buf' @ data' = drop (64 * ((bufsize + length data) div 64)) (take bufsize buf @ data)"
  using assms
proof (induction s buf bufsize data rule: sha256_write_loop.induct)
  case (1 s buf bufsize data)
  define A where "A = take bufsize buf @ data"
  have A: "length A = bufsize + length data" using "1.prems" by (simp add: A_def)
  show ?case
  proof (cases "64 \<le> bufsize + length data")
    case True
    define buf1 where "buf1 = memcpy_at buf bufsize (take (64 - bufsize) data)"
    have b: "buf1 = take 64 A" using True "1.prems" by (simp add: buf1_def A_def memcpy_at_def)
    have d: "drop (64 - bufsize) data = drop 64 A" using "1.prems" by (simp add: A_def)
    have bl: "length buf1 = 64" unfolding b using True A by simp
    have t: "sha256_transform s (sha256_chunk buf1) = fips_compress s (fips_block (take 64 A))"
      using sha256_transform_fips[of "sha256_chunk buf1" s] b by (simp only: sha256_chunk_block) (simp add: sha256_chunk_def)
    have l: "sha256_write_loop (sha256_transform s (sha256_chunk buf1)) buf1 0 (drop 64 A) = (s', buf', bufsize', data')"
      using "1.prems"(3) True unfolding buf1_def d[symmetric] by (simp add: sha256_write_loop.simps[of s] Let_def)
    from "1.IH"[OF True buf1_def d[symmetric] refl _ bl l]
    have "s' = fips_blocks (fips_compress s (fips_block (take 64 A))) (drop 64 A)" "length buf' = 64"
      "bufsize' + length data' = (length A - 64) mod 64"
      "take bufsize' buf' @ data' = drop (64 * ((length A - 64) div 64)) (drop 64 A)"
      unfolding t by simp_all
    then show ?thesis
      unfolding A_def[symmetric] A[symmetric] using True[folded A] fips_blocks.simps[of s A]
      by (simp add: le_div_geq le_mod_geq add.commute)
  next
    case False
    then show ?thesis
      using "1.prems" fips_blocks.simps[of s A] A unfolding A_def[symmetric]
      by (auto simp: sha256_write_loop.simps[of s] A_def)
  qed
qed

text \<open>
  The state of a running hash after the message \<open>m\<close>: the chaining value of its whole blocks, the
  rest of it at the start of the buffer, and its length modulo the width of the counter.
\<close>

definition sha256_holds :: "sha256_t \<Rightarrow> bytes \<Rightarrow> bool" where
  "sha256_holds h m \<longleftrightarrow> sha_bytes h = of_nat (length m) \<and> sha_s h = fips_blocks fips_H0 m
    \<and> length (sha_buf h) = 64 \<and> take (length m mod 64) (sha_buf h) = drop (64 * (length m div 64)) m"

lemma sha256_initialize_holds: "length (sha_buf h) = 64 \<Longrightarrow> sha256_holds (sha256_initialize h) []"
  by (simp add: sha256_holds_def sha256_initialize_def sha256_iv_fips fips_blocks.simps)

lemma bufsize_mod: "unat (of_nat n AND 0x3F :: u64) = n mod 64"
proof -
  have "(of_nat n AND 0x3F :: u64) = of_nat n AND mask 6" by (simp add: mask_numeral)
  then have "uint (of_nat n AND 0x3F :: u64) = uint (of_nat n :: u64) mod 2 ^ 6" by (simp only: uint_and_mask)
  also have "\<dots> = int n mod 2 ^ 64 mod 2 ^ 6" by (simp add: unsigned_of_nat take_bit_eq_mod of_nat_mod)
  also have "\<dots> = int n mod 2 ^ 6" by (rule mod_mod_cancel) (simp add: le_imp_power_dvd)
  finally have "int (unat (of_nat n AND 0x3F :: u64)) = int (n mod 64)" by (simp add: of_nat_mod)
  then show ?thesis by (simp only: of_nat_eq_iff)
qed

lemma sha256_write_holds:
  assumes h: "sha256_holds h m"
  shows "sha256_holds (sha256_write h d) (m @ d)"
proof -
  let ?r = "length m mod 64"
  obtain s' buf' bs' d' where l: "sha256_write_loop (sha_s h) (sha_buf h) ?r d = (s', buf', bs', d')" by (metis surj_pair)
  let ?rest = "drop (64 * (length m div 64)) m"
  have hh: "sha_s h = fips_blocks fips_H0 m" "length (sha_buf h) = 64" "take ?r (sha_buf h) = ?rest"
    using h by (simp_all only: sha256_holds_def)
  have "?r < 64" by simp
  note f = sha256_write_loop_fips[OF this hh(2) l, unfolded hh(1,3)]
  have "length m + length d = (?r + length d) + 64 * (length m div 64)" by simp
  then have q: "(length m + length d) div 64 = length m div 64 + (?r + length d) div 64"
    "(length m + length d) mod 64 = (?r + length d) mod 64"
    by (simp_all only: div_mult_self2 mod_mult_self2)
  have s: "s' = fips_blocks fips_H0 (m @ d)" "length buf' = 64" "bs' + length d' = (length m + length d) mod 64"
    "take bs' buf' @ d' = drop (64 * ((?r + length d) div 64)) (?rest @ d)"
    using f unfolding q fips_blocks_rest by blast+
  have "drop (64 * ((?r + length d) div 64)) (?rest @ d) = drop (64 * ((length m + length d) div 64)) (m @ d)"
  proof -
    have e: "?rest @ d = drop (64 * (length m div 64)) (m @ d)" by simp
    show ?thesis unfolding q e drop_drop by (simp only: distrib_left add.commute)
  qed
  with s(4) have rest: "take bs' buf' @ d' = drop (64 * (length (m @ d) div 64)) (m @ d)" by (simp only: length_append)
  have w: "sha256_write h d = \<lparr>sha_s = s', sha_buf = (if d' \<noteq> [] then memcpy_at buf' bs' d' else buf'), sha_bytes = of_nat (length (m @ d))\<rparr>"
    using h l bufsize_mod[of "length m"] by (simp add: sha256_write_def sha256_holds_def Let_def)
  have "(length m + length d) mod 64 < 64" by simp
  then have lim: "bs' + length d' \<le> length buf'" using s(2,3) by linarith
  have "take (bs' + length d') (if d' \<noteq> [] then memcpy_at buf' bs' d' else buf') = take bs' buf' @ d'"
    "length (if d' \<noteq> [] then memcpy_at buf' bs' d' else buf') = 64"
    using memcpy_at_prefix[OF lim] memcpy_at_length[OF lim] s(2) by simp_all
  then show ?thesis
    unfolding sha256_holds_def w using s(1,3) rest by (simp only: sha256_t.simps length_append)
qed

lemma uint_of_nat_mod: "uint (of_nat k :: 'a::len word) = int k mod 2 ^ LENGTH('a)"
  by (simp add: unsigned_of_nat take_bit_eq_mod of_nat_mod)

lemma size_words:
  assumes "n < 2 ^ 61"
  shows "ucast (drop_bit 29 (of_nat n :: u64)) = (word_of_nat (8 * n div 2 ^ 32) :: u32)"
proof -
  have "uint (of_nat n :: u64) = int n" using assms by (simp add: uint_of_nat_mod)
  then have "uint (ucast (drop_bit 29 (of_nat n :: u64)) :: u32) = int (n div 2 ^ 29) mod 2 ^ LENGTH(32)"
    by (simp only: uint_ucast_mod uint_drop_bit_div of_nat_div of_nat_power of_nat_numeral)
  moreover have "8 * n div 2 ^ 32 = n div 2 ^ 29" by simp
  ultimately show ?thesis by (simp only: word_uint_eq_iff uint_of_nat_mod)
qed

lemma size_words_low: "ucast (push_bit 3 (of_nat n :: u64)) = (word_of_nat (8 * n) :: u32)"
proof -
  have p: "push_bit 3 (of_nat n :: u64) = of_nat (8 * n)" by (simp add: push_bit_eq_mult)
  have "(2::int) ^ LENGTH(32) dvd 2 ^ LENGTH(64)" by (rule le_imp_power_dvd) simp
  then show ?thesis unfolding p by (simp only: word_uint_eq_iff uint_ucast_mod uint_of_nat_mod mod_mod_cancel)
qed

lemma sha256_finalize_fips:
  assumes h: "sha256_holds h m" and len: "length m < 2 ^ 61"
  shows "snd (sha256_finalize h) = fips_sha256 m" "length (sha_buf (fst (sha256_finalize h))) = 64"
proof -
  have b: "sha_bytes h = of_nat (length m)" using h by (simp add: sha256_holds_def)
  have "unat (of_nat (length m) mod 64 :: u64) = length m mod 64"
  proof -
    have "(64 :: int) dvd 2 ^ LENGTH(64)" using le_imp_power_dvd[of 6 64 "2 :: int"] by simp
    then have "uint (of_nat (length m) mod 64 :: u64) = int (length m) mod 64"
      by (simp add: uint_mod uint_of_nat_mod mod_mod_cancel)
    then have "int (unat (of_nat (length m) mod 64 :: u64)) = int (length m mod 64)" by (simp add: of_nat_mod)
    then show ?thesis by (simp only: of_nat_eq_iff)
  qed
  then have pad: "take (1 + ((119 - unat (sha_bytes h mod 64)) mod 64)) sha256_pad = 0x80 # replicate ((119 - length m mod 64) mod 64) 0"
    using mod_less_divisor[of 64 "119 - length m mod 64"] by (simp add: b sha256_pad_def take_Cons' min_absorb1)
  define h1 where "h1 = sha256_write (sha256_write h (0x80 # replicate ((119 - length m mod 64) mod 64) 0))
    (be32_bytes (word_of_nat (8 * length m div 2 ^ 32)) @ be32_bytes (word_of_nat (8 * length m)))"
  have "sha256_holds h1 (fips_pad m)"
    unfolding h1_def fips_pad_def
    using sha256_write_holds[OF sha256_write_holds[OF h, of "0x80 # replicate ((119 - length m mod 64) mod 64) 0"],
        of "be32_bytes (word_of_nat (8 * length m div 2 ^ 32)) @ be32_bytes (word_of_nat (8 * length m))"]
    by (simp only: append_assoc append_Cons)
  moreover have "sha256_finalize h = (h1\<lparr>sha_s := replicate 8 0\<rparr>, concat (map be32_bytes (sha_s h1)))"
    unfolding sha256_finalize_def Let_def pad le32_bytes_BE32 unfolding b size_words[OF len] size_words_low h1_def by simp
  ultimately show "snd (sha256_finalize h) = fips_sha256 m" "length (sha_buf (fst (sha256_finalize h))) = 64"
    by (simp_all add: sha256_holds_def fips_sha256_def)
qed

lemma fips_compress_length: "length (fips_compress H M) = 8"
  by (simp add: fips_compress_def split: prod.split)

lemma fips_blocks_length: "length H = 8 \<Longrightarrow> length (fips_blocks H m) = 8"
proof (induction H m rule: fips_blocks.induct)
  case (1 H m)
  then show ?case by (simp add: fips_blocks.simps[of H m] fips_compress_length)
qed

lemma fips_sha256_length: "length (fips_sha256 m) = 32"
proof -
  have "length (concat (map be32_bytes xs)) = 4 * length xs" for xs
    by (induction xs) (simp_all add: be32_bytes_def)
  then show ?thesis by (simp add: fips_sha256_def fips_blocks_length sha256_iv_fips[symmetric] sha256_iv_def)
qed

section \<open>HMAC\<close>

definition hmac_key :: "bytes \<Rightarrow> bytes" where
  "hmac_key key = (let k = (if length key \<le> 64 then key else fips_sha256 key) in k @ replicate (64 - length k) 0)"

definition fips_hmac :: "bytes \<Rightarrow> bytes \<Rightarrow> bytes" where
  "fips_hmac key m = fips_sha256 (map (\<lambda>b. b XOR 0x5C) (hmac_key key) @ fips_sha256 (map (\<lambda>b. b XOR 0x36) (hmac_key key) @ m))"

definition hmac_holds :: "hmac_sha256_t \<Rightarrow> bytes \<Rightarrow> bytes \<Rightarrow> bool" where
  "hmac_holds h key m \<longleftrightarrow> sha256_holds (hmac_inner h) (map (\<lambda>b. b XOR 0x36) (hmac_key key) @ m)
    \<and> sha256_holds (hmac_outer h) (map (\<lambda>b. b XOR 0x5C) (hmac_key key))"

lemma hmac_key_length: "length (hmac_key key) = 64"
  by (simp add: hmac_key_def fips_sha256_length Let_def)

lemma sha256_oneshot:
  assumes "length m < 2 ^ 61"
  shows "snd (sha256_finalize (sha256_write (sha256_initialize sha256_stack) m)) = fips_sha256 m"
  using sha256_finalize_fips(1)[OF sha256_write_holds[OF sha256_initialize_holds], of sha256_stack m] assms
  by (simp add: sha256_stack_def)

lemma hmac_initialize_holds:
  assumes "length (sha_buf (hmac_inner h)) = 64" "length (sha_buf (hmac_outer h)) = 64" "length key < 2 ^ 61"
  shows "hmac_holds (hmac_sha256_initialize h key) key []"
proof -
  have k: "(if length key \<le> 64 then key @ replicate (64 - length key) 0
      else snd (sha256_finalize (sha256_write (sha256_initialize sha256_stack) key)) @ replicate 32 0) = hmac_key key"
    using sha256_oneshot[OF assms(3)] by (simp add: hmac_key_def fips_sha256_length Let_def)
  have e: "map (\<lambda>b. b XOR (0x5C XOR 0x36)) (map (\<lambda>b. b XOR 0x5C) xs) = map (\<lambda>b. b XOR 0x36) xs" for xs :: bytes
  proof -
    have "(b XOR c) XOR (c XOR d) = b XOR d" for b c d :: u8
      by (rule bit_eqI) (auto simp only: bit_xor_iff)
    then show ?thesis by (simp only: map_map comp_def)
  qed
  show ?thesis
    using sha256_write_holds[OF sha256_initialize_holds[OF assms(1)]] sha256_write_holds[OF sha256_initialize_holds[OF assms(2)]]
    unfolding hmac_sha256_initialize_def k Let_def e hmac_holds_def by simp
qed

lemma hmac_write_holds: "hmac_holds h key m \<Longrightarrow> hmac_holds (hmac_sha256_write h d) key (m @ d)"
  using sha256_write_holds[of "hmac_inner h" "map (\<lambda>b. b XOR 0x36) (hmac_key key) @ m" d]
  by (simp add: hmac_holds_def hmac_sha256_write_def)

lemma hmac_finalize_fips:
  assumes h: "hmac_holds h key m" and len: "length m < 2 ^ 60"
  shows "snd (hmac_sha256_finalize h) = fips_hmac key m"
proof -
  have 1: "snd (sha256_finalize (hmac_inner h)) = fips_sha256 (map (\<lambda>b. b XOR 0x36) (hmac_key key) @ m)"
    using h len by (intro sha256_finalize_fips(1)) (simp_all add: hmac_holds_def hmac_key_length)
  have "sha256_holds (sha256_write (hmac_outer h) x) (map (\<lambda>b. b XOR 0x5C) (hmac_key key) @ x)" for x
    using h by (intro sha256_write_holds) (simp add: hmac_holds_def)
  from sha256_finalize_fips(1)[OF this] 1 show ?thesis
    by (simp add: hmac_sha256_finalize_def fips_hmac_def hmac_key_length fips_sha256_length case_prod_beta)
qed

lemma hmac_foldl_holds: "hmac_holds h key m \<Longrightarrow> hmac_holds (foldl hmac_sha256_write h ds) key (m @ concat ds)"
  by (induction ds arbitrary: h m) (simp_all add: hmac_write_holds flip: append_assoc)

lemma hmac_sha256_run_fips:
  assumes "length key < 2 ^ 61" "length (concat ds) < 2 ^ 60"
  shows "hmac_sha256_run key ds = fips_hmac key (concat ds)"
  unfolding hmac_sha256_run_def
  using hmac_finalize_fips[OF hmac_foldl_holds[OF hmac_initialize_holds], of hmac_sha256_stack key ds] assms
  by (simp add: hmac_sha256_stack_def sha256_stack_def)

lemma fips_hmac_length: "length (fips_hmac key m) = 32"
  by (simp add: fips_hmac_def fips_sha256_length)

section \<open>The deterministic generator of RFC 6979\<close>

text \<open>The states that a sequence of calls reaches: initialised, then written to any number of
  times.  The message is what was written so far.\<close>

inductive sha256_reach :: "bytes \<Rightarrow> sha256_t \<Rightarrow> bool" where
  reach_init: "length (sha_buf h) = 64 \<Longrightarrow> sha256_reach [] (sha256_initialize h)"
| reach_write: "sha256_reach m h \<Longrightarrow> sha256_reach (m @ d) (sha256_write h d)"

inductive_cases sha256_reach_writeE: "sha256_reach m (sha256_write h d)"

definition rng_ok :: "rfc6979_hmac_sha256_t \<Rightarrow> bool" where
  "rng_ok rng \<longleftrightarrow> length (rng_v rng) = 32 \<and> length (rng_k rng) = 32"

text \<open>Section 3.2 of RFC 6979, steps b to h, for the first 32 bytes.\<close>

definition rfc6979_nonce :: "bytes \<Rightarrow> bytes" where
  "rfc6979_nonce seed =
    (let v0 = replicate 32 1; k0 = replicate 32 0;
         k1 = fips_hmac k0 (v0 @ [0] @ seed);
         v1 = fips_hmac k1 v0;
         k2 = fips_hmac k1 (v1 @ [1] @ seed);
         v2 = fips_hmac k2 v1
     in fips_hmac k2 v2)"

lemma hmac_run_length:
  "length key < 2 ^ 60 \<Longrightarrow> length (concat ds) < 2 ^ 60 \<Longrightarrow> length (hmac_sha256_run key ds) = 32"
  by (simp add: hmac_sha256_run_fips fips_hmac_length)

text \<open>The conversion of the count, and what is left of it after one round.\<close>

lemma narrow_count:
  fixes n :: u64
  shows "uint n mod 2 ^ 32 < 2 ^ 31 \<Longrightarrow> sint (ucast n :: 32 word) = uint n mod 2 ^ 32"
    and "\<not> uint n mod 2 ^ 32 < 2 ^ 31 \<Longrightarrow> sint (ucast n :: 32 word) < 0"
proof -
  have u: "uint (ucast n :: 32 word) = uint n mod 2 ^ 32" by (simp add: unsigned_ucast_eq take_bit_eq_mod)
  have m: "0 \<le> uint n mod 2 ^ 32" "uint n mod 2 ^ 32 < 2 ^ 32" "(2 :: int) ^ 32 = 2 ^ 31 + 2 ^ 31" by simp_all
  have s: "sint w = (uint w + 2 ^ 31) mod 2 ^ 32 - 2 ^ 31" for w :: "32 word"
    by (simp add: sint_uint signed_take_bit_eq_take_bit_shift take_bit_eq_mod)
  show "sint (ucast n :: 32 word) = uint n mod 2 ^ 32" if "uint n mod 2 ^ 32 < 2 ^ 31"
  proof -
    have "(uint n mod 2 ^ 32 + 2 ^ 31) mod 2 ^ 32 = uint n mod 2 ^ 32 + 2 ^ 31" using that m by (intro mod_pos_pos_trivial) linarith+
    then show ?thesis unfolding s u by linarith
  qed
  show "sint (ucast n :: 32 word) < 0" if "\<not> uint n mod 2 ^ 32 < 2 ^ 31"
  proof -
    have "(uint n mod 2 ^ 32 + 2 ^ 31) mod 2 ^ 32 = uint n mod 2 ^ 32 + 2 ^ 31 - 2 ^ 32" using that m by (intro int_mod_pos_eq[of _ _ 1]) linarith+
    then show ?thesis unfolding s u using m(2) by linarith
  qed
qed

lemma count_left:
  assumes "0 \<le> j" "j \<le> uint n"
  shows "uint (n - word_of_int j :: u64) = uint n - j"
proof -
  have n: "uint n < 2 ^ 64" using uint_lt2p[of n] by simp
  have "uint (word_of_int j :: u64) = j" using assms n by (simp add: uint_word_of_int)
  then show ?thesis using assms n by (simp add: uint_word_ariths)
qed

lemma generate_loop_returns:
  assumes "length k = 32" "length v = 32" "uint n < 2 ^ 31"
  shows "\<exists>out' v'. rfc6979_generate_loop k v out n = Some (out', v') \<and> length out' = length out + unat n \<and> length v' = 32"
  using assms(2,3)
proof (induction "unat n" arbitrary: n v out rule: less_induct)
  case less
  define w where "w = hmac_sha256_run k [v]"
  define j where "j = (if uint n > 32 then 32 else uint n)"
  have w: "length w = 32" unfolding w_def by (rule hmac_run_length) (simp_all add: assms(1) less.prems(1))
  have j: "0 \<le> j" "j \<le> 32" "j \<le> uint n" by (simp_all add: j_def)
  show ?case
  proof (cases "n = 0")
    case True
    then show ?thesis using less.prems(1) by (simp add: rfc6979_generate_loop.simps[of k v])
  next
    case False
    then have "uint n \<noteq> 0" "0 < n" by (simp_all add: word_gt_0 uint_0_iff)
    then have pos: "0 < uint n" "0 < n" using uint_ge_0[of n] by linarith+
    have "uint n mod 2 ^ 32 = uint n" using less.prems(2) by (intro mod_pos_pos_trivial) simp_all
    then have s: "sint (ucast n :: 32 word) = uint n" using narrow_count(1)[of n] less.prems(2) by (simp only:)
    have nj: "\<not> j < 0" using j(1) by simp
    have step: "rfc6979_generate_loop k v out n = rfc6979_generate_loop k w (out @ take (nat j) w) (n - word_of_int j)"
      using rfc6979_generate_loop.simps[of k v out n]
      unfolding s Let_def w_def[symmetric] j_def[symmetric] if_P[OF pos(2)] if_not_P[OF nj] .
    have l: "uint (n - word_of_int j) = uint n - j" using j by (intro count_left)
    then have d: "int (unat (n - word_of_int j)) = int (unat n) - j" by (simp only: uint_nat)
    have "0 < j" using pos by (simp add: j_def)
    then have lt: "unat (n - word_of_int j) < unat n" using d by linarith
    have b: "uint (n - word_of_int j) < 2 ^ 31" using l j less.prems(2) by linarith
    obtain out' v' where r: "rfc6979_generate_loop k w (out @ take (nat j) w) (n - word_of_int j) = Some (out', v')"
      "length out' = length (out @ take (nat j) w) + unat (n - word_of_int j)" "length v' = 32"
      using less.hyps[OF lt w b] by blast
    have "length (take (nat j) w) = nat j" using w j by simp
    then have "length out' = length out + unat n" using r(2) d j(1) unfolding length_append by linarith
    then show ?thesis unfolding step using r(1,3) by blast
  qed
qed

lemma generate_loop_bound:
  assumes "rfc6979_generate_loop k v out n = Some y"
  shows "uint n < 2 ^ 31"
proof (rule rfc6979_generate_loop.raw_induct[where P = "\<lambda>k v out n y. uint n < 2 ^ 31", OF _ assms])
  fix f and k v out :: bytes and n :: u64 and y :: "bytes \<times> bytes"
  assume IH: "\<And>k v out n y. f k v out n = Some y \<Longrightarrow> uint (n :: u64) < 2 ^ 31"
    and e: "(if n > 0 then
       let now = sint (ucast n :: 32 word); v = hmac_sha256_run k [v]; now = (if now > 32 then 32 else now)
       in if now < 0 then None else f k v (out @ take (nat now) v) (n - word_of_int now)
     else Some (out, v)) = Some y"
  show "uint n < 2 ^ 31"
  proof (cases "n > 0")
    case True
    have m: "uint n mod 2 ^ 32 < 2 ^ 31"
    proof (rule ccontr)
      assume "\<not> uint n mod 2 ^ 32 < 2 ^ 31"
      then have "sint (ucast n :: 32 word) < 0" by (rule narrow_count(2))
      then show False using e True by (simp add: Let_def)
    qed
    define r where "r = uint n mod 2 ^ 32"
    define j where "j = (if r > 32 then 32 else r)"
    have le: "0 \<le> r" "r \<le> uint n" unfolding r_def by (rule pos_mod_sign, simp) (rule zmod_le_nonneg_dividend, simp)
    then have j: "0 \<le> j" "j \<le> r" by (simp_all add: j_def)
    then have nj: "\<not> j < 0" by linarith
    have "f k (hmac_sha256_run k [v]) (out @ take (nat j) (hmac_sha256_run k [v])) (n - word_of_int j) = Some y"
      using e unfolding narrow_count(1)[OF m] Let_def r_def[symmetric] j_def[symmetric] if_P[OF True] if_not_P[OF nj] .
    from IH[OF this] have "uint n - j < 2 ^ 31" using count_left[of j n] j le by linarith
    moreover define q where "q = uint n div 2 ^ 32"
    have n: "uint n = q * 2 ^ 32 + r" unfolding q_def r_def by (simp only: div_mult_mod_eq)
    ultimately have "q * 2 ^ 32 < 2 ^ 31" using j by linarith
    moreover have "0 \<le> q" unfolding q_def by (simp add: pos_imp_zdiv_nonneg_iff)
    ultimately have "q = 0" by simp
    then have "uint n = r" using n by simp
    then show ?thesis using m unfolding r_def[symmetric] by (simp only:)
  qed (simp add: word_less_def)
qed

lemma initialize_rng_ok:
  assumes "length seed < 2 ^ 59"
  shows "rng_ok (rfc6979_hmac_sha256_initialize seed)"
  using assms unfolding rfc6979_hmac_sha256_initialize_def rng_ok_def Let_def
  by (simp add: hmac_run_length)

text \<open>A request starts with the step of 3.2.h.3 when it is not the first one.\<close>

definition rng_start :: "rfc6979_hmac_sha256_t \<Rightarrow> bytes \<times> bytes" where
  "rng_start rng =
    (let k = hmac_sha256_run (rng_k rng) [rng_v rng, [0]]
     in if rng_retry rng then (k, hmac_sha256_run k [rng_v rng]) else (rng_k rng, rng_v rng))"

lemma generate_start:
  assumes "rng_start rng = (k, v)"
  shows "rfc6979_hmac_sha256_generate rng n =
    map_option (\<lambda>(out, v). (\<lparr>rng_v = v, rng_k = k, rng_retry = True\<rparr>, out)) (rfc6979_generate_loop k v [] n)"
  using assms by (auto simp: rfc6979_hmac_sha256_generate_def rng_start_def Let_def split: if_splits option.splits)

lemma rng_start_ok:
  assumes "rng_ok rng" "rng_start rng = (k, v)"
  shows "length k = 32" "length v = 32"
  using assms by (auto simp: rng_start_def rng_ok_def Let_def hmac_run_length split: if_splits)

lemma generate_returns:
  assumes ok: "rng_ok rng" and n: "uint n < 2 ^ 31"
  obtains rng' out where "rfc6979_hmac_sha256_generate rng n = Some (rng', out)" "rng_ok rng'" "length out = unat n" "rng_retry rng'"
proof -
  obtain k v where s: "rng_start rng = (k, v)" by fastforce
  note l = rng_start_ok[OF ok s]
  obtain out' v' where "rfc6979_generate_loop k v [] n = Some (out', v')" "length out' = unat n" "length v' = 32"
    using generate_loop_returns[OF l n, of "[]"] unfolding list.size(3) add_0 by blast
  then show ?thesis using that generate_start[OF s, of n] l(1) by (simp add: rng_ok_def)
qed

lemma generate_bound: "rfc6979_hmac_sha256_generate rng n = Some r \<Longrightarrow> uint n < 2 ^ 31"
  using generate_loop_bound by (cases "rng_start rng") (auto simp: generate_start)

text \<open>One block: what every caller asks for.\<close>

definition rfc6979_block :: "rfc6979_hmac_sha256_t \<Rightarrow> rfc6979_hmac_sha256_t \<times> bytes" where
  "rfc6979_block rng = (case rng_start rng of (k, v) \<Rightarrow>
     let v = hmac_sha256_run k [v] in (\<lparr>rng_v = v, rng_k = k, rng_retry = True\<rparr>, take 32 v))"

lemma generate_32: "rfc6979_hmac_sha256_generate rng 32 = Some (rfc6979_block rng)"
proof -
  obtain k v where s: "rng_start rng = (k, v)" by fastforce
  have "rfc6979_generate_loop k v [] 32 = Some (take 32 (hmac_sha256_run k [v]), hmac_sha256_run k [v])"
    by (simp add: rfc6979_generate_loop.simps[of k v] rfc6979_generate_loop.simps[of k "hmac_sha256_run k [v]"] Let_def)
  then show ?thesis using s by (simp add: generate_start rfc6979_block_def Let_def)
qed

section \<open>Properties\<close>

text \<open>C24: Hashing a message in any sequence of writes gives the SHA-256 digest that FIPS 180-4
  defines for the concatenation of the pieces, for every message of less than 2 to the 61 bytes.\<close>

theorem sha256_stream_fips:
  assumes "length (concat pieces) < 2 ^ 61"
  shows "snd (sha256_finalize (foldl sha256_write (sha256_initialize sha256_stack) pieces)) = fips_sha256 (concat pieces)"
proof -
  have "sha256_holds (foldl sha256_write h ds) (m @ concat ds)" if "sha256_holds h m" for h m ds
    using that
  proof (induction ds arbitrary: h m)
    case (Cons d ds)
    show ?case using Cons.IH[OF sha256_write_holds[OF Cons.prems]] by simp
  qed simp
  then have "sha256_holds (foldl sha256_write (sha256_initialize sha256_stack) pieces) (concat pieces)"
    using sha256_initialize_holds[of sha256_stack] by (metis append_Nil length_replicate sha256_t.select_convs(2) sha256_stack_def)
  from sha256_finalize_fips[OF this assms] show ?thesis by simp
qed

theorem sha256_stream_fips_witness:
  "snd (sha256_finalize (foldl sha256_write (sha256_initialize sha256_stack) [[0x61], [0x62, 0x63]]))
   = fips_sha256 [0x61, 0x62, 0x63]"
  using sha256_stream_fips[of "[[0x61], [0x62, 0x63]]"] by simp

text \<open>C27: In every state that initialisation and writes can reach, the byte counter holds the length
  of the message modulo 2 to the 64, the chaining value covers all complete blocks of the message, and the
  buffer starts with the bytes that are not hashed yet.\<close>

theorem sha256_reach_holds: "sha256_reach m h \<Longrightarrow> sha256_holds h m"
  by (induction rule: sha256_reach.induct) (auto intro: sha256_initialize_holds sha256_write_holds)

theorem sha256_reach_holds_witness: "sha256_holds (sha256_write (sha256_initialize sha256_stack) [7]) [7]"
proof -
  have "sha256_reach ([] @ [7]) (sha256_write (sha256_initialize sha256_stack) [7])"
    by (intro reach_write reach_init) (simp add: sha256_stack_def)
  from sha256_reach_holds[OF this] show ?thesis by simp
qed

text \<open>C25: The keyed hash, run over a key and any pieces of a message, is HMAC-SHA256 as FIPS 198-1
  defines it from SHA-256.\<close>

theorem hmac_sha256_fips:
  "length key < 2 ^ 60 \<Longrightarrow> length (concat ds) < 2 ^ 60 \<Longrightarrow> hmac_sha256_run key ds = fips_hmac key (concat ds)"
  by (rule hmac_sha256_run_fips) simp_all

theorem hmac_sha256_fips_witness: "hmac_sha256_run [1, 2] [[3], [4]] = fips_hmac [1, 2] [3, 4]"
  using hmac_sha256_fips[of "[1, 2]" "[[3], [4]]"] by simp

text \<open>C28: The generator keeps its key and value at 32 bytes each.  A request for less than 2 to the 31 bytes
  returns exactly that many and marks the state as used; a larger one, whose count the source narrows to an
  \<^verbatim>\<open>int\<close>, does not return or is undefined.\<close>

theorem rfc6979_generate_type:
  assumes "length seed < 2 ^ 59" "rng_ok rng"
  shows "rng_ok (rfc6979_hmac_sha256_initialize seed)
    \<and> (if uint n < 2 ^ 31
       then \<exists>rng' out. rfc6979_hmac_sha256_generate rng n = Some (rng', out) \<and> rng_ok rng' \<and> length out = unat n \<and> rng_retry rng'
       else rfc6979_hmac_sha256_generate rng n = None)"
  using initialize_rng_ok[OF assms(1)] generate_returns[OF assms(2), of n] generate_bound[of rng n]
  by (cases "rfc6979_hmac_sha256_generate rng n") auto

theorem rfc6979_generate_type_witness:
  "\<exists>rng out. rfc6979_hmac_sha256_generate (rfc6979_hmac_sha256_initialize [1]) 40 = Some (rng, out) \<and> length out = 40"
proof -
  have l: "length [1 :: u8] < 2 ^ 59" by simp
  from rfc6979_generate_type[OF l initialize_rng_ok[OF l], of 40] show ?thesis by auto
qed

text \<open>C26: The first 32 bytes drawn after initialisation are the candidate nonce of RFC 6979,
  section 3.2: two updates of key and value with HMAC over the seed, then one more value.\<close>

theorem rfc6979_first_nonce:
  assumes "length seed < 2 ^ 59"
  shows "map_option snd (rfc6979_hmac_sha256_generate (rfc6979_hmac_sha256_initialize seed) 32) = Some (rfc6979_nonce seed)"
proof -
  let ?r = "rfc6979_hmac_sha256_initialize seed"
  have ok: "length (rng_k ?r) = 32" "length (rng_v ?r) = 32" "\<not> rng_retry ?r"
    using initialize_rng_ok[OF assms] by (simp_all add: rng_ok_def rfc6979_hmac_sha256_initialize_def Let_def)
  have "snd (rfc6979_block ?r) = hmac_sha256_run (rng_k ?r) [rng_v ?r]"
    using ok hmac_run_length[of "rng_k ?r" "[rng_v ?r]"] by (simp add: rfc6979_block_def rng_start_def Let_def)
  also have "\<dots> = fips_hmac (rng_k ?r) (rng_v ?r)" using hmac_sha256_run_fips[of "rng_k ?r" "[rng_v ?r]"] ok by simp
  also have "\<dots> = rfc6979_nonce seed"
    using assms by (simp add: rfc6979_hmac_sha256_initialize_def rfc6979_nonce_def Let_def hmac_sha256_run_fips fips_hmac_length)
  finally show ?thesis by (simp add: generate_32)
qed

theorem rfc6979_first_nonce_witness:
  "map_option snd (rfc6979_hmac_sha256_generate (rfc6979_hmac_sha256_initialize [1]) 32) = Some (rfc6979_nonce [1])"
  using rfc6979_first_nonce[of "[1]"] by simp

end
