(* ===== verification/Curve_Order.thy ===== *)
theory Curve_Order
  imports Prime_Field
begin

text \<open>
  The polynomial \<open>x ^ 3 + 7\<close> has no root in the field: seven is not a cube, by its power to a third
  of the order of the multiplicative group.  So no point of the curve is its own negative, which
  is what the doubling of \<^verbatim>\<open>group_impl.h\<close> relies on.
\<close>

definition a_7 :: "unit list" where
  "a_7 = [(), (), (), (), (), (), ()]"

lemma rep_7_0: "mont_rep 115792089237316195423570985008687907853269984665640564039457584007908834671663 (length k_p) (length a_7) 0
    (C X0 (C X0 (C X0 (C X1 (C XD (C X3 (C X0 (C X0 (C X0 (C X0 (C X0 (C X1 E))))))))))))"
  by (simp add: mont_rep_def k_p_def a_7_def)

lemma rep_7_1: "mont_rep 115792089237316195423570985008687907853269984665640564039457584007908834671663 (length k_p) (length a_7) 43690
    (C X7 (C XF (C X9 (C X8 (C XA (C X6 (C X5 (C XA (C X5 (C X5 (C XC (C X7 (C X5 (C XB (C X1 (C X2 (C
    XD (C X4 (C X1 (C XD (C XE (C XD (C X6 (C XA (C XB (C X9 (C X2 (C XE (C X1 (C X9 (C XE (C XE
    (C X7 (C X7 (C X8 (C XF (C XB (C XE (C X5 (C X7 (C XD (C X2 (C XB (C XA (C XD (C X1 (C X2 (C
    X0 (C X8 (C X7 (C X9 (C XC (C X3 (C X1 (C X4 (C X3 (C X0 (C XB (C XC (C X0 (C X4 (C X8 (C X7
    (C X9 E))))))))))))))))))))))))))))))))))))))))))))))))))))))))))))))))"
  by (rule mont_step[OF rep_7_0 _ cancels_p, of "[True, False, True, False, True, False, True, False, True, False, True, False, True, False, True, False]"],
      simp, simp only: mont_eval k_p_def a_7_def d_p_def, simp)

lemma rep_7_2: "mont_rep 115792089237316195423570985008687907853269984665640564039457584007908834671663 (length k_p) (length a_7) 2863311530
    (C XC (C X6 (C XD (C XA (C XC (C X7 (C X4 (C XB (C X7 (C XA (C X6 (C XB (C X6 (C XE (C XD (C X4 (C
    XD (C X4 (C XC (C X9 (C X6 (C X4 (C X1 (C XF (C XA (C X4 (C X7 (C XC (C X4 (C X6 (C X0 (C XC
    (C XF (C X3 (C XF (C XC (C X4 (C X6 (C X3 (C XC (C XC (C X9 (C XD (C XC (C X3 (C X6 (C X9 (C
    X1 (C X7 (C XC (C X9 (C X4 (C X1 (C XE (C XC (C XE (C X3 (C X2 (C XB (C X3 (C XB (C X1 (C XA
    (C X7 E))))))))))))))))))))))))))))))))))))))))))))))))))))))))))))))))"
  by (rule mont_step[OF rep_7_1 _ cancels_p, of "[True, False, True, False, True, False, True, False, True, False, True, False, True, False, True, False]"],
      simp, simp only: mont_eval k_p_def a_7_def d_p_def, simp)

lemma rep_7_3: "mont_rep 115792089237316195423570985008687907853269984665640564039457584007908834671663 (length k_p) (length a_7) 187649984473770
    (C X1 (C XD (C XD (C XD (C X4 (C X1 (C X0 (C XB (C X0 (C X7 (C X8 (C XF (C X8 (C X0 (C XA (C X1 (C
    X0 (C XA (C X5 (C X8 (C X5 (C XD (C X0 (C XB (C X9 (C X7 (C X9 (C XF (C X2 (C XF (C XD (C X6
    (C X4 (C XC (C X2 (C X4 (C X8 (C XF (C XE (C X7 (C XE (C XB (C X1 (C XE (C X0 (C X1 (C X8 (C
    XD (C XB (C X8 (C X4 (C X4 (C X4 (C X3 (C X2 (C XB (C X4 (C X1 (C X8 (C XB (C X3 (C X8 (C XB
    (C X5 E))))))))))))))))))))))))))))))))))))))))))))))))))))))))))))))))"
  by (rule mont_step[OF rep_7_2 _ cancels_p, of "[True, False, True, False, True, False, True, False, True, False, True, False, True, False, True, False]"],
      simp, simp only: mont_eval k_p_def a_7_def d_p_def, simp)

lemma rep_7_4: "mont_rep 115792089237316195423570985008687907853269984665640564039457584007908834671663 (length k_p) (length a_7) 12297829382473034410
    (C XA (C X9 (C X5 (C X2 (C XE (C X6 (C XD (C X1 (C XB (C X5 (C X7 (C X5 (C X8 (C XE (C X6 (C X8 (C
    X2 (C XE (C X6 (C X8 (C X2 (C XF (C X9 (C X4 (C X8 (C X8 (C X9 (C X6 (C XC (C X8 (C X4 (C XF
    (C XE (C X7 (C X5 (C XA (C X6 (C X9 (C XB (C XE (C XA (C X0 (C XD (C X0 (C XF (C XC (C XC (C
    X9 (C X7 (C X4 (C XF (C XF (C X9 (C XC (C XA (C X4 (C XB (C X4 (C XD (C X2 (C X0 (C XF (C X9
    (C XD E))))))))))))))))))))))))))))))))))))))))))))))))))))))))))))))))"
  by (rule mont_step[OF rep_7_3 _ cancels_p, of "[True, False, True, False, True, False, True, False, True, False, True, False, True, False, True, False]"],
      simp, simp only: mont_eval k_p_def a_7_def d_p_def, simp)

lemma rep_7_5: "mont_rep 115792089237316195423570985008687907853269984665640564039457584007908834671663 (length k_p) (length a_7) 805950546409752783137450
    (C X3 (C X1 (C XE (C X3 (C XB (C XE (C X9 (C X5 (C XC (C X7 (C XD (C XA (C X4 (C X0 (C X9 (C XD (C
    X9 (C X6 (C X3 (C XC (C X6 (C X2 (C X8 (C XC (C XB (C XE (C X0 (C X9 (C X9 (C X4 (C XE (C XD
    (C X3 (C X1 (C XA (C XD (C X8 (C XC (C X2 (C XF (C X4 (C X5 (C X2 (C XF (C X1 (C XC (C XA (C
    X8 (C X0 (C XF (C X1 (C XB (C X7 (C XC (C X3 (C X4 (C XA (C XB (C X0 (C XF (C X4 (C X8 (C X7
    (C XF E))))))))))))))))))))))))))))))))))))))))))))))))))))))))))))))))"
  by (rule mont_step[OF rep_7_4 _ cancels_p, of "[True, False, True, False, True, False, True, False, True, False, True, False, True, False, True, False]"],
      simp, simp only: mont_eval k_p_def a_7_def d_p_def, simp)

lemma rep_7_6: "mont_rep 115792089237316195423570985008687907853269984665640564039457584007908834671663 (length k_p) (length a_7) 52818775009509558395695966890
    (C X6 (C XA (C X0 (C X9 (C XE (C XE (C X3 (C XE (C X6 (C X0 (C X7 (C X8 (C X9 (C X9 (C X6 (C XD (C
    X1 (C X3 (C XA (C XE (C XE (C X1 (C XA (C XE (C X1 (C XB (C X6 (C X0 (C XC (C X8 (C X0 (C XA
    (C X4 (C X7 (C XC (C X3 (C X4 (C X8 (C X5 (C X2 (C X0 (C X2 (C XB (C X0 (C X1 (C XC (C X1 (C
    X8 (C X5 (C XE (C X2 (C X2 (C X1 (C X0 (C XE (C X3 (C XF (C X5 (C X2 (C X3 (C X7 (C X4 (C X2
    (C X1 E))))))))))))))))))))))))))))))))))))))))))))))))))))))))))))))))"
  by (rule mont_step[OF rep_7_5 _ cancels_p, of "[True, False, True, False, True, False, True, False, True, False, True, False, True, False, True, False]"],
      simp, simp only: mont_eval k_p_def a_7_def d_p_def, simp)

lemma rep_7_7: "mont_rep 115792089237316195423570985008687907853269984665640564039457584007908834671663 (length k_p) (length a_7) 3461531239023218419020330886146730
    (C XB (C XF (C X8 (C X2 (C X7 (C X9 (C XC (C XB (C XA (C X4 (C X7 (C XA (C X1 (C XD (C XD (C X1 (C
    X7 (C X7 (C X5 (C XA (C XA (C X0 (C XF (C X9 (C XB (C X1 (C X3 (C XE (C XC (C XF (C XE (C XB
    (C XB (C XF (C XC (C X1 (C XF (C X2 (C X3 (C X9 (C XE (C XA (C X9 (C XC (C X1 (C X4 (C XE (C
    X5 (C X2 (C XD (C X7 (C XC (C XA (C X9 (C X1 (C X5 (C X4 (C X8 (C X3 (C XA (C X1 (C X1 (C X9
    (C X9 E))))))))))))))))))))))))))))))))))))))))))))))))))))))))))))))))"
  by (rule mont_step[OF rep_7_6 _ cancels_p, of "[True, False, True, False, True, False, True, False, True, False, True, False, True, False, True, False]"],
      simp, simp only: mont_eval k_p_def a_7_def d_p_def, simp)

lemma rep_7_8: "mont_rep 115792089237316195423570985008687907853269984665640564039457584007908834671663 (length k_p) (length a_7) 226854911280625642308916404954512140970
    (C X0 (C X3 (C X8 (C X8 (C X2 (C XC (C X8 (C X3 (C X9 (C X9 (C XF (C XB (C XC (C X9 (C X8 (C XC (C
    XF (C X5 (C X4 (C X5 (C XD (C XB (C XA (C XB (C XD (C XB (C X4 (C XB (C X7 (C X3 (C XF (C X6
    (C X5 (C X1 (C X5 (C XF (C X1 (C X5 (C X8 (C X0 (C X9 (C X8 (C X9 (C X9 (C X9 (C XE (C XB (C
    X2 (C XE (C XB (C X4 (C X1 (C XC (C XE (C X5 (C XB (C X3 (C X4 (C X0 (C XD (C X5 (C XA (C XD
    (C XC E))))))))))))))))))))))))))))))))))))))))))))))))))))))))))))))))"
  by (rule mont_step[OF rep_7_7 _ cancels_p, of "[True, False, True, False, True, False, True, False, True, False, True, False, True, False, True, False]"],
      simp, simp only: mont_eval k_p_def a_7_def d_p_def, simp)

lemma rep_7_9: "mont_rep 115792089237316195423570985008687907853269984665640564039457584007908834671663 (length k_p) (length a_7) 14867163465687082094357145515098907670653610
    (C X3 (C X1 (C X1 (C XC (C XE (C XF (C X1 (C XD (C X1 (C XC (C XA (C X0 (C X1 (C XD (C X2 (C X0 (C
    X6 (C X7 (C X1 (C XB (C X3 (C X5 (C X9 (C XB (C X4 (C XD (C XA (C X8 (C XC (C XA (C XC (C XC
    (C X7 (C X2 (C X7 (C X1 (C X0 (C X8 (C X3 (C X0 (C X2 (C X0 (C X8 (C XA (C X1 (C X1 (C X3 (C
    X0 (C X7 (C X8 (C X8 (C XD (C X7 (C XE (C XF (C XA (C X8 (C XB (C X0 (C XB (C X5 (C X4 (C XA
    E)))))))))))))))))))))))))))))))))))))))))))))))))))))))))))))))"
  by (rule mont_step[OF rep_7_8 _ cancels_p, of "[True, False, True, False, True, False, True, False, True, False, True, False, True, False, True, False]"],
      simp, simp only: mont_eval k_p_def a_7_def d_p_def, simp)

lemma rep_7_10: "mont_rep 115792089237316195423570985008687907853269984665640564039457584007908834671663 (length k_p) (length a_7) 974334424887268612135789888477522013103955028650
    (C X1 (C XA (C X6 (C XF (C X6 (C X3 (C XC (C X9 (C X8 (C X9 (C X0 (C XA (C XF (C X1 (C X4 (C XA (C
    XE (C X9 (C X1 (C X3 (C X2 (C X5 (C X3 (C X8 (C XD (C XC (C XD (C XF (C X5 (C XF (C X8 (C XF
    (C X9 (C X1 (C X0 (C XF (C XF (C XF (C X8 (C X0 (C XA (C XB (C X8 (C X0 (C X5 (C X4 (C XB (C
    X6 (C X7 (C XB (C X2 (C XC (C X5 (C XF (C X5 (C XD (C X6 (C X3 (C XC (C XA (C X2 (C X4 (C XC
    (C X8 E))))))))))))))))))))))))))))))))))))))))))))))))))))))))))))))))"
  by (rule mont_step[OF rep_7_9 _ cancels_p, of "[True, False, True, False, True, False, True, False, True, False, True, False, True, False, True, False]"],
      simp, simp only: mont_eval k_p_def a_7_def d_p_def, simp)

lemma rep_7_11: "mont_rep 115792089237316195423570985008687907853269984665640564039457584007908834671663 (length k_p) (length a_7) 63853980869412035764931126131262882650780796757650090
    (C XA (C X9 (C X7 (C X6 (C XA (C XA (C X1 (C XF (C XE (C XF (C XA (C X4 (C X2 (C X0 (C X0 (C XC (C
    XE (C XB (C X4 (C X0 (C X8 (C XE (C X4 (C X3 (C XC (C X8 (C X4 (C X4 (C X6 (C X2 (C X9 (C XB
    (C XA (C X1 (C X0 (C X8 (C X3 (C X9 (C X4 (C X8 (C XB (C XD (C X4 (C XB (C X3 (C X7 (C XA (C
    X2 (C X8 (C X3 (C XA (C XB (C X4 (C X8 (C X6 (C X1 (C XB (C XC (C XA (C X3 (C X1 (C X8 (C XA
    (C X2 E))))))))))))))))))))))))))))))))))))))))))))))))))))))))))))))))"
  by (rule mont_step[OF rep_7_10 _ cancels_p, of "[True, False, True, False, True, False, True, False, True, False, True, False, True, False, True, False]"],
      simp, simp only: mont_eval k_p_def a_7_def d_p_def, simp)

lemma rep_7_12: "mont_rep 115792089237316195423570985008687907853269984665640564039457584007908834671663 (length k_p) (length a_7) 4184734490257787175890526282138444277401570296309356341930
    (C X9 (C XE (C XE (C XF (C XB (C XB (C X3 (C X7 (C X7 (C X6 (C X8 (C XC (C XE (C X7 (C X6 (C X7 (C
    X1 (C X7 (C XC (C XE (C X2 (C X9 (C X9 (C X0 (C XA (C X9 (C X5 (C XE (C X8 (C XC (C XA (C XD
    (C X8 (C XB (C X7 (C XC (C X3 (C XB (C XD (C XB (C X9 (C XD (C XD (C XD (C X2 (C X7 (C XC (C
    X8 (C X9 (C X6 (C XB (C X8 (C X6 (C XB (C X6 (C XA (C XD (C X4 (C X1 (C XE (C XD (C X8 (C X2
    (C X5 E))))))))))))))))))))))))))))))))))))))))))))))))))))))))))))))))"
  by (rule mont_step[OF rep_7_11 _ cancels_p, of "[True, False, True, False, True, False, True, False, True, False, True, False, True, False, True, False]"],
      simp, simp only: mont_eval k_p_def a_7_def d_p_def, simp)

lemma rep_7_13: "mont_rep 115792089237316195423570985008687907853269984665640564039457584007908834671663 (length k_p) (length a_7) 274250759553534340359161530426225084163789310938929977224768170
    (C X5 (C X0 (C X7 (C X3 (C X9 (C X4 (C X7 (C X5 (C XA (C X2 (C XF (C XD (C XB (C XB (C X0 (C X5 (C
    X0 (C X8 (C XC (C XE (C X1 (C X2 (C X6 (C XB (C XD (C XB (C XB (C XE (C X7 (C X3 (C XB (C XA
    (C X9 (C X4 (C XB (C X3 (C XE (C XB (C XE (C XB (C X4 (C X7 (C X5 (C XB (C X4 (C XD (C XC (C
    XA (C X3 (C XC (C X4 (C XD (C X0 (C XE (C X7 (C X4 (C X7 (C XE (C X9 (C XC (C XE (C X2 (C X8
    (C X3 E))))))))))))))))))))))))))))))))))))))))))))))))))))))))))))))))"
  by (rule mont_step[OF rep_7_12 _ cancels_p, of "[True, False, True, False, True, False, True, False, True, False, True, False, True, False, True, False]"],
      simp, simp only: mont_eval k_p_def a_7_def d_p_def, simp)

lemma rep_7_14: "mont_rep 115792089237316195423570985008687907853269984665640564039457584007908834671663 (length k_p) (length a_7) 17973297778100426529778010058013087115758096281693714987402406832809
    (C XE (C XD (C X4 (C X3 (C X8 (C X7 (C X8 (C XB (C X9 (C XC (C X2 (C X8 (C X4 (C X3 (C X1 (C XB (C
    XE (C X0 (C XB (C X3 (C X6 (C XB (C X5 (C XB (C X4 (C X3 (C X7 (C X4 (C X1 (C X5 (C XB (C X3
    (C X9 (C XB (C XF (C XC (C XC (C XE (C X5 (C XB (C X2 (C X5 (C X0 (C XF (C X0 (C X6 (C X5 (C
    XB (C X2 (C X1 (C XA (C X6 (C X2 (C XE (C X4 (C X0 (C XB (C X6 (C X1 (C X2 (C X3 (C X9 (C X4
    (C XF (C X4 E)))))))))))))))))))))))))))))))))))))))))))))))))))))))))))))))))"
  by (rule mont_step[OF rep_7_13 _ cancels_p, of "[True, False, True, False, True, False, True, False, True, False, True, False, True, False, False, True]"],
      simp, simp only: mont_eval k_p_def a_7_def d_p_def, simp)

lemma rep_7_15: "mont_rep 115792089237316195423570985008687907853269984665640564039457584007908834671663 (length k_p) (length a_7) 1177898043185589553055531667161945677218322597917079305414404134195036159
    (C X1 (C XE (C XC (C X6 (C X8 (C X9 (C X5 (C X7 (C XA (C XB (C X4 (C X6 (C X9 (C X2 (C X2 (C XD (C
    X1 (C X9 (C XC (C X0 (C XA (C X0 (C XD (C X6 (C X3 (C XB (C X2 (C X7 (C X4 (C X5 (C X1 (C XE
    (C X9 (C XC (C XA (C X6 (C X5 (C XB (C X5 (C X6 (C X5 (C X0 (C X3 (C XD (C X6 (C XE (C X9 (C
    XB (C XC (C XD (C XF (C X0 (C X0 (C X2 (C XC (C X2 (C XF (C XF (C XC (C X1 (C X7 (C X9 (C X9
    (C XD (C X4 E)))))))))))))))))))))))))))))))))))))))))))))))))))))))))))))))))"
  by (rule mont_step[OF rep_7_14 _ cancels_p, of "[True, True, True, True, True, True, True, True, True, True, True, True, True, True, True, True]"],
      simp, simp only: mont_eval k_p_def a_7_def d_p_def, simp)

lemma rep_7_16: "mont_rep 115792089237316195423570985008687907853269984665640564039457584007908834671663 (length k_p) (length a_7) 38597363079105398474523661669562635951089994888546854679819194669302944890554
    (C X4 (C XE (C X8 (C X0 (C X2 (C XB (C X8 (C X1 (C XC (C X8 (C X0 (C XD (C X1 (C X6 (C X3 (C X4 (C
    XA (C X8 (C X5 (C XF (C XA (C X0 (C X8 (C XB (C X4 (C XC (C X1 (C X3 (C X6 (C X1 (C XE (C XD
    (C XF (C X3 (C X0 (C X5 (C X0 (C X9 (C X3 (C XE (C X2 (C X0 (C XD (C X8 (C X7 (C X9 (C X8 (C
    X9 (C XE (C X8 (C XF (C X3 (C X5 (C XD (C X3 (C XB (C XB (C XC (C XB (C XE (C XA (C X6 (C X3
    (C XA E))))))))))))))))))))))))))))))))))))))))))))))))))))))))))))))))"
  by (rule mont_step[OF rep_7_15 _ cancels_p, of "[True, True, True, True, True, True, False, True, False, True, True, True, False, True, False]"],
      simp, simp only: mont_eval k_p_def a_7_def d_p_def, simp)

definition third_p :: nat where
  "third_p = 38597363079105398474523661669562635951089994888546854679819194669302944890554"

lemma length_a_7: "length a_7 = 7"
  by (simp add: a_7_def)

lemma seven_pow: "7 ^ third_p mod nat secp_p \<noteq> 1"
proof
  assume a: "7 ^ third_p mod nat secp_p = 1"
  define A where "A = (7 :: nat) ^ third_p"
  have n: "nat secp_p = 115792089237316195423570985008687907853269984665640564039457584007908834671663" by (simp add: secp_p_def)
  have "mont_rep 115792089237316195423570985008687907853269984665640564039457584007908834671663 (length k_p) 7 third_p
    (C X4 (C XE (C X8 (C X0 (C X2 (C XB (C X8 (C X1 (C XC (C X8 (C X0 (C XD (C X1 (C X6 (C X3 (C X4 (C
    XA (C X8 (C X5 (C XF (C XA (C X0 (C X8 (C XB (C X4 (C XC (C X1 (C X3 (C X6 (C X1 (C XE (C XD
    (C XF (C X3 (C X0 (C X5 (C X0 (C X9 (C X3 (C XE (C X2 (C X0 (C XD (C X8 (C X7 (C X9 (C X8 (C
    X9 (C XE (C X8 (C XF (C X3 (C X5 (C XD (C X3 (C XB (C XB (C XC (C XB (C XE (C XA (C X6 (C X3
    (C XA E))))))))))))))))))))))))))))))))))))))))))))))))))))))))))))))))" using rep_7_16 by (simp only: third_p_def length_a_7)
  then have "A * 16 ^ length k_p mod 115792089237316195423570985008687907853269984665640564039457584007908834671663 = 73915907510138224716393463353717084733298681669352986171479645303760179300580"
    unfolding mont_rep_def A_def[symmetric] by simp
  moreover have "A * 16 ^ length k_p mod 115792089237316195423570985008687907853269984665640564039457584007908834671663 = A mod 115792089237316195423570985008687907853269984665640564039457584007908834671663 * 16 ^ length k_p mod 115792089237316195423570985008687907853269984665640564039457584007908834671663" by (simp only: mod_mult_left_eq)
  ultimately show False using a[folded A_def, unfolded n] by (simp add: k_p_def)
qed

text \<open>No point of the curve has a zero second coordinate.\<close>

lemma no_cube_root: "x * x * x + 7 \<noteq> (0 :: fp)"
proof
  assume z: "x * x * x + 7 = (0 :: fp)"
  define X where "X = fp_rep x"
  have x: "x = of_int X" by (simp add: X_def of_int_fp_rep)
  have "(of_int (X * X * X + 7) :: fp) = 0" using z unfolding x by simp
  then have "(X * X * X + 7) mod secp_p = 0" unfolding of_int_fp_0_iff .
  then have c: "X ^ 3 mod secp_p = (- 7) mod secp_p"
    by (simp add: mod_eq_dvd_iff dvd_eq_mod_eq_0 power3_eq_cube)
  have nz: "X mod secp_p \<noteq> 0"
  proof
    assume "X mod secp_p = 0"
    then have "secp_p dvd X ^ 3" by (simp add: dvd_eq_mod_eq_0[symmetric] power3_eq_cube)
    then show False using c by (simp add: secp_p_def dvd_eq_mod_eq_0)
  qed
  have "3 * third_p = nat (secp_p - 1)" by (simp add: third_p_def secp_p_def)
  then have "1 = (X ^ 3) ^ third_p mod secp_p" using fermat_int[OF secp_p_prime nz] by (simp add: power_mult[symmetric])
  also have "\<dots> = (- 7) ^ third_p mod secp_p" by (metis c power_mod)
  also have "(- 7 :: int) ^ third_p = 7 ^ third_p"
  proof -
    have "even third_p" by (simp add: third_p_def)
    then show ?thesis by simp
  qed
  finally have "int (7 ^ third_p mod nat secp_p) = 1" by (simp add: zmod_int secp_p_pos less_imp_le)
  then show False using seven_pow by simp
qed

end
