(* ===== verification/Group.thy ===== *)
theory Group
  imports Field_Impl Curve_Order
begin

text \<open>
  \<^verbatim>\<open>group.h\<close> and \<^verbatim>\<open>group_impl.h\<close>: points of the curve in affine (\<open>ge\<close>) and Jacobian
  (\<open>gej\<close>) coordinates.  A function that leaves part of its output untouched (the coordinates, when
  the result is the point at infinity) takes the old output \<open>r\<close>; an output pointer that may be
  NULL is an option, None for NULL and \<open>Some v\<close> for a cell that holds \<open>v\<close>, and is returned
  updated.  The C functions allow their input and output to be the same object; they read every
  coordinate before they overwrite it, so that such a call is the definition below with the same
  value in both places.  The specification is the affine addition law over the prime field.
\<close>

section \<open>Definitions\<close>

record 'fe ge =
  ge_x :: 'fe
  ge_y :: 'fe
  ge_infinity :: bool

record 'fe gej =
  gej_x :: 'fe
  gej_y :: 'fe
  gej_z :: 'fe
  gej_infinity :: bool

record 'st ge_storage =
  ges_x :: 'st
  ges_y :: 'st

definition CURVE_B :: int where
  "CURVE_B = 7"

definition ge_const_g :: "('fe, 'st) field_ops \<Rightarrow> 'fe ge" where
  "ge_const_g F = \<lparr>
    ge_x = fo_const F 0x79BE667E 0xF9DCBBAC 0x55A06295 0xCE870B07 0x029BFCDB 0x2DCE28D9 0x59F2815B 0x16F81798,
    ge_y = fo_const F 0x483ADA77 0x26A3C465 0x5DA4FBFC 0x0E1108A8 0xFD17B448 0xA6855419 0x9C47D08F 0xFB10D4B8,
    ge_infinity = False\<rparr>"

definition ge_set_gej_zinv :: "('fe, 'st) field_ops \<Rightarrow> 'fe gej \<Rightarrow> 'fe \<Rightarrow> 'fe ge" where
  "ge_set_gej_zinv F a zi =
    (let zi2 = fo_sqr F zi;
         zi3 = fo_mul F zi2 zi
     in \<lparr>ge_x = fo_mul F (gej_x a) zi2, ge_y = fo_mul F (gej_y a) zi3, ge_infinity = gej_infinity a\<rparr>)"

definition ge_set_xy :: "'fe \<Rightarrow> 'fe \<Rightarrow> 'fe ge" where
  "ge_set_xy x y = \<lparr>ge_x = x, ge_y = y, ge_infinity = False\<rparr>"

definition ge_is_infinity :: "'fe ge \<Rightarrow> bool" where
  "ge_is_infinity a = ge_infinity a"

definition ge_neg :: "('fe, 'st) field_ops \<Rightarrow> 'fe ge \<Rightarrow> 'fe ge" where
  "ge_neg F a =
    (let y = fo_normalize_weak F (ge_y a);
         y = fo_negate F y 1
     in a\<lparr>ge_y := y\<rparr>)"

text \<open>Both conversions normalise their argument in place; the result is the affine point and the
  updated argument.\<close>

definition ge_set_gej :: "('fe, 'st) field_ops \<Rightarrow> 'fe gej \<Rightarrow> 'fe ge \<times> 'fe gej" where
  "ge_set_gej F a =
    (let z = fe_inv F (gej_z a);
         z2 = fo_sqr F z;
         z3 = fo_mul F z z2;
         x = fo_mul F (gej_x a) z2;
         y = fo_mul F (gej_y a) z3;
         z = fo_set_int F 1
     in (\<lparr>ge_x = x, ge_y = y, ge_infinity = gej_infinity a\<rparr>, a\<lparr>gej_x := x, gej_y := y, gej_z := z\<rparr>))"

definition ge_set_gej_var :: "('fe, 'st) field_ops \<Rightarrow> 'fe ge \<Rightarrow> 'fe gej \<Rightarrow> 'fe ge \<times> 'fe gej" where
  "ge_set_gej_var F r a =
    (let r = r\<lparr>ge_infinity := gej_infinity a\<rparr> in
     if gej_infinity a then (r, a)
     else
      (let z = fe_inv_var F (gej_z a);
           z2 = fo_sqr F z;
           z3 = fo_mul F z z2;
           x = fo_mul F (gej_x a) z2;
           y = fo_mul F (gej_y a) z3;
           z = fo_set_int F 1
       in (r\<lparr>ge_x := x, ge_y := y\<rparr>, a\<lparr>gej_x := x, gej_y := y, gej_z := z\<rparr>)))"

text \<open>The second loop of \<^verbatim>\<open>ge_set_all_gej_var\<close>: \<open>azi\<close> holds the inverses that are still to be
  used.\<close>

fun ge_set_all_loop :: "('fe, 'st) field_ops \<Rightarrow> 'fe ge list \<Rightarrow> 'fe gej list \<Rightarrow> 'fe list \<Rightarrow> 'fe ge list" where
  "ge_set_all_loop F (r # rs) (a # as) azi =
    (if gej_infinity a then r\<lparr>ge_infinity := True\<rparr> # ge_set_all_loop F rs as azi
     else ge_set_gej_zinv F a (hd azi) # ge_set_all_loop F rs as (tl azi))"
| "ge_set_all_loop F rs as azi = []"

definition ge_set_all_gej_var :: "('fe, 'st) field_ops \<Rightarrow> 'fe ge list \<Rightarrow> 'fe gej list \<Rightarrow> 'fe ge list" where
  "ge_set_all_gej_var F r a =
    (let az = map gej_z (filter (\<lambda>p. \<not> gej_infinity p) a);
         azi = fe_inv_all_var F (replicate (length az) (fo_set_int F 0)) az
     in ge_set_all_loop F r a azi)"

fun ge_set_table_loop :: "('fe, 'st) field_ops \<Rightarrow> 'fe gej list \<Rightarrow> 'fe list \<Rightarrow> nat \<Rightarrow> 'fe \<Rightarrow> 'fe ge list \<Rightarrow> 'fe ge list" where
  "ge_set_table_loop F a zr 0 zi r = r"
| "ge_set_table_loop F a zr (Suc i) zi r =
    (let zi = fo_mul F zi (zr ! Suc i) in
     ge_set_table_loop F a zr i zi (r[i := ge_set_gej_zinv F (a ! i) zi]))"

definition ge_set_table_gej_var :: "('fe, 'st) field_ops \<Rightarrow> 'fe ge list \<Rightarrow> 'fe gej list \<Rightarrow> 'fe list \<Rightarrow> nat \<Rightarrow> 'fe ge list" where
  "ge_set_table_gej_var F r a zr len =
    (if len > 0 then
      (let i = len - 1;
           zi = fe_inv F (gej_z (a ! i));
           r = r[i := ge_set_gej_zinv F (a ! i) zi]
       in ge_set_table_loop F a zr i zi r)
     else r)"

fun ge_globalz_loop :: "('fe, 'st) field_ops \<Rightarrow> nat \<Rightarrow> 'fe gej list \<Rightarrow> 'fe list \<Rightarrow> nat \<Rightarrow> 'fe \<Rightarrow> 'fe ge list \<Rightarrow> 'fe ge list" where
  "ge_globalz_loop F len a zr 0 zs r = r"
| "ge_globalz_loop F len a zr (Suc i) zs r =
    (let zs = (if Suc i \<noteq> len - 1 then fo_mul F zs (zr ! Suc i) else zs) in
     ge_globalz_loop F len a zr i zs (r[i := ge_set_gej_zinv F (a ! i) zs]))"

definition ge_globalz_set_table_gej ::
    "('fe, 'st) field_ops \<Rightarrow> nat \<Rightarrow> 'fe ge list \<Rightarrow> 'fe \<Rightarrow> 'fe gej list \<Rightarrow> 'fe list \<Rightarrow> 'fe ge list \<times> 'fe" where
  "ge_globalz_set_table_gej F len r globalz a zr =
    (if len > 0 then
      (let i = len - 1;
           r = r[i := \<lparr>ge_x = gej_x (a ! i), ge_y = gej_y (a ! i), ge_infinity = False\<rparr>];
           globalz = gej_z (a ! i);
           zs = zr ! i
       in (ge_globalz_loop F len a zr i zs r, globalz))
     else (r, globalz))"

definition gej_set_infinity :: "('fe, 'st) field_ops \<Rightarrow> 'fe gej \<Rightarrow> 'fe gej" where
  "gej_set_infinity F r =
    \<lparr>gej_x = fo_clear F (gej_x r), gej_y = fo_clear F (gej_y r), gej_z = fo_clear F (gej_z r), gej_infinity = True\<rparr>"

definition gej_clear :: "('fe, 'st) field_ops \<Rightarrow> 'fe gej \<Rightarrow> 'fe gej" where
  "gej_clear F r =
    \<lparr>gej_x = fo_clear F (gej_x r), gej_y = fo_clear F (gej_y r), gej_z = fo_clear F (gej_z r), gej_infinity = False\<rparr>"

definition ge_clear :: "('fe, 'st) field_ops \<Rightarrow> 'fe ge \<Rightarrow> 'fe ge" where
  "ge_clear F r = \<lparr>ge_x = fo_clear F (ge_x r), ge_y = fo_clear F (ge_y r), ge_infinity = False\<rparr>"

definition ge_set_xquad :: "('fe, 'st) field_ops \<Rightarrow> 'fe \<Rightarrow> 'fe ge \<times> bool" where
  "ge_set_xquad F x =
    (let x2 = fo_sqr F x;
         x3 = fo_mul F x x2;
         c = fo_set_int F CURVE_B;
         c = fo_add F c x3;
         (y, ok) = fe_sqrt F c
     in (\<lparr>ge_x = x, ge_y = y, ge_infinity = False\<rparr>, ok))"

definition ge_set_xo_var :: "('fe, 'st) field_ops \<Rightarrow> 'fe \<Rightarrow> bool \<Rightarrow> 'fe ge \<times> bool" where
  "ge_set_xo_var F x is_odd =
    (let (r, ok) = ge_set_xquad F x in
     if \<not> ok then (r, False)
     else
      (let r = r\<lparr>ge_y := fo_normalize_var F (ge_y r)\<rparr>;
           r = (if fo_is_odd F (ge_y r) \<noteq> is_odd then r\<lparr>ge_y := fo_negate F (ge_y r) 1\<rparr> else r)
       in (r, True)))"

definition gej_set_ge :: "('fe, 'st) field_ops \<Rightarrow> 'fe ge \<Rightarrow> 'fe gej" where
  "gej_set_ge F a = \<lparr>gej_x = ge_x a, gej_y = ge_y a, gej_z = fo_set_int F 1, gej_infinity = ge_infinity a\<rparr>"

definition gej_eq_x_var :: "('fe, 'st) field_ops \<Rightarrow> 'fe \<Rightarrow> 'fe gej \<Rightarrow> bool" where
  "gej_eq_x_var F x a =
    (let r = fo_sqr F (gej_z a); r = fo_mul F r x;
         r2 = fo_normalize_weak F (gej_x a)
     in fe_equal_var F r r2)"

definition gej_neg :: "('fe, 'st) field_ops \<Rightarrow> 'fe gej \<Rightarrow> 'fe gej" where
  "gej_neg F a =
    (let y = fo_normalize_weak F (gej_y a);
         y = fo_negate F y 1
     in \<lparr>gej_x = gej_x a, gej_y = y, gej_z = gej_z a, gej_infinity = gej_infinity a\<rparr>)"

definition gej_is_infinity :: "'fe gej \<Rightarrow> bool" where
  "gej_is_infinity a = gej_infinity a"

definition gej_is_valid_var :: "('fe, 'st) field_ops \<Rightarrow> 'fe gej \<Rightarrow> bool" where
  "gej_is_valid_var F a =
    (if gej_infinity a then False
     else
      (let y2 = fo_sqr F (gej_y a);
           x3 = fo_sqr F (gej_x a); x3 = fo_mul F x3 (gej_x a);
           z2 = fo_sqr F (gej_z a);
           z6 = fo_sqr F z2; z6 = fo_mul F z6 z2;
           z6 = fo_mul_int F z6 CURVE_B;
           x3 = fo_add F x3 z6;
           x3 = fo_normalize_weak F x3
       in fe_equal_var F y2 x3))"

definition ge_is_valid_var :: "('fe, 'st) field_ops \<Rightarrow> 'fe ge \<Rightarrow> bool" where
  "ge_is_valid_var F a =
    (if ge_infinity a then False
     else
      (let y2 = fo_sqr F (ge_y a);
           x3 = fo_sqr F (ge_x a); x3 = fo_mul F x3 (ge_x a);
           c = fo_set_int F CURVE_B;
           x3 = fo_add F x3 c;
           x3 = fo_normalize_weak F x3
       in fe_equal_var F y2 x3))"

definition gej_double_var ::
    "('fe, 'st) field_ops \<Rightarrow> 'fe gej \<Rightarrow> 'fe gej \<Rightarrow> 'fe option \<Rightarrow> 'fe gej \<times> 'fe option" where
  "gej_double_var F r a rzr =
    (let r = r\<lparr>gej_infinity := gej_infinity a\<rparr> in
     if gej_infinity r then (r, map_option (\<lambda>_. fo_set_int F 1) rzr)
     else
      (let rzr = map_option (\<lambda>_. fo_mul_int F (fo_normalize_weak F (gej_y a)) 2) rzr;
           z = fo_mul F (gej_z a) (gej_y a);
           z = fo_mul_int F z 2;
           t1 = fo_sqr F (gej_x a);
           t1 = fo_mul_int F t1 3;
           t2 = fo_sqr F t1;
           t3 = fo_sqr F (gej_y a);
           t3 = fo_mul_int F t3 2;
           t4 = fo_sqr F t3;
           t4 = fo_mul_int F t4 2;
           t3 = fo_mul F t3 (gej_x a);
           x = t3;
           x = fo_mul_int F x 4;
           x = fo_negate F x 4;
           x = fo_add F x t2;
           t2 = fo_negate F t2 1;
           t3 = fo_mul_int F t3 6;
           t3 = fo_add F t3 t2;
           y = fo_mul F t1 t3;
           t2 = fo_negate F t4 2;
           y = fo_add F y t2
       in (r\<lparr>gej_x := x, gej_y := y, gej_z := z\<rparr>, rzr)))"

definition gej_double_nonzero ::
    "('fe, 'st) field_ops \<Rightarrow> 'fe gej \<Rightarrow> 'fe gej \<Rightarrow> 'fe option \<Rightarrow> 'fe gej \<times> 'fe option" where
  "gej_double_nonzero F r a rzr = gej_double_var F r a rzr"

definition gej_add_var ::
    "('fe, 'st) field_ops \<Rightarrow> 'fe gej \<Rightarrow> 'fe gej \<Rightarrow> 'fe gej \<Rightarrow> 'fe option \<Rightarrow> 'fe gej \<times> 'fe option" where
  "gej_add_var F r a b rzr =
    (if gej_infinity a then (b, rzr)
     else if gej_infinity b then (a, map_option (\<lambda>_. fo_set_int F 1) rzr)
     else
      (let r = r\<lparr>gej_infinity := False\<rparr>;
           z22 = fo_sqr F (gej_z b);
           z12 = fo_sqr F (gej_z a);
           u1 = fo_mul F (gej_x a) z22;
           u2 = fo_mul F (gej_x b) z12;
           s1 = fo_mul F (gej_y a) z22; s1 = fo_mul F s1 (gej_z b);
           s2 = fo_mul F (gej_y b) z12; s2 = fo_mul F s2 (gej_z a);
           h = fo_negate F u1 1; h = fo_add F h u2;
           i = fo_negate F s1 1; i = fo_add F i s2
       in if fo_normalizes_to_zero_var F h then
            (if fo_normalizes_to_zero_var F i then gej_double_var F r a rzr
             else (r\<lparr>gej_infinity := True\<rparr>, map_option (\<lambda>_. fo_set_int F 0) rzr))
          else
           (let i2 = fo_sqr F i;
                h2 = fo_sqr F h;
                h3 = fo_mul F h h2;
                h = fo_mul F h (gej_z b);
                rzr = map_option (\<lambda>_. h) rzr;
                z = fo_mul F (gej_z a) h;
                t = fo_mul F u1 h2;
                x = t; x = fo_mul_int F x 2; x = fo_add F x h3; x = fo_negate F x 3; x = fo_add F x i2;
                y = fo_negate F x 5; y = fo_add F y t; y = fo_mul F y i;
                h3 = fo_mul F h3 s1; h3 = fo_negate F h3 1;
                y = fo_add F y h3
            in (r\<lparr>gej_x := x, gej_y := y, gej_z := z\<rparr>, rzr))))"

definition gej_add_ge_var ::
    "('fe, 'st) field_ops \<Rightarrow> 'fe gej \<Rightarrow> 'fe gej \<Rightarrow> 'fe ge \<Rightarrow> 'fe option \<Rightarrow> 'fe gej \<times> 'fe option" where
  "gej_add_ge_var F r a b rzr =
    (if gej_infinity a then (gej_set_ge F b, rzr)
     else if ge_infinity b then (a, map_option (\<lambda>_. fo_set_int F 1) rzr)
     else
      (let r = r\<lparr>gej_infinity := False\<rparr>;
           z12 = fo_sqr F (gej_z a);
           u1 = fo_normalize_weak F (gej_x a);
           u2 = fo_mul F (ge_x b) z12;
           s1 = fo_normalize_weak F (gej_y a);
           s2 = fo_mul F (ge_y b) z12; s2 = fo_mul F s2 (gej_z a);
           h = fo_negate F u1 1; h = fo_add F h u2;
           i = fo_negate F s1 1; i = fo_add F i s2
       in if fo_normalizes_to_zero_var F h then
            (if fo_normalizes_to_zero_var F i then gej_double_var F r a rzr
             else (r\<lparr>gej_infinity := True\<rparr>, map_option (\<lambda>_. fo_set_int F 0) rzr))
          else
           (let i2 = fo_sqr F i;
                h2 = fo_sqr F h;
                h3 = fo_mul F h h2;
                rzr = map_option (\<lambda>_. h) rzr;
                z = fo_mul F (gej_z a) h;
                t = fo_mul F u1 h2;
                x = t; x = fo_mul_int F x 2; x = fo_add F x h3; x = fo_negate F x 3; x = fo_add F x i2;
                y = fo_negate F x 5; y = fo_add F y t; y = fo_mul F y i;
                h3 = fo_mul F h3 s1; h3 = fo_negate F h3 1;
                y = fo_add F y h3
            in (r\<lparr>gej_x := x, gej_y := y, gej_z := z\<rparr>, rzr))))"

definition gej_add_zinv_var ::
    "('fe, 'st) field_ops \<Rightarrow> 'fe gej \<Rightarrow> 'fe gej \<Rightarrow> 'fe ge \<Rightarrow> 'fe \<Rightarrow> 'fe gej" where
  "gej_add_zinv_var F r a b bzinv =
    (if ge_infinity b then a
     else if gej_infinity a then
      (let bzinv2 = fo_sqr F bzinv;
           bzinv3 = fo_mul F bzinv2 bzinv
       in \<lparr>gej_x = fo_mul F (ge_x b) bzinv2, gej_y = fo_mul F (ge_y b) bzinv3, gej_z = fo_set_int F 1,
           gej_infinity = ge_infinity b\<rparr>)
     else
      (let r = r\<lparr>gej_infinity := False\<rparr>;
           az = fo_mul F (gej_z a) bzinv;
           z12 = fo_sqr F az;
           u1 = fo_normalize_weak F (gej_x a);
           u2 = fo_mul F (ge_x b) z12;
           s1 = fo_normalize_weak F (gej_y a);
           s2 = fo_mul F (ge_y b) z12; s2 = fo_mul F s2 az;
           h = fo_negate F u1 1; h = fo_add F h u2;
           i = fo_negate F s1 1; i = fo_add F i s2
       in if fo_normalizes_to_zero_var F h then
            (if fo_normalizes_to_zero_var F i then fst (gej_double_var F r a None)
             else r\<lparr>gej_infinity := True\<rparr>)
          else
           (let i2 = fo_sqr F i;
                h2 = fo_sqr F h;
                h3 = fo_mul F h h2;
                z = gej_z a; z = fo_mul F z h;
                t = fo_mul F u1 h2;
                x = t; x = fo_mul_int F x 2; x = fo_add F x h3; x = fo_negate F x 3; x = fo_add F x i2;
                y = fo_negate F x 5; y = fo_add F y t; y = fo_mul F y i;
                h3 = fo_mul F h3 s1; h3 = fo_negate F h3 1;
                y = fo_add F y h3
            in r\<lparr>gej_x := x, gej_y := y, gej_z := z\<rparr>)))"

definition fe_1 :: "('fe, 'st) field_ops \<Rightarrow> 'fe" where
  "fe_1 F = fo_const F 0 0 0 0 0 0 0 1"

text \<open>The addition without branches: the flags are 0 or 1.\<close>

definition gej_add_ge :: "('fe, 'st) field_ops \<Rightarrow> 'fe gej \<Rightarrow> 'fe ge \<Rightarrow> 'fe gej" where
  "gej_add_ge F a b =
    (let zz = fo_sqr F (gej_z a);
         u1 = fo_normalize_weak F (gej_x a);
         u2 = fo_mul F (ge_x b) zz;
         s1 = fo_normalize_weak F (gej_y a);
         s2 = fo_mul F (ge_y b) zz;
         s2 = fo_mul F s2 (gej_z a);
         t = fo_add F u1 u2;
         m = fo_add F s1 s2;
         rr = fo_sqr F t;
         m_alt = fo_negate F u2 1;
         tt = fo_mul F u1 m_alt;
         rr = fo_add F rr tt;
         degenerate = of_bool (fo_normalizes_to_zero F m \<and> fo_normalizes_to_zero F rr);
         rr_alt = s1;
         rr_alt = fo_mul_int F rr_alt 2;
         m_alt = fo_add F m_alt u1;
         rr_alt = fo_cmov F rr_alt rr (1 - degenerate);
         m_alt = fo_cmov F m_alt m (1 - degenerate);
         n = fo_sqr F m_alt;
         q = fo_mul F n t;
         n = fo_sqr F n;
         n = fo_cmov F n m degenerate;
         t = fo_sqr F rr_alt;
         z = fo_mul F (gej_z a) m_alt;
         infinity = (fo_normalizes_to_zero F z \<and> \<not> gej_infinity a);
         z = fo_mul_int F z 2;
         q = fo_negate F q 1;
         t = fo_add F t q;
         t = fo_normalize_weak F t;
         x = t;
         t = fo_mul_int F t 2;
         t = fo_add F t q;
         t = fo_mul F t rr_alt;
         t = fo_add F t n;
         y = fo_negate F t 3;
         y = fo_normalize_weak F y;
         x = fo_mul_int F x 4;
         y = fo_mul_int F y 4;
         x = fo_cmov F x (ge_x b) (of_bool (gej_infinity a));
         y = fo_cmov F y (ge_y b) (of_bool (gej_infinity a));
         z = fo_cmov F z (fe_1 F) (of_bool (gej_infinity a))
     in \<lparr>gej_x = x, gej_y = y, gej_z = z, gej_infinity = infinity\<rparr>)"

definition gej_rescale :: "('fe, 'st) field_ops \<Rightarrow> 'fe gej \<Rightarrow> 'fe \<Rightarrow> 'fe gej" where
  "gej_rescale F r s =
    (let zz = fo_sqr F s;
         x = fo_mul F (gej_x r) zz;
         y = fo_mul F (gej_y r) zz;
         y = fo_mul F y s;
         z = fo_mul F (gej_z r) s
     in r\<lparr>gej_x := x, gej_y := y, gej_z := z\<rparr>)"

definition ge_to_storage :: "('fe, 'st) field_ops \<Rightarrow> 'fe ge \<Rightarrow> 'st ge_storage" where
  "ge_to_storage F a =
    (let x = fo_normalize F (ge_x a);
         y = fo_normalize F (ge_y a)
     in \<lparr>ges_x = fo_to_storage F x, ges_y = fo_to_storage F y\<rparr>)"

definition ge_from_storage :: "('fe, 'st) field_ops \<Rightarrow> 'st ge_storage \<Rightarrow> 'fe ge" where
  "ge_from_storage F a =
    \<lparr>ge_x = fo_from_storage F (ges_x a), ge_y = fo_from_storage F (ges_y a), ge_infinity = False\<rparr>"

definition ge_storage_cmov :: "('fe, 'st) field_ops \<Rightarrow> 'st ge_storage \<Rightarrow> 'st ge_storage \<Rightarrow> int \<Rightarrow> 'st ge_storage" where
  "ge_storage_cmov F r a flag =
    \<lparr>ges_x = fo_storage_cmov F (ges_x r) (ges_x a) flag, ges_y = fo_storage_cmov F (ges_y r) (ges_y a) flag\<rparr>"

definition ge_beta :: "('fe, 'st) field_ops \<Rightarrow> 'fe" where
  "ge_beta F = fo_const F 0x7ae96a2b 0x657c0710 0x6e64479e 0xac3434e9 0x9cf04975 0x12f58995 0xc1396c28 0x719501ee"

definition ge_mul_lambda :: "('fe, 'st) field_ops \<Rightarrow> 'fe ge \<Rightarrow> 'fe ge" where
  "ge_mul_lambda F a = a\<lparr>ge_x := fo_mul F (ge_x a) (ge_beta F)\<rparr>"

definition gej_has_quad_y_var :: "('fe, 'st) field_ops \<Rightarrow> 'fe gej \<Rightarrow> bool" where
  "gej_has_quad_y_var F a =
    (if gej_infinity a then False
     else
      (let yz = fo_mul F (gej_y a) (gej_z a)
       in fe_is_quad_var F yz))"

text \<open>Local variables of the C functions that are declared without an initial value: the code above
  assigns them before it reads them; until then they hold zeros here.\<close>

definition fe_local :: "('fe, 'st) field_ops \<Rightarrow> 'fe" where
  "fe_local F = fo_set_int F 0"

definition ge_local :: "('fe, 'st) field_ops \<Rightarrow> 'fe ge" where
  "ge_local F = \<lparr>ge_x = fe_local F, ge_y = fe_local F, ge_infinity = False\<rparr>"

definition gej_local :: "('fe, 'st) field_ops \<Rightarrow> 'fe gej" where
  "gej_local F = \<lparr>gej_x = fe_local F, gej_y = fe_local F, gej_z = fe_local F, gej_infinity = False\<rparr>"

section \<open>Specification: the affine group law\<close>

datatype point = Infinity | Point fp fp

definition on_curve :: "point \<Rightarrow> bool" where
  "on_curve p = (case p of Infinity \<Rightarrow> True | Point x y \<Rightarrow> y * y = x * x * x + 7)"

definition chord :: "fp \<Rightarrow> fp \<Rightarrow> fp \<Rightarrow> fp \<Rightarrow> point" where
  "chord l x1 y1 x2 = (let x3 = l * l - x1 - x2 in Point x3 (l * (x1 - x3) - y1))"

definition point_add :: "point \<Rightarrow> point \<Rightarrow> point" where
  "point_add p q = (case (p, q) of
      (Infinity, q) \<Rightarrow> q
    | (p, Infinity) \<Rightarrow> p
    | (Point x1 y1, Point x2 y2) \<Rightarrow>
        if x1 \<noteq> x2 then chord ((y2 - y1) / (x2 - x1)) x1 y1 x2
        else if y1 = y2 \<and> y1 \<noteq> 0 then chord (3 * x1 * x1 / (2 * y1)) x1 y1 x2
        else Infinity)"

definition point_neg :: "point \<Rightarrow> point" where
  "point_neg p = (case p of Infinity \<Rightarrow> Infinity | Point x y \<Rightarrow> Point x (- y))"

definition ge_pt :: "('fe \<Rightarrow> int) \<Rightarrow> 'fe ge \<Rightarrow> point" where
  "ge_pt fabs a = (if ge_infinity a then Infinity else Point (fpv fabs (ge_x a)) (fpv fabs (ge_y a)))"

definition gej_pt :: "('fe \<Rightarrow> int) \<Rightarrow> 'fe gej \<Rightarrow> point" where
  "gej_pt fabs a = (if gej_infinity a then Infinity
     else Point (fpv fabs (gej_x a) / (fpv fabs (gej_z a) * fpv fabs (gej_z a)))
                (fpv fabs (gej_y a) / (fpv fabs (gej_z a) * fpv fabs (gej_z a) * fpv fabs (gej_z a))))"

text \<open>Well-formed points: the coordinates may be multiplied, and the denominator is not zero.\<close>

definition ge_wf :: "(nat \<Rightarrow> 'fe \<Rightarrow> bool) \<Rightarrow> 'fe ge \<Rightarrow> bool" where
  "ge_wf fmag a \<longleftrightarrow> fmag 8 (ge_x a) \<and> fmag 8 (ge_y a)"

definition gej_wf :: "('fe \<Rightarrow> int) \<Rightarrow> (nat \<Rightarrow> 'fe \<Rightarrow> bool) \<Rightarrow> 'fe gej \<Rightarrow> bool" where
  "gej_wf fabs fmag a \<longleftrightarrow> fmag 8 (gej_x a) \<and> fmag 8 (gej_y a) \<and> fmag 8 (gej_z a)
     \<and> (gej_infinity a \<or> fpv fabs (gej_z a) \<noteq> 0)"

text \<open>\<open>fr fabs fmag m a v\<close>: the element \<open>a\<close> has magnitude \<open>m\<close> and value \<open>v\<close>.\<close>

definition fr :: "('fe \<Rightarrow> int) \<Rightarrow> (nat \<Rightarrow> 'fe \<Rightarrow> bool) \<Rightarrow> nat \<Rightarrow> 'fe \<Rightarrow> fp \<Rightarrow> bool" where
  "fr fabs fmag m a v \<longleftrightarrow> fmag m a \<and> fpv fabs a = v \<and> m \<le> 31"

lemma fp_2_nonzero: "(2 :: fp) \<noteq> 0"
proof -
  have "(of_int 2 :: fp) \<noteq> 0" unfolding of_int_fp_0_iff by (simp add: secp_p_def)
  then show ?thesis by simp
qed

lemma quotient_eqI: "c \<noteq> 0 \<Longrightarrow> a = b * c \<Longrightarrow> a / c = (b :: fp)"
  by simp

text \<open>The Jacobian formulas, as identities of the field: \<open>D\<close> is the common denominator.\<close>

lemma add_jacobian:
  fixes D :: fp
  assumes D: "D \<noteq> 0" "x1 \<noteq> x2" and H: "H = (x2 - x1) * (D * D)" and I: "I = (y2 - y1) * (D * D * D)"
    and X: "Xr = I * I - H * H * H - 2 * (x1 * (D * D)) * (H * H)"
    and Y: "Yr = I * (x1 * (D * D) * (H * H) - Xr) - H * H * H * (y1 * (D * D * D))" and Z: "Zr = D * H"
  shows "Point (Xr / (Zr * Zr)) (Yr / (Zr * Zr * Zr)) = chord ((y2 - y1) / (x2 - x1)) x1 y1 x2" "Zr \<noteq> 0"
proof -
  define l where "l = (y2 - y1) / (x2 - x1)"
  have l: "l * (x2 - x1) = y2 - y1" using D(2) by (simp add: l_def)
  have I': "I = l * H * D" unfolding I H l[symmetric] by (simp add: mult_ac)
  show z: "Zr \<noteq> 0" using D by (simp add: Z H)
  have x3: "Xr = (l * l - x1 - x2) * (Zr * Zr)" unfolding X I' Z H by algebra
  have y3: "Yr = (l * (x1 - (l * l - x1 - x2)) - y1) * (Zr * Zr * Zr)" unfolding Y x3 I' Z by algebra
  show "Point (Xr / (Zr * Zr)) (Yr / (Zr * Zr * Zr)) = chord ((y2 - y1) / (x2 - x1)) x1 y1 x2"
    unfolding l_def[symmetric] chord_def Let_def using z
    by (simp only: point.inject quotient_eqI[OF _ x3] quotient_eqI[OF _ y3] mult_eq_0_iff simp_thms)
qed

lemma double_jacobian:
  fixes Z :: fp
  assumes nz: "Z \<noteq> 0" "y \<noteq> 0" and X: "X = x * (Z * Z)" and Y: "Y = y * (Z * Z * Z)"
    and Xr: "Xr = 9 * X ^ 4 - 8 * X * Y ^ 2" and Yr: "Yr = 36 * X ^ 3 * Y ^ 2 - 27 * X ^ 6 - 8 * Y ^ 4" and Zr: "Zr = 2 * Y * Z"
  shows "Point (Xr / (Zr * Zr)) (Yr / (Zr * Zr * Zr)) = chord (3 * x * x / (2 * y)) x y x" "Zr \<noteq> 0"
proof -
  define l where "l = 3 * x * x / (2 * y)"
  have "2 * y \<noteq> 0" using nz fp_2_nonzero by simp
  then have l: "l * (2 * y) = 3 * x * x" by (simp add: l_def)
  show z: "Zr \<noteq> 0" using nz fp_2_nonzero by (simp add: Zr Y)
  have x3: "Xr = (l * l - x - x) * (Zr * Zr)" unfolding Xr Zr X Y using l by algebra
  have y3: "Yr = (l * (x - (l * l - x - x)) - y) * (Zr * Zr * Zr)" unfolding Yr Zr X Y using l by algebra
  show "Point (Xr / (Zr * Zr)) (Yr / (Zr * Zr * Zr)) = chord (3 * x * x / (2 * y)) x y x"
    unfolding l_def[symmetric] chord_def Let_def using z
    by (simp only: point.inject quotient_eqI[OF _ x3] quotient_eqI[OF _ y3] mult_eq_0_iff simp_thms)
qed

section \<open>Lemmas for every representation of the field\<close>

context field_repr
begin

lemma frD: "fr fabs fmag m a v \<Longrightarrow> fpv fabs a = v" "fr fabs fmag m a v \<Longrightarrow> m \<le> 8 \<Longrightarrow> fmag 8 a"
  using mag_mono[of m a 8] by (auto simp: fr_def)

lemma fr_self: "fmag m a \<Longrightarrow> m \<le> 31 \<Longrightarrow> fr fabs fmag m a (fpv fabs a)"
  by (simp add: fr_def)

lemma fr_eq: "fr fabs fmag m a v \<Longrightarrow> m \<le> 8 \<Longrightarrow> v = w \<Longrightarrow> fr fabs fmag 8 a w"
  using mag_mono[of m a 8] by (auto simp: fr_def)

lemma fr_mul: "fr fabs fmag m a v \<Longrightarrow> fr fabs fmag k b w \<Longrightarrow> m \<le> 8 \<Longrightarrow> k \<le> 8 \<Longrightarrow> fr fabs fmag 1 (fo_mul F a b) (v * w)"
  using mag_mono[of m a 8] mag_mono[of k b 8] mul[of a b] fpv_ops(8)[of a b] by (auto simp: fr_def)

lemma fr_sqr: "fr fabs fmag m a v \<Longrightarrow> m \<le> 8 \<Longrightarrow> fr fabs fmag 1 (fo_sqr F a) (v * v)"
  using mag_mono[of m a 8] sqr[of a] fpv_ops(9)[of a] by (auto simp: fr_def)

lemma fr_mul_nat: "fr fabs fmag m a v \<Longrightarrow> i \<le> 31 \<Longrightarrow> m * i \<le> 31 \<Longrightarrow> fr fabs fmag (m * i) (fo_mul_int F a (int i)) (v * of_nat i)"
  using mul_int[of m a i] fpv_ops(6)[of m a i] by (auto simp: fr_def)

lemmas fr_mul_int = fr_mul_nat[where i = 2, simplified] fr_mul_nat[where i = 3, simplified]
  fr_mul_nat[where i = 4, simplified] fr_mul_nat[where i = 6, simplified] fr_mul_nat[where i = 7, simplified]

lemma fr_negate_nat: "fr fabs fmag m a v \<Longrightarrow> m \<le> k \<Longrightarrow> k \<le> 30 \<Longrightarrow> fr fabs fmag (k + 1) (fo_negate F a (int k)) (- v)"
  using mag_mono[of m a k] negate[of k a] fpv_ops(5)[of k a] by (auto simp: fr_def)

lemmas fr_negate = fr_negate_nat[where k = 1, simplified] fr_negate_nat[where k = 2, simplified]
  fr_negate_nat[where k = 3, simplified] fr_negate_nat[where k = 4, simplified] fr_negate_nat[where k = 5, simplified]

lemma fr_add: "fr fabs fmag m a v \<Longrightarrow> fr fabs fmag k b w \<Longrightarrow> m + k \<le> 31 \<Longrightarrow> fr fabs fmag (m + k) (fo_add F a b) (v + w)"
  using add[of m a k b] fpv_ops(7)[of m a k b] by (auto simp: fr_def)

lemma fr_normalize_weak: "fr fabs fmag m a v \<Longrightarrow> fr fabs fmag 1 (fo_normalize_weak F a) v"
  using normalize_weak[of a] fpv_ops(2)[of a] mag_mono[of m a 31] by (auto simp: fr_def)

lemma fr_set_int: "0 \<le> v \<Longrightarrow> v < 2 ^ 26 \<Longrightarrow> fr fabs fmag 1 (fo_set_int F v) (of_int v)"
  using set_int[of v] fpv_ops(4)[of v] norm_mag[of "fo_set_int F v"] by (auto simp: fr_def)

lemmas fr_intros = fr_mul fr_sqr fr_mul_int fr_negate fr_add fr_normalize_weak

lemma fr_zero_var: "fr fabs fmag m a v \<Longrightarrow> fo_normalizes_to_zero_var F a \<longleftrightarrow> v = 0"
  using normalizes_to_zero_var[of a] mag_mono[of m a 31] fpv_0_iff[of a] by (auto simp: fr_def)

lemma fr_zero: "fr fabs fmag m a v \<Longrightarrow> fo_normalizes_to_zero F a \<longleftrightarrow> v = 0"
  using normalizes_to_zero[of a] mag_mono[of m a 31] fpv_0_iff[of a] by (auto simp: fr_def)

lemma double_coords:
  fixes r a rzr
  assumes "fr fabs fmag 8 (gej_x a) X" "fr fabs fmag 8 (gej_y a) Y" "fr fabs fmag 8 (gej_z a) Z" "\<not> gej_infinity a"
  defines "r' \<equiv> fst (gej_double_var F r a rzr)"
  shows "fr fabs fmag 8 (gej_x r') (9 * X ^ 4 - 8 * X * Y ^ 2)"
    "fr fabs fmag 8 (gej_y r') (36 * X ^ 3 * Y ^ 2 - 27 * X ^ 6 - 8 * Y ^ 4)"
    "fr fabs fmag 8 (gej_z r') (2 * Y * Z)" "\<not> gej_infinity r'"
proof -
  note d = r'_def gej_double_var_def Let_def
  show "\<not> gej_infinity r'" using assms(4) by (simp add: d)
  show "fr fabs fmag 8 (gej_x r') (9 * X ^ 4 - 8 * X * Y ^ 2)"
    using assms(4) by (simp add: d) (rule fr_eq, (rule fr_intros assms | simp)+, algebra)
  show "fr fabs fmag 8 (gej_y r') (36 * X ^ 3 * Y ^ 2 - 27 * X ^ 6 - 8 * Y ^ 4)"
    using assms(4) by (simp add: d) (rule fr_eq, (rule fr_intros assms | simp)+, algebra)
  show "fr fabs fmag 8 (gej_z r') (2 * Y * Z)"
    using assms(4) by (simp add: d) (rule fr_eq, (rule fr_intros assms | simp)+)
qed

end

definition gej_mag :: "(nat \<Rightarrow> 'fe \<Rightarrow> bool) \<Rightarrow> 'fe gej \<Rightarrow> bool" where
  "gej_mag fmag a \<longleftrightarrow> fmag 8 (gej_x a) \<and> fmag 8 (gej_y a) \<and> fmag 8 (gej_z a)"

lemma gej_wf_iff: "gej_wf fabs fmag a \<longleftrightarrow> gej_mag fmag a \<and> (gej_infinity a \<or> fpv fabs (gej_z a) \<noteq> 0)"
  by (auto simp: gej_wf_def gej_mag_def)

definition add_result ::
    "('fe, 'st) field_ops \<Rightarrow> 'fe gej \<Rightarrow> 'fe gej \<Rightarrow> 'fe option \<Rightarrow> 'fe \<Rightarrow> 'fe \<Rightarrow> 'fe \<Rightarrow> 'fe \<Rightarrow> 'fe \<Rightarrow> 'fe gej" where
  "add_result F r a rzr u1 s1 h i z =
    (if fo_normalizes_to_zero_var F h then
       if fo_normalizes_to_zero_var F i then fst (gej_double_var F (r\<lparr>gej_infinity := False\<rparr>) a rzr)
       else r\<lparr>gej_infinity := True\<rparr>
     else
      (let x = fo_add F (fo_negate F (fo_add F (fo_mul_int F (fo_mul F u1 (fo_sqr F h)) 2) (fo_mul F h (fo_sqr F h))) 3) (fo_sqr F i)
       in r\<lparr>gej_infinity := False, gej_x := x,
         gej_y := fo_add F (fo_mul F (fo_add F (fo_negate F x 5) (fo_mul F u1 (fo_sqr F h))) i)
                    (fo_negate F (fo_mul F (fo_mul F h (fo_sqr F h)) s1) 1),
         gej_z := z\<rparr>))"

lemma gej_assigned:
  "gej_x (r\<lparr>gej_infinity := b, gej_x := x, gej_y := y, gej_z := z\<rparr>) = x"
  "gej_y (r\<lparr>gej_infinity := b, gej_x := x, gej_y := y, gej_z := z\<rparr>) = y"
  "gej_z (r\<lparr>gej_infinity := b, gej_x := x, gej_y := y, gej_z := z\<rparr>) = z"
  "gej_infinity (r\<lparr>gej_infinity := b, gej_x := x, gej_y := y, gej_z := z\<rparr>) = b"
  by simp_all

definition zinv_pt :: "('fe \<Rightarrow> int) \<Rightarrow> 'fe ge \<Rightarrow> 'fe \<Rightarrow> point" where
  "zinv_pt fabs b bzinv = (let w = fpv fabs bzinv in if ge_infinity b then Infinity
     else Point (fpv fabs (ge_x b) * (w * w)) (fpv fabs (ge_y b) * (w * w * w)))"

text \<open>Scaled coordinates of a finite point.\<close>

lemma gej_scaled:
  assumes "gej_wf fabs fmag a" "\<not> gej_infinity a"
  obtains x y where "gej_pt fabs a = Point x y"
    "fpv fabs (gej_x a) = x * (fpv fabs (gej_z a) * fpv fabs (gej_z a))"
    "fpv fabs (gej_y a) = y * (fpv fabs (gej_z a) * fpv fabs (gej_z a) * fpv fabs (gej_z a))"
proof -
  let ?z = "fpv fabs (gej_z a)"
  have z: "?z \<noteq> 0" using assms by (simp add: gej_wf_def)
  show thesis
    by (rule that[of "fpv fabs (gej_x a) / (?z * ?z)" "fpv fabs (gej_y a) / (?z * ?z * ?z)"])
      (use z assms(2) in \<open>simp_all add: gej_pt_def\<close>)
qed

context field_repr
begin

lemma fr_exact: "fr fabs fmag m a v \<Longrightarrow> m = k \<Longrightarrow> v = w \<Longrightarrow> fr fabs fmag k a w"
  by simp

lemma wf_fr:
  assumes "gej_wf fabs fmag a"
  shows "fr fabs fmag 8 (gej_x a) (fpv fabs (gej_x a))" "fr fabs fmag 8 (gej_y a) (fpv fabs (gej_y a))"
    "fr fabs fmag 8 (gej_z a) (fpv fabs (gej_z a))"
  using assms by (simp_all add: gej_wf_def fr_def)

lemma ge_wf_fr:
  assumes "ge_wf fmag b"
  shows "fr fabs fmag 8 (ge_x b) (fpv fabs (ge_x b))" "fr fabs fmag 8 (ge_y b) (fpv fabs (ge_y b))"
  using assms by (simp_all add: ge_wf_def fr_def)

lemma finite_result:
  assumes "fr fabs fmag 8 (gej_x r) Xr" "fr fabs fmag 8 (gej_y r) Yr" "fr fabs fmag 8 (gej_z r) Zr" "\<not> gej_infinity r"
    "Zr \<noteq> 0" "Point (Xr / (Zr * Zr)) (Yr / (Zr * Zr * Zr)) = p"
  shows "gej_wf fabs fmag r \<and> gej_pt fabs r = p"
  using assms by (auto simp: gej_wf_def gej_pt_def fr_def)

lemma infinite_result: "gej_mag fmag r \<Longrightarrow> gej_infinity r \<Longrightarrow> gej_wf fabs fmag r \<and> gej_pt fabs r = Infinity"
  by (simp add: gej_wf_iff gej_pt_def)

lemma double_var_point:
  fixes r a rzr
  assumes a: "gej_wf fabs fmag a" and y: "gej_infinity a \<or> fpv fabs (gej_y a) \<noteq> 0" and r: "gej_mag fmag r"
  defines "r' \<equiv> fst (gej_double_var F r a rzr)"
  shows "gej_wf fabs fmag r' \<and> gej_pt fabs r' = point_add (gej_pt fabs a) (gej_pt fabs a)"
proof (cases "gej_infinity a")
  case True
  then have "gej_infinity r'" "gej_mag fmag r'" using r by (simp_all add: r'_def gej_double_var_def gej_mag_def)
  then show ?thesis using True infinite_result by (simp add: gej_pt_def point_add_def)
next
  case False
  obtain px py where p: "gej_pt fabs a = Point px py"
    and s: "fpv fabs (gej_x a) = px * (fpv fabs (gej_z a) * fpv fabs (gej_z a))"
      "fpv fabs (gej_y a) = py * (fpv fabs (gej_z a) * fpv fabs (gej_z a) * fpv fabs (gej_z a))"
    by (rule gej_scaled[OF a False])
  have nz: "fpv fabs (gej_z a) \<noteq> 0" "py \<noteq> 0" using a y False s by (auto simp: gej_wf_def)
  note c = double_coords[OF wf_fr[OF a] False, of r rzr, folded r'_def]
  note j = double_jacobian[OF nz s refl refl refl]
  have "point_add (gej_pt fabs a) (gej_pt fabs a) = chord (3 * px * px / (2 * py)) px py px"
    using nz(2) by (simp add: p point_add_def)
  then show ?thesis using finite_result[OF c j(2,1)] by simp
qed

text \<open>The common end of the three additions with branches.\<close>

lemma add_tail:
  assumes "fr fabs fmag 1 u1 U" "fr fabs fmag 1 s1 S" "fr fabs fmag 3 h H" "fr fabs fmag 3 i I"
  defines "x \<equiv> fo_add F (fo_negate F (fo_add F (fo_mul_int F (fo_mul F u1 (fo_sqr F h)) 2) (fo_mul F h (fo_sqr F h))) 3) (fo_sqr F i)"
  shows "fr fabs fmag 5 x (I * I - H * H * H - 2 * U * (H * H))"
    "fr fabs fmag 8 (fo_add F (fo_mul F (fo_add F (fo_negate F x 5) (fo_mul F u1 (fo_sqr F h))) i)
       (fo_negate F (fo_mul F (fo_mul F h (fo_sqr F h)) s1) 1))
     (I * (U * (H * H) - (I * I - H * H * H - 2 * U * (H * H))) - H * H * H * S)"
proof -
  show x: "fr fabs fmag 5 x (I * I - H * H * H - 2 * U * (H * H))"
    unfolding x_def by (rule fr_exact, (rule fr_intros assms(1-4) | (simp; fail) | algebra)+)
  show "fr fabs fmag 8 (fo_add F (fo_mul F (fo_add F (fo_negate F x 5) (fo_mul F u1 (fo_sqr F h))) i)
       (fo_negate F (fo_mul F (fo_mul F h (fo_sqr F h)) s1) 1))
     (I * (U * (H * H) - (I * I - H * H * H - 2 * U * (H * H))) - H * H * H * S)"
    by (rule fr_eq, (rule fr_intros assms(1-4) x | (simp; fail) | algebra)+)
qed

text \<open>The two zero tests and the end, for the values that the three additions compute first.\<close>

lemma add_result_point:
  assumes a: "gej_wf fabs fmag a" "gej_pt fabs a = Point x1 y1" and y: "gej_infinity a \<or> fpv fabs (gej_y a) \<noteq> 0"
    and r: "gej_mag fmag r" and D: "D \<noteq> 0" and R: "R = add_result F r a rzr u1 s1 h i z"
    and u: "fr fabs fmag 1 u1 (x1 * (D * D))" "fr fabs fmag 1 s1 (y1 * (D * D * D))"
    and h: "fr fabs fmag 3 h ((x2 - x1) * (D * D))" and i: "fr fabs fmag 3 i ((y2 - y1) * (D * D * D))"
    and z: "fr fabs fmag 8 z (D * ((x2 - x1) * (D * D)))"
  shows "gej_wf fabs fmag R \<and> gej_pt fabs R = point_add (Point x1 y1) (Point x2 y2)"
proof -
  note zero = fr_zero_var[OF h] fr_zero_var[OF i]
  have m: "gej_mag fmag (r\<lparr>gej_infinity := b\<rparr>)" for b using r by (simp add: gej_mag_def)
  consider "x1 = x2" "y1 = y2" | "x1 = x2" "y1 \<noteq> y2" | "x1 \<noteq> x2" by blast
  then show ?thesis
  proof cases
    case 1
    then have "R = fst (gej_double_var F (r\<lparr>gej_infinity := False\<rparr>) a rzr)" using zero by (simp add: R add_result_def)
    then show ?thesis using double_var_point[OF a(1) y m[of False], of rzr] a(2) 1 by simp
  next
    case 2
    then have "R = r\<lparr>gej_infinity := True\<rparr>" using zero D by (simp add: R add_result_def)
    then show ?thesis using infinite_result[OF m, of True] 2 by (simp add: point_add_def)
  next
    case 3
    note tail = add_tail[OF u h i] note j = add_jacobian[OF D 3 refl refl refl refl refl]
    have nh: "\<not> fo_normalizes_to_zero_var F h" using 3 zero D by simp
    note x = fr_eq[OF tail(1) _ refl, simplified one_le_numeral numeral_le_iff semiring_norm]
    have "gej_wf fabs fmag R \<and> gej_pt fabs R = chord ((y2 - y1) / (x2 - x1)) x1 y1 x2"
      by (rule finite_result[OF _ _ _ _ j(2,1)])
        (simp_all only: R add_result_def Let_def if_not_P[OF nh] gej_assigned x tail(2) z not_False_eq_True)
    then show ?thesis using 3 by (simp add: point_add_def)
  qed
qed

lemma add_var_point:
  fixes r a b rzr
  assumes a: "gej_wf fabs fmag a" and b: "gej_wf fabs fmag b" and y: "gej_infinity a \<or> fpv fabs (gej_y a) \<noteq> 0"
    and r: "gej_mag fmag r"
  defines "r' \<equiv> fst (gej_add_var F r a b rzr)"
  shows "gej_wf fabs fmag r' \<and> gej_pt fabs r' = point_add (gej_pt fabs a) (gej_pt fabs b)"
proof (cases "gej_infinity a \<or> gej_infinity b")
  case True
  then show ?thesis using a b
    by (cases "gej_infinity a") (simp_all add: r'_def gej_add_var_def gej_pt_def point_add_def)
next
  case False
  define Za Zb where "Za = fpv fabs (gej_z a)" and "Zb = fpv fabs (gej_z b)"
  obtain x1 y1 where p: "gej_pt fabs a = Point x1 y1"
    and s: "fpv fabs (gej_x a) = x1 * (Za * Za)" "fpv fabs (gej_y a) = y1 * (Za * Za * Za)"
    using gej_scaled[OF a] False unfolding Za_def by blast
  obtain x2 y2 where q: "gej_pt fabs b = Point x2 y2"
    and t: "fpv fabs (gej_x b) = x2 * (Zb * Zb)" "fpv fabs (gej_y b) = y2 * (Zb * Zb * Zb)"
    using gej_scaled[OF b] False unfolding Zb_def by blast
  have D: "Za * Zb \<noteq> 0" using a b False by (auto simp: Za_def Zb_def gej_wf_def)
  note fa = wf_fr[OF a, folded Za_def, unfolded s] note fb = wf_fr[OF b, folded Zb_def, unfolded t]
  have R: "r' = add_result F r a rzr (fo_mul F (gej_x a) (fo_sqr F (gej_z b)))
      (fo_mul F (fo_mul F (gej_y a) (fo_sqr F (gej_z b))) (gej_z b))
      (fo_add F (fo_negate F (fo_mul F (gej_x a) (fo_sqr F (gej_z b))) 1) (fo_mul F (gej_x b) (fo_sqr F (gej_z a))))
      (fo_add F (fo_negate F (fo_mul F (fo_mul F (gej_y a) (fo_sqr F (gej_z b))) (gej_z b)) 1)
        (fo_mul F (fo_mul F (gej_y b) (fo_sqr F (gej_z a))) (gej_z a)))
      (fo_mul F (gej_z a) (fo_mul F (fo_add F (fo_negate F (fo_mul F (gej_x a) (fo_sqr F (gej_z b))) 1)
        (fo_mul F (gej_x b) (fo_sqr F (gej_z a)))) (gej_z b)))"
    using False unfolding r'_def gej_add_var_def Let_def add_result_def by simp
  show ?thesis
    unfolding p q
    apply (rule add_result_point[OF a p y r D R])
    subgoal by (rule fr_exact, (rule fr_intros fa fb | (simp; fail) | algebra)+)
    subgoal by (rule fr_exact, (rule fr_intros fa fb | (simp; fail) | algebra)+)
    subgoal by (rule fr_exact, (rule fr_intros fa fb | (simp; fail) | algebra)+)
    subgoal by (rule fr_exact, (rule fr_intros fa fb | (simp; fail) | algebra)+)
    subgoal by (rule fr_eq, (rule fr_intros fa fb | (simp; fail) | algebra)+)
    done
qed

lemma add_ge_var_point:
  fixes r a b rzr
  assumes a: "gej_wf fabs fmag a" and b: "ge_wf fmag b" and y: "gej_infinity a \<or> fpv fabs (gej_y a) \<noteq> 0"
    and r: "gej_mag fmag r"
  defines "r' \<equiv> fst (gej_add_ge_var F r a b rzr)"
  shows "gej_wf fabs fmag r' \<and> gej_pt fabs r' = point_add (gej_pt fabs a) (ge_pt fabs b)"
proof (cases "gej_infinity a \<or> ge_infinity b")
  case True
  have "fpv fabs (fo_set_int F 1) = 1" "fmag 8 (fo_set_int F 1)" using fr_set_int[of 1] frD[of 1 "fo_set_int F 1"] by simp_all
  then show ?thesis using True a b
    by (cases "gej_infinity a")
      (simp_all add: r'_def gej_add_ge_var_def gej_pt_def ge_pt_def point_add_def gej_set_ge_def gej_wf_def ge_wf_def)
next
  case False
  define Za where "Za = fpv fabs (gej_z a)"
  obtain x1 y1 where p: "gej_pt fabs a = Point x1 y1"
    and s: "fpv fabs (gej_x a) = x1 * (Za * Za)" "fpv fabs (gej_y a) = y1 * (Za * Za * Za)"
    using gej_scaled[OF a] False unfolding Za_def by blast
  define x2 y2 where "x2 = fpv fabs (ge_x b)" and "y2 = fpv fabs (ge_y b)"
  have q: "ge_pt fabs b = Point x2 y2" using False by (simp add: ge_pt_def x2_def y2_def)
  have D: "Za \<noteq> 0" using a False by (auto simp: Za_def gej_wf_def)
  note fa = wf_fr[OF a, folded Za_def, unfolded s] note fb = ge_wf_fr[OF b, folded x2_def y2_def]
  have R: "r' = add_result F r a rzr (fo_normalize_weak F (gej_x a)) (fo_normalize_weak F (gej_y a))
      (fo_add F (fo_negate F (fo_normalize_weak F (gej_x a)) 1) (fo_mul F (ge_x b) (fo_sqr F (gej_z a))))
      (fo_add F (fo_negate F (fo_normalize_weak F (gej_y a)) 1)
        (fo_mul F (fo_mul F (ge_y b) (fo_sqr F (gej_z a))) (gej_z a)))
      (fo_mul F (gej_z a) (fo_add F (fo_negate F (fo_normalize_weak F (gej_x a)) 1) (fo_mul F (ge_x b) (fo_sqr F (gej_z a)))))"
    using False unfolding r'_def gej_add_ge_var_def Let_def add_result_def by simp
  show ?thesis
    unfolding p q
    apply (rule add_result_point[OF a p y r D R])
    subgoal by (rule fr_exact, (rule fr_intros fa fb | (simp; fail) | algebra)+)
    subgoal by (rule fr_exact, (rule fr_intros fa fb | (simp; fail) | algebra)+)
    subgoal by (rule fr_exact, (rule fr_intros fa fb | (simp; fail) | algebra)+)
    subgoal by (rule fr_exact, (rule fr_intros fa fb | (simp; fail) | algebra)+)
    subgoal by (rule fr_eq, (rule fr_intros fa fb | (simp; fail) | algebra)+)
    done
qed

text \<open>The point that an affine element stands for when its denominator is the inverse of \<open>bzinv\<close>.\<close>

lemma add_zinv_var_point:
  fixes r a b bzinv
  assumes a: "gej_wf fabs fmag a" and b: "ge_wf fmag b" and zi: "fmag 8 bzinv"
    and y: "gej_infinity a \<or> fpv fabs (gej_y a) \<noteq> 0" and r: "gej_mag fmag r"
  defines "r' \<equiv> gej_add_zinv_var F r a b bzinv"
  shows "gej_wf fabs fmag r' \<and> gej_pt fabs r' = point_add (gej_pt fabs a) (zinv_pt fabs b bzinv)"
proof -
  define w x2 y2 where "w = fpv fabs bzinv" and "x2 = fpv fabs (ge_x b) * (w * w)" and "y2 = fpv fabs (ge_y b) * (w * w * w)"
  have fw: "fr fabs fmag 8 bzinv w" using zi by (simp add: fr_def w_def)
  note fb = ge_wf_fr[OF b]
  consider "ge_infinity b" | "\<not> ge_infinity b" "gej_infinity a" | "\<not> ge_infinity b" "\<not> gej_infinity a" by blast
  then show ?thesis
  proof cases
    case 1
    then show ?thesis using a by (cases "gej_pt fabs a") (simp_all add: r'_def gej_add_zinv_var_def zinv_pt_def Let_def point_add_def)
  next
    case 2
    have x: "fr fabs fmag 8 (fo_mul F (ge_x b) (fo_sqr F bzinv)) x2"
      unfolding x2_def by (rule fr_eq, (rule fr_intros fw fb | (simp; fail) | algebra)+)
    have y: "fr fabs fmag 8 (fo_mul F (ge_y b) (fo_mul F (fo_sqr F bzinv) bzinv)) y2"
      unfolding y2_def by (rule fr_eq, (rule fr_intros fw fb | (simp; fail) | algebra)+)
    have z: "fr fabs fmag 8 (fo_set_int F 1) 1" using fr_eq[OF fr_set_int[of 1], of 1] by simp
    have "gej_wf fabs fmag r' \<and> gej_pt fabs r' = Point x2 y2"
      by (rule finite_result[of r' x2 y2 1]) (use 2 x y z in \<open>simp_all add: r'_def gej_add_zinv_var_def Let_def\<close>)
    then show ?thesis using 2 by (simp add: gej_pt_def point_add_def zinv_pt_def Let_def w_def x2_def y2_def mult.assoc)
  next
    case 3
    define Za where "Za = fpv fabs (gej_z a)"
    obtain x1 y1 where p: "gej_pt fabs a = Point x1 y1"
      and s: "fpv fabs (gej_x a) = x1 * (Za * Za)" "fpv fabs (gej_y a) = y1 * (Za * Za * Za)"
      using gej_scaled[OF a] 3 unfolding Za_def by blast
    have q: "zinv_pt fabs b bzinv = Point x2 y2" using 3 by (simp add: zinv_pt_def Let_def x2_def y2_def w_def mult.assoc)
    have D: "Za \<noteq> 0" using a 3 by (auto simp: Za_def gej_wf_def)
    note fa = wf_fr[OF a, folded Za_def, unfolded s]
    have R: "r' = add_result F r a None (fo_normalize_weak F (gej_x a)) (fo_normalize_weak F (gej_y a))
        (fo_add F (fo_negate F (fo_normalize_weak F (gej_x a)) 1) (fo_mul F (ge_x b) (fo_sqr F (fo_mul F (gej_z a) bzinv))))
        (fo_add F (fo_negate F (fo_normalize_weak F (gej_y a)) 1)
          (fo_mul F (fo_mul F (ge_y b) (fo_sqr F (fo_mul F (gej_z a) bzinv))) (fo_mul F (gej_z a) bzinv)))
        (fo_mul F (gej_z a) (fo_add F (fo_negate F (fo_normalize_weak F (gej_x a)) 1)
          (fo_mul F (ge_x b) (fo_sqr F (fo_mul F (gej_z a) bzinv)))))"
      using 3 unfolding r'_def gej_add_zinv_var_def Let_def add_result_def by simp
    show ?thesis
      unfolding p q
      apply (rule add_result_point[OF a p y r D R])
      subgoal by (rule fr_exact, (rule fr_intros fa fb fw | (simp; fail) | algebra)+)
      subgoal by (rule fr_exact, (rule fr_intros fa fb fw | (simp; fail) | algebra)+)
      subgoal unfolding x2_def by (rule fr_exact, (rule fr_intros fa fb fw | (simp; fail) | algebra)+)
      subgoal unfolding y2_def by (rule fr_exact, (rule fr_intros fa fb fw | (simp; fail) | algebra)+)
      subgoal unfolding x2_def by (rule fr_eq, (rule fr_intros fa fb fw | (simp; fail) | algebra)+)
      done
  qed
qed

end

text \<open>The addition without branches: \<open>Rt / Mt\<close> is the slope in either form.\<close>

lemma unified_jacobian:
  fixes Z :: fp
  assumes nz: "Z \<noteq> 0" "Mt \<noteq> 0" and L: "l * (x1 - x2) = y1 - y2" and Rt: "Rt = l * Mt * Z"
    and Q: "Q = Mt * Mt * ((x1 + x2) * (Z * Z))"
    and X: "Xr = 4 * (Rt * Rt - Q)" and Y: "Yr = - 4 * ((2 * (Rt * Rt - Q) - Q) * Rt + (y1 + y2) * (Z * Z * Z) * (Mt * Mt * Mt))"
    and Zr: "Zr = 2 * (Z * Mt)"
  shows "Point (Xr / (Zr * Zr)) (Yr / (Zr * Zr * Zr)) = chord l x1 y1 x2" "Zr \<noteq> 0"
proof -
  show z: "Zr \<noteq> 0" using nz fp_2_nonzero by (simp add: Zr)
  have x3: "Xr = (l * l - x1 - x2) * (Zr * Zr)" unfolding X Q Rt Zr by algebra
  have y3: "Yr = (l * (x1 - (l * l - x1 - x2)) - y1) * (Zr * Zr * Zr)" unfolding Y Q Rt Zr using L by algebra
  show "Point (Xr / (Zr * Zr)) (Yr / (Zr * Zr * Zr)) = chord l x1 y1 x2"
    unfolding chord_def Let_def using z
    by (simp only: point.inject quotient_eqI[OF _ x3] quotient_eqI[OF _ y3] mult_eq_0_iff simp_thms)
qed

lemma curve_slope:
  assumes "on_curve (Point x1 y1)" "on_curve (Point x2 y2)"
  shows "(y1 - y2) * (y1 + y2) = (x1 - x2) * (x1 * x1 + x1 * x2 + x2 * x2)"
proof -
  have "y1 * y1 = x1 * x1 * x1 + 7" "y2 * y2 = x2 * x2 * x2 + 7" using assms by (simp_all add: on_curve_def)
  then show ?thesis by algebra
qed

lemma point_add_slope:
  assumes c: "on_curve (Point x1 y1)" "on_curve (Point x2 y2)" and s: "y1 + y2 \<noteq> 0"
  defines "l \<equiv> (x1 * x1 + x1 * x2 + x2 * x2) / (y1 + y2)"
  shows "l * (x1 - x2) = y1 - y2" "point_add (Point x1 y1) (Point x2 y2) = chord l x1 y1 x2"
proof -
  have l: "l * (y1 + y2) = x1 * x1 + x1 * x2 + x2 * x2" using s by (simp add: l_def)
  have "(y1 - y2) * (y1 + y2) = (l * (x1 - x2)) * (y1 + y2)" using curve_slope[OF c] l by algebra
  then show e: "l * (x1 - x2) = y1 - y2" using s by simp
  show "point_add (Point x1 y1) (Point x2 y2) = chord l x1 y1 x2"
  proof (cases "x1 = x2")
    case True
    then have "y1 = y2" using e by simp
    moreover from this have "y1 \<noteq> 0" using s by auto
    moreover have "l = 3 * x1 * x1 / (2 * y1)" using True \<open>y1 = y2\<close> by (simp add: l_def)
    ultimately show ?thesis using True by (simp add: point_add_def)
  next
    case False
    then have "x2 - x1 \<noteq> 0" by simp
    have "y2 - y1 = l * (x2 - x1)" using e by (simp add: algebra_simps)
    then have "l = (y2 - y1) / (x2 - x1)" using \<open>x2 - x1 \<noteq> 0\<close> by simp
    then show ?thesis using False by (simp add: point_add_def)
  qed
qed

context field_repr
begin

text \<open>The result of \<^verbatim>\<open>gej_add_ge\<close> on a finite point, with the two expressions of the slope.\<close>

lemma add_ge_coords:
  fixes a b
  assumes a: "gej_wf fabs fmag a" "\<not> gej_infinity a" and b: "ge_wf fmag b"
    and s: "fpv fabs (gej_x a) = x1 * (Z * Z)" "fpv fabs (gej_y a) = y1 * (Z * Z * Z)" "fpv fabs (gej_z a) = Z"
    and t: "fpv fabs (ge_x b) = x2" "fpv fabs (ge_y b) = y2"
  defines "deg \<equiv> (y1 + y2) * (Z * Z * Z) = 0 \<and> (x1 * x1 + x1 * x2 + x2 * x2) * (Z * Z * Z * Z) = 0"
  defines "Rt \<equiv> if deg then 2 * (y1 * (Z * Z * Z)) else (x1 * x1 + x1 * x2 + x2 * x2) * (Z * Z * Z * Z)"
  defines "Mt \<equiv> if deg then (x1 - x2) * (Z * Z) else (y1 + y2) * (Z * Z * Z)"
  defines "Q \<equiv> Mt * Mt * ((x1 + x2) * (Z * Z))"
  defines "r' \<equiv> gej_add_ge F a b"
  shows "fr fabs fmag 8 (gej_x r') (4 * (Rt * Rt - Q))"
    "fr fabs fmag 8 (gej_y r') (- 4 * ((2 * (Rt * Rt - Q) - Q) * Rt + (y1 + y2) * (Z * Z * Z) * (Mt * Mt * Mt)))"
    "fr fabs fmag 8 (gej_z r') (2 * (Z * Mt))" "gej_infinity r' \<longleftrightarrow> Z * Mt = 0"
proof -
  define u1 s1 u2 s2 where "u1 = fo_normalize_weak F (gej_x a)" and "s1 = fo_normalize_weak F (gej_y a)"
    and "u2 = fo_mul F (ge_x b) (fo_sqr F (gej_z a))" and "s2 = fo_mul F (fo_mul F (ge_y b) (fo_sqr F (gej_z a))) (gej_z a)"
  define tt m rr where "tt = fo_add F u1 u2" and "m = fo_add F s1 s2"
    and "rr = fo_add F (fo_sqr F tt) (fo_mul F u1 (fo_negate F u2 1))"
  define dg :: int where "dg = of_bool (fo_normalizes_to_zero F m \<and> fo_normalizes_to_zero F rr)"
  define ra ma where "ra = fo_cmov F (fo_mul_int F s1 2) rr (1 - dg)"
    and "ma = fo_cmov F (fo_add F (fo_negate F u2 1) u1) m (1 - dg)"
  note fa = wf_fr[OF a(1), unfolded s] note fb = ge_wf_fr[OF b, unfolded t]
  have u: "fr fabs fmag 1 u1 (x1 * (Z * Z))" unfolding u1_def by (rule fr_exact, (rule fr_intros fa fb | (simp; fail) | algebra)+)
  have sv: "fr fabs fmag 1 s1 (y1 * (Z * Z * Z))" unfolding s1_def by (rule fr_exact, (rule fr_intros fa fb | (simp; fail) | algebra)+)
  have u2: "fr fabs fmag 1 u2 (x2 * (Z * Z))" unfolding u2_def by (rule fr_exact, (rule fr_intros fa fb | (simp; fail) | algebra)+)
  have s2: "fr fabs fmag 1 s2 (y2 * (Z * Z * Z))" unfolding s2_def by (rule fr_exact, (rule fr_intros fa fb | (simp; fail) | algebra)+)
  have tv: "fr fabs fmag 2 tt ((x1 + x2) * (Z * Z))" unfolding tt_def by (rule fr_exact, (rule fr_intros u u2 | (simp; fail) | algebra)+)
  have mv: "fr fabs fmag 2 m ((y1 + y2) * (Z * Z * Z))" unfolding m_def by (rule fr_exact, (rule fr_intros sv s2 | (simp; fail) | algebra)+)
  have rv: "fr fabs fmag 2 rr ((x1 * x1 + x1 * x2 + x2 * x2) * (Z * Z * Z * Z))"
    unfolding rr_def by (rule fr_exact, (rule fr_intros u u2 tv | (simp; fail) | algebra)+)
  have dg: "dg = of_bool deg" unfolding dg_def deg_def using fr_zero[OF mv] fr_zero[OF rv] by simp
  have rav: "fr fabs fmag 2 ra Rt"
    unfolding ra_def Rt_def dg using rv by (cases deg) (simp_all add: cmov, rule fr_exact, (rule fr_intros sv | (simp; fail))+)
  have mav: "fr fabs fmag 3 ma Mt"
  proof (cases deg)
    case True
    have "fr fabs fmag 3 (fo_add F (fo_negate F u2 1) u1) ((x1 - x2) * (Z * Z))"
      by (rule fr_exact, (rule fr_intros u u2 | (simp; fail) | algebra)+)
    then show ?thesis using True by (simp add: ma_def Mt_def dg cmov)
  next
    case False
    then show ?thesis using mv mag_mono[of 2 m 3] by (simp add: ma_def Mt_def dg cmov fr_def)
  qed
  define n where "n = fo_cmov F (fo_sqr F (fo_sqr F ma)) m dg"
  have nv: "fr fabs fmag 2 n ((y1 + y2) * (Z * Z * Z) * (Mt * Mt * Mt))"
  proof (cases deg)
    case True
    then have "(y1 + y2) * (Z * Z * Z) = 0" by (simp only: deg_def)
    then show ?thesis using mv by (simp only: n_def dg True of_bool_eq cmov mult_zero_left)
  next
    case False
    have "fr fabs fmag 1 (fo_sqr F (fo_sqr F ma)) (Mt * (Mt * Mt * Mt))"
      by (rule fr_exact, (rule fr_intros mav | (simp; fail) | algebra)+)
    then show ?thesis using False mag_mono[of 1 _ 2] by (simp add: n_def dg cmov fr_def Mt_def)
  qed
  note c = cmov(1)
  define q where "q = fo_negate F (fo_mul F (fo_sqr F ma) tt) 1"
  have qv: "fr fabs fmag 2 q (- Q)" unfolding q_def Q_def by (rule fr_exact, (rule fr_intros mav tv | (simp; fail) | algebra)+)
  define x where "x = fo_normalize_weak F (fo_add F (fo_sqr F ra) q)"
  have xv: "fr fabs fmag 1 x (Rt * Rt - Q)" unfolding x_def by (rule fr_exact, (rule fr_intros rav qv | (simp; fail) | algebra)+)
  have z0: "fr fabs fmag 1 (fo_mul F (gej_z a) ma) (Z * Mt)" by (rule fr_exact, (rule fr_intros fa mav | (simp; fail))+)
  have e: "r' = \<lparr>gej_x = fo_mul_int F x 4,
      gej_y = fo_mul_int F (fo_normalize_weak F (fo_negate F (fo_add F (fo_mul F (fo_add F (fo_mul_int F x 2) q) ra) n) 3)) 4,
      gej_z = fo_mul_int F (fo_mul F (gej_z a) ma) 2, gej_infinity = fo_normalizes_to_zero F (fo_mul F (gej_z a) ma)\<rparr>"
    using a(2) unfolding r'_def gej_add_ge_def Let_def u1_def[symmetric] s1_def[symmetric] u2_def[symmetric] s2_def[symmetric]
      tt_def[symmetric] m_def[symmetric] rr_def[symmetric] dg_def[symmetric] ra_def[symmetric] ma_def[symmetric]
      n_def[symmetric] q_def[symmetric] x_def[symmetric] by (simp add: cmov)
  show "fr fabs fmag 8 (gej_x r') (4 * (Rt * Rt - Q))"
    unfolding e gej.simps by (rule fr_eq, (rule fr_intros xv | (simp; fail) | algebra)+)
  show "fr fabs fmag 8 (gej_y r') (- 4 * ((2 * (Rt * Rt - Q) - Q) * Rt + (y1 + y2) * (Z * Z * Z) * (Mt * Mt * Mt)))"
    unfolding e gej.simps by (rule fr_eq, (rule fr_intros xv qv rav nv | (simp; fail) | algebra)+)
  show "fr fabs fmag 8 (gej_z r') (2 * (Z * Mt))"
    unfolding e gej.simps by (rule fr_eq, (rule fr_intros z0 | (simp; fail) | algebra)+)
  show "gej_infinity r' \<longleftrightarrow> Z * Mt = 0" unfolding e gej.simps by (rule fr_zero[OF z0])
qed

lemma add_ge_point:
  fixes a b
  assumes a: "gej_wf fabs fmag a" "on_curve (gej_pt fabs a)" and b: "ge_wf fmag b" "\<not> ge_infinity b" "on_curve (ge_pt fabs b)"
  defines "r' \<equiv> gej_add_ge F a b"
  shows "gej_wf fabs fmag r' \<and> gej_pt fabs r' = point_add (gej_pt fabs a) (ge_pt fabs b)"
proof (cases "gej_infinity a")
  case True
  have one: "fpv fabs (fe_1 F) = 1" "fmag 8 (fe_1 F)"
    using const[of 0 0 0 0 0 0 0 1] norm_mag_le[of "fe_1 F" 8] by (simp_all add: fe_1_def digits_val_def secp_p_def fpv_def)
  have "gej_x r' = ge_x b" "gej_y r' = ge_y b" "gej_z r' = fe_1 F" "\<not> gej_infinity r'"
    using True by (simp_all add: r'_def gej_add_ge_def Let_def cmov)
  then show ?thesis using True b one by (simp add: gej_wf_def ge_wf_def gej_pt_def ge_pt_def point_add_def)
next
  case False
  define Z where "Z = fpv fabs (gej_z a)"
  obtain x1 y1 where p: "gej_pt fabs a = Point x1 y1"
    and s: "fpv fabs (gej_x a) = x1 * (Z * Z)" "fpv fabs (gej_y a) = y1 * (Z * Z * Z)"
    using gej_scaled[OF a(1)] False unfolding Z_def by blast
  define x2 y2 where "x2 = fpv fabs (ge_x b)" and "y2 = fpv fabs (ge_y b)"
  have q: "ge_pt fabs b = Point x2 y2" using b(2) by (simp add: ge_pt_def x2_def y2_def)
  have nz: "Z \<noteq> 0" using a False by (auto simp: Z_def gej_wf_def)
  note crv = a(2)[unfolded p] b(3)[unfolded q]
  note c = add_ge_coords[OF a(1) False b(1) s Z_def[symmetric] x2_def[symmetric] y2_def[symmetric], folded r'_def]
  consider (sum) "y1 + y2 \<noteq> 0" | (deg) "y1 + y2 = 0" "x1 \<noteq> x2" | (inf) "y1 + y2 = 0" "x1 = x2" by blast
  then show ?thesis
  proof cases
    case sum
    define l where "l = (x1 * x1 + x1 * x2 + x2 * x2) / (y1 + y2)"
    note sl = point_add_slope[OF crv sum, folded l_def]
    have M: "(y1 + y2) * (Z * Z * Z) \<noteq> 0" using sum nz by simp
    have lv: "l * (y1 + y2) = x1 * x1 + x1 * x2 + x2 * x2" using sum by (simp add: l_def)
    have R: "(x1 * x1 + x1 * x2 + x2 * x2) * (Z * Z * Z * Z) = l * ((y1 + y2) * (Z * Z * Z)) * Z" unfolding lv[symmetric] by algebra
    have nd: "\<not> ((y1 + y2) * (Z * Z * Z) = 0 \<and> A)" for A using M by blast
    note d = c[unfolded if_not_P[OF nd]]
    note j = unified_jacobian[OF nz M sl(1) R refl refl refl refl]
    have "\<not> gej_infinity r'" using d(4) M nz by simp
    from finite_result[OF d(1-3) this j(2,1)] show ?thesis unfolding p q sl(2) .
  next
    case deg
    have "(x1 - x2) * (x1 * x1 + x1 * x2 + x2 * x2) = 0" using curve_slope[OF crv] deg(1) by simp
    then have R0: "x1 * x1 + x1 * x2 + x2 * x2 = 0" using deg(2) by simp
    have dg: "(y1 + y2) * (Z * Z * Z) = 0 \<and> (x1 * x1 + x1 * x2 + x2 * x2) * (Z * Z * Z * Z) = 0"
      unfolding deg(1) R0 by simp
    define l where "l = (y1 - y2) / (x1 - x2)"
    have lv: "l * (x1 - x2) = y1 - y2" using deg(2) by (simp add: l_def)
    have "y1 - y2 = 2 * y1" using deg(1) by algebra
    then have R: "2 * (y1 * (Z * Z * Z)) = l * ((x1 - x2) * (Z * Z)) * Z" using lv by algebra
    have M: "(x1 - x2) * (Z * Z) \<noteq> 0" using nz deg(2) by simp
    note d = c[unfolded if_P[OF dg]]
    note j = unified_jacobian[OF nz M lv R refl refl refl refl]
    have "\<not> gej_infinity r'" using d(4) M nz by simp
    from finite_result[OF d(1-3) this j(2,1)]
    have "gej_wf fabs fmag r' \<and> gej_pt fabs r' = chord l x1 y1 x2" .
    moreover have "l = (y2 - y1) / (x2 - x1)"
    proof -
      have "l * (x2 - x1) = y2 - y1" using lv by algebra
      moreover have "x2 - x1 \<noteq> 0" using deg(2) by simp
      ultimately show ?thesis by (simp add: nonzero_eq_divide_eq)
    qed
    ultimately show ?thesis using deg(2) by (simp add: p q point_add_def)
  next
    case inf
    have "Z * (if D then (x1 - x2) * (Z * Z) else (y1 + y2) * (Z * Z * Z)) = 0" for D using inf by (cases D) simp_all
    then have "gej_infinity r'" using c(4) by blast
    moreover have "gej_mag fmag r'"
      unfolding gej_mag_def using frD(2)[OF c(1) order_refl] frD(2)[OF c(2) order_refl] frD(2)[OF c(3) order_refl] by blast
    moreover
    have "\<not> (y1 = y2 \<and> y1 \<noteq> 0)"
    proof
      assume "y1 = y2 \<and> y1 \<noteq> 0"
      with inf(1) have "2 * y1 = 0" "y1 \<noteq> 0" by algebra+
      then show False using fp_2_nonzero by simp
    qed
    then have "point_add (Point x1 y1) (Point x2 y2) = Infinity" using inf(2) by (simp only: point_add_def prod.case point.case simp_thms if_False)
    ultimately show ?thesis using infinite_result[of r'] by (simp only: p q simp_thms)
  qed
qed

end

lemma on_curve_y: "on_curve (Point x y) \<Longrightarrow> y \<noteq> 0"
  using no_cube_root[of x] by (auto simp: on_curve_def)

lemma chord_on_curve:
  assumes c: "on_curve (Point x1 y1)" and A: "l * (y1 + y2) = x1 * x1 + x1 * x2 + x2 * x2" and L: "l * (x1 - x2) = y1 - y2"
  shows "on_curve (chord l x1 y1 x2)"
proof -
  have "y1 * y1 = x1 * x1 * x1 + 7" using c by (simp add: on_curve_def)
  then show ?thesis unfolding chord_def Let_def on_curve_def point.case using A L by algebra
qed

text \<open>The curve is closed under the addition.\<close>

lemma point_add_on_curve:
  assumes p: "on_curve p" and q: "on_curve q"
  shows "on_curve (point_add p q)"
proof (cases p)
  case p': (Point x1 y1)
  show ?thesis
  proof (cases q)
    case q': (Point x2 y2)
    note c = p[unfolded p'] q[unfolded q']
    consider "y1 + y2 \<noteq> 0" | "y1 + y2 = 0" "x1 \<noteq> x2" | "y1 + y2 = 0" "x1 = x2" by blast
    then show ?thesis
    proof cases
      case 1
      note s = point_add_slope[OF c 1]
      have "(x1 * x1 + x1 * x2 + x2 * x2) / (y1 + y2) * (y1 + y2) = x1 * x1 + x1 * x2 + x2 * x2" using 1 by simp
      from chord_on_curve[OF c(1) this s(1)] show ?thesis unfolding p' q' s(2) .
    next
      case 2
      define l where "l = (y2 - y1) / (x2 - x1)"
      have l: "l * (x2 - x1) = y2 - y1" using 2(2) by (simp add: l_def)
      have L: "l * (x1 - x2) = y1 - y2" using l by algebra
      have "(x1 - x2) * (x1 * x1 + x1 * x2 + x2 * x2) = 0" using curve_slope[OF c] 2(1) by simp
      then have A: "l * (y1 + y2) = x1 * x1 + x1 * x2 + x2 * x2" using 2 by simp
      have "point_add p q = chord l x1 y1 x2" using 2(2) by (simp add: p' q' point_add_def l_def)
      then show ?thesis using chord_on_curve[OF c(1) A L] by simp
    next
      case 3
      have "\<not> (y1 = y2 \<and> y1 \<noteq> 0)"
      proof
        assume "y1 = y2 \<and> y1 \<noteq> 0"
        with 3(1) have "2 * y1 = 0" "y1 \<noteq> 0" by algebra+
        then show False using fp_2_nonzero by simp
      qed
      then have "point_add p q = Infinity" unfolding p' q' using 3(2) by (simp only: point_add_def prod.case point.case simp_thms if_False)
      then show ?thesis by (simp add: on_curve_def)
    qed
  qed (use p p' in \<open>simp add: point_add_def\<close>)
qed (use q in \<open>simp add: point_add_def\<close>)

context field_repr
begin

lemma curve_y_nonzero:
  assumes "gej_wf fabs fmag a" "on_curve (gej_pt fabs a)"
  shows "gej_infinity a \<or> fpv fabs (gej_y a) \<noteq> 0"
proof (cases "gej_infinity a")
  case False
  obtain x y where "gej_pt fabs a = Point x y" "fpv fabs (gej_y a) = y * (fpv fabs (gej_z a) * fpv fabs (gej_z a) * fpv fabs (gej_z a))"
    by (rule gej_scaled[OF assms(1) False])
  then show ?thesis using on_curve_y[of x y] assms False by (simp add: gej_wf_def)
qed simp

lemma fr_equal_var: "fr fabs fmag 1 a v \<Longrightarrow> fr fabs fmag m b w \<Longrightarrow> m \<le> 29 \<Longrightarrow> fe_equal_var F a b \<longleftrightarrow> v = w"
  using equal(2)[of a m b] fpv_eq_iff[of a b] by (simp add: fr_def)

lemma fr_CURVE_B: "fr fabs fmag 1 (fo_set_int F CURVE_B) 7"
  using fr_set_int[of 7] by (simp add: CURVE_B_def)

lemma ge_is_valid_point:
  fixes a
  assumes "ge_wf fmag a"
  shows "ge_is_valid_var F a \<longleftrightarrow> \<not> ge_infinity a \<and> on_curve (ge_pt fabs a)"
proof (cases "ge_infinity a")
  case False
  note f = ge_wf_fr[OF assms]
  define x y where "x = fpv fabs (ge_x a)" and "y = fpv fabs (ge_y a)"
  have l: "fr fabs fmag 1 (fo_sqr F (ge_y a)) (y * y)" unfolding y_def by (rule fr_exact, (rule fr_intros f | (simp; fail))+)
  have r: "fr fabs fmag 1 (fo_normalize_weak F (fo_add F (fo_mul F (fo_sqr F (ge_x a)) (ge_x a)) (fo_set_int F CURVE_B))) (x * x * x + 7)"
    unfolding x_def by (rule fr_exact, (rule fr_intros f fr_CURVE_B | (simp; fail))+)
  show ?thesis using fr_equal_var[OF l r] False
    by (simp add: ge_is_valid_var_def Let_def ge_pt_def on_curve_def x_def y_def)
qed (simp add: ge_is_valid_var_def)

lemma ge_set_xo_point:
  fixes x od
  assumes x: "fmag 8 x" and s: "ge_set_xo_var F x od = (r, ok)"
  shows "ok \<longleftrightarrow> (\<exists>y. on_curve (Point (fpv fabs x) y))"
    and "ok \<Longrightarrow> ge_x r = x \<and> \<not> ge_infinity r \<and> ge_wf fmag r \<and> on_curve (ge_pt fabs r) \<and> odd (fabs (ge_y r)) = od"
proof -
  define v where "v = fpv fabs x"
  define c where "c = fo_add F (fo_set_int F CURVE_B) (fo_mul F x (fo_sqr F x))"
  have xf: "fr fabs fmag 8 x v" using x by (simp add: fr_def v_def)
  have cv: "fr fabs fmag 8 c (v * v * v + 7)" unfolding c_def by (rule fr_eq, (rule fr_intros xf fr_CURVE_B | (simp; fail) | algebra)+)
  then have c8: "fmag 8 c" and cval: "fpv fabs c = v * v * v + 7" by (simp_all add: fr_def)
  obtain y ok' where q: "fe_sqrt F c = (y, ok')" by fastforce
  note sq = sqrt_pow[OF c8 q] sqrt_complete[OF c8 q]
  define n where "n = fo_normalize_var F y"
  have n: "fnorm n" "fabs n = fabs y"
    using normalize[of y] normalize_var[of y] mag_mono[OF sq(1), of 31] by (simp_all add: n_def)
  have rs: "ok = ok'" "ok \<Longrightarrow> r = \<lparr>ge_x = x, ge_y = (if fo_is_odd F n \<noteq> od then fo_negate F n 1 else n), ge_infinity = False\<rparr>"
    using s q by (auto simp: ge_set_xo_var_def ge_set_xquad_def Let_def c_def n_def split: if_splits prod.splits)
  have ex: "(\<exists>z. z * z mod secp_p = fabs c) \<longleftrightarrow> (\<exists>z :: fp. z * z = v * v * v + 7)"
  proof
    assume "\<exists>z. z * z mod secp_p = fabs c"
    then obtain z where "z * z mod secp_p = fabs c" by blast
    then have "(of_int z :: fp) * of_int z = fpv fabs c" unfolding fpv_def by (metis of_int_fp_mod of_int_mult)
    then show "\<exists>z :: fp. z * z = v * v * v + 7" unfolding cval by blast
  next
    assume "\<exists>z :: fp. z * z = v * v * v + 7"
    then obtain z :: fp where "z * z = fpv fabs c" unfolding cval by blast
    then have "(of_int (fp_rep z * fp_rep z) :: fp) = of_int (fabs c)" by (simp add: of_int_fp_rep fpv_def)
    then have "fp_rep z * fp_rep z mod secp_p = fabs c mod secp_p" unfolding of_int_fp_eq_iff .
    then show "\<exists>z. z * z mod secp_p = fabs c" using abs_range[of c] by (intro exI[of _ "fp_rep z"]) simp
  qed
  show "ok \<longleftrightarrow> (\<exists>y. on_curve (Point (fpv fabs x) y))"
    using rs(1) sq(4) ex by (simp add: on_curve_def v_def)
  assume ok
  then have "fpv fabs y * fpv fabs y = fpv fabs c"
    using sq(3) rs(1) unfolding fpv_def by (metis of_int_fp_mod of_int_mult)
  then have crv: "on_curve (Point v (fpv fabs n))" using n(2) cval by (simp add: on_curve_def fpv_def)
  then have nz: "fabs n \<noteq> 0" using on_curve_y fpv_0_iff by blast
  have ng: "fr fabs fmag 2 (fo_negate F n 1) (- fpv fabs n)" using fr_negate(1)[of 1 n "fpv fabs n"] norm_mag[OF n(1)] by (simp add: fr_def numeral_2_eq_2)
  have "fabs (fo_negate F n 1) = (- fabs n) mod secp_p" using negate[OF norm_mag[OF n(1)]] by simp
  also have "\<dots> = secp_p - fabs n" using nz abs_range[of n] by (simp add: zmod_zminus1_eq_if)
  finally have "odd (fabs (fo_negate F n 1)) = even (fabs n)" by (simp add: secp_p_def)
  then show "ge_x r = x \<and> \<not> ge_infinity r \<and> ge_wf fmag r \<and> on_curve (ge_pt fabs r) \<and> odd (fabs (ge_y r)) = od"
    using rs(2)[OF \<open>ok\<close>] is_odd[OF n(1)] crv frD(2)[OF ng] frD(1)[OF ng] norm_mag_le[OF n(1), of 8] x
    by (auto simp: ge_wf_def ge_pt_def on_curve_def v_def)
qed

end

context field_repr
begin

lemma set_ge_point:
  fixes b
  assumes "ge_wf fmag b"
  shows "gej_wf fabs fmag (gej_set_ge F b)" "gej_pt fabs (gej_set_ge F b) = ge_pt fabs b"
  using assms fr_set_int[of 1] frD(2)[OF fr_set_int[of 1]]
  by (simp_all add: gej_wf_def ge_wf_def gej_pt_def ge_pt_def gej_set_ge_def fr_def)

lemma clear_mag: "gej_mag fmag (gej_clear F r)"
  using clear norm_mag_le[of "fo_clear F a" 8 for a] by (simp add: gej_mag_def gej_clear_def)

lemma const_g:
  "ge_wf fmag (ge_const_g F)" "on_curve (ge_pt fabs (ge_const_g F))" "\<not> ge_infinity (ge_const_g F)"
proof -
  let ?x = "0x79BE667EF9DCBBAC55A06295CE870B07029BFCDB2DCE28D959F2815B16F81798 :: int"
  let ?y = "0x483ADA7726A3C4655DA4FBFC0E1108A8FD17B448A68554199C47D08FFB10D4B8 :: int"
  have x: "fnorm (ge_x (ge_const_g F)) \<and> fabs (ge_x (ge_const_g F)) = ?x"
    using const[of "0x79BE667E" "0xF9DCBBAC" "0x55A06295" "0xCE870B07" "0x029BFCDB" "0x2DCE28D9" "0x59F2815B" "0x16F81798"]
    by (simp add: ge_const_g_def digits_val_def secp_p_def)
  have y: "fnorm (ge_y (ge_const_g F)) \<and> fabs (ge_y (ge_const_g F)) = ?y"
    using const[of "0x483ADA77" "0x26A3C465" "0x5DA4FBFC" "0x0E1108A8" "0xFD17B448" "0xA6855419" "0x9C47D08F" "0xFB10D4B8"]
    by (simp add: ge_const_g_def digits_val_def secp_p_def)
  show "\<not> ge_infinity (ge_const_g F)" by (simp add: ge_const_g_def)
  show "ge_wf fmag (ge_const_g F)" using x y norm_mag_le by (simp add: ge_wf_def)
  have "(?y * ?y) mod secp_p = (?x * ?x * ?x + 7) mod secp_p" by (simp add: secp_p_def)
  then have "(of_int (?y * ?y) :: fp) = of_int (?x * ?x * ?x + 7)" unfolding of_int_fp_eq_iff .
  then have "(of_int ?y :: fp) * of_int ?y = of_int ?x * of_int ?x * of_int ?x + 7" by (simp only: of_int_mult of_int_add of_int_numeral)
  then show "on_curve (ge_pt fabs (ge_const_g F))"
    using x y by (simp only: on_curve_def ge_pt_def fpv_def ge_const_g_def ge.simps if_False point.case)
qed

end

section \<open>Properties\<close>

text \<open>C1: The addition without branches computes the affine group law: for a point of the curve in Jacobian
  coordinates (or at infinity) and an affine point of the curve it returns well-formed coordinates of the sum,
  in the cases of distinct points, of equal points, of opposite points, of the two points with
  equal cubes that make the slope formula degenerate, and of infinity.\<close>

theorem gej_add_ge_5x52_point:
  assumes "gej_wf fe_abs_5x52 fe_mag_5x52 a" "on_curve (gej_pt fe_abs_5x52 a)"
    and "ge_wf fe_mag_5x52 b" "\<not> ge_infinity b" "on_curve (ge_pt fe_abs_5x52 b)"
  shows "gej_wf fe_abs_5x52 fe_mag_5x52 (gej_add_ge fe_ops_5x52 a b)
    \<and> gej_pt fe_abs_5x52 (gej_add_ge fe_ops_5x52 a b) = point_add (gej_pt fe_abs_5x52 a) (ge_pt fe_abs_5x52 b)"
  by (rule f52.add_ge_point[OF assms])

theorem gej_add_ge_5x52_point_witness:
  "gej_pt fe_abs_5x52 (gej_add_ge fe_ops_5x52 (gej_set_ge fe_ops_5x52 (ge_const_g fe_ops_5x52)) (ge_const_g fe_ops_5x52))
   = point_add (ge_pt fe_abs_5x52 (ge_const_g fe_ops_5x52)) (ge_pt fe_abs_5x52 (ge_const_g fe_ops_5x52))"
  using gej_add_ge_5x52_point[OF f52.set_ge_point(1)[OF f52.const_g(1)] _ f52.const_g(1,3,2)]
  by (simp add: f52.set_ge_point(2)[OF f52.const_g(1)] f52.const_g)

text \<open>C6: The additions with branches compute the affine group law as well, with a Jacobian, an affine and
  a scaled affine second operand, for every first operand on the curve.\<close>

theorem gej_add_var_5x52_point:
  assumes "gej_wf fe_abs_5x52 fe_mag_5x52 a" "on_curve (gej_pt fe_abs_5x52 a)" "gej_mag fe_mag_5x52 r"
    and "gej_wf fe_abs_5x52 fe_mag_5x52 b" "ge_wf fe_mag_5x52 c" "fe_mag_5x52 8 zi"
  shows "gej_pt fe_abs_5x52 (fst (gej_add_var fe_ops_5x52 r a b rzr)) = point_add (gej_pt fe_abs_5x52 a) (gej_pt fe_abs_5x52 b)
    \<and> gej_pt fe_abs_5x52 (fst (gej_add_ge_var fe_ops_5x52 r a c rzr)) = point_add (gej_pt fe_abs_5x52 a) (ge_pt fe_abs_5x52 c)
    \<and> gej_pt fe_abs_5x52 (gej_add_zinv_var fe_ops_5x52 r a c zi) = point_add (gej_pt fe_abs_5x52 a) (zinv_pt fe_abs_5x52 c zi)"
  using f52.add_var_point[OF assms(1,4) f52.curve_y_nonzero[OF assms(1,2)] assms(3), of rzr]
    f52.add_ge_var_point[OF assms(1,5) f52.curve_y_nonzero[OF assms(1,2)] assms(3), of rzr]
    f52.add_zinv_var_point[OF assms(1,5,6) f52.curve_y_nonzero[OF assms(1,2)] assms(3)] by simp

theorem gej_add_var_5x52_point_witness:
  "gej_pt fe_abs_5x52 (fst (gej_add_ge_var fe_ops_5x52 (gej_clear fe_ops_5x52 (gej_local fe_ops_5x52))
      (gej_set_ge fe_ops_5x52 (ge_const_g fe_ops_5x52)) (ge_const_g fe_ops_5x52) None))
   = point_add (ge_pt fe_abs_5x52 (ge_const_g fe_ops_5x52)) (ge_pt fe_abs_5x52 (ge_const_g fe_ops_5x52))"
proof -
  let ?G = "ge_const_g fe_ops_5x52" let ?g = "gej_set_ge fe_ops_5x52 ?G"
  have w: "gej_wf fe_abs_5x52 fe_mag_5x52 ?g" "gej_pt fe_abs_5x52 ?g = ge_pt fe_abs_5x52 ?G"
    by (rule f52.set_ge_point[OF f52.const_g(1)])+
  have z: "fe_mag_5x52 8 (ge_x ?G)" using f52.const_g(1) by (simp add: ge_wf_def)
  show ?thesis
    using gej_add_var_5x52_point[OF w(1) _ f52.clear_mag w(1) f52.const_g(1) z, of "gej_local fe_ops_5x52" None]
    by (simp add: w(2) f52.const_g)
qed

text \<open>C29: Doubling computes the affine group law and is never infinity for a finite point of the curve, since
  no point of the curve has a zero second coordinate; the denominator of the result is not zero.\<close>

theorem gej_double_var_5x52_point:
  assumes "gej_wf fe_abs_5x52 fe_mag_5x52 a" "on_curve (gej_pt fe_abs_5x52 a)" "gej_mag fe_mag_5x52 r"
  shows "gej_wf fe_abs_5x52 fe_mag_5x52 (fst (gej_double_var fe_ops_5x52 r a rzr))
    \<and> gej_pt fe_abs_5x52 (fst (gej_double_var fe_ops_5x52 r a rzr)) = point_add (gej_pt fe_abs_5x52 a) (gej_pt fe_abs_5x52 a)
    \<and> gej_infinity (fst (gej_double_var fe_ops_5x52 r a rzr)) = gej_infinity a"
  using f52.double_var_point[OF assms(1) f52.curve_y_nonzero[OF assms(1,2)] assms(3), of rzr]
  by (simp add: gej_double_var_def Let_def)

theorem gej_double_var_5x52_point_witness:
  "\<not> gej_infinity (fst (gej_double_var fe_ops_5x52 (gej_clear fe_ops_5x52 (gej_local fe_ops_5x52))
      (gej_set_ge fe_ops_5x52 (ge_const_g fe_ops_5x52)) None))"
proof -
  let ?g = "gej_set_ge fe_ops_5x52 (ge_const_g fe_ops_5x52)"
  have c: "on_curve (gej_pt fe_abs_5x52 ?g)" unfolding f52.set_ge_point(2)[OF f52.const_g(1)] by (rule f52.const_g(2))
  have i: "\<not> gej_infinity ?g" using f52.const_g(3) by (simp add: gej_set_ge_def)
  show ?thesis
    using gej_double_var_5x52_point[OF f52.set_ge_point(1)[OF f52.const_g(1)] c f52.clear_mag, of "gej_local fe_ops_5x52" None] i by simp
qed

text \<open>C30: The curve is an invariant of the addition: from points of the curve, the constant-time addition
  returns a point of the curve.\<close>

theorem gej_add_ge_5x52_on_curve:
  assumes "gej_wf fe_abs_5x52 fe_mag_5x52 a" "on_curve (gej_pt fe_abs_5x52 a)"
    and "ge_wf fe_mag_5x52 b" "\<not> ge_infinity b" "on_curve (ge_pt fe_abs_5x52 b)"
  shows "on_curve (gej_pt fe_abs_5x52 (gej_add_ge fe_ops_5x52 a b))"
  using f52.add_ge_point[OF assms] point_add_on_curve[OF assms(2,5)] by simp

theorem gej_add_ge_5x52_on_curve_witness:
  "on_curve (gej_pt fe_abs_5x52 (gej_add_ge fe_ops_5x52 (gej_set_ge fe_ops_5x52 (ge_const_g fe_ops_5x52)) (ge_const_g fe_ops_5x52)))"
  using gej_add_ge_5x52_on_curve[OF f52.set_ge_point(1)[OF f52.const_g(1)] _ f52.const_g(1,3,2)]
  by (simp add: f52.set_ge_point(2)[OF f52.const_g(1)] f52.const_g)

text \<open>C31: Decompression of an \<open>x\<close> coordinate succeeds exactly when the curve has a point there, and returns the
  point whose second coordinate has the requested parity.\<close>

theorem ge_set_xo_var_5x52_spec:
  assumes "fe_mag_5x52 8 x" "ge_set_xo_var fe_ops_5x52 x od = (r, ok)"
  shows "(ok \<longleftrightarrow> (\<exists>y. on_curve (Point (fpv fe_abs_5x52 x) y)))
    \<and> (ok \<longrightarrow> ge_x r = x \<and> \<not> ge_infinity r \<and> on_curve (ge_pt fe_abs_5x52 r) \<and> odd (fe_abs_5x52 (ge_y r)) = od)"
  using f52.ge_set_xo_point[OF assms] by simp

theorem ge_set_xo_var_5x52_spec_witness:
  "snd (ge_set_xo_var fe_ops_5x52 (ge_x (ge_const_g fe_ops_5x52)) True)"
proof -
  let ?G = "ge_const_g fe_ops_5x52"
  obtain r ok where s: "ge_set_xo_var fe_ops_5x52 (ge_x ?G) True = (r, ok)" by fastforce
  have "fe_mag_5x52 8 (ge_x ?G)" using f52.const_g(1) by (simp add: ge_wf_def)
  from ge_set_xo_var_5x52_spec[OF this s] f52.const_g(2,3) show ?thesis by (auto simp: s ge_pt_def)
qed

text \<open>C32: The validity test accepts exactly the finite points of the curve; the generator is one.\<close>

theorem ge_is_valid_var_5x52_spec:
  assumes "ge_wf fe_mag_5x52 a"
  shows "(ge_is_valid_var fe_ops_5x52 a \<longleftrightarrow> \<not> ge_infinity a \<and> on_curve (ge_pt fe_abs_5x52 a))
    \<and> ge_is_valid_var fe_ops_5x52 (ge_const_g fe_ops_5x52)"
  using f52.ge_is_valid_point[OF assms] f52.ge_is_valid_point[OF f52.const_g(1)] f52.const_g(2,3) by blast

theorem ge_is_valid_var_5x52_spec_witness: "ge_is_valid_var fe_ops_5x52 (ge_const_g fe_ops_5x52)"
  using ge_is_valid_var_5x52_spec[OF f52.const_g(1)] by blast

end
