(* ===== verification/Ecmult.thy ===== *)
theory Ecmult
  imports Group Scalar_Impl
begin

text \<open>
  \<^verbatim>\<open>ecmult.h\<close> and \<^verbatim>\<open>ecmult_impl.h\<close>: the variable-time double multiplication
  \<open>na * A + ng * G\<close> of the build with the endomorphism.  It recodes the four half-size scalars in
  windowed non-adjacent form, precomputes odd multiples of \<open>A\<close> on a common denominator, and
  adds table entries while it doubles.  The tables of the context are NULL (None) until they are
  built.  Memory allocation is taken to succeed.
\<close>

section \<open>Definitions\<close>

definition WINDOW_A :: nat where "WINDOW_A = 5"
definition WINDOW_G :: nat where "WINDOW_G = 15"

definition ECMULT_TABLE_SIZE :: "nat \<Rightarrow> nat" where
  "ECMULT_TABLE_SIZE w = 2 ^ (w - 2)"

record 'st ecmult_context =
  pre_g :: "'st ge_storage list option"
  pre_g_128 :: "'st ge_storage list option"

fun odd_multiples_loop ::
    "('fe, 'st) field_ops \<Rightarrow> nat \<Rightarrow> 'fe ge \<Rightarrow> nat \<Rightarrow> 'fe gej list \<Rightarrow> 'fe list \<Rightarrow> 'fe gej list \<times> 'fe list" where
  "odd_multiples_loop F n d_ge 0 prej zr = (prej, zr)"
| "odd_multiples_loop F n d_ge (Suc k) prej zr =
    (let i = n - Suc k;
         (p, z) = gej_add_ge_var F (prej ! i) (prej ! (i - 1)) d_ge (Some (zr ! i))
     in odd_multiples_loop F n d_ge k (prej[i := p]) (zr[i := the z]))"

definition ecmult_odd_multiples_table ::
    "('fe, 'st) field_ops \<Rightarrow> nat \<Rightarrow> 'fe gej list \<Rightarrow> 'fe list \<Rightarrow> 'fe gej \<Rightarrow> 'fe gej list \<times> 'fe list" where
  "ecmult_odd_multiples_table F n prej zr a =
    (let (d, _) = gej_double_var F (gej_local F) a None;
         d_ge = \<lparr>ge_x = gej_x d, ge_y = gej_y d, ge_infinity = False\<rparr>;
         a_ge = ge_set_gej_zinv F a (gej_z d);
         prej = prej[0 := \<lparr>gej_x = ge_x a_ge, gej_y = ge_y a_ge, gej_z = gej_z a, gej_infinity = False\<rparr>];
         zr = zr[0 := gej_z d];
         (prej, zr) = odd_multiples_loop F n d_ge (n - 1) prej zr;
         last = prej ! (n - 1);
         prej = prej[n - 1 := last\<lparr>gej_z := fo_mul F (gej_z last) (gej_z d)\<rparr>]
     in (prej, zr))"

definition ecmult_odd_multiples_table_globalz_windowa ::
    "('fe, 'st) field_ops \<Rightarrow> 'fe gej \<Rightarrow> 'fe ge list \<times> 'fe" where
  "ecmult_odd_multiples_table_globalz_windowa F a =
    (let n = ECMULT_TABLE_SIZE WINDOW_A;
         (prej, zr) = ecmult_odd_multiples_table F n (replicate n (gej_local F)) (replicate n (fe_local F)) a
     in ge_globalz_set_table_gej F n (replicate n (ge_local F)) (fe_local F) prej zr)"

definition ecmult_odd_multiples_table_storage_var ::
    "('fe, 'st) field_ops \<Rightarrow> nat \<Rightarrow> 'fe gej \<Rightarrow> 'st ge_storage list" where
  "ecmult_odd_multiples_table_storage_var F n a =
    (let (prej, zr) = ecmult_odd_multiples_table F n (replicate n (gej_local F)) (replicate n (fe_local F)) a;
         prea = ge_set_table_gej_var F (replicate n (ge_local F)) prej zr n
     in map (ge_to_storage F) prea)"

definition ECMULT_TABLE_GET_GE :: "('fe, 'st) field_ops \<Rightarrow> 'fe ge list \<Rightarrow> int \<Rightarrow> 'fe ge" where
  "ECMULT_TABLE_GET_GE F pre n =
    (if n > 0 then pre ! nat ((n - 1) div 2) else ge_neg F (pre ! nat ((- n - 1) div 2)))"

definition ECMULT_TABLE_GET_GE_STORAGE :: "('fe, 'st) field_ops \<Rightarrow> 'st ge_storage list \<Rightarrow> int \<Rightarrow> 'fe ge" where
  "ECMULT_TABLE_GET_GE_STORAGE F pre n =
    (if n > 0 then ge_from_storage F (pre ! nat ((n - 1) div 2))
     else ge_neg F (ge_from_storage F (pre ! nat ((- n - 1) div 2))))"

definition ecmult_context_init :: "'st ecmult_context" where
  "ecmult_context_init = \<lparr>pre_g = None, pre_g_128 = None\<rparr>"

definition ecmult_context_build :: "('fe, 'st) field_ops \<Rightarrow> 'st ecmult_context \<Rightarrow> 'st ecmult_context" where
  "ecmult_context_build F ctx =
    (if pre_g ctx \<noteq> None then ctx
     else
      (let gj = gej_set_ge F (ge_const_g F);
           n = ECMULT_TABLE_SIZE WINDOW_G;
           ctx = ctx\<lparr>pre_g := Some (ecmult_odd_multiples_table_storage_var F n gj)\<rparr>;
           g_128j = ((\<lambda>g. fst (gej_double_var F g g None)) ^^ 128) gj
       in ctx\<lparr>pre_g_128 := Some (ecmult_odd_multiples_table_storage_var F n g_128j)\<rparr>))"

text \<open>A clone gets copies of the two tables; they are equal as values.\<close>

definition ecmult_context_clone :: "'st ecmult_context \<Rightarrow> 'st ecmult_context" where
  "ecmult_context_clone src =
    \<lparr>pre_g = (case pre_g src of None \<Rightarrow> None | Some t \<Rightarrow> Some t),
     pre_g_128 = (case pre_g_128 src of None \<Rightarrow> None | Some t \<Rightarrow> Some t)\<rparr>"

definition ecmult_context_is_built :: "'st ecmult_context \<Rightarrow> bool" where
  "ecmult_context_is_built ctx \<longleftrightarrow> pre_g ctx \<noteq> None"

definition ecmult_context_clear :: "'st ecmult_context \<Rightarrow> 'st ecmult_context" where
  "ecmult_context_clear ctx = ecmult_context_init"

text \<open>
  Recoding.  The loop state is the bit position, the carry, the digits so far and the last index
  that was set.  The loop is guarded by the range of \<open>w\<close> that the debug check of the source
  states; a window of at least one bit is what makes it advance.
\<close>

function ecmult_wnaf_loop ::
    "'sc scalar_ops \<Rightarrow> 'sc \<Rightarrow> nat \<Rightarrow> nat \<Rightarrow> int \<Rightarrow> nat \<Rightarrow> int \<Rightarrow> int list \<Rightarrow> int \<Rightarrow> int list \<times> int" where
  "ecmult_wnaf_loop S s len w sign b carry wnaf last_set_bit =
    (if b < len \<and> 2 \<le> w then
       if uint (so_get_bits S s b 1) = carry then ecmult_wnaf_loop S s len w sign (b + 1) carry wnaf last_set_bit
       else
        (let now = (if w > len - b then len - b else w);
             word = uint (so_get_bits_var S s b now) + carry;
             carry = word div 2 ^ (w - 1) mod 2;
             word = word - carry * 2 ^ w
         in ecmult_wnaf_loop S s len w sign (b + now) carry (wnaf[b := sign * word]) (int b))
     else (wnaf, last_set_bit))"
  by pat_completeness auto
termination
  by (relation "measure (\<lambda>(S, s, len, w, sign, b, carry, wnaf, last). len - b)") auto

declare ecmult_wnaf_loop.simps [simp del]

definition ecmult_wnaf :: "'sc scalar_ops \<Rightarrow> nat \<Rightarrow> 'sc \<Rightarrow> nat \<Rightarrow> int list \<times> int" where
  "ecmult_wnaf S len a w =
    (let wnaf = replicate len 0;
         (s, sign) = (if so_get_bits S a 255 1 \<noteq> 0 then (so_negate S a, -1) else (a, 1));
         (wnaf, last_set_bit) = ecmult_wnaf_loop S s len w sign 0 0 wnaf (-1)
     in (wnaf, last_set_bit + 1))"

definition ecmult_step ::
    "('fe, 'st) field_ops \<Rightarrow> 'st ecmult_context \<Rightarrow> 'fe ge list \<Rightarrow> 'fe ge list \<Rightarrow> 'fe \<Rightarrow>
     int list \<times> int \<Rightarrow> int list \<times> int \<Rightarrow> int list \<times> int \<Rightarrow> int list \<times> int \<Rightarrow> nat \<Rightarrow> 'fe gej \<Rightarrow> 'fe gej" where
  "ecmult_step F ctx pre_a pre_a_lam Z na_1 na_lam ng_1 ng_128 i r =
    (let r = fst (gej_double_var F r r None);
         n = fst na_1 ! i;
         r = (if int i < snd na_1 \<and> n \<noteq> 0 then
                fst (gej_add_ge_var F r r (ECMULT_TABLE_GET_GE F pre_a n) None) else r);
         n = fst na_lam ! i;
         r = (if int i < snd na_lam \<and> n \<noteq> 0 then
                fst (gej_add_ge_var F r r (ECMULT_TABLE_GET_GE F pre_a_lam n) None) else r);
         n = fst ng_1 ! i;
         r = (if int i < snd ng_1 \<and> n \<noteq> 0 then
                gej_add_zinv_var F r r (ECMULT_TABLE_GET_GE_STORAGE F (the (pre_g ctx)) n) Z else r);
         n = fst ng_128 ! i;
         r = (if int i < snd ng_128 \<and> n \<noteq> 0 then
                gej_add_zinv_var F r r (ECMULT_TABLE_GET_GE_STORAGE F (the (pre_g_128 ctx)) n) Z else r)
     in r)"

fun ecmult_loop ::
    "('fe, 'st) field_ops \<Rightarrow> 'st ecmult_context \<Rightarrow> 'fe ge list \<Rightarrow> 'fe ge list \<Rightarrow> 'fe \<Rightarrow>
     int list \<times> int \<Rightarrow> int list \<times> int \<Rightarrow> int list \<times> int \<Rightarrow> int list \<times> int \<Rightarrow> nat \<Rightarrow> 'fe gej \<Rightarrow> 'fe gej" where
  "ecmult_loop F ctx pre_a pre_a_lam Z na_1 na_lam ng_1 ng_128 0 r = r"
| "ecmult_loop F ctx pre_a pre_a_lam Z na_1 na_lam ng_1 ng_128 (Suc i) r =
    ecmult_loop F ctx pre_a pre_a_lam Z na_1 na_lam ng_1 ng_128 i
      (ecmult_step F ctx pre_a pre_a_lam Z na_1 na_lam ng_1 ng_128 i r)"

definition ecmult ::
    "('fe, 'st) field_ops \<Rightarrow> 'sc scalar_ops \<Rightarrow> 'st ecmult_context \<Rightarrow> 'fe gej \<Rightarrow> 'fe gej \<Rightarrow> 'sc \<Rightarrow> 'sc \<Rightarrow> 'fe gej" where
  "ecmult F S ctx r a na ng =
    (let (na_1, na_lam) = scalar_split_lambda S na;
         wnaf_na_1 = ecmult_wnaf S 130 na_1 WINDOW_A;
         wnaf_na_lam = ecmult_wnaf S 130 na_lam WINDOW_A;
         bits = snd wnaf_na_1;
         bits = (if snd wnaf_na_lam > bits then snd wnaf_na_lam else bits);
         (pre_a, Z) = ecmult_odd_multiples_table_globalz_windowa F a;
         pre_a_lam = map (ge_mul_lambda F) pre_a;
         (ng_1, ng_128) = so_split_128 S ng;
         wnaf_ng_1 = ecmult_wnaf S 129 ng_1 WINDOW_G;
         wnaf_ng_128 = ecmult_wnaf S 129 ng_128 WINDOW_G;
         bits = (if snd wnaf_ng_1 > bits then snd wnaf_ng_1 else bits);
         bits = (if snd wnaf_ng_128 > bits then snd wnaf_ng_128 else bits);
         r = gej_set_infinity F r;
         r = ecmult_loop F ctx pre_a pre_a_lam Z wnaf_na_1 wnaf_na_lam wnaf_ng_1 wnaf_ng_128 (nat bits) r
     in if \<not> gej_infinity r then r\<lparr>gej_z := fo_mul F (gej_z r) Z\<rparr> else r)"

section \<open>The windowed non-adjacent form\<close>

definition wnaf_val :: "int list \<Rightarrow> int" where
  "wnaf_val l = (\<Sum>j<length l. l ! j * 2 ^ j)"

text \<open>The digits are zero or odd, short, and zero from position \<open>bits\<close> on.\<close>

definition wnaf_digits :: "nat \<Rightarrow> int \<Rightarrow> int list \<Rightarrow> bool" where
  "wnaf_digits w bits l \<longleftrightarrow> (\<forall>j<length l. l ! j \<noteq> 0 \<longrightarrow> odd (l ! j) \<and> \<bar>l ! j\<bar> < 2 ^ (w - 1) \<and> int j < bits)"

lemma wnaf_val_update:
  assumes "b < length l" "l ! b = 0"
  shows "wnaf_val (l[b := d]) = wnaf_val l + d * 2 ^ b"
proof -
  have "(\<Sum>j<length l. l[b := d] ! j * 2 ^ j) = (\<Sum>j<length l. l ! j * 2 ^ j + (if j = b then d * 2 ^ b else 0))"
    using assms by (intro sum.cong) (auto simp: nth_list_update)
  then show ?thesis using assms by (simp add: wnaf_val_def sum.distrib)
qed

lemma wnaf_digits_update:
  assumes "wnaf_digits w bits l" "bits \<le> int b" "odd d" "\<bar>d\<bar> < 2 ^ (w - 1)"
  shows "wnaf_digits w (int b + 1) (l[b := d])"
  unfolding wnaf_digits_def
proof (intro allI impI)
  fix j
  assume j: "j < length (l[b := d])" "l[b := d] ! j \<noteq> 0"
  show "odd (l[b := d] ! j) \<and> \<bar>l[b := d] ! j\<bar> < 2 ^ (w - 1) \<and> int j < int b + 1"
  proof (cases "j = b")
    case False
    then show ?thesis using assms(1,2) j unfolding wnaf_digits_def by fastforce
  qed (use assms(3,4) j in simp)
qed

text \<open>One digit: the window is odd, so that neither it nor its carry reaches the next power of two.\<close>

lemma wnaf_window:
  fixes x c :: int
  assumes c: "c = 0 \<or> c = 1" and x: "0 \<le> x" and bit: "x mod 2 \<noteq> c" and now: "1 \<le> now" "now \<le> w" and w: "2 \<le> w"
  defines "W \<equiv> x mod 2 ^ now + c"
  defines "k \<equiv> W div 2 ^ (w - 1) mod 2"
  shows "k = 0 \<or> k = 1" "now < w \<Longrightarrow> k = 0" "odd (W - k * 2 ^ w)" "\<bar>W - k * 2 ^ w\<bar> < 2 ^ (w - 1)"
    "x < 2 ^ (w - 1) \<Longrightarrow> k = 0"
proof -
  have p: "(2 :: int) ^ w = 2 * 2 ^ (w - 1)" using w by (simp flip: power_Suc)
  have ev: "even ((2 :: int) ^ now)" "even ((2 :: int) ^ (w - 1))" "even ((2 :: int) ^ w)" using now w by simp_all
  have "x mod 2 ^ now mod 2 = x mod 2" using ev(1) by (simp add: mod_mod_cancel)
  then have e: "even (x mod 2 ^ now) \<longleftrightarrow> even x" by (simp only: even_iff_mod_2_eq_zero)
  have "odd x \<longleftrightarrow> c = 0" using c bit by presburger
  then have o: "odd W" using c e unfolding W_def by (metis add_0_right even_add odd_one zero_neq_one)
  have "0 \<le> x mod 2 ^ now" "x mod 2 ^ now < 2 ^ now" by simp_all
  then have W: "0 \<le> W" "W \<le> 2 ^ now" using c unfolding W_def by linarith+
  have "W \<noteq> 2 ^ now" using o ev(1) by metis
  then have Wn: "W < 2 ^ now" using W(2) by linarith
  have nw: "(2 :: int) ^ now \<le> 2 ^ w" using now(2) by (rule power_increasing) simp
  have k: "k = (if W < 2 ^ (w - 1) then 0 else 1)"
  proof (cases "W < 2 ^ (w - 1)")
    case False
    then have "0 \<le> W - 2 ^ (w - 1)" "W - 2 ^ (w - 1) < 2 ^ (w - 1)" using Wn nw p by linarith+
    then have "(W - 2 ^ (w - 1) + 1 * 2 ^ (w - 1)) div 2 ^ (w - 1) = 1" by (subst div_mult_self1) simp_all
    then show ?thesis using False by (simp add: k_def)
  qed (simp add: k_def W)
  then show "k = 0 \<or> k = 1" by simp
  show "now < w \<Longrightarrow> k = 0"
  proof -
    assume "now < w"
    then have "(2 :: int) ^ now \<le> 2 ^ (w - 1)" by (intro power_increasing) simp_all
    then have "W < 2 ^ (w - 1)" using Wn by linarith
    then show ?thesis unfolding k by (rule if_P)
  qed
  show "odd (W - k * 2 ^ w)" using o ev(3) by simp
  have "W \<noteq> 2 ^ (w - 1)" using o ev(2) by metis
  then show "\<bar>W - k * 2 ^ w\<bar> < 2 ^ (w - 1)" using W(1) Wn nw unfolding k p by auto
  show "x < 2 ^ (w - 1) \<Longrightarrow> k = 0"
  proof -
    assume "x < 2 ^ (w - 1)"
    moreover have "x mod 2 ^ now \<le> x" using x by (rule zmod_le_nonneg_dividend)
    ultimately have "W \<le> 2 ^ (w - 1)" using c unfolding W_def by linarith
    then show ?thesis using \<open>W \<noteq> 2 ^ (w - 1)\<close> unfolding k by simp
  qed
qed

lemma mod_window: "(x :: int) mod 2 ^ (b + n) = x mod 2 ^ b + (x div 2 ^ b mod 2 ^ n) * 2 ^ b"
  by (simp add: power_add zmod_zmult2_eq)

context scalar_repr
begin

lemma wnaf_loop:
  assumes sv: "sval s < 2 ^ (len - 1)" and len: "0 < len" "len \<le> 255" and w: "2 \<le> w" "w < 32" and sign: "sign = 1 \<or> sign = - 1"
    and b: "b \<le> len" and c: "carry = 0 \<or> carry = 1" "b = len \<Longrightarrow> carry = 0"
    and l: "length l = len" "\<forall>j<len. b \<le> j \<longrightarrow> l ! j = 0" and v: "wnaf_val l = sign * (sval s mod 2 ^ b - carry * 2 ^ b)"
    and d: "wnaf_digits w (lst + 1) l" "- 1 \<le> lst" "lst < int b"
    and e: "ecmult_wnaf_loop S s len w sign b carry l lst = (l', lst')"
  shows "length l' = len \<and> wnaf_val l' = sign * sval s \<and> wnaf_digits w (lst' + 1) l' \<and> - 1 \<le> lst' \<and> lst' < int len"
  using b c l v d e
proof (induction "len - b" arbitrary: b carry l lst rule: less_induct)
  case less
  let ?x = "sval s div 2 ^ b"
  show ?case
  proof (cases "b < len")
    case False
    then have [simp]: "b = len" using less.prems(1) by simp
    have "(2 :: int) ^ (len - 1) \<le> 2 ^ len" by (rule power_increasing) simp_all
    then have "sval s < 2 ^ len" using sv by linarith
    then show ?thesis using less.prems val_nonneg[of s] by (simp add: ecmult_wnaf_loop.simps)
  next
    case True
    have x0: "0 \<le> ?x" using val_nonneg[of s] by (simp add: pos_imp_zdiv_nonneg_iff)
    have bit: "uint (so_get_bits S s b 1) = ?x mod 2" using get_bits[of 1 b s] True len by simp
    show ?thesis
    proof (cases "?x mod 2 = carry")
      case eq: True
      have "carry = 0" if "b + 1 = len"
      proof -
        have "sval s < 2 ^ b" using sv that by (metis add_diff_cancel_right')
        then show ?thesis using eq val_nonneg[of s] by simp
      qed
      moreover have "ecmult_wnaf_loop S s len w sign (b + 1) carry l lst = (l', lst')"
        using less.prems(10) True w eq bit by (simp add: ecmult_wnaf_loop.simps[of S s len w sign b])
      moreover have "wnaf_val l = sign * (sval s mod 2 ^ (b + 1) - carry * 2 ^ (b + 1))"
        unfolding mod_window[of "sval s" b 1] less.prems(6) using eq by (simp add: algebra_simps)
      ultimately show ?thesis using less.hyps[of "b + 1" carry l lst] less.prems True by simp
    next
      case ne: False
      define now where "now = (if w > len - b then len - b else w)"
      define W where "W = ?x mod 2 ^ now + carry"
      define k where "k = W div 2 ^ (w - 1) mod 2"
      have now: "1 \<le> now" "now \<le> w" "b + now \<le> len" "now < w \<longrightarrow> b + now = len" using True w by (auto simp: now_def)
      note win = wnaf_window[OF less.prems(2) x0 ne now(1,2) w(1), folded W_def, folded k_def]
      have bits: "uint (so_get_bits_var S s b now) = ?x mod 2 ^ now" using get_bits_var[of now b s] now len w by simp
      define l1 where "l1 = l[b := sign * (W - k * 2 ^ w)]"
      have loop: "ecmult_wnaf_loop S s len w sign (b + now) k l1 (int b) = (l', lst')"
        using less.prems(10) True w ne bit bits
        by (simp add: ecmult_wnaf_loop.simps[of S s len w sign b] Let_def now_def[symmetric] W_def k_def l1_def)
      have k0: "k = 0" if "b + now = len"
      proof (cases "now < w")
        case False
        then have "len - 1 = b + (w - 1)" using that now w by simp
        then have "sval s < 2 ^ b * 2 ^ (w - 1)" using sv by (simp add: power_add)
        moreover have "2 ^ b * ?x \<le> sval s" by (simp add: minus_mod_eq_mult_div[symmetric])
        ultimately have "2 ^ b * ?x < 2 ^ b * 2 ^ (w - 1)" by linarith
        then have "?x < 2 ^ (w - 1)" by (rule mult_less_cancel_left_pos[THEN iffD1, rotated]) simp
        then show ?thesis by (rule win(5))
      qed (use win(2) in simp)
      have kw: "k * 2 ^ w = k * 2 ^ now" using k0 now by (cases "now < w") simp_all
      have "wnaf_val l1 = sign * (sval s mod 2 ^ b - carry * 2 ^ b) + sign * (W - k * 2 ^ w) * 2 ^ b"
        unfolding l1_def using wnaf_val_update[of b l] less.prems(4-6) True by simp
      also have "\<dots> = sign * (sval s mod 2 ^ (b + now) - k * 2 ^ (b + now))"
        unfolding mod_window[of "sval s" b now] kw W_def by (simp add: algebra_simps power_add)
      finally have v1: "wnaf_val l1 = sign * (sval s mod 2 ^ (b + now) - k * 2 ^ (b + now))" .
      have d1: "wnaf_digits w (int b + 1) l1"
        unfolding l1_def using less.prems(9) win(3,4) sign
        by (intro wnaf_digits_update[OF less.prems(7)]) (auto simp: abs_mult)
      have z: "\<forall>j<len. b + now \<le> j \<longrightarrow> l1 ! j = 0" using less.prems(4,5) now(1) by (auto simp: l1_def nth_list_update)
      have "len - (b + now) < len - b" using True now(1) by simp
      from less.hyps[OF this now(3) win(1) k0 _ z v1 d1 _ _ loop] show ?thesis using less.prems(4) now by (simp add: l1_def)
    qed
  qed
qed

lemma wnaf:
  assumes a: "sval a = k mod secp_n" and k: "\<bar>k\<bar> < 2 ^ (len - 1)" and len: "0 < len" "len \<le> 255" and w: "2 \<le> w" "w < 32"
    and e: "ecmult_wnaf S len a w = (l, bits)"
  shows "length l = len \<and> wnaf_val l = k \<and> wnaf_digits w bits l \<and> 0 \<le> bits \<and> bits \<le> int len"
proof -
  have "(2 :: int) ^ (len - 1) \<le> 2 ^ 254" by (rule power_increasing) (use len in simp_all)
  then have kb: "\<bar>k\<bar> < 2 ^ 254" using k by linarith
  have bit: "uint (so_get_bits S a 255 1) = sval a div 2 ^ 255 mod 2" using get_bits[of 1 255 a] by simp
  obtain s and sign :: int where s: "(if so_get_bits S a 255 1 \<noteq> 0 then (so_negate S a, -1) else (a, 1)) = (s, sign)" by fastforce
  have sk: "sval s = \<bar>k\<bar> \<and> sign * \<bar>k\<bar> = k \<and> (sign = 1 \<or> sign = - 1)"
  proof (cases "0 \<le> k")
    case True
    then have v: "sval a = k" using a kb by (simp add: secp_n_def)
    then have "uint (so_get_bits S a 255 1) = 0" using bit True kb by simp
    then show ?thesis using s v True by (simp add: uint_0_iff)
  next
    case False
    have "(k + secp_n) mod secp_n = k + secp_n" using False kb by (intro mod_pos_pos_trivial) (simp_all add: secp_n_def)
    then have v: "sval a = k + secp_n" using a by simp
    have "sval a div 2 ^ 255 = 1" unfolding v using False kb by (simp add: secp_n_def)
    then have "so_get_bits S a 255 1 \<noteq> 0" using bit by auto
    moreover have "(- (k + secp_n)) mod secp_n = (- k) mod secp_n" by (simp add: mod_diff_right_eq[symmetric])
    then have "(- (k + secp_n)) mod secp_n = - k" using False kb by (simp add: secp_n_def)
    then have "sval (so_negate S a) = - k" using negate[of a] False unfolding v by simp
    ultimately show ?thesis using s False by auto
  qed
  obtain l' lst where loop: "ecmult_wnaf_loop S s len w sign 0 0 (replicate len 0) (-1) = (l', lst)" by fastforce
  have r: "l = l'" "bits = lst + 1" using e unfolding ecmult_wnaf_def Let_def s prod.case loop by simp_all
  have z: "wnaf_val (replicate len 0) = 0" "wnaf_digits w 0 (replicate len 0)" by (simp_all add: wnaf_val_def wnaf_digits_def)
  have "sval s < 2 ^ (len - 1)" using sk k by simp
  from wnaf_loop[OF this len w _ _ _ _ _ _ _ _ _ _ loop] sk len(1) z show ?thesis unfolding r by simp
qed

end

section \<open>Properties of the instance\<close>

text \<open>C7: Recoding ends, and the digits it returns sum to the (signed) scalar; each is zero or odd and fits its window,
  and none is set from the returned length on.\<close>

theorem ecmult_wnaf_4x64_spec:
  assumes "sc_val_4x64 a = k mod secp_n" "\<bar>k\<bar> < 2 ^ (len - 1)" "0 < len" "len \<le> 255" "2 \<le> w" "w < 32"
    and "ecmult_wnaf scalar_ops_4x64 len a w = (l, bits)"
  shows "length l = len \<and> wnaf_val l = k \<and> wnaf_digits w bits l \<and> 0 \<le> bits \<and> bits \<le> int len"
  by (rule s64.wnaf[OF assms])

theorem ecmult_wnaf_4x64_spec_witness:
  "wnaf_val (fst (ecmult_wnaf scalar_ops_4x64 130 (scalar_set_int_4x64 1000) WINDOW_A)) = 1000"
proof -
  obtain l bits where e: "ecmult_wnaf scalar_ops_4x64 130 (scalar_set_int_4x64 1000) WINDOW_A = (l, bits)" by fastforce
  have "sc_val_4x64 (scalar_set_int_4x64 1000) = 1000 mod secp_n" by (simp add: scalar_set_int_4x64_val secp_n_def)
  from ecmult_wnaf_4x64_spec[OF this _ _ _ _ _ e] show ?thesis unfolding e by (simp add: WINDOW_A_def)
qed

end
