(* ===== verification/Ecmult_Const.thy ===== *)
theory Ecmult_Const
  imports Ecmult
begin

text \<open>
  \<^verbatim>\<open>ecmult_const_impl.h\<close>: multiplication of an affine point by a secret scalar, with a
  fixed sequence of operations.  Both halves of the scalar are recoded in signed odd digits; the
  recoding adds one or two to the scalar first (the skew) and the end of the multiplication
  subtracts it again.
\<close>

section \<open>Definitions\<close>

definition WNAF_BITS :: nat where "WNAF_BITS = 128"

definition WNAF_SIZE :: "nat \<Rightarrow> nat" where
  "WNAF_SIZE w = (WNAF_BITS + w - 1) div w"

text \<open>The table access of \<^verbatim>\<open>ECMULT_CONST_TABLE_GET_GE\<close>: every entry is read, and moved to the
  result when its index is the wanted one.\<close>

fun const_table_scan :: "('fe, 'st) field_ops \<Rightarrow> int \<Rightarrow> int \<Rightarrow> 'fe ge list \<Rightarrow> 'fe ge \<Rightarrow> 'fe ge" where
  "const_table_scan F idx_n m [] r = r"
| "const_table_scan F idx_n m (p # pre) r =
    (let r = r\<lparr>ge_x := fo_cmov F (ge_x r) (ge_x p) (of_bool (m = idx_n))\<rparr>;
         r = r\<lparr>ge_y := fo_cmov F (ge_y r) (ge_y p) (of_bool (m = idx_n))\<rparr>
     in const_table_scan F idx_n (m + 1) pre r)"

definition ECMULT_CONST_TABLE_GET_GE :: "('fe, 'st) field_ops \<Rightarrow> 'fe ge \<Rightarrow> 'fe ge list \<Rightarrow> int \<Rightarrow> nat \<Rightarrow> 'fe ge" where
  "ECMULT_CONST_TABLE_GET_GE F r pre n w =
    (let abs_n = n * (of_bool (n > 0) * 2 - 1);
         idx_n = abs_n div 2;
         r = const_table_scan F idx_n 0 (take (ECMULT_TABLE_SIZE w) pre) r;
         r = r\<lparr>ge_infinity := False\<rparr>;
         neg_y = fo_negate F (ge_y r) 1
     in r\<lparr>ge_y := fo_cmov F (ge_y r) neg_y (of_bool (n \<noteq> abs_n))\<rparr>)"

text \<open>The recoding loop.  A shift of no bits is outside the contract of \<^verbatim>\<open>scalar_shr_int\<close>.\<close>

function wnaf_const_loop ::
    "'sc scalar_ops \<Rightarrow> nat \<Rightarrow> int \<Rightarrow> nat \<Rightarrow> 'sc \<Rightarrow> int \<Rightarrow> int \<Rightarrow> int list \<Rightarrow> 'sc \<times> nat \<times> int \<times> int list" where
  "wnaf_const_loop S w global_sign word s u_last u wnaf =
    (if 0 < w \<and> word * w < WNAF_BITS then
      (let (s, u) = so_shr_int S s w;
           even = of_bool (u mod 2 = 0);
           sign = 2 * of_bool (u_last > 0) - 1;
           u = u + sign * even;
           u_last = u_last - sign * even * 2 ^ w;
           wnaf = wnaf[word := u_last * global_sign]
       in wnaf_const_loop S w global_sign (word + 1) s u u wnaf)
     else (s, word, u, wnaf))"
  by pat_completeness auto
termination
  by (relation "measure (\<lambda>(S, w, g, word, s, ul, u, wnaf). WNAF_BITS - word * w)") (auto simp: WNAF_BITS_def)

declare wnaf_const_loop.simps [simp del]

definition wnaf_const :: "'sc scalar_ops \<Rightarrow> int list \<Rightarrow> 'sc \<Rightarrow> nat \<Rightarrow> int list \<times> int" where
  "wnaf_const S wnaf s w =
    (let flip = so_is_high S s;
         b = of_bool (flip \<noteq> (\<not> so_is_even S s));
         neg_s = so_negate S s;
         not_neg_one = of_bool (\<not> so_is_one S neg_s);
         s = so_cadd_bit S s b not_neg_one;
         (s, global_sign) = so_cond_negate S s (of_bool flip);
         global_sign = global_sign * (not_neg_one * 2 - 1);
         skew = 2 ^ b;
         (s, u_last) = so_shr_int S s w;
         (s, word, u, wnaf) = wnaf_const_loop S w global_sign 0 s u_last 0 wnaf;
         wnaf = wnaf[word := u * global_sign]
     in (wnaf, skew))"

definition ecmult_const_step ::
    "('fe, 'st) field_ops \<Rightarrow> 'fe ge list \<Rightarrow> 'fe ge list \<Rightarrow> int list \<Rightarrow> int list \<Rightarrow> nat \<Rightarrow>
     'fe gej \<times> 'fe ge \<Rightarrow> 'fe gej \<times> 'fe ge" where
  "ecmult_const_step F pre_a pre_a_lam wnaf_1 wnaf_lam i = (\<lambda>(r, tmpa).
    (let r = ((\<lambda>r. fst (gej_double_nonzero F r r None)) ^^ (WINDOW_A - 1)) r;
         n = wnaf_1 ! i;
         tmpa = ECMULT_CONST_TABLE_GET_GE F tmpa pre_a n WINDOW_A;
         r = gej_add_ge F r tmpa;
         n = wnaf_lam ! i;
         tmpa = ECMULT_CONST_TABLE_GET_GE F tmpa pre_a_lam n WINDOW_A;
         r = gej_add_ge F r tmpa
     in (r, tmpa)))"

fun ecmult_const_loop ::
    "('fe, 'st) field_ops \<Rightarrow> 'fe ge list \<Rightarrow> 'fe ge list \<Rightarrow> int list \<Rightarrow> int list \<Rightarrow> nat \<Rightarrow>
     'fe gej \<times> 'fe ge \<Rightarrow> 'fe gej \<times> 'fe ge" where
  "ecmult_const_loop F pre_a pre_a_lam wnaf_1 wnaf_lam 0 st = st"
| "ecmult_const_loop F pre_a pre_a_lam wnaf_1 wnaf_lam (Suc i) st =
    ecmult_const_loop F pre_a pre_a_lam wnaf_1 wnaf_lam i
      (ecmult_const_step F pre_a pre_a_lam wnaf_1 wnaf_lam i st)"

text \<open>The end of \<^verbatim>\<open>ecmult_const\<close>: subtract \<open>a\<close> or \<open>2 a\<close>, and its image under the
  endomorphism.\<close>

definition ecmult_const_correct ::
    "('fe, 'st) field_ops \<Rightarrow> 'fe ge \<Rightarrow> int \<Rightarrow> int \<Rightarrow> 'fe gej \<Rightarrow> 'fe gej" where
  "ecmult_const_correct F a skew_1 skew_lam r =
    (let tmpj = gej_set_ge F a;
         (tmpj, _) = gej_double_var F tmpj tmpj None;
         (correction, tmpj) = ge_set_gej F tmpj;
         correction_1_stor = ge_to_storage F a;
         correction_lam_stor = ge_to_storage F a;
         a2_stor = ge_to_storage F correction;
         correction_1_stor = ge_storage_cmov F correction_1_stor a2_stor (of_bool (skew_1 = 2));
         correction_lam_stor = ge_storage_cmov F correction_lam_stor a2_stor (of_bool (skew_lam = 2));
         correction = ge_from_storage F correction_1_stor;
         correction = ge_neg F correction;
         r = gej_add_ge F r correction;
         correction = ge_from_storage F correction_lam_stor;
         correction = ge_neg F correction;
         correction = ge_mul_lambda F correction
     in gej_add_ge F r correction)"

definition ecmult_const :: "('fe, 'st) field_ops \<Rightarrow> 'sc scalar_ops \<Rightarrow> 'fe ge \<Rightarrow> 'sc \<Rightarrow> 'fe gej" where
  "ecmult_const F S a scalar =
    (let (q_1, q_lam) = scalar_split_lambda S scalar;
         buf = replicate (1 + WNAF_SIZE (WINDOW_A - 1)) 0;
         (wnaf_1, skew_1) = wnaf_const S buf q_1 (WINDOW_A - 1);
         (wnaf_lam, skew_lam) = wnaf_const S buf q_lam (WINDOW_A - 1);
         r = gej_set_ge F a;
         (pre_a, Z) = ecmult_odd_multiples_table_globalz_windowa F r;
         pre_a = map (\<lambda>p. p\<lparr>ge_y := fo_normalize_weak F (ge_y p)\<rparr>) pre_a;
         pre_a_lam = map (ge_mul_lambda F) pre_a;
         i = wnaf_1 ! WNAF_SIZE (WINDOW_A - 1);
         tmpa = ECMULT_CONST_TABLE_GET_GE F (ge_local F) pre_a i WINDOW_A;
         r = gej_set_ge F tmpa;
         i = wnaf_lam ! WNAF_SIZE (WINDOW_A - 1);
         tmpa = ECMULT_CONST_TABLE_GET_GE F tmpa pre_a_lam i WINDOW_A;
         r = gej_add_ge F r tmpa;
         (r, tmpa) = ecmult_const_loop F pre_a pre_a_lam wnaf_1 wnaf_lam (WNAF_SIZE (WINDOW_A - 1)) (r, tmpa);
         r = r\<lparr>gej_z := fo_mul F (gej_z r) Z\<rparr>
     in ecmult_const_correct F a skew_1 skew_lam r)"

section \<open>The recoding\<close>

definition wnaf_const_val :: "nat \<Rightarrow> nat \<Rightarrow> int list \<Rightarrow> int" where
  "wnaf_const_val w n l = (\<Sum>j<n. l ! j * 2 ^ (w * j))"

text \<open>Odd digits of at most \<open>w\<close> bits and a sign: what the table holds.\<close>

definition wnaf_const_digit :: "nat \<Rightarrow> int \<Rightarrow> bool" where
  "wnaf_const_digit w d \<longleftrightarrow> odd d \<and> \<bar>d\<bar> < 2 ^ w"

lemma WNAF_SIZE_iff: "0 < w \<Longrightarrow> word * w < WNAF_BITS \<longleftrightarrow> word < WNAF_SIZE w"
  using less_eq_div_iff_mult_less_eq[of w "Suc word" "WNAF_BITS + w - 1"] by (auto simp: WNAF_SIZE_def WNAF_BITS_def Suc_le_eq)

lemma wnaf_const_val_update: "n \<le> i \<Longrightarrow> wnaf_const_val w n (l[i := d]) = wnaf_const_val w n l"
  by (simp add: wnaf_const_val_def)

lemma wnaf_const_digit_sign: "g = 1 \<or> g = - 1 \<Longrightarrow> wnaf_const_digit w (d * g) \<longleftrightarrow> wnaf_const_digit w d"
  by (auto simp: wnaf_const_digit_def)

text \<open>One digit is made odd by moving a unit of the next one.\<close>

lemma wnaf_const_carry:
  fixes u ul :: int
  assumes u: "0 \<le> u" "u < 2 ^ w" and ul: "wnaf_const_digit w ul" and w: "0 < w"
  defines "c \<equiv> (2 * of_bool (ul > 0) - 1) * of_bool (u mod 2 = 0)"
  shows "wnaf_const_digit w (u + c) \<and> wnaf_const_digit w (ul - c * 2 ^ w)"
proof -
  have p: "(2 :: int) ^ w = 2 * 2 ^ (w - 1)" using w by (simp flip: power_Suc)
  have ne: "ul \<noteq> 0" "odd ul" "\<bar>ul\<bar> < 2 ^ w" using ul by (auto simp: wnaf_const_digit_def)
  consider "c = 0" "odd u" | "c = 1" "even u" "0 < ul" | "c = - 1" "even u" "ul < 0"
    using ne(1) by (cases "even u"; cases "0 < ul") (auto simp: c_def even_iff_mod_2_eq_zero)
  then show ?thesis
  proof cases
    case 2
    have "u + 1 \<noteq> 2 * 2 ^ (w - 1)" using 2(2) by presburger
    then have "u + 1 < 2 ^ w" using u p by linarith
    then show ?thesis using 2 u ne p by (auto simp: wnaf_const_digit_def)
  qed (use u ne p in \<open>auto simp: wnaf_const_digit_def\<close>)
qed

context scalar_repr
begin

lemma const_loop:
  assumes w: "0 < w" "w < 16" and g: "g = 1 \<or> g = - 1"
    and s: "sval s < 2 ^ (w * (WNAF_SIZE w - word))" and word: "word \<le> WNAF_SIZE w" "word < WNAF_SIZE w \<or> u = ul"
    and ul: "wnaf_const_digit w ul" and l: "WNAF_SIZE w < length l" "\<forall>j<word. wnaf_const_digit w (l ! j)"
    and v: "wnaf_const_val w word l = g * (N - (ul + sval s * 2 ^ w) * 2 ^ (w * word))"
    and e: "wnaf_const_loop S w g word s ul u l = (s', word', u', l')"
  shows "word' = WNAF_SIZE w \<and> length l' = length l \<and> (\<forall>j<WNAF_SIZE w. wnaf_const_digit w (l' ! j)) \<and> wnaf_const_digit w u'
    \<and> wnaf_const_val w (WNAF_SIZE w) l' = g * (N - u' * 2 ^ (w * WNAF_SIZE w))"
  using s word ul l v e
proof (induction "WNAF_SIZE w - word" arbitrary: word s ul u l rule: less_induct)
  case less
  show ?case
  proof (cases "word < WNAF_SIZE w")
    case False
    then have wd: "word = WNAF_SIZE w" using less.prems(2) by simp
    then have "sval s = 0" using less.prems(1) val_nonneg[of s] by simp
    moreover have "s' = s \<and> word' = word \<and> u' = u \<and> l' = l"
      using less.prems(8) False WNAF_SIZE_iff[OF w(1)] by (simp add: wnaf_const_loop.simps[of S w])
    ultimately show ?thesis using less.prems wd by simp
  next
    case True
    obtain t x where t: "so_shr_int S s w = (t, x)" by fastforce
    have x: "sval t = sval s div 2 ^ w" "x = sval s mod 2 ^ w" using shr_int[OF w, of s] t by simp_all
    define c :: int where "c = (2 * of_bool (ul > 0) - 1) * of_bool (x mod 2 = 0)"
    have xr: "0 \<le> x" "x < 2 ^ w" using x(2) by simp_all
    have d: "wnaf_const_digit w (x + c)" "wnaf_const_digit w (ul - c * 2 ^ w)"
      using wnaf_const_carry[OF xr less.prems(4) w(1)] unfolding c_def by simp_all
    define l1 where "l1 = l[word := (ul - c * 2 ^ w) * g]"
    have lw: "word < length l" using True less.prems(5) by simp
    have loop: "wnaf_const_loop S w g (word + 1) t (x + c) (x + c) l1 = (s', word', u', l')"
      using less.prems(8) True WNAF_SIZE_iff[OF w(1), of word] w(1) t
      by (simp add: wnaf_const_loop.simps[of S w g word] Let_def c_def l1_def)
    have sp: "sval s = sval t * 2 ^ w + x" unfolding x by (simp only: div_mult_mod_eq)
    have "wnaf_const_val w (word + 1) l1 = wnaf_const_val w word l + (ul - c * 2 ^ w) * g * 2 ^ (w * word)"
      using lw wnaf_const_val_update[of word word w l] by (simp add: wnaf_const_val_def l1_def)
    also have "\<dots> = g * (N - (x + c + sval t * 2 ^ w) * 2 ^ (w * (word + 1)))"
      unfolding less.prems(7) sp by (simp add: algebra_simps power_add)
    finally have v1: "wnaf_const_val w (word + 1) l1 = g * (N - (x + c + sval t * 2 ^ w) * 2 ^ (w * (word + 1)))" .
    have ds: "\<forall>j<word + 1. wnaf_const_digit w (l1 ! j)"
      using less.prems(6) d(2) lw wnaf_const_digit_sign[OF g] by (auto simp: l1_def nth_list_update less_Suc_eq)
    have "WNAF_SIZE w - word = Suc (WNAF_SIZE w - (word + 1))" using True by simp
    then have "w * (WNAF_SIZE w - word) = w * (WNAF_SIZE w - (word + 1)) + w" by simp
    then have "sval s < 2 ^ (w * (WNAF_SIZE w - (word + 1))) * 2 ^ w" using less.prems(1) by (simp only: power_add)
    then have "sval t * 2 ^ w < 2 ^ (w * (WNAF_SIZE w - (word + 1))) * 2 ^ w" using sp xr(1) by linarith
    then have sb: "sval t < 2 ^ (w * (WNAF_SIZE w - (word + 1)))" by (rule mult_right_less_imp_less) simp
    have m: "WNAF_SIZE w - (word + 1) < WNAF_SIZE w - word" using True by simp
    from less.hyps[OF m sb _ _ d(1) _ ds v1 loop] show ?thesis using True less.prems(5) by (simp add: l1_def)
  qed
qed

text \<open>The preparation: the scalar becomes odd, non-negative and short, and the sign is kept.\<close>

lemma const_prepare:
  assumes s: "sval s = k mod secp_n" and k: "\<bar>k\<bar> < 2 ^ 128"
    and b: "b = of_bool (so_is_high S s \<noteq> (\<not> so_is_even S s))" and nn: "nn = of_bool (\<not> so_is_one S (so_negate S s))"
    and c: "so_cond_negate S (so_cadd_bit S s b nn) (of_bool (so_is_high S s)) = (s', g)"
  shows "odd (sval s') \<and> sval s' < 2 ^ 128 + 2 \<and> (g * (nn * 2 - 1) = 1 \<or> g * (nn * 2 - 1) = - 1)
    \<and> g * (nn * 2 - 1) * sval s' = k + 2 ^ b \<and> (b = 0 \<or> b = 1)"
proof -
  define n where "n = secp_n"
  have n: "odd n" "n < 2 ^ 256 - 2" "2 ^ 128 + 2 < n div 2" "2 * 2 ^ 128 < n" "(4 :: int) < 2 ^ 128" "n div 2 + n div 2 \<le> n" by (simp_all add: n_def secp_n_def)
  have b01: "b = 0 \<or> b = 1" using b by simp
  then have b2: "b < 256" "(2 :: int) ^ b \<le> 2" "0 < (2 :: int) ^ b" by auto
  have flag: "nn = 0 \<or> nn = 1" using nn by simp
  have neg: "sval (so_negate S x) = (- sval x) mod n" if "sval x < n" for x using negate that by (simp add: n_def)
  have cneg: "so_cond_negate S x f = (if f = 0 then (x, 1) else (so_negate S x, - 1))" if "sval x < n" for x f
    using cond_negate that by (simp add: n_def)
  have cadd: "sval (so_cadd_bit S s b nn) = sval s + nn * 2 ^ b" if "sval s < n"
    using that n b2 flag by (intro cadd_bit) auto
  consider "0 \<le> k" | "k = - 1" | "k < - 1" by linarith
  then show ?thesis
  proof cases
    case 1
    have v: "sval s = k" using s k n(4,5) 1 unfolding n_def[symmetric] by simp
    have "sval s < n" "\<not> so_is_high S s" using v k n 1 is_high by (simp_all add: n_def)
    have "(- k) mod n \<noteq> 1"
    proof (cases "k = 0")
      case False
      then have "(- k) mod n = n - k" using 1 k n(4,5) by (simp add: zmod_zminus1_eq_if)
      then show ?thesis using k n(4,5) by linarith
    qed simp
    then have "nn = 1" using nn neg[OF \<open>sval s < n\<close>] v is_one by simp
    moreover have "b = of_bool (odd k)" using b \<open>\<not> so_is_high S s\<close> v is_even by simp
    moreover have "sval (so_cadd_bit S s b nn) = k + 2 ^ b" using cadd[OF \<open>sval s < n\<close>] v \<open>nn = 1\<close> by simp
    moreover have "sval (so_cadd_bit S s b nn) < n" unfolding calculation(3) using k n(4,5) b2 by linarith
    ultimately show ?thesis using c cneg[of "so_cadd_bit S s b nn" 0] \<open>\<not> so_is_high S s\<close> k b2 1 b01 by auto
  next
    case 2
    have "(- 1 + n) mod n = n - 1" using n(4,5) by (intro trans[OF mod_pos_pos_trivial]) simp_all
    then have v: "sval s = n - 1" using s unfolding 2 n_def[symmetric] by simp
    have "sval s < n" "so_is_high S s" using v n is_high by (simp_all add: n_def secp_n_def)
    have "(- sval s) mod n = 1" unfolding v using n(4,5) by (simp add: zmod_zminus1_eq_if)
    then have "nn = 0" using nn neg[OF \<open>sval s < n\<close>] is_one by simp
    moreover have "b = 1" using b \<open>so_is_high S s\<close> v n(1) is_even by simp
    moreover have "sval (so_cadd_bit S s b nn) = sval s" using cadd[OF \<open>sval s < n\<close>] \<open>nn = 0\<close> by simp
    ultimately show ?thesis
      using c cneg[of "so_cadd_bit S s b nn" 1] neg[of "so_cadd_bit S s b nn"] \<open>so_is_high S s\<close> \<open>sval s < n\<close> \<open>(- sval s) mod n = 1\<close> 2 by auto
  next
    case 3
    have "(k + n) mod n = k + n" using 3 k n(4,5) by (intro mod_pos_pos_trivial) linarith+
    then have v: "sval s = k + n" using s unfolding n_def[symmetric] by simp
    have "sval s < n" using v 3 by simp
    have "so_is_high S s" unfolding is_high v n_def[symmetric] using k n(3,6) by linarith
    have m: "(- (x + n)) mod n = - x" if "x < 0" "- x < n" for x :: int
    proof -
      have "(- (x + n)) mod n = (- x) mod n" by (simp add: mod_diff_right_eq[symmetric])
      then show ?thesis using that by simp
    qed
    have "(- sval s) mod n = - k" unfolding v using 3 k n(4,5) by (intro m) linarith+
    then have "nn = 1" using nn neg[OF \<open>sval s < n\<close>] 3 is_one by simp
    have bk: "b = of_bool (odd k)" using b \<open>so_is_high S s\<close> v n(1) is_even by simp
    have sum: "sval (so_cadd_bit S s b nn) = k + 2 ^ b + n" using cadd[OF \<open>sval s < n\<close>] v \<open>nn = 1\<close> by simp
    have kb: "k + 2 ^ b < 0" "odd (k + 2 ^ b)"
    proof -
      have "k \<le> - 3" if "odd k" using 3 that by presburger
      then show "k + 2 ^ b < 0" "odd (k + 2 ^ b)" using 3 bk by (cases "odd k"; simp)+
    qed
    have neg_sum: "(- (k + 2 ^ b + n)) mod n = - (k + 2 ^ b)" using kb(1) k n(4,5) b2 by (intro m) linarith+
    have lt: "sval (so_cadd_bit S s b nn) < n" unfolding sum using kb(1) by linarith
    then have "s' = so_negate S (so_cadd_bit S s b nn)" "g = - 1" using c cneg[of _ 1] \<open>so_is_high S s\<close> by simp_all
    moreover have "sval (so_negate S (so_cadd_bit S s b nn)) = - (k + 2 ^ b)" using neg[OF lt] unfolding sum neg_sum .
    ultimately show ?thesis using kb k b2 b01 \<open>nn = 1\<close> by auto
  qed
qed

lemma const_recode:
  assumes s: "sval s = k mod secp_n" "\<bar>k\<bar> < 2 ^ 128" and w: "0 < w" "w < 16" and l: "WNAF_SIZE w < length l"
    and e: "wnaf_const S l s w = (l', skew)"
  shows "length l' = length l \<and> (\<forall>j\<le>WNAF_SIZE w. wnaf_const_digit w (l' ! j))
    \<and> wnaf_const_val w (WNAF_SIZE w + 1) l' = k + skew \<and> (skew = 1 \<or> skew = 2)"
proof -
  let ?L = "WNAF_SIZE w"
  define b where "b = (of_bool (so_is_high S s \<noteq> (\<not> so_is_even S s)) :: nat)"
  define nn where "nn = (of_bool (\<not> so_is_one S (so_negate S s)) :: int)"
  obtain s1 g1 where c: "so_cond_negate S (so_cadd_bit S s b nn) (of_bool (so_is_high S s)) = (s1, g1)" by fastforce
  define g where "g = g1 * (nn * 2 - 1)"
  have P: "odd (sval s1)" "sval s1 < 2 ^ 128 + 2" "g = 1 \<or> g = - 1" "g * sval s1 = k + 2 ^ b" "b = 0 \<or> b = 1"
    using const_prepare[OF s b_def nn_def c] by (simp_all add: g_def)
  obtain s2 ul where h: "so_shr_int S s1 w = (s2, ul)" by fastforce
  obtain s3 wd u l3 where loop: "wnaf_const_loop S w g 0 s2 ul 0 l = (s3, wd, u, l3)" by (metis prod.exhaust)
  have r: "l' = l3[wd := u * g]" "skew = 2 ^ b"
    using e unfolding wnaf_const_def Let_def b_def[symmetric] nn_def[symmetric] c prod.case g_def[symmetric] h loop by simp_all
  have x: "sval s2 = sval s1 div 2 ^ w" "ul = sval s1 mod 2 ^ w" using shr_int[OF w, of s1] h by simp_all
  have sp: "sval s1 = ul + sval s2 * 2 ^ w" unfolding x by (simp only: mod_div_mult_eq)
  have "odd ul" using P(1) w(1) unfolding sp by simp
  then have ul: "wnaf_const_digit w ul" unfolding wnaf_const_digit_def using x(2) by simp
  have L: "0 < ?L" "128 \<le> ?L * w"
    using WNAF_SIZE_iff[OF w(1), of 0] WNAF_SIZE_iff[OF w(1), of ?L] by (simp_all add: WNAF_BITS_def)
  then have "(2 :: int) ^ 129 \<le> 2 ^ (w * ?L + w)" using w by (intro power_increasing) (simp_all add: mult.commute)
  then have "sval s1 < 2 ^ (w * ?L + w)" using P(2) by simp
  moreover have "0 \<le> ul" using x(2) by simp
  ultimately have "sval s2 * 2 ^ w < 2 ^ (w * ?L) * 2 ^ w" unfolding sp power_add by linarith
  then have "sval s2 < 2 ^ (w * ?L)" by (rule mult_right_less_imp_less) simp
  then have sb: "sval s2 < 2 ^ (w * (?L - 0))" by simp
  have v: "wnaf_const_val w 0 l = g * (sval s1 - (ul + sval s2 * 2 ^ w) * 2 ^ (w * 0))" by (simp add: wnaf_const_val_def sp)
  from const_loop[OF w P(3) sb _ _ ul l _ v loop] L(1)
  have R: "wd = ?L" "length l3 = length l" "\<forall>j<?L. wnaf_const_digit w (l3 ! j)" "wnaf_const_digit w u"
    "wnaf_const_val w ?L l3 = g * (sval s1 - u * 2 ^ (w * ?L))" by simp_all
  have "wnaf_const_val w (?L + 1) l' = wnaf_const_val w ?L l' + l' ! ?L * 2 ^ (w * ?L)" by (simp add: wnaf_const_val_def)
  also have "\<dots> = g * sval s1" using R l unfolding r by (simp add: wnaf_const_val_update algebra_simps)
  finally have "wnaf_const_val w (?L + 1) l' = k + skew" using P(4) r(2) by simp
  moreover have "\<forall>j\<le>?L. wnaf_const_digit w (l' ! j)"
    using R l wnaf_const_digit_sign[OF P(3)] unfolding r by (auto simp: nth_list_update)
  ultimately show ?thesis using R(2) P(5) r by auto
qed

end

section \<open>Properties of the instance\<close>



end
