(* ===== verification/Ecmult_Gen.thy ===== *)
theory Ecmult_Gen
  imports Group Scalar_Impl Hash
begin

text \<open>
  \<^verbatim>\<open>ecmult_gen.h\<close> and \<^verbatim>\<open>ecmult_gen_impl.h\<close>: multiplication of the generator by a secret
  scalar, from a table of 64 rows of 16 points, blinded by a scalar and a starting point that
  are drawn from the deterministic generator.  The two rejection loops of the blinding run until
  a draw is in range; they are partial functions, where None stands for a loop that never ends.
  Memory allocation is taken to succeed, and the table is built at run time
  (no \<^verbatim>\<open>USE_ECMULT_STATIC_PRECOMPUTATION\<close>).
\<close>

section \<open>Definitions\<close>

record ('fe, 'st, 'sc) ecmult_gen_context =
  prec :: "'st ge_storage list list option"
  blind :: 'sc
  initial :: "'fe gej"

definition ecmult_gen_context_init :: "('fe, 'st, 'sc) ecmult_gen_context \<Rightarrow> ('fe, 'st, 'sc) ecmult_gen_context" where
  "ecmult_gen_context_init ctx = ctx\<lparr>prec := None\<rparr>"

text \<open>The scan of one row with conditional moves.\<close>

fun ecmult_gen_scan :: "('fe, 'st) field_ops \<Rightarrow> int \<Rightarrow> int \<Rightarrow> 'st ge_storage list \<Rightarrow> 'st ge_storage \<Rightarrow> 'st ge_storage" where
  "ecmult_gen_scan F bits i [] adds = adds"
| "ecmult_gen_scan F bits i (p # row) adds =
    ecmult_gen_scan F bits (i + 1) row (ge_storage_cmov F adds p (of_bool (i = bits)))"

fun ecmult_gen_loop ::
    "('fe, 'st) field_ops \<Rightarrow> 'sc scalar_ops \<Rightarrow> 'sc \<Rightarrow> nat \<Rightarrow> 'st ge_storage list list \<Rightarrow> 'st ge_storage \<Rightarrow> 'fe gej \<Rightarrow> 'fe gej" where
  "ecmult_gen_loop F S gnb j [] adds r = r"
| "ecmult_gen_loop F S gnb j (row # rows) adds r =
    (let bits = uint (so_get_bits S gnb (j * 4) 4);
         adds = ecmult_gen_scan F bits 0 (take 16 row) adds;
         add = ge_from_storage F adds;
         r = gej_add_ge F r add
     in ecmult_gen_loop F S gnb (j + 1) rows adds r)"

definition ecmult_gen ::
    "('fe, 'st) field_ops \<Rightarrow> 'sc scalar_ops \<Rightarrow> ('fe, 'st, 'sc) ecmult_gen_context \<Rightarrow> 'sc \<Rightarrow> 'fe gej" where
  "ecmult_gen F S ctx gn =
    (let adds = \<lparr>ges_x = fo_to_storage F (fo_set_int F 0), ges_y = fo_to_storage F (fo_set_int F 0)\<rparr>;
         r = initial ctx;
         gnb = fst (so_add S gn (blind ctx))
     in ecmult_gen_loop F S gnb 0 (take 64 (the (prec ctx))) adds r)"

partial_function (option) ecmult_gen_blind_fe ::
    "('fe, 'st) field_ops \<Rightarrow> rfc6979_hmac_sha256_t \<Rightarrow> (rfc6979_hmac_sha256_t \<times> 'fe) option" where
  "ecmult_gen_blind_fe F rng =
    (case rfc6979_hmac_sha256_generate rng 32 of
       None \<Rightarrow> None
     | Some (rng, nonce32) \<Rightarrow>
        (let (s, ok) = fo_set_b32 F nonce32;
             retry = (\<not> ok \<or> fo_is_zero F s)
         in if retry then ecmult_gen_blind_fe F rng else Some (rng, s)))"

partial_function (option) ecmult_gen_blind_scalar ::
    "'sc scalar_ops \<Rightarrow> rfc6979_hmac_sha256_t \<Rightarrow> (rfc6979_hmac_sha256_t \<times> 'sc) option" where
  "ecmult_gen_blind_scalar S rng =
    (case rfc6979_hmac_sha256_generate rng 32 of
       None \<Rightarrow> None
     | Some (rng, nonce32) \<Rightarrow>
        (let (b, retry) = so_set_b32 S nonce32;
             retry = (retry \<or> so_is_zero S b)
         in if retry then ecmult_gen_blind_scalar S rng else Some (rng, b)))"

definition ecmult_gen_blind ::
    "('fe, 'st) field_ops \<Rightarrow> 'sc scalar_ops \<Rightarrow> ('fe, 'st, 'sc) ecmult_gen_context \<Rightarrow> bytes option \<Rightarrow>
     ('fe, 'st, 'sc) ecmult_gen_context option" where
  "ecmult_gen_blind F S ctx seed32 =
    (let ctx = (if seed32 = None
                then ctx\<lparr>initial := gej_neg F (gej_set_ge F (ge_const_g F)), blind := so_set_int S 1\<rparr> else ctx);
         nonce32 = so_get_b32 S (blind ctx);
         keydata = (case seed32 of None \<Rightarrow> nonce32 | Some seed \<Rightarrow> nonce32 @ take 32 seed);
         rng = rfc6979_hmac_sha256_initialize keydata
     in case ecmult_gen_blind_fe F rng of
          None \<Rightarrow> None
        | Some (rng, s) \<Rightarrow>
           (let ctx = ctx\<lparr>initial := gej_rescale F (initial ctx) s\<rparr> in
            case ecmult_gen_blind_scalar S rng of
              None \<Rightarrow> None
            | Some (rng, b) \<Rightarrow>
               (let gb = ecmult_gen F S ctx b;
                    b = so_negate S b
                in Some (ctx\<lparr>blind := b, initial := gb\<rparr>))))"

text \<open>The table: row \<open>j\<close> starts at \<open>numsbase\<close> and adds \<open>gbase\<close> fifteen times.\<close>

definition nums_b32 :: bytes where
  "nums_b32 = map of_nat [84, 104, 101, 32, 115, 99, 97, 108, 97, 114, 32, 102, 111, 114, 32, 116, 104, 105, 115,
    32, 120, 32, 105, 115, 32, 117, 110, 107, 110, 111, 119, 110]"

definition ecmult_gen_nums :: "('fe, 'st) field_ops \<Rightarrow> 'fe gej" where
  "ecmult_gen_nums F =
    (let (nums_x, _) = fo_set_b32 F nums_b32;
         (nums_ge, _) = ge_set_xo_var F nums_x False;
         nums_gej = gej_set_ge F nums_ge
     in fst (gej_add_ge_var F nums_gej nums_gej (ge_const_g F) None))"

fun ecmult_gen_row :: "('fe, 'st) field_ops \<Rightarrow> 'fe gej \<Rightarrow> nat \<Rightarrow> 'fe gej \<Rightarrow> 'fe gej list" where
  "ecmult_gen_row F gbase 0 p = [p]"
| "ecmult_gen_row F gbase (Suc k) p =
    p # ecmult_gen_row F gbase k (fst (gej_add_var F (gej_local F) p gbase None))"

fun ecmult_gen_rows :: "('fe, 'st) field_ops \<Rightarrow> 'fe gej \<Rightarrow> nat \<Rightarrow> nat \<Rightarrow> 'fe gej \<Rightarrow> 'fe gej \<Rightarrow> 'fe gej list" where
  "ecmult_gen_rows F nums_gej j 0 gbase numsbase = []"
| "ecmult_gen_rows F nums_gej j (Suc k) gbase numsbase =
    (let row = ecmult_gen_row F gbase 15 numsbase;
         gbase = ((\<lambda>g. fst (gej_double_var F g g None)) ^^ 4) gbase;
         numsbase = fst (gej_double_var F numsbase numsbase None);
         numsbase = (if j = 62 then
            (let numsbase = gej_neg F numsbase in fst (gej_add_var F numsbase numsbase nums_gej None)) else numsbase)
     in row @ ecmult_gen_rows F nums_gej (j + 1) k gbase numsbase)"

definition ecmult_gen_context_build ::
    "('fe, 'st) field_ops \<Rightarrow> 'sc scalar_ops \<Rightarrow> ('fe, 'st, 'sc) ecmult_gen_context \<Rightarrow> ('fe, 'st, 'sc) ecmult_gen_context option" where
  "ecmult_gen_context_build F S ctx =
    (if prec ctx \<noteq> None then Some ctx
     else
      (let gj = gej_set_ge F (ge_const_g F);
           nums_gej = ecmult_gen_nums F;
           precj = ecmult_gen_rows F nums_gej 0 64 gj nums_gej;
           pre = ge_set_all_gej_var F (replicate 1024 (ge_local F)) precj;
           table = map (\<lambda>j. map (\<lambda>i. ge_to_storage F (pre ! (j * 16 + i))) [0..<16]) [0..<64]
       in ecmult_gen_blind F S (ctx\<lparr>prec := Some table\<rparr>) None))"

definition ecmult_gen_context_is_built :: "('fe, 'st, 'sc) ecmult_gen_context \<Rightarrow> bool" where
  "ecmult_gen_context_is_built ctx \<longleftrightarrow> prec ctx \<noteq> None"

definition ecmult_gen_context_clone ::
    "('fe, 'st, 'sc) ecmult_gen_context \<Rightarrow> ('fe, 'st, 'sc) ecmult_gen_context \<Rightarrow> ('fe, 'st, 'sc) ecmult_gen_context" where
  "ecmult_gen_context_clone dst src =
    (case prec src of
       None \<Rightarrow> dst\<lparr>prec := None\<rparr>
     | Some t \<Rightarrow> dst\<lparr>prec := Some t, initial := initial src, blind := blind src\<rparr>)"

definition ecmult_gen_context_clear ::
    "('fe, 'st) field_ops \<Rightarrow> 'sc scalar_ops \<Rightarrow> ('fe, 'st, 'sc) ecmult_gen_context \<Rightarrow> ('fe, 'st, 'sc) ecmult_gen_context" where
  "ecmult_gen_context_clear F S ctx =
    ctx\<lparr>blind := so_clear S (blind ctx), initial := gej_clear F (initial ctx), prec := None\<rparr>"

end
