(* ===== verification/Ecdsa.thy ===== *)
theory Ecdsa
  imports Ecmult Ecmult_Gen
begin

text \<open>
  \<^verbatim>\<open>ecdsa_impl.h\<close>: the strict DER reader and writer for signatures, verification and signing.
  A read position in a buffer is the list of the bytes from there to the end, so that the
  comparison of two pointers is one of lengths.  A reader that fails makes the whole parse fail
  and its outputs are not used; it returns None (the length reader: -1, as in the code).
\<close>

section \<open>Definitions\<close>

definition ecdsa_const_order_as_fe :: "('fe, 'st) field_ops \<Rightarrow> 'fe" where
  "ecdsa_const_order_as_fe F =
    fo_const F 0xFFFFFFFF 0xFFFFFFFF 0xFFFFFFFF 0xFFFFFFFE 0xBAAEDCE6 0xAF48A03B 0xBFD25E8C 0xD0364141"

definition ecdsa_const_p_minus_order :: "('fe, 'st) field_ops \<Rightarrow> 'fe" where
  "ecdsa_const_p_minus_order F = fo_const F 0 0 0 1 0x45512319 0x50B75FC4 0x402DA172 0x2FC9BAEE"

text \<open>The loop over the octets of a long length: \<open>ret\<close> is a \<^verbatim>\<open>size_t\<close> and wraps.\<close>

fun der_read_len_loop :: "u64 \<Rightarrow> nat \<Rightarrow> bytes \<Rightarrow> u64 option \<times> bytes" where
  "der_read_len_loop ret 0 sig = (Some ret, sig)"
| "der_read_len_loop ret (Suc lenleft) [] = (None, [])"
| "der_read_len_loop ret (Suc lenleft) (b # sig) =
    (let ret = push_bit 8 ret OR ucast b in
     if ret + of_nat (Suc lenleft) > of_nat (length (b # sig)) then (None, b # sig)
     else der_read_len_loop ret lenleft sig)"

definition der_read_len :: "bytes \<Rightarrow> int \<times> bytes" where
  "der_read_len sig =
    (case sig of
       [] \<Rightarrow> (-1, [])
     | b # sig \<Rightarrow>
        (let b1 = uint b in
         if b1 = 0xFF then (-1, sig)
         else if b1 AND 0x80 = 0 then (b1, sig)
         else if b1 = 0x80 then (-1, sig)
         else
          (let lenleft = b1 AND 0x7F in
           if lenleft > int (length sig) then (-1, sig)
           else if hd sig = 0 then (-1, sig)
           else if lenleft > 8 then (-1, sig)
           else
            (case der_read_len_loop 0 (nat lenleft) sig of
               (None, sig) \<Rightarrow> (-1, sig)
             | (Some ret, sig) \<Rightarrow> if ret < 128 then (-1, sig) else (sint (ucast ret :: 32 word), sig)))))"

fun der_skip_zeros :: "nat \<Rightarrow> bytes \<Rightarrow> nat \<times> bytes" where
  "der_skip_zeros (Suc rlen) (b # sig) = (if b = 0 then der_skip_zeros rlen sig else (Suc rlen, b # sig))"
| "der_skip_zeros rlen sig = (rlen, sig)"

definition der_parse_integer :: "'sc scalar_ops \<Rightarrow> bytes \<Rightarrow> ('sc \<times> bytes) option" where
  "der_parse_integer S sig =
    (if sig = [] \<or> hd sig \<noteq> 0x02 then None
     else
      (let sig = tl sig;
           (rlen, sig) = der_read_len sig
       in if rlen \<le> 0 \<or> rlen > int (length sig) then None
          else if sig ! 0 = 0x00 \<and> rlen > 1 \<and> (sig ! 1) AND 0x80 = 0x00 then None
          else if sig ! 0 = 0xFF \<and> rlen > 1 \<and> (sig ! 1) AND 0x80 = 0x80 then None
          else
           (let overflow = ((sig ! 0) AND 0x80 = 0x80);
                (rlen, sig) = der_skip_zeros (nat rlen) sig;
                overflow = (overflow \<or> rlen > 32);
                (r, overflow) = (if \<not> overflow then so_set_b32 S (replicate (32 - rlen) 0 @ take rlen sig)
                                 else (so_set_int S 0, overflow));
                r = (if overflow then so_set_int S 0 else r)
            in Some (r, drop rlen sig))))"

definition ecdsa_sig_parse :: "'sc scalar_ops \<Rightarrow> bytes \<Rightarrow> ('sc \<times> 'sc) option" where
  "ecdsa_sig_parse S sig =
    (if sig = [] \<or> hd sig \<noteq> 0x30 then None
     else
      (let (rlen, sig) = der_read_len (tl sig) in
       if rlen < 0 \<or> rlen > int (length sig) then None
       else if rlen \<noteq> int (length sig) then None
       else
        (case der_parse_integer S sig of
           None \<Rightarrow> None
         | Some (rr, sig) \<Rightarrow>
            (case der_parse_integer S sig of
               None \<Rightarrow> None
             | Some (rs, sig) \<Rightarrow> if sig \<noteq> [] then None else Some (rr, rs)))))"

text \<open>Dropping leading zeros of an integer, as long as its sign bit stays clear.\<close>

fun der_strip :: "bytes \<Rightarrow> bytes" where
  "der_strip (a # b # r) = (if a = 0 \<and> b < 0x80 then der_strip (b # r) else a # b # r)"
| "der_strip r = r"

text \<open>The result is the return value, the size that was written or is needed, and the buffer.\<close>

definition ecdsa_sig_serialize :: "'sc scalar_ops \<Rightarrow> bytes \<Rightarrow> nat \<Rightarrow> 'sc \<Rightarrow> 'sc \<Rightarrow> bool \<times> nat \<times> bytes" where
  "ecdsa_sig_serialize S sig sigsize ar as =
    (let rp = der_strip (0 # so_get_b32 S ar);
         sp = der_strip (0 # so_get_b32 S as);
         lenR = length rp;
         lenS = length sp
     in if sigsize < 6 + lenS + lenR then (False, 6 + lenS + lenR, sig)
        else
         (let out = [0x30, of_nat (4 + lenS + lenR), 0x02, of_nat lenR] @ rp @ [0x02, of_nat lenS] @ sp
          in (True, 6 + lenS + lenR, out @ drop (6 + lenS + lenR) sig)))"

definition ecdsa_sig_verify ::
    "('fe, 'st) field_ops \<Rightarrow> 'sc scalar_ops \<Rightarrow> 'st ecmult_context \<Rightarrow> 'sc \<Rightarrow> 'sc \<Rightarrow> 'fe ge \<Rightarrow> 'sc \<Rightarrow> bool" where
  "ecdsa_sig_verify F S ctx sigr sigs pubkey message =
    (if so_is_zero S sigr \<or> so_is_zero S sigs then False
     else
      (let sn = scalar_inverse_var S sigs;
           u1 = so_mul S sn message;
           u2 = so_mul S sn sigr;
           pubkeyj = gej_set_ge F pubkey;
           pr = ecmult F S ctx (gej_local F) pubkeyj u2 u1
       in if gej_is_infinity pr then False
          else
           (let c = so_get_b32 S sigr;
                (xr, _) = fo_set_b32 F c
            in if gej_eq_x_var F xr pr then True
               else if fo_cmp_var F xr (ecdsa_const_p_minus_order F) \<ge> 0 then False
               else
                (let xr = fo_add F xr (ecdsa_const_order_as_fe F)
                 in gej_eq_x_var F xr pr))))"

text \<open>The result is the return value, \<open>r\<close>, \<open>s\<close> and the recovery id where it was asked for.\<close>

definition ecdsa_sig_sign ::
    "('fe, 'st) field_ops \<Rightarrow> 'sc scalar_ops \<Rightarrow> ('fe, 'st, 'sc) ecmult_gen_context \<Rightarrow> 'sc \<Rightarrow> 'sc \<Rightarrow> 'sc \<Rightarrow> int option \<Rightarrow>
     bool \<times> 'sc \<times> 'sc \<times> int option" where
  "ecdsa_sig_sign F S ctx seckey message nonce recid =
    (let rp = ecmult_gen F S ctx nonce;
         (r, rp) = ge_set_gej F rp;
         r = r\<lparr>ge_x := fo_normalize F (ge_x r)\<rparr>;
         r = r\<lparr>ge_y := fo_normalize F (ge_y r)\<rparr>;
         b = fo_get_b32 F (ge_x r);
         (sigr, overflow) = so_set_b32 S b;
         recid = map_option (\<lambda>_. (if overflow then 2 else 0) OR (if fo_is_odd F (ge_y r) then 1 else 0)) recid;
         n = so_mul S sigr seckey;
         n = fst (so_add S n message);
         sigs = scalar_inverse S nonce;
         sigs = so_mul S sigs n
     in if so_is_zero S sigs then (False, sigr, sigs, recid)
        else if so_is_high S sigs then (True, sigr, so_negate S sigs, map_option (\<lambda>v. v XOR 1) recid)
        else (True, sigr, sigs, recid))"

section \<open>The DER encoding of integers\<close>

lemma der_read_len_short: "b < 128 \<Longrightarrow> der_read_len (b # sig) = (uint b, sig)"
proof -
  assume "b < 128"
  then have u: "uint b < 128" by (simp add: word_less_def)
  then have "\<not> bit (uint b) 7" by (simp add: bit_iff_odd div_pos_pos_trivial)
  then have "uint b AND 128 = 0" using and_exp_eq_0_iff_not_bit[of "uint b" 7] by simp
  then show ?thesis using u by (simp add: der_read_len_def Let_def)
qed

lemma byte_top_bit: "b AND 0x80 = (0 :: 8 word) \<longleftrightarrow> b < 0x80" "b AND 0x80 = (0x80 :: 8 word) \<longleftrightarrow> \<not> b < 0x80"
proof -
  have "bit (uint b) 7 \<longleftrightarrow> \<not> uint b < 128"
  proof (cases "uint b < 128")
    case False
    then have "uint b div 128 = 1" using uint_u8_less[of b] by linarith
    then show ?thesis using False by (simp add: bit_iff_odd)
  qed (simp add: bit_iff_odd div_pos_pos_trivial)
  then have e: "bit b 7 \<longleftrightarrow> \<not> b < 0x80" by (simp add: bit_uint_iff word_less_def)
  have "b AND 2 ^ 7 = of_bool (bit b 7) * 2 ^ 7"
    by (rule bit_word_eqI) (simp del: power_numeral power.simps add: bit_and_iff bit_exp_iff, blast)
  then have "b AND 0x80 = of_bool (\<not> b < 0x80) * 0x80" unfolding e by simp
  then show "b AND 0x80 = 0 \<longleftrightarrow> b < 0x80" "b AND 0x80 = 0x80 \<longleftrightarrow> \<not> b < 0x80" by simp_all
qed

lemma be_val_zero_head: "be_val (0 # bs) = be_val bs"
  by (simp add: be_val_Cons)

lemma der_strip_props:
  assumes "l \<noteq> []" "hd l < 0x80"
  shows "der_strip l \<noteq> []" "hd (der_strip l) < 0x80" "be_val (der_strip l) = be_val l" "length (der_strip l) \<le> length l"
    "1 < length (der_strip l) \<Longrightarrow> der_strip l ! 0 = 0 \<Longrightarrow> \<not> der_strip l ! 1 < 0x80"
  using assms by (induction l rule: der_strip.induct) (auto simp: be_val_zero_head)

lemma der_skip_zeros_append:
  "der_skip_zeros (length p) (p @ rest) = (length (dropWhile (\<lambda>b. b = 0) p), dropWhile (\<lambda>b. b = 0) p @ rest)"
  by (induction p) simp_all

lemma be_val_dropWhile: "be_val (dropWhile (\<lambda>b. b = 0) p) = be_val p"
  by (induction p) (simp_all add: be_val_zero_head)

lemma be_val_replicate_zero: "be_val (replicate n 0 @ q) = be_val q"
  by (induction n) (simp_all add: be_val_zero_head)

lemma length_dropWhile_zero:
  assumes "be_val p < 256 ^ n"
  shows "length (dropWhile (\<lambda>b. b = 0) p) \<le> n"
proof (cases "dropWhile (\<lambda>b. b = 0) p")
  case (Cons b q)
  then have "b \<noteq> 0" using hd_dropWhile[of "\<lambda>b. b = 0" p] by simp
  then have "1 \<le> uint b" using uint_ge_0[of b] by (metis int_one_le_iff_zero_less order_le_less uint_0_iff)
  then have "256 ^ length q \<le> be_val (b # q)"
    unfolding be_val_Cons using mult_right_mono[of 1 "uint b" "256 ^ length q"] be_val_nonneg[of q]
    by (metis add_increasing2 mult_1 zero_le_numeral zero_le_power)
  also have "\<dots> < 256 ^ n" using assms be_val_dropWhile[of p] Cons by simp
  finally have "length q < n" using power_less_imp_less_exp[of "256 :: int"] by simp
  then show ?thesis using Cons by simp
qed (simp only: list.size le0)

context scalar_repr
begin

lemma der_parse_integer_strip:
  assumes a: "sval a < secp_n"
  defines "p \<equiv> der_strip (0 # so_get_b32 S a)"
  shows "der_parse_integer S (0x02 # of_nat (length p) # p @ rest) = Some (a, rest)" "length p \<le> 33" "1 \<le> length p"
proof -
  let ?q = "dropWhile (\<lambda>b. b = 0) p"
  have p: "p \<noteq> []" "hd p < 0x80" "be_val p = sval a" "length p \<le> 33" "1 < length p \<Longrightarrow> p ! 0 = 0 \<Longrightarrow> \<not> p ! 1 < 0x80"
    using der_strip_props[of "0 # so_get_b32 S a"] get_b32[of a] unfolding p_def by (simp_all add: be_val_zero_head)
  show "length p \<le> 33" by (rule p(4))
  show l1: "1 \<le> length p" using p(1) by (cases p) simp_all
  have "of_nat (length p) < (128 :: 8 word)" "uint (of_nat (length p) :: 8 word) = int (length p)"
    using p(4) by (simp_all add: word_less_def uint_nat unat_of_nat)
  then have rl: "der_read_len (of_nat (length p) # p @ rest) = (int (length p), p @ rest)"
    using der_read_len_short by simp
  have h: "(p @ rest) ! 0 = hd p" using p(1) by (simp add: nth_append hd_conv_nth)
  have h1: "1 < length p \<Longrightarrow> (p @ rest) ! 1 = p ! 1" by (simp add: nth_append)
  have n: "sval a < 256 ^ 32" using a by (simp add: secp_n_def)
  have q: "length ?q \<le> 32" using length_dropWhile_zero[of p 32] n p(3) by simp
  let ?b = "replicate (32 - length ?q) 0 @ ?q"
  have b: "length ?b = 32" "be_val ?b = sval a" using q p(3) by (simp_all add: be_val_replicate_zero be_val_dropWhile)
  have s: "so_set_b32 S ?b = (a, False)"
    using set_b32[OF b(1)] a val_nonneg[of a] val_inject[of "fst (so_set_b32 S ?b)" a] by (cases "so_set_b32 S ?b") (simp add: b(2))
  have g1: "\<not> ((p @ rest) ! 0 = 0 \<and> int (length p) > 1 \<and> (p @ rest) ! 1 AND 0x80 = 0)"
    using p(1,5) h h1 by (auto simp: byte_top_bit hd_conv_nth)
  have ff: "(p @ rest) ! 0 \<noteq> 0xFF" using p(2) unfolding h by (auto simp: word_less_def)
  have ov: "((p @ rest) ! 0 AND 0x80 = 0x80) = False" using p(2) unfolding h byte_top_bit by simp
  show "der_parse_integer S (0x02 # of_nat (length p) # p @ rest) = Some (a, rest)"
    unfolding der_parse_integer_def list.sel Let_def rl prod.case nat_int der_skip_zeros_append if_not_P[OF g1] ov
    using ff l1 p(1) q s by simp
qed

end

section \<open>Signatures\<close>

context scalar_repr
begin

lemma sig_serialize_parse:
  assumes r: "sval ar < secp_n" and s: "sval as < secp_n" and e: "ecdsa_sig_serialize S sig sigsize ar as = (ok, len, out)"
  shows "ok \<longleftrightarrow> len \<le> sigsize" "8 \<le> len" "len \<le> 72"
    "ok \<Longrightarrow> ecdsa_sig_parse S (take len out) = Some (ar, as)" "ok \<Longrightarrow> drop len out = drop len sig"
    "\<not> ok \<Longrightarrow> out = sig"
proof -
  define rp where "rp = der_strip (0 # so_get_b32 S ar)"
  define sp where "sp = der_strip (0 # so_get_b32 S as)"
  note R = der_parse_integer_strip[OF r, folded rp_def] and P = der_parse_integer_strip[OF s, folded sp_def]
  have len: "len = 6 + length sp + length rp" and ok: "ok \<longleftrightarrow> len \<le> sigsize"
    using e unfolding ecdsa_sig_serialize_def rp_def[symmetric] sp_def[symmetric] Let_def by (auto split: if_splits)
  show "ok \<longleftrightarrow> len \<le> sigsize" by (rule ok)
  show "8 \<le> len" "len \<le> 72" using len R(2,3) P(2,3) by linarith+
  show "\<not> ok \<Longrightarrow> out = sig"
    using e unfolding ecdsa_sig_serialize_def Let_def by (auto split: if_splits)
  let ?body = "0x02 # of_nat (length rp) # rp @ 0x02 # of_nat (length sp) # sp @ []"
  let ?der = "0x30 # of_nat (4 + length sp + length rp) # ?body"
  assume ok
  then have out: "out = ?der @ drop len sig"
    using e unfolding ecdsa_sig_serialize_def rp_def[symmetric] sp_def[symmetric] Let_def by (auto split: if_splits)
  have ld: "length ?der = len" using len by simp
  show "drop len out = drop len sig" unfolding out ld[symmetric] by simp
  have t: "take len out = ?der" unfolding out ld[symmetric] by simp
  have "of_nat (4 + length sp + length rp) < (128 :: 8 word)"
    "uint (of_nat (4 + length sp + length rp) :: 8 word) = int (length ?body)"
    using R(2) P(2) by (simp_all add: word_less_def uint_nat unat_of_nat del: of_nat_add)
  then have "der_read_len (of_nat (4 + length sp + length rp) # ?body) = (int (length ?body), ?body)"
    using der_read_len_short by simp
  then show "ecdsa_sig_parse S (take len out) = Some (ar, as)"
    unfolding t ecdsa_sig_parse_def list.sel Let_def by (simp only: prod.case R(1) P(1) option.case) simp
qed

end

text \<open>The first half of a signature depends on the nonce alone.\<close>

lemma ecdsa_sig_sign_r:
  "fst (snd (ecdsa_sig_sign F S ctx seckey message nonce recid))
     = fst (so_set_b32 S (fo_get_b32 F (fo_normalize F (ge_x (fst (ge_set_gej F (ecmult_gen F S ctx nonce)))))))"
  by (simp add: ecdsa_sig_sign_def Let_def split_beta)

lemma ecdsa_sig_sign_s:
  assumes "ecdsa_sig_sign F S ctx seckey message nonce recid = (ok, r, s, recid')"
    and s0: "s0 = so_mul S (scalar_inverse S nonce) (fst (so_add S (so_mul S r seckey) message))"
  shows "ok \<longleftrightarrow> \<not> so_is_zero S s0" "ok \<Longrightarrow> s = (if so_is_high S s0 then so_negate S s0 else s0)"
    "recid' = None \<longleftrightarrow> recid = None"
proof -
  define g where "g = fst (ge_set_gej F (ecmult_gen F S ctx nonce))"
  define ro where "ro = so_set_b32 S (fo_get_b32 F (fo_normalize F (ge_x g)))"
  have r: "r = fst ro" using ecdsa_sig_sign_r[of F S ctx seckey message nonce recid] assms(1) unfolding ro_def g_def by simp
  define i where "i = map_option (\<lambda>_. (if snd ro then 2 else 0) OR (if fo_is_odd F (fo_normalize F (ge_y g)) then 1 else (0 :: int))) recid"
  have "ecdsa_sig_sign F S ctx seckey message nonce recid =
    (if so_is_zero S s0 then (False, r, s0, i)
     else if so_is_high S s0 then (True, r, so_negate S s0, map_option (\<lambda>v. v XOR 1) i) else (True, r, s0, i))"
    unfolding s0 r i_def ro_def g_def ecdsa_sig_sign_def Let_def split_beta by simp
  from this[unfolded assms(1)] show "ok \<longleftrightarrow> \<not> so_is_zero S s0" "ok \<Longrightarrow> s = (if so_is_high S s0 then so_negate S s0 else s0)"
    "recid' = None \<longleftrightarrow> recid = None"
    by (simp_all add: i_def split: if_splits)
qed

context scalar_repr
begin

text \<open>The signing equation, for field operations that print 32 bytes.\<close>

lemma sig_sign_equation:
  assumes len: "\<And>a. length (fo_get_b32 F a) = 32"
    and k: "sval nonce < secp_n" "sval nonce \<noteq> 0" and d: "sval seckey < secp_n" and m: "sval message < secp_n"
    and e: "ecdsa_sig_sign F S ctx seckey message nonce recid = (ok, r, s, recid')"
  defines "z \<equiv> (sval message + sval r * sval seckey) mod secp_n"
  shows "sval r < secp_n" "ok \<longleftrightarrow> z \<noteq> 0"
    "ok \<Longrightarrow> 0 < sval s \<and> sval s \<le> secp_n div 2 \<and> (sval s * sval nonce mod secp_n = z \<or> sval s * sval nonce mod secp_n = (- z) mod secp_n)"
    "recid' = None \<longleftrightarrow> recid = None"
proof -
  define s0 where "s0 = so_mul S (scalar_inverse S nonce) (fst (so_add S (so_mul S r seckey) message))"
  have n: "0 < secp_n" by (simp add: secp_n_def)
  obtain b where r: "r = fst (so_set_b32 S (fo_get_b32 F b))"
    using ecdsa_sig_sign_r[of F S ctx seckey message nonce recid] e by auto
  note ok = ecdsa_sig_sign_s(1)[OF e s0_def] and s = ecdsa_sig_sign_s(2)[OF e s0_def] and rec = ecdsa_sig_sign_s(3)[OF e s0_def]
  show "recid' = None \<longleftrightarrow> recid = None" by (rule rec)
  show "sval r < secp_n" using set_b32[OF len[of b]] n r by simp
  have v: "sval (so_mul S r seckey) < secp_n" using n by (simp add: mul)
  have a: "sval (fst (so_add S (so_mul S r seckey) message)) = z"
    using add[OF v m] unfolding z_def by (simp add: mul mod_add_left_eq mod_add_right_eq add.commute)
  have s0v: "sval s0 = sval (scalar_inverse S nonce) * z mod secp_n" unfolding s0_def by (simp add: mul a)
  have s0k: "sval s0 * sval nonce mod secp_n = z"
  proof -
    have "sval s0 * sval nonce mod secp_n = (sval nonce * sval (scalar_inverse S nonce) mod secp_n) * z mod secp_n"
      unfolding s0v by (simp add: mod_mult_left_eq mod_mult_right_eq ac_simps)
    then show ?thesis using inverse_mult[OF k] unfolding z_def by simp
  qed
  have z0: "sval s0 = 0 \<longleftrightarrow> z = 0" using s0k s0v by auto
  then show okz: "ok \<longleftrightarrow> z \<noteq> 0" using ok is_zero by simp
  have lt: "sval s0 < secp_n" unfolding s0v using n by simp
  assume ok
  then have nz: "sval s0 \<noteq> 0" using z0 okz by simp
  show "0 < sval s \<and> sval s \<le> secp_n div 2 \<and> (sval s * sval nonce mod secp_n = z \<or> sval s * sval nonce mod secp_n = (- z) mod secp_n)"
  proof (cases "so_is_high S s0")
    case True
    then have "sval s = secp_n - sval s0" using s[OF \<open>ok\<close>] negate[OF lt] lt nz val_nonneg[of s0] by (simp add: zmod_zminus1_eq_if)
    moreover have "(- sval s0) * sval nonce mod secp_n = (- z) mod secp_n"
      using s0k by (metis mod_minus_eq mult_minus_left)
    then have "(secp_n - sval s0) * sval nonce mod secp_n = (- z) mod secp_n"
      by (metis add.commute diff_conv_add_uminus distrib_right mod_mult_self2 mult.commute)
    ultimately show ?thesis using True lt unfolding is_high by (simp add: secp_n_def)
  next
    case False
    then show ?thesis using s[OF \<open>ok\<close>] s0k nz val_nonneg[of s0] unfolding is_high by simp
  qed
qed

text \<open>With the key and the nonce one, the message zero or the message one can be signed.\<close>

lemma sig_sign_zero_or_one:
  assumes len: "\<And>a. length (fo_get_b32 F a) = 32" and u: "sval u = 1" and w: "sval w = 0"
    and e0: "ecdsa_sig_sign F S ctx u w u recid = (ok0, r0, s0, i0)" and e1: "ecdsa_sig_sign F S ctx u u u recid = (ok1, r1, s1, i1)"
  shows "ok0 \<or> ok1"
proof -
  have o: "sval u < secp_n" "sval w < secp_n" "sval u \<noteq> 0" unfolding u w by (simp_all add: secp_n_def)
  have "fst (snd (ecdsa_sig_sign F S ctx u w u recid)) = fst (snd (ecdsa_sig_sign F S ctx u u u recid))" by (simp only: ecdsa_sig_sign_r)
  then have r: "r1 = r0" unfolding e0 e1 by simp
  have m: "sval r0 mod secp_n = sval r0"
    using sig_sign_equation(1)[OF len o(1,3,1,2) e0] val_nonneg[of r0] by (intro mod_pos_pos_trivial)
  have "ok0 \<longleftrightarrow> sval r0 \<noteq> 0" "ok1 \<longleftrightarrow> (1 + sval r0) mod secp_n \<noteq> 0"
    using sig_sign_equation(2)[OF len o(1,3,1,2) e0] sig_sign_equation(2)[OF len o(1,3,1,1) e1]
    by (simp_all only: u w r m mult_1_right add_0)
  moreover have "(1 + 0) mod secp_n \<noteq> 0" by (simp add: secp_n_def)
  ultimately show ?thesis by metis
qed

end

lemma fe_get_b32_5x52_length: "length (fo_get_b32 fe_ops_5x52 a) = 32"
  by (simp add: fe_ops_5x52_def fe_get_b32_5x52_def)

section \<open>Properties of the instance\<close>

text \<open>C9: A signature that is written in DER form is at most 72 bytes long, is refused when the buffer is too
  small (leaving it unchanged), and is read back by the strict parser as the same pair of scalars.\<close>

theorem ecdsa_sig_der_roundtrip:
  assumes "sc_val_4x64 ar < secp_n" "sc_val_4x64 as < secp_n"
    and "ecdsa_sig_serialize scalar_ops_4x64 sig sigsize ar as = (ok, len, out)"
  shows "(ok \<longleftrightarrow> len \<le> sigsize) \<and> 8 \<le> len \<and> len \<le> 72
    \<and> (if ok then ecdsa_sig_parse scalar_ops_4x64 (take len out) = Some (ar, as) \<and> drop len out = drop len sig else out = sig)"
  using s64.sig_serialize_parse[OF assms] by simp

theorem ecdsa_sig_der_roundtrip_witness:
  "\<exists>len out. ecdsa_sig_serialize scalar_ops_4x64 (replicate 72 0) 72 (scalar_set_int_4x64 5) (scalar_set_int_4x64 200) = (True, len, out)
     \<and> ecdsa_sig_parse scalar_ops_4x64 (take len out) = Some (scalar_set_int_4x64 5, scalar_set_int_4x64 200)"
proof -
  let ?r = "scalar_set_int_4x64 5" and ?s = "scalar_set_int_4x64 200"
  have v: "sc_val_4x64 ?r < secp_n" "sc_val_4x64 ?s < secp_n" by (simp_all add: scalar_set_int_4x64_val secp_n_def)
  obtain ok len out where e: "ecdsa_sig_serialize scalar_ops_4x64 (replicate 72 0) 72 ?r ?s = (ok, len, out)"
    by (metis prod.exhaust)
  from ecdsa_sig_der_roundtrip[OF v e] have ok "ecdsa_sig_parse scalar_ops_4x64 (take len out) = Some (?r, ?s)" by auto
  then show ?thesis using e by auto
qed

text \<open>C4: Signing with a nonzero nonce \<open>k\<close> fails exactly when \<open>m + r d\<close> vanishes modulo the order; otherwise \<open>s\<close>
  is nonzero, lies in the lower half, and \<open>s k\<close> is \<open>m + r d\<close> up to sign.\<close>

theorem ecdsa_sig_sign_equation:
  assumes "sc_val_4x64 nonce < secp_n" "sc_val_4x64 nonce \<noteq> 0" "sc_val_4x64 seckey < secp_n" "sc_val_4x64 message < secp_n"
    and "ecdsa_sig_sign fe_ops_5x52 scalar_ops_4x64 ctx seckey message nonce recid = (ok, r, s, recid')"
    and "z = (sc_val_4x64 message + sc_val_4x64 r * sc_val_4x64 seckey) mod secp_n"
  shows "sc_val_4x64 r < secp_n \<and> (ok \<longleftrightarrow> z \<noteq> 0) \<and> (recid' = None \<longleftrightarrow> recid = None)
    \<and> (ok \<longrightarrow> 0 < sc_val_4x64 s \<and> sc_val_4x64 s \<le> secp_n div 2
        \<and> sc_val_4x64 s * sc_val_4x64 nonce mod secp_n \<in> {z, (- z) mod secp_n})"
  unfolding assms(6) using s64.sig_sign_equation[OF fe_get_b32_5x52_length assms(1-5)] by simp

theorem ecdsa_sig_sign_equation_witness:
  "\<exists>m r s recid. ecdsa_sig_sign fe_ops_5x52 scalar_ops_4x64 \<lparr>prec = None, blind = scalar_set_int_4x64 0, initial = gej_local fe_ops_5x52\<rparr>
      (scalar_set_int_4x64 1) m (scalar_set_int_4x64 1) None = (True, r, s, recid) \<and> 0 < sc_val_4x64 s \<and> sc_val_4x64 s \<le> secp_n div 2"
proof -
  let ?c = "\<lparr>prec = None, blind = scalar_set_int_4x64 0, initial = gej_local fe_ops_5x52\<rparr>"
  let ?sign = "\<lambda>m. ecdsa_sig_sign fe_ops_5x52 scalar_ops_4x64 ?c (scalar_set_int_4x64 1) m (scalar_set_int_4x64 1) None"
  have v: "sc_val_4x64 (scalar_set_int_4x64 1) = 1" "sc_val_4x64 (scalar_set_int_4x64 0) = 0" by (simp_all add: scalar_set_int_4x64_val)
  have o: "sc_val_4x64 (scalar_set_int_4x64 1) < secp_n" "sc_val_4x64 (scalar_set_int_4x64 0) < secp_n"
    "sc_val_4x64 (scalar_set_int_4x64 1) \<noteq> 0" unfolding v by (simp_all add: secp_n_def)
  obtain ok0 r0 s0 i0 where e0: "?sign (scalar_set_int_4x64 0) = (ok0, r0, s0, i0)" by (metis prod.exhaust)
  obtain ok1 r1 s1 i1 where e1: "?sign (scalar_set_int_4x64 1) = (ok1, r1, s1, i1)" by (metis prod.exhaust)
  note E0 = ecdsa_sig_sign_equation[OF o(1,3,1,2) e0 refl] and E1 = ecdsa_sig_sign_equation[OF o(1,3,1,1) e1 refl]
  consider ok0 | ok1 using s64.sig_sign_zero_or_one[OF fe_get_b32_5x52_length v e0 e1] by blast
  then show ?thesis
  proof cases
    case 1
    then have "?sign (scalar_set_int_4x64 0) = (True, r0, s0, i0)" using e0 by simp
    then show ?thesis using E0 1 by blast
  next
    case 2
    then have "?sign (scalar_set_int_4x64 1) = (True, r1, s1, i1)" using e1 by simp
    then show ?thesis using E1 2 by blast
  qed
qed

end
