(* ===== verification/Eckey.thy ===== *)
theory Eckey
  imports Ecmult
begin

text \<open>
  \<^verbatim>\<open>eckey_impl.h\<close>: parsing and printing of public keys, and the additive and multiplicative
  tweaks of keys.  The length of an input buffer is the length of its list.  A parse that fails
  has no result.
\<close>

section \<open>Definitions\<close>

definition eckey_pubkey_parse :: "('fe, 'st) field_ops \<Rightarrow> bytes \<Rightarrow> 'fe ge option" where
  "eckey_pubkey_parse F pub =
    (if length pub = 33 \<and> (pub ! 0 = 0x02 \<or> pub ! 0 = 0x03) then
      (let (x, ok) = fo_set_b32 F (take 32 (drop 1 pub)) in
       if \<not> ok then None
       else (let (elem, ok) = ge_set_xo_var F x (pub ! 0 = 0x03) in if ok then Some elem else None))
     else if length pub = 65 \<and> (pub ! 0 = 0x04 \<or> pub ! 0 = 0x06 \<or> pub ! 0 = 0x07) then
      (let (x, okx) = fo_set_b32 F (take 32 (drop 1 pub));
           (y, oky) = fo_set_b32 F (take 32 (drop 33 pub))
       in if \<not> okx \<or> \<not> oky then None
          else
           (let elem = ge_set_xy x y in
            if (pub ! 0 = 0x06 \<or> pub ! 0 = 0x07) \<and> fo_is_odd F y \<noteq> (pub ! 0 = 0x07) then None
            else if ge_is_valid_var F elem then Some elem else None))
     else None)"

text \<open>The result is the return value, the normalised element, the buffer and the size.\<close>

definition eckey_pubkey_serialize ::
    "('fe, 'st) field_ops \<Rightarrow> 'fe ge \<Rightarrow> bytes \<Rightarrow> nat \<Rightarrow> bool \<Rightarrow> bool \<times> 'fe ge \<times> bytes \<times> nat" where
  "eckey_pubkey_serialize F elem pub pubsize compressed =
    (if ge_is_infinity elem then (False, elem, pub, pubsize)
     else
      (let elem = elem\<lparr>ge_x := fo_normalize_var F (ge_x elem)\<rparr>;
           elem = elem\<lparr>ge_y := fo_normalize_var F (ge_y elem)\<rparr>;
           x = fo_get_b32 F (ge_x elem)
       in if compressed then
            (let b = 0x02 OR (if fo_is_odd F (ge_y elem) then 0x01 else 0x00)
             in (True, elem, [b] @ x @ drop 33 pub, 33))
          else (True, elem, [0x04] @ x @ fo_get_b32 F (ge_y elem) @ drop 65 pub, 65)))"

definition eckey_privkey_tweak_add :: "'sc scalar_ops \<Rightarrow> 'sc \<Rightarrow> 'sc \<Rightarrow> bool \<times> 'sc" where
  "eckey_privkey_tweak_add S key tweak =
    (let key = fst (so_add S key tweak) in
     if so_is_zero S key then (False, key) else (True, key))"

definition eckey_pubkey_tweak_add ::
    "('fe, 'st) field_ops \<Rightarrow> 'sc scalar_ops \<Rightarrow> 'st ecmult_context \<Rightarrow> 'fe ge \<Rightarrow> 'sc \<Rightarrow> bool \<times> 'fe ge" where
  "eckey_pubkey_tweak_add F S ctx key tweak =
    (let pt = gej_set_ge F key;
         one = so_set_int S 1;
         pt = ecmult F S ctx pt pt one tweak
     in if gej_is_infinity pt then (False, key) else (True, fst (ge_set_gej F pt)))"

definition eckey_privkey_tweak_mul :: "'sc scalar_ops \<Rightarrow> 'sc \<Rightarrow> 'sc \<Rightarrow> bool \<times> 'sc" where
  "eckey_privkey_tweak_mul S key tweak =
    (if so_is_zero S tweak then (False, key) else (True, so_mul S key tweak))"

definition eckey_pubkey_tweak_mul ::
    "('fe, 'st) field_ops \<Rightarrow> 'sc scalar_ops \<Rightarrow> 'st ecmult_context \<Rightarrow> 'fe ge \<Rightarrow> 'sc \<Rightarrow> bool \<times> 'fe ge" where
  "eckey_pubkey_tweak_mul F S ctx key tweak =
    (if so_is_zero S tweak then (False, key)
     else
      (let zero = so_set_int S 0;
           pt = gej_set_ge F key;
           pt = ecmult F S ctx pt pt tweak zero
       in (True, fst (ge_set_gej F pt))))"

section \<open>Printing and parsing public keys\<close>

text \<open>A square root is determined by the parity of its representative.\<close>

lemma fp_root_parity:
  assumes "0 \<le> u" "u < secp_p" "0 \<le> v" "v < secp_p" "(of_int u :: fp) * of_int u = of_int v * of_int v" "odd u = odd v"
  shows "u = v"
proof -
  have "((of_int u :: fp) - of_int v) * (of_int u + of_int v) = 0" using assms(5) by (simp add: algebra_simps)
  then consider "(of_int u :: fp) = of_int v" | "(of_int (u + v) :: fp) = of_int 0" by force
  then show ?thesis
  proof cases
    case 1
    then show ?thesis using assms(1-4) by (simp add: of_int_fp_eq_iff)
  next
    case 2
    then have "secp_p dvd u + v" unfolding of_int_fp_eq_iff by (simp add: dvd_eq_mod_eq_0)
    then obtain k where k: "u + v = secp_p * k" by blast
    have "even (secp_p * k)" using assms(6) unfolding k[symmetric] by simp
    then have ev: "even k" by (simp add: secp_p_def)
    have "0 \<le> secp_p * k" "secp_p * k < secp_p * 2" using assms(1-4) unfolding k[symmetric] by linarith+
    then have "0 \<le> k" "k < 2" by (simp_all add: secp_p_def)
    then have "k = 0" using ev by presburger
    then show ?thesis using k assms(1,3) by simp
  qed
qed

context field_repr
begin

lemma pubkey_serialize_parse:
  assumes w: "ge_wf fmag a" and i: "\<not> ge_infinity a" and c: "on_curve (ge_pt fabs a)"
    and s: "eckey_pubkey_serialize F a pub pubsize compressed = (ok, a', out, len)"
  shows "ok" "len = (if compressed then 33 else 65)" "drop len out = drop len pub"
    "\<exists>e. eckey_pubkey_parse F (take len out) = Some e \<and> ge_wf fmag e \<and> ge_pt fabs e = ge_pt fabs a"
proof -
  define x y where "x = fo_normalize F (ge_x a)" and "y = fo_normalize F (ge_y a)"
  have m: "fmag 31 (ge_x a)" "fmag 31 (ge_y a)" using w mag_mono[of 8 _ 31] by (simp_all add: ge_wf_def)
  have x: "fnorm x" "fabs x = fabs (ge_x a)" and y: "fnorm y" "fabs y = fabs (ge_y a)"
    using normalize[OF m(1)] normalize[OF m(2)] by (simp_all add: x_def y_def)
  have v: "fo_normalize_var F (ge_x a) = x" "fo_normalize_var F (ge_y a) = y"
    using normalize_var m by (simp_all add: x_def y_def)
  define t where "t = (if compressed then (if fo_is_odd F y then 0x03 else 0x02) # fo_get_b32 F x else 0x04 # fo_get_b32 F x @ fo_get_b32 F y)"
  have l: "length (fo_get_b32 F x) = 32" "length (fo_get_b32 F y) = 32" using get_b32 x y by simp_all
  have lt: "length t = (if compressed then 33 else 65)" by (simp add: t_def l)
  have r: "ok \<and> len = length t \<and> out = t @ drop len pub"
    using s i by (auto simp: eckey_pubkey_serialize_def ge_is_infinity_def v Let_def t_def l split: if_splits)
  then show "ok" "len = (if compressed then 33 else 65)" "drop len out = drop len pub" by (simp_all add: lt)
  have t: "take len out = t" using r by simp
  have b: "fo_set_b32 F (fo_get_b32 F x) = (x, True)" "fo_set_b32 F (fo_get_b32 F y) = (y, True)"
    using b32_roundtrip x y by simp_all
  have p: "ge_pt fabs a = Point (fpv fabs x) (fpv fabs y)" using i x y by (simp add: ge_pt_def fpv_def)
  have x8: "fmag 8 x" "fmag 8 y" using norm_mag_le x y by simp_all
  show "\<exists>e. eckey_pubkey_parse F (take len out) = Some e \<and> ge_wf fmag e \<and> ge_pt fabs e = ge_pt fabs a"
  proof (cases compressed)
    case True
    obtain e k where e: "ge_set_xo_var F x (fo_is_odd F y) = (e, k)" by fastforce
    note E = ge_set_xo_point[OF x8(1) e]
    have k: k unfolding E(1) using c p by auto
    have q: "ge_x e = x" "\<not> ge_infinity e" "ge_wf fmag e" "on_curve (ge_pt fabs e)" "odd (fabs (ge_y e)) = odd (fabs y)"
      using E(2)[OF k] is_odd[OF y(1)] by simp_all
    have "fabs (ge_y e) = fabs y"
      using q c p by (intro fp_root_parity abs_range) (simp_all add: ge_pt_def on_curve_def fpv_def)
    then have "ge_pt fabs e = ge_pt fabs a" unfolding p using q by (simp add: ge_pt_def fpv_def)
    moreover have "eckey_pubkey_parse F t = Some e"
      using e k b l by (cases "fo_is_odd F y") (simp_all add: eckey_pubkey_parse_def t_def True)
    ultimately show ?thesis using t q(3) by simp
  next
    case False
    let ?e = "ge_set_xy x y"
    have e: "ge_wf fmag ?e" "ge_pt fabs ?e = ge_pt fabs a" "\<not> ge_infinity ?e"
      using x8 p by (simp_all add: ge_set_xy_def ge_wf_def ge_pt_def)
    then have "ge_is_valid_var F ?e" using ge_is_valid_point[OF e(1)] c by simp
    then have "eckey_pubkey_parse F t = Some ?e" using b l by (simp add: eckey_pubkey_parse_def t_def False)
    then show ?thesis using t e by simp
  qed
qed

end

section \<open>Properties of the instance\<close>

text \<open>C40: A finite point of the curve that is printed, in 33 or in 65 bytes, is read back as the same point.\<close>

theorem eckey_pubkey_5x52_roundtrip:
  assumes "ge_wf fe_mag_5x52 a" "\<not> ge_infinity a" "on_curve (ge_pt fe_abs_5x52 a)"
    and "eckey_pubkey_serialize fe_ops_5x52 a pub pubsize compressed = (ok, a', out, len)"
  shows "ok \<and> len = (if compressed then 33 else 65) \<and> drop len out = drop len pub
    \<and> (\<exists>e. eckey_pubkey_parse fe_ops_5x52 (take len out) = Some e \<and> ge_wf fe_mag_5x52 e \<and> ge_pt fe_abs_5x52 e = ge_pt fe_abs_5x52 a)"
  using f52.pubkey_serialize_parse[OF assms] by blast

theorem eckey_pubkey_5x52_roundtrip_witness:
  "\<exists>out e. eckey_pubkey_serialize fe_ops_5x52 (ge_const_g fe_ops_5x52) (replicate 33 0) 33 True = (True, out)
     \<and> eckey_pubkey_parse fe_ops_5x52 (take 33 (fst (snd out))) = Some e
     \<and> ge_pt fe_abs_5x52 e = ge_pt fe_abs_5x52 (ge_const_g fe_ops_5x52)"
proof -
  obtain ok a' out len where s: "eckey_pubkey_serialize fe_ops_5x52 (ge_const_g fe_ops_5x52) (replicate 33 0) 33 True = (ok, a', out, len)"
    by (metis prod.exhaust)
  from eckey_pubkey_5x52_roundtrip[OF f52.const_g(1,3,2) s] show ?thesis unfolding s by auto
qed

end
