(* ===== verification/Secp256k1.thy ===== *)
theory Secp256k1
  imports Ecmult_Const Ecdsa Eckey
begin

text \<open>
  The public interface: \<^verbatim>\<open>secp256k1.c\<close>, the recovery and Diffie-Hellman modules, and the glue
  \<^verbatim>\<open>ext.h\<close> that the Go code calls.  A pointer argument that the code compares with NULL is an
  option.  A function returns its result code, its outputs, and the texts with which it called the
  illegal-argument callback, in order: the macro \<^verbatim>\<open>ARG_CHECK\<close> calls the callback and returns 0.
  What the callback does (the default one aborts) is outside the model.  Opaque structs hold the memory image of two field elements
  or two scalars (the branch of the code for representations of exactly that size), so they are
  modelled by those values.  A loop that may not end gives an option, None for no return.
\<close>

section \<open>Contexts\<close>

type_synonym 'a api = "bool \<times> 'a \<times> string list"

definition ARG_CHECK :: "bool \<Rightarrow> string \<Rightarrow> 'a \<Rightarrow> 'a api \<Rightarrow> 'a api" where
  "ARG_CHECK cond text out k = (if \<not> cond then (False, out, [text]) else k)"

text \<open>The same macro in front of code that may not return.\<close>

definition ARG_CHECK_loop :: "bool \<Rightarrow> string \<Rightarrow> 'a \<Rightarrow> 'a api option \<Rightarrow> 'a api option" where
  "ARG_CHECK_loop cond text out k = (if \<not> cond then Some (False, out, [text]) else k)"

datatype 'f callback_fn = default_illegal_callback_fn | default_error_callback_fn | user_callback_fn 'f

record ('f, 'd) callback =
  cb_fn :: "'f callback_fn"
  cb_data :: "'d option"

definition default_illegal_callback :: "('f, 'd) callback" where
  "default_illegal_callback = \<lparr>cb_fn = default_illegal_callback_fn, cb_data = None\<rparr>"

definition default_error_callback :: "('f, 'd) callback" where
  "default_error_callback = \<lparr>cb_fn = default_error_callback_fn, cb_data = None\<rparr>"

record ('fe, 'st, 'sc, 'f, 'd) secp256k1_context =
  ecmult_ctx :: "'st ecmult_context"
  ecmult_gen_ctx :: "('fe, 'st, 'sc) ecmult_gen_context"
  illegal_callback :: "('f, 'd) callback"
  error_callback :: "('f, 'd) callback"

definition FLAGS_TYPE_MASK :: u32 where "FLAGS_TYPE_MASK = push_bit 8 1 - 1"
definition FLAGS_TYPE_CONTEXT :: u32 where "FLAGS_TYPE_CONTEXT = push_bit 0 1"
definition FLAGS_TYPE_COMPRESSION :: u32 where "FLAGS_TYPE_COMPRESSION = push_bit 1 1"
definition FLAGS_BIT_CONTEXT_VERIFY :: u32 where "FLAGS_BIT_CONTEXT_VERIFY = push_bit 8 1"
definition FLAGS_BIT_CONTEXT_SIGN :: u32 where "FLAGS_BIT_CONTEXT_SIGN = push_bit 9 1"
definition FLAGS_BIT_COMPRESSION :: u32 where "FLAGS_BIT_COMPRESSION = push_bit 8 1"
definition CONTEXT_VERIFY :: u32 where "CONTEXT_VERIFY = FLAGS_TYPE_CONTEXT OR FLAGS_BIT_CONTEXT_VERIFY"
definition CONTEXT_SIGN :: u32 where "CONTEXT_SIGN = FLAGS_TYPE_CONTEXT OR FLAGS_BIT_CONTEXT_SIGN"
definition CONTEXT_NONE :: u32 where "CONTEXT_NONE = FLAGS_TYPE_CONTEXT"
definition EC_COMPRESSED :: u32 where "EC_COMPRESSED = FLAGS_TYPE_COMPRESSION OR FLAGS_BIT_COMPRESSION"
definition EC_UNCOMPRESSED :: u32 where "EC_UNCOMPRESSED = FLAGS_TYPE_COMPRESSION"

text \<open>The new context (None for NULL) and the callback texts; the outer option is None when the
  blinding of the signing table does not end.\<close>

definition context_create ::
    "('fe, 'st) field_ops \<Rightarrow> 'sc scalar_ops \<Rightarrow> u32 \<Rightarrow> (('fe, 'st, 'sc, 'f, 'd) secp256k1_context option \<times> string list) option" where
  "context_create F S flags =
    (if flags AND FLAGS_TYPE_MASK \<noteq> FLAGS_TYPE_CONTEXT then Some (None, [''Invalid flags''])
     else
      (let ecm = ecmult_context_init;
           gen = ecmult_gen_context_init \<lparr>prec = None, blind = so_set_int S 0, initial = gej_local F\<rparr>
       in case (if flags AND FLAGS_BIT_CONTEXT_SIGN \<noteq> 0 then ecmult_gen_context_build F S gen else Some gen) of
            None \<Rightarrow> None
          | Some gen \<Rightarrow>
             (let ecm = (if flags AND FLAGS_BIT_CONTEXT_VERIFY \<noteq> 0 then ecmult_context_build F ecm else ecm)
              in Some (Some \<lparr>ecmult_ctx = ecm, ecmult_gen_ctx = gen,
                   illegal_callback = default_illegal_callback, error_callback = default_error_callback\<rparr>, []))))"

definition context_clone ::
    "('fe, 'st) field_ops \<Rightarrow> 'sc scalar_ops \<Rightarrow> ('fe, 'st, 'sc, 'f, 'd) secp256k1_context \<Rightarrow> ('fe, 'st, 'sc, 'f, 'd) secp256k1_context" where
  "context_clone F S ctx =
    (let fresh = \<lparr>prec = None, blind = so_set_int S 0, initial = gej_local F\<rparr>
     in \<lparr>ecmult_ctx = ecmult_context_clone (ecmult_ctx ctx),
         ecmult_gen_ctx = ecmult_gen_context_clone fresh (ecmult_gen_ctx ctx),
         illegal_callback = illegal_callback ctx, error_callback = error_callback ctx\<rparr>)"

text \<open>What the memory of a context holds when \<^verbatim>\<open>context_destroy\<close> gives it back.\<close>

definition context_destroy ::
    "('fe, 'st) field_ops \<Rightarrow> 'sc scalar_ops \<Rightarrow> ('fe, 'st, 'sc, 'f, 'd) secp256k1_context option \<Rightarrow> ('fe, 'st, 'sc, 'f, 'd) secp256k1_context option" where
  "context_destroy F S ctx =
    (case ctx of
       None \<Rightarrow> None
     | Some ctx \<Rightarrow> Some (ctx\<lparr>ecmult_ctx := ecmult_context_clear (ecmult_ctx ctx),
         ecmult_gen_ctx := ecmult_gen_context_clear F S (ecmult_gen_ctx ctx)\<rparr>))"

definition context_set_illegal_callback ::
    "('fe, 'st, 'sc, 'f, 'd) secp256k1_context \<Rightarrow> 'f option \<Rightarrow> 'd option \<Rightarrow> ('fe, 'st, 'sc, 'f, 'd) secp256k1_context" where
  "context_set_illegal_callback ctx fn data =
    (let f = (case fn of None \<Rightarrow> default_illegal_callback_fn | Some g \<Rightarrow> user_callback_fn g)
     in ctx\<lparr>illegal_callback := \<lparr>cb_fn = f, cb_data = data\<rparr>\<rparr>)"

definition context_set_error_callback ::
    "('fe, 'st, 'sc, 'f, 'd) secp256k1_context \<Rightarrow> 'f option \<Rightarrow> 'd option \<Rightarrow> ('fe, 'st, 'sc, 'f, 'd) secp256k1_context" where
  "context_set_error_callback ctx fn data =
    (let f = (case fn of None \<Rightarrow> default_error_callback_fn | Some g \<Rightarrow> user_callback_fn g)
     in ctx\<lparr>error_callback := \<lparr>cb_fn = f, cb_data = data\<rparr>\<rparr>)"

definition context_randomize ::
    "('fe, 'st) field_ops \<Rightarrow> 'sc scalar_ops \<Rightarrow> ('fe, 'st, 'sc, 'f, 'd) secp256k1_context \<Rightarrow> bytes option \<Rightarrow>
     ('fe, 'st, 'sc, 'f, 'd) secp256k1_context api option" where
  "context_randomize F S ctx seed32 =
    ARG_CHECK_loop (ecmult_gen_context_is_built (ecmult_gen_ctx ctx))
      ''secp256k1_ecmult_gen_context_is_built(&ctx->ecmult_gen_ctx)'' ctx
     (case ecmult_gen_blind F S (ecmult_gen_ctx ctx) seed32 of
        None \<Rightarrow> None
      | Some gen \<Rightarrow> Some (True, ctx\<lparr>ecmult_gen_ctx := gen\<rparr>, []))"

section \<open>Public keys\<close>

definition storage_zero :: "('fe, 'st) field_ops \<Rightarrow> 'st ge_storage" where
  "storage_zero F = \<lparr>ges_x = fo_to_storage F (fo_set_int F 0), ges_y = fo_to_storage F (fo_set_int F 0)\<rparr>"

definition pubkey_load :: "('fe, 'st) field_ops \<Rightarrow> 'st ge_storage \<Rightarrow> 'fe ge api" where
  "pubkey_load F pubkey =
    (let ge = ge_from_storage F pubkey in
     ARG_CHECK (\<not> fo_is_zero F (ge_x ge)) ''!secp256k1_fe_is_zero(&ge->x)'' ge (True, ge, []))"

definition pubkey_save :: "('fe, 'st) field_ops \<Rightarrow> 'fe ge \<Rightarrow> 'st ge_storage" where
  "pubkey_save F ge = ge_to_storage F ge"

definition ec_pubkey_parse ::
    "('fe, 'st) field_ops \<Rightarrow> 'st ge_storage option \<Rightarrow> bytes option \<Rightarrow> 'st ge_storage option api" where
  "ec_pubkey_parse F pubkey input =
    ARG_CHECK (pubkey \<noteq> None) ''pubkey != NULL'' pubkey
     (let pubkey = Some (storage_zero F) in
      ARG_CHECK (input \<noteq> None) ''input != NULL'' pubkey
       (case eckey_pubkey_parse F (the input) of
          None \<Rightarrow> (False, pubkey, [])
        | Some Q \<Rightarrow> (True, Some (pubkey_save F Q), [])))"

definition ec_pubkey_serialize ::
    "('fe, 'st) field_ops \<Rightarrow> bytes option \<Rightarrow> nat option \<Rightarrow> 'st ge_storage option \<Rightarrow> u32 \<Rightarrow> (bytes option \<times> nat option) api" where
  "ec_pubkey_serialize F output outputlen pubkey flags =
    ARG_CHECK (outputlen \<noteq> None) ''outputlen != NULL'' (output, outputlen)
    (ARG_CHECK (the outputlen \<ge> (if flags AND FLAGS_BIT_COMPRESSION \<noteq> 0 then 33 else 65))
       ''*outputlen >= ((flags & SECP256K1_FLAGS_BIT_COMPRESSION) ? 33 : 65)'' (output, outputlen)
     (let len = the outputlen;
          outputlen = Some 0
      in ARG_CHECK (output \<noteq> None) ''output != NULL'' (output, outputlen)
         (let buf = replicate len 0 @ drop len (the output) in
          ARG_CHECK (pubkey \<noteq> None) ''pubkey != NULL'' (Some buf, outputlen)
          (ARG_CHECK (flags AND FLAGS_TYPE_MASK = FLAGS_TYPE_COMPRESSION)
             ''(flags & SECP256K1_FLAGS_TYPE_MASK) == SECP256K1_FLAGS_TYPE_COMPRESSION'' (Some buf, outputlen)
           (case pubkey_load F (the pubkey) of
              (False, Q, cb) \<Rightarrow> (False, (Some buf, outputlen), cb)
            | (True, Q, cb) \<Rightarrow>
               (case eckey_pubkey_serialize F Q buf len (flags AND FLAGS_BIT_COMPRESSION \<noteq> 0) of
                  (ret, Q, buf, len) \<Rightarrow> (ret, (Some buf, if ret then Some len else outputlen), cb)))))))"

definition ec_pubkey_create ::
    "('fe, 'st) field_ops \<Rightarrow> 'sc scalar_ops \<Rightarrow> ('fe, 'st, 'sc, 'f, 'd) secp256k1_context \<Rightarrow> 'st ge_storage option \<Rightarrow> bytes option \<Rightarrow>
     'st ge_storage option api" where
  "ec_pubkey_create F S ctx pubkey seckey =
    ARG_CHECK (pubkey \<noteq> None) ''pubkey != NULL'' pubkey
     (let pubkey = Some (storage_zero F) in
      ARG_CHECK (ecmult_gen_context_is_built (ecmult_gen_ctx ctx))
        ''secp256k1_ecmult_gen_context_is_built(&ctx->ecmult_gen_ctx)'' pubkey
      (ARG_CHECK (seckey \<noteq> None) ''seckey != NULL'' pubkey
       (let (sec, overflow) = so_set_b32 S (the seckey);
            ret = (\<not> overflow \<and> \<not> so_is_zero S sec)
        in if ret then
             (let pj = ecmult_gen F S (ecmult_gen_ctx ctx) sec;
                  p = fst (ge_set_gej F pj)
              in (True, Some (pubkey_save F p), []))
           else (False, pubkey, []))))"

definition ec_pubkey_tweak_add ::
    "('fe, 'st) field_ops \<Rightarrow> 'sc scalar_ops \<Rightarrow> ('fe, 'st, 'sc, 'f, 'd) secp256k1_context \<Rightarrow> 'st ge_storage option \<Rightarrow> bytes option \<Rightarrow>
     'st ge_storage option api" where
  "ec_pubkey_tweak_add F S ctx pubkey tweak =
    ARG_CHECK (ecmult_context_is_built (ecmult_ctx ctx)) ''secp256k1_ecmult_context_is_built(&ctx->ecmult_ctx)'' pubkey
    (ARG_CHECK (pubkey \<noteq> None) ''pubkey != NULL'' pubkey
    (ARG_CHECK (tweak \<noteq> None) ''tweak != NULL'' pubkey
     (let (term, overflow) = so_set_b32 S (the tweak);
          (ret, p, cb) = (if overflow then (False, ge_local F, []) else pubkey_load F (the pubkey));
          pubkey = Some (storage_zero F)
      in if ret then
           (let (ok, p) = eckey_pubkey_tweak_add F S (ecmult_ctx ctx) p term
            in if ok then (True, Some (pubkey_save F p), cb) else (False, pubkey, cb))
         else (False, pubkey, cb))))"

definition ec_pubkey_tweak_mul ::
    "('fe, 'st) field_ops \<Rightarrow> 'sc scalar_ops \<Rightarrow> ('fe, 'st, 'sc, 'f, 'd) secp256k1_context \<Rightarrow> 'st ge_storage option \<Rightarrow> bytes option \<Rightarrow>
     'st ge_storage option api" where
  "ec_pubkey_tweak_mul F S ctx pubkey tweak =
    ARG_CHECK (ecmult_context_is_built (ecmult_ctx ctx)) ''secp256k1_ecmult_context_is_built(&ctx->ecmult_ctx)'' pubkey
    (ARG_CHECK (pubkey \<noteq> None) ''pubkey != NULL'' pubkey
    (ARG_CHECK (tweak \<noteq> None) ''tweak != NULL'' pubkey
     (let (factor, overflow) = so_set_b32 S (the tweak);
          (ret, p, cb) = (if overflow then (False, ge_local F, []) else pubkey_load F (the pubkey));
          pubkey = Some (storage_zero F)
      in if ret then
           (let (ok, p) = eckey_pubkey_tweak_mul F S (ecmult_ctx ctx) p factor
            in if ok then (True, Some (pubkey_save F p), cb) else (False, pubkey, cb))
         else (False, pubkey, cb))))"

text \<open>The loop of \<^verbatim>\<open>ec_pubkey_combine\<close>: it goes on with the point that was loaded even when the
  loading called the callback.\<close>

fun pubkey_combine_loop ::
    "('fe, 'st) field_ops \<Rightarrow> 'st ge_storage list \<Rightarrow> 'fe gej \<Rightarrow> string list \<Rightarrow> 'fe gej \<times> string list" where
  "pubkey_combine_loop F [] Qj cb = (Qj, cb)"
| "pubkey_combine_loop F (p # ps) Qj cb =
    (case pubkey_load F p of (_, Q, cb') \<Rightarrow> pubkey_combine_loop F ps (gej_add_ge F Qj Q) (cb @ cb'))"

definition ec_pubkey_combine ::
    "('fe, 'st) field_ops \<Rightarrow> 'st ge_storage option \<Rightarrow> 'st ge_storage list option \<Rightarrow> nat \<Rightarrow> 'st ge_storage option api" where
  "ec_pubkey_combine F pubnonce pubnonces n =
    ARG_CHECK (pubnonce \<noteq> None) ''pubnonce != NULL'' pubnonce
     (let pubnonce = Some (storage_zero F) in
      ARG_CHECK (n \<ge> 1) ''n >= 1'' pubnonce
      (ARG_CHECK (pubnonces \<noteq> None) ''pubnonces != NULL'' pubnonce
       (let (Qj, cb) = pubkey_combine_loop F (take n (the pubnonces)) (gej_set_infinity F (gej_local F)) []
        in if gej_is_infinity Qj then (False, pubnonce, cb)
           else (True, Some (pubkey_save F (fst (ge_set_gej F Qj))), cb))))"

section \<open>Secret keys\<close>

definition ec_seckey_verify :: "'sc scalar_ops \<Rightarrow> bytes option \<Rightarrow> unit api" where
  "ec_seckey_verify S seckey =
    ARG_CHECK (seckey \<noteq> None) ''seckey != NULL'' ()
     (let (sec, overflow) = so_set_b32 S (the seckey)
      in (\<not> overflow \<and> \<not> so_is_zero S sec, (), []))"

definition ec_privkey_tweak_add :: "'sc scalar_ops \<Rightarrow> bytes option \<Rightarrow> bytes option \<Rightarrow> bytes option api" where
  "ec_privkey_tweak_add S seckey tweak =
    ARG_CHECK (seckey \<noteq> None) ''seckey != NULL'' seckey
    (ARG_CHECK (tweak \<noteq> None) ''tweak != NULL'' seckey
     (let (term, overflow) = so_set_b32 S (the tweak);
          (sec, _) = so_set_b32 S (the seckey);
          (ok, sec) = (if overflow then (False, sec) else eckey_privkey_tweak_add S sec term);
          ret = (\<not> overflow \<and> ok);
          seckey = replicate 32 0;
          seckey = (if ret then so_get_b32 S sec else seckey)
      in (ret, Some seckey, [])))"

definition ec_privkey_tweak_mul :: "'sc scalar_ops \<Rightarrow> bytes option \<Rightarrow> bytes option \<Rightarrow> bytes option api" where
  "ec_privkey_tweak_mul S seckey tweak =
    ARG_CHECK (seckey \<noteq> None) ''seckey != NULL'' seckey
    (ARG_CHECK (tweak \<noteq> None) ''tweak != NULL'' seckey
     (let (factor, overflow) = so_set_b32 S (the tweak);
          (sec, _) = so_set_b32 S (the seckey);
          (ok, sec) = (if overflow then (False, sec) else eckey_privkey_tweak_mul S sec factor);
          ret = (\<not> overflow \<and> ok);
          seckey = replicate 32 0;
          seckey = (if ret then so_get_b32 S sec else seckey)
      in (ret, Some seckey, [])))"

section \<open>Signatures\<close>

record 'sc ecdsa_signature =
  sig_r :: 'sc
  sig_s :: 'sc

definition ecdsa_signature_zero :: "'sc scalar_ops \<Rightarrow> 'sc ecdsa_signature" where
  "ecdsa_signature_zero S = \<lparr>sig_r = so_set_int S 0, sig_s = so_set_int S 0\<rparr>"

definition ecdsa_signature_load :: "'sc ecdsa_signature \<Rightarrow> 'sc \<times> 'sc" where
  "ecdsa_signature_load sig = (sig_r sig, sig_s sig)"

definition ecdsa_signature_save :: "'sc \<Rightarrow> 'sc \<Rightarrow> 'sc ecdsa_signature" where
  "ecdsa_signature_save r s = \<lparr>sig_r = r, sig_s = s\<rparr>"

definition ecdsa_signature_parse_der ::
    "'sc scalar_ops \<Rightarrow> 'sc ecdsa_signature option \<Rightarrow> bytes option \<Rightarrow> 'sc ecdsa_signature option api" where
  "ecdsa_signature_parse_der S sig input =
    ARG_CHECK (sig \<noteq> None) ''sig != NULL'' sig
    (ARG_CHECK (input \<noteq> None) ''input != NULL'' sig
     (case ecdsa_sig_parse S (the input) of
        Some (r, s) \<Rightarrow> (True, Some (ecdsa_signature_save r s), [])
      | None \<Rightarrow> (False, Some (ecdsa_signature_zero S), [])))"

definition ecdsa_signature_parse_compact ::
    "'sc scalar_ops \<Rightarrow> 'sc ecdsa_signature option \<Rightarrow> bytes option \<Rightarrow> 'sc ecdsa_signature option api" where
  "ecdsa_signature_parse_compact S sig input64 =
    ARG_CHECK (sig \<noteq> None) ''sig != NULL'' sig
    (ARG_CHECK (input64 \<noteq> None) ''input64 != NULL'' sig
     (let ret = True;
          (r, overflow) = so_set_b32 S (take 32 (the input64));
          ret = (ret \<and> \<not> overflow);
          (s, overflow) = so_set_b32 S (take 32 (drop 32 (the input64)));
          ret = (ret \<and> \<not> overflow)
      in if ret then (True, Some (ecdsa_signature_save r s), [])
         else (False, Some (ecdsa_signature_zero S), [])))"

definition ecdsa_signature_serialize_der ::
    "'sc scalar_ops \<Rightarrow> bytes option \<Rightarrow> nat option \<Rightarrow> 'sc ecdsa_signature option \<Rightarrow> (bytes option \<times> nat option) api" where
  "ecdsa_signature_serialize_der S output outputlen sig =
    ARG_CHECK (output \<noteq> None) ''output != NULL'' (output, outputlen)
    (ARG_CHECK (outputlen \<noteq> None) ''outputlen != NULL'' (output, outputlen)
    (ARG_CHECK (sig \<noteq> None) ''sig != NULL'' (output, outputlen)
     (let (r, s) = ecdsa_signature_load (the sig);
          (ret, size, buf) = ecdsa_sig_serialize S (the output) (the outputlen) r s
      in (ret, (Some buf, Some size), []))))"

definition ecdsa_signature_serialize_compact ::
    "'sc scalar_ops \<Rightarrow> bytes option \<Rightarrow> 'sc ecdsa_signature option \<Rightarrow> bytes option api" where
  "ecdsa_signature_serialize_compact S output64 sig =
    ARG_CHECK (output64 \<noteq> None) ''output64 != NULL'' output64
    (ARG_CHECK (sig \<noteq> None) ''sig != NULL'' output64
     (let (r, s) = ecdsa_signature_load (the sig)
      in (True, Some (so_get_b32 S r @ so_get_b32 S s @ drop 64 (the output64)), [])))"

definition ecdsa_signature_normalize ::
    "'sc scalar_ops \<Rightarrow> 'sc ecdsa_signature option \<Rightarrow> 'sc ecdsa_signature option \<Rightarrow> 'sc ecdsa_signature option api" where
  "ecdsa_signature_normalize S sigout sigin =
    ARG_CHECK (sigin \<noteq> None) ''sigin != NULL'' sigout
     (let (r, s) = ecdsa_signature_load (the sigin);
          ret = so_is_high S s
      in if sigout \<noteq> None then
           (let s = (if ret then so_negate S s else s) in (ret, Some (ecdsa_signature_save r s), []))
         else (ret, sigout, []))"

definition ecdsa_verify ::
    "('fe, 'st) field_ops \<Rightarrow> 'sc scalar_ops \<Rightarrow> ('fe, 'st, 'sc, 'f, 'd) secp256k1_context \<Rightarrow> 'sc ecdsa_signature option \<Rightarrow>
     bytes option \<Rightarrow> 'st ge_storage option \<Rightarrow> unit api" where
  "ecdsa_verify F S ctx sig msg32 pubkey =
    ARG_CHECK (ecmult_context_is_built (ecmult_ctx ctx)) ''secp256k1_ecmult_context_is_built(&ctx->ecmult_ctx)'' ()
    (ARG_CHECK (msg32 \<noteq> None) ''msg32 != NULL'' ()
    (ARG_CHECK (sig \<noteq> None) ''sig != NULL'' ()
    (ARG_CHECK (pubkey \<noteq> None) ''pubkey != NULL'' ()
     (let (m, _) = so_set_b32 S (the msg32);
          (r, s) = ecdsa_signature_load (the sig)
      in if so_is_high S s then (False, (), [])
         else
          (case pubkey_load F (the pubkey) of
             (False, q, cb) \<Rightarrow> (False, (), cb)
           | (True, q, cb) \<Rightarrow> (ecdsa_sig_verify F S (ecmult_ctx ctx) r s q m, (), cb))))))"

text \<open>The loop of the nonce function runs while \<open>i \<le> counter\<close> on unsigned 32-bit numbers.\<close>

partial_function (option) nonce_function_rfc6979_loop ::
    "u32 \<Rightarrow> u32 \<Rightarrow> rfc6979_hmac_sha256_t \<Rightarrow> bytes \<Rightarrow> bytes option" where
  "nonce_function_rfc6979_loop counter i rng nonce32 =
    (if i \<le> counter then
      (case rfc6979_hmac_sha256_generate rng 32 of
         None \<Rightarrow> None
       | Some (rng, nonce32) \<Rightarrow> nonce_function_rfc6979_loop counter (i + 1) rng nonce32)
     else Some nonce32)"

definition nonce_function_rfc6979 ::
    "bytes \<Rightarrow> bytes \<Rightarrow> bytes \<Rightarrow> bytes option \<Rightarrow> bytes option \<Rightarrow> u32 \<Rightarrow> (bool \<times> bytes) option" where
  "nonce_function_rfc6979 nonce32 msg32 key32 algo16 data counter =
    (let keydata = take 32 key32 @ take 32 msg32;
         keydata = (case data of None \<Rightarrow> keydata | Some d \<Rightarrow> keydata @ take 32 d);
         keydata = (case algo16 of None \<Rightarrow> keydata | Some a \<Rightarrow> keydata @ take 16 a);
         rng = rfc6979_hmac_sha256_initialize keydata
     in map_option (\<lambda>out. (True, out)) (nonce_function_rfc6979_loop counter 0 rng nonce32))"

type_synonym nonce_fn = "bytes \<Rightarrow> bytes \<Rightarrow> bytes \<Rightarrow> bytes option \<Rightarrow> bytes option \<Rightarrow> u32 \<Rightarrow> (bool \<times> bytes) option"

definition nonce_function_default :: nonce_fn where
  "nonce_function_default = nonce_function_rfc6979"

text \<open>The signing loop, with the recovery id where one was asked for.  The result is None when the
  loop (or the nonce function) does not return, \<open>Some None\<close> when the nonce function gave up.\<close>

partial_function (option) ecdsa_sign_loop ::
    "('fe, 'st) field_ops \<Rightarrow> 'sc scalar_ops \<Rightarrow> ('fe, 'st, 'sc) ecmult_gen_context \<Rightarrow> nonce_fn \<Rightarrow> bytes \<Rightarrow> bytes \<Rightarrow>
     bytes option \<Rightarrow> 'sc \<Rightarrow> 'sc \<Rightarrow> int option \<Rightarrow> bytes \<Rightarrow> u32 \<Rightarrow> ('sc \<times> 'sc \<times> int option) option option" where
  "ecdsa_sign_loop F S gctx noncefp msg32 seckey noncedata sec msg recid nonce32 count =
    (case noncefp nonce32 msg32 seckey None noncedata count of
       None \<Rightarrow> None
     | Some (ret, nonce32) \<Rightarrow>
        if \<not> ret then Some None
        else
         (let (non, overflow) = so_set_b32 S nonce32 in
          if \<not> overflow \<and> \<not> so_is_zero S non then
            (case ecdsa_sig_sign F S gctx sec msg non recid of (ok, r, s, recid) \<Rightarrow>
               if ok then Some (Some (r, s, recid))
               else ecdsa_sign_loop F S gctx noncefp msg32 seckey noncedata sec msg recid nonce32 (count + 1))
          else ecdsa_sign_loop F S gctx noncefp msg32 seckey noncedata sec msg recid nonce32 (count + 1)))"

definition ecdsa_sign ::
    "('fe, 'st) field_ops \<Rightarrow> 'sc scalar_ops \<Rightarrow> ('fe, 'st, 'sc, 'f, 'd) secp256k1_context \<Rightarrow> 'sc ecdsa_signature option \<Rightarrow>
     bytes option \<Rightarrow> bytes option \<Rightarrow> nonce_fn option \<Rightarrow> bytes option \<Rightarrow> 'sc ecdsa_signature option api option" where
  "ecdsa_sign F S ctx signature msg32 seckey noncefp noncedata =
    ARG_CHECK_loop (ecmult_gen_context_is_built (ecmult_gen_ctx ctx))
      ''secp256k1_ecmult_gen_context_is_built(&ctx->ecmult_gen_ctx)'' signature
    (ARG_CHECK_loop (msg32 \<noteq> None) ''msg32 != NULL'' signature
    (ARG_CHECK_loop (signature \<noteq> None) ''signature != NULL'' signature
    (ARG_CHECK_loop (seckey \<noteq> None) ''seckey != NULL'' signature
     (let noncefp = (case noncefp of None \<Rightarrow> nonce_function_default | Some f \<Rightarrow> f);
          (sec, overflow) = so_set_b32 S (the seckey)
      in if \<not> overflow \<and> \<not> so_is_zero S sec then
           (let (msg, _) = so_set_b32 S (the msg32) in
            case ecdsa_sign_loop F S (ecmult_gen_ctx ctx) noncefp (the msg32) (the seckey) noncedata sec msg None
                   (replicate 32 0) 0 of
              None \<Rightarrow> None
            | Some None \<Rightarrow> Some (False, Some (ecdsa_signature_zero S), [])
            | Some (Some (r, s, _)) \<Rightarrow> Some (True, Some (ecdsa_signature_save r s), []))
         else Some (False, Some (ecdsa_signature_zero S), [])))))"

section \<open>Recoverable signatures\<close>

record 'sc ecdsa_recoverable_signature =
  rsig_r :: 'sc
  rsig_s :: 'sc
  rsig_recid :: u8

definition ecdsa_recoverable_signature_zero :: "'sc scalar_ops \<Rightarrow> 'sc ecdsa_recoverable_signature" where
  "ecdsa_recoverable_signature_zero S = \<lparr>rsig_r = so_set_int S 0, rsig_s = so_set_int S 0, rsig_recid = 0\<rparr>"

definition ecdsa_recoverable_signature_load :: "'sc ecdsa_recoverable_signature \<Rightarrow> 'sc \<times> 'sc \<times> int" where
  "ecdsa_recoverable_signature_load sig = (rsig_r sig, rsig_s sig, uint (rsig_recid sig))"

definition ecdsa_recoverable_signature_save :: "'sc \<Rightarrow> 'sc \<Rightarrow> int \<Rightarrow> 'sc ecdsa_recoverable_signature" where
  "ecdsa_recoverable_signature_save r s recid = \<lparr>rsig_r = r, rsig_s = s, rsig_recid = word_of_int recid\<rparr>"

definition ecdsa_recoverable_signature_parse_compact ::
    "'sc scalar_ops \<Rightarrow> 'sc ecdsa_recoverable_signature option \<Rightarrow> bytes option \<Rightarrow> int \<Rightarrow> 'sc ecdsa_recoverable_signature option api" where
  "ecdsa_recoverable_signature_parse_compact S sig input64 recid =
    ARG_CHECK (sig \<noteq> None) ''sig != NULL'' sig
    (ARG_CHECK (input64 \<noteq> None) ''input64 != NULL'' sig
    (ARG_CHECK (recid \<ge> 0 \<and> recid \<le> 3) ''recid >= 0 && recid <= 3'' sig
     (let ret = True;
          (r, overflow) = so_set_b32 S (take 32 (the input64));
          ret = (ret \<and> \<not> overflow);
          (s, overflow) = so_set_b32 S (take 32 (drop 32 (the input64)));
          ret = (ret \<and> \<not> overflow)
      in if ret then (True, Some (ecdsa_recoverable_signature_save r s recid), [])
         else (False, Some (ecdsa_recoverable_signature_zero S), []))))"

definition ecdsa_recoverable_signature_serialize_compact ::
    "'sc scalar_ops \<Rightarrow> bytes option \<Rightarrow> int option \<Rightarrow> 'sc ecdsa_recoverable_signature option \<Rightarrow> (bytes option \<times> int option) api" where
  "ecdsa_recoverable_signature_serialize_compact S output64 recid sig =
    ARG_CHECK (output64 \<noteq> None) ''output64 != NULL'' (output64, recid)
    (ARG_CHECK (sig \<noteq> None) ''sig != NULL'' (output64, recid)
    (ARG_CHECK (recid \<noteq> None) ''recid != NULL'' (output64, recid)
     (let (r, s, rid) = ecdsa_recoverable_signature_load (the sig)
      in (True, (Some (so_get_b32 S r @ so_get_b32 S s @ drop 64 (the output64)), Some rid), []))))"

definition ecdsa_recoverable_signature_convert ::
    "'sc ecdsa_signature option \<Rightarrow> 'sc ecdsa_recoverable_signature option \<Rightarrow> 'sc ecdsa_signature option api" where
  "ecdsa_recoverable_signature_convert sig sigin =
    ARG_CHECK (sig \<noteq> None) ''sig != NULL'' sig
    (ARG_CHECK (sigin \<noteq> None) ''sigin != NULL'' sig
     (let (r, s, recid) = ecdsa_recoverable_signature_load (the sigin)
      in (True, Some (ecdsa_signature_save r s), [])))"

text \<open>The result is the return value and the public key, which is written only when the last
  step is reached.\<close>

definition ecdsa_sig_recover ::
    "('fe, 'st) field_ops \<Rightarrow> 'sc scalar_ops \<Rightarrow> 'st ecmult_context \<Rightarrow> 'sc \<Rightarrow> 'sc \<Rightarrow> 'fe ge \<Rightarrow> 'sc \<Rightarrow> int \<Rightarrow> bool \<times> 'fe ge" where
  "ecdsa_sig_recover F S ctx sigr sigs pubkey message recid =
    (if so_is_zero S sigr \<or> so_is_zero S sigs then (False, pubkey)
     else
      (let brx = so_get_b32 S sigr;
           (fx, _) = fo_set_b32 F brx
       in if recid AND 2 \<noteq> 0 \<and> fo_cmp_var F fx (ecdsa_const_p_minus_order F) \<ge> 0 then (False, pubkey)
          else
           (let fx = (if recid AND 2 \<noteq> 0 then fo_add F fx (ecdsa_const_order_as_fe F) else fx);
                (x, ok) = ge_set_xo_var F fx (recid AND 1 \<noteq> 0)
            in if \<not> ok then (False, pubkey)
               else
                (let xj = gej_set_ge F x;
                     rn = scalar_inverse_var S sigr;
                     u1 = so_mul S rn message;
                     u1 = so_negate S u1;
                     u2 = so_mul S rn sigs;
                     qj = ecmult F S ctx (gej_local F) xj u2 u1;
                     (pubkey, qj) = ge_set_gej_var F pubkey qj
                 in (\<not> gej_is_infinity qj, pubkey)))))"

definition ecdsa_sign_recoverable ::
    "('fe, 'st) field_ops \<Rightarrow> 'sc scalar_ops \<Rightarrow> ('fe, 'st, 'sc, 'f, 'd) secp256k1_context \<Rightarrow> 'sc ecdsa_recoverable_signature option \<Rightarrow>
     bytes option \<Rightarrow> bytes option \<Rightarrow> nonce_fn option \<Rightarrow> bytes option \<Rightarrow> 'sc ecdsa_recoverable_signature option api option" where
  "ecdsa_sign_recoverable F S ctx signature msg32 seckey noncefp noncedata =
    ARG_CHECK_loop (ecmult_gen_context_is_built (ecmult_gen_ctx ctx))
      ''secp256k1_ecmult_gen_context_is_built(&ctx->ecmult_gen_ctx)'' signature
    (ARG_CHECK_loop (msg32 \<noteq> None) ''msg32 != NULL'' signature
    (ARG_CHECK_loop (signature \<noteq> None) ''signature != NULL'' signature
    (ARG_CHECK_loop (seckey \<noteq> None) ''seckey != NULL'' signature
     (let noncefp = (case noncefp of None \<Rightarrow> nonce_function_default | Some f \<Rightarrow> f);
          (sec, overflow) = so_set_b32 S (the seckey)
      in if \<not> overflow \<and> \<not> so_is_zero S sec then
           (let (msg, _) = so_set_b32 S (the msg32) in
            case ecdsa_sign_loop F S (ecmult_gen_ctx ctx) noncefp (the msg32) (the seckey) noncedata sec msg (Some 0)
                   (replicate 32 0) 0 of
              None \<Rightarrow> None
            | Some None \<Rightarrow> Some (False, Some (ecdsa_recoverable_signature_zero S), [])
            | Some (Some (r, s, recid)) \<Rightarrow> Some (True, Some (ecdsa_recoverable_signature_save r s (the recid)), []))
         else Some (False, Some (ecdsa_recoverable_signature_zero S), [])))))"

definition ecdsa_recover ::
    "('fe, 'st) field_ops \<Rightarrow> 'sc scalar_ops \<Rightarrow> ('fe, 'st, 'sc, 'f, 'd) secp256k1_context \<Rightarrow> 'st ge_storage option \<Rightarrow>
     'sc ecdsa_recoverable_signature option \<Rightarrow> bytes option \<Rightarrow> 'st ge_storage option api" where
  "ecdsa_recover F S ctx pubkey signature msg32 =
    ARG_CHECK (ecmult_context_is_built (ecmult_ctx ctx)) ''secp256k1_ecmult_context_is_built(&ctx->ecmult_ctx)'' pubkey
    (ARG_CHECK (msg32 \<noteq> None) ''msg32 != NULL'' pubkey
    (ARG_CHECK (signature \<noteq> None) ''signature != NULL'' pubkey
    (ARG_CHECK (pubkey \<noteq> None) ''pubkey != NULL'' pubkey
     (let (r, s, recid) = ecdsa_recoverable_signature_load (the signature);
          (m, _) = so_set_b32 S (the msg32);
          (ok, q) = ecdsa_sig_recover F S (ecmult_ctx ctx) r s (ge_local F) m recid
      in if ok then (True, Some (pubkey_save F q), []) else (False, Some (storage_zero F), [])))))"

section \<open>Diffie-Hellman\<close>

definition ecdh ::
    "('fe, 'st) field_ops \<Rightarrow> 'sc scalar_ops \<Rightarrow> bytes option \<Rightarrow> 'st ge_storage option \<Rightarrow> bytes option \<Rightarrow> bytes option api" where
  "ecdh F S result point scalar =
    ARG_CHECK (result \<noteq> None) ''result != NULL'' result
    (ARG_CHECK (point \<noteq> None) ''point != NULL'' result
    (ARG_CHECK (scalar \<noteq> None) ''scalar != NULL'' result
     (let (_, pt, cb) = pubkey_load F (the point);
          (s, overflow) = so_set_b32 S (the scalar)
      in if overflow \<or> so_is_zero S s then (False, result, cb)
         else
          (let res = ecmult_const F S pt s;
               (pt, res) = ge_set_gej F res;
               pt = pt\<lparr>ge_x := fo_normalize F (ge_x pt)\<rparr>;
               pt = pt\<lparr>ge_y := fo_normalize F (ge_y pt)\<rparr>;
               x = fo_get_b32 F (ge_x pt);
               y = [0x02 OR (if fo_is_odd F (ge_y pt) then 1 else 0)];
               sha = sha256_initialize sha256_stack;
               sha = sha256_write sha y;
               sha = sha256_write sha x;
               (sha, digest) = sha256_finalize sha
           in (True, Some digest, cb)))))"

section \<open>The functions of ext.h\<close>

definition context_create_sign_verify ::
    "('fe, 'st) field_ops \<Rightarrow> 'sc scalar_ops \<Rightarrow> (('fe, 'st, 'sc, 'f, 'd) secp256k1_context option \<times> string list) option" where
  "context_create_sign_verify F S = context_create F S (CONTEXT_SIGN OR CONTEXT_VERIFY)"

definition ext_ecdsa_recover ::
    "('fe, 'st) field_ops \<Rightarrow> 'sc scalar_ops \<Rightarrow> ('fe, 'st, 'sc, 'f, 'd) secp256k1_context \<Rightarrow> bytes \<Rightarrow> bytes \<Rightarrow> bytes \<Rightarrow> bytes api" where
  "ext_ecdsa_recover F S ctx pubkey_out sigdata msgdata =
    (case ecdsa_recoverable_signature_parse_compact S (Some (ecdsa_recoverable_signature_zero S)) (Some sigdata)
            (uint (sigdata ! 64)) of
       (False, sig, cb) \<Rightarrow> (False, pubkey_out, cb)
     | (True, sig, cb) \<Rightarrow>
        (case ecdsa_recover F S ctx (Some (storage_zero F)) sig (Some msgdata) of
           (False, pubkey, cb') \<Rightarrow> (False, pubkey_out, cb @ cb')
         | (True, pubkey, cb') \<Rightarrow>
            (case ec_pubkey_serialize F (Some pubkey_out) (Some 65) pubkey EC_UNCOMPRESSED of
               (ret, (out, outputlen), cb'') \<Rightarrow> (ret, the out, cb @ cb' @ cb''))))"

definition ext_ecdsa_verify ::
    "('fe, 'st) field_ops \<Rightarrow> 'sc scalar_ops \<Rightarrow> ('fe, 'st, 'sc, 'f, 'd) secp256k1_context \<Rightarrow> bytes \<Rightarrow> bytes \<Rightarrow> bytes \<Rightarrow> unit api" where
  "ext_ecdsa_verify F S ctx sigdata msgdata pubkeydata =
    (case ecdsa_signature_parse_compact S (Some (ecdsa_signature_zero S)) (Some sigdata) of
       (False, sig, cb) \<Rightarrow> (False, (), cb)
     | (True, sig, cb) \<Rightarrow>
        (case ec_pubkey_parse F (Some (storage_zero F)) (Some pubkeydata) of
           (False, pubkey, cb') \<Rightarrow> (False, (), cb @ cb')
         | (True, pubkey, cb') \<Rightarrow>
            (case ecdsa_verify F S ctx sig (Some msgdata) pubkey of
               (ret, u, cb'') \<Rightarrow> (ret, u, cb @ cb' @ cb''))))"

definition ext_reencode_pubkey ::
    "('fe, 'st) field_ops \<Rightarrow> bytes \<Rightarrow> nat \<Rightarrow> bytes \<Rightarrow> bytes api" where
  "ext_reencode_pubkey F out outlen pubkeydata =
    (case ec_pubkey_parse F (Some (storage_zero F)) (Some pubkeydata) of
       (False, pubkey, cb) \<Rightarrow> (False, out, cb)
     | (True, pubkey, cb) \<Rightarrow>
        (let flag = (if outlen = 33 then EC_COMPRESSED else EC_UNCOMPRESSED) in
         case ec_pubkey_serialize F (Some out) (Some outlen) pubkey flag of
           (ret, (buf, len), cb') \<Rightarrow> (ret, the buf, cb @ cb')))"

definition ext_scalar_mul ::
    "('fe, 'st) field_ops \<Rightarrow> 'sc scalar_ops \<Rightarrow> bytes option \<Rightarrow> bytes option \<Rightarrow> bytes option api" where
  "ext_scalar_mul F S point scalar =
    ARG_CHECK (point \<noteq> None) ''point != NULL'' point
    (ARG_CHECK (scalar \<noteq> None) ''scalar != NULL'' point
     (let (feX, _) = fo_set_b32 F (take 32 (the point));
          (feY, _) = fo_set_b32 F (take 32 (drop 32 (the point)));
          ge = ge_set_xy feX feY;
          (s, overflow) = so_set_b32 S (the scalar)
      in if overflow \<or> so_is_zero S s then (False, point, [])
         else
          (let res = ecmult_const F S ge s;
               (ge, res) = ge_set_gej F res;
               ge = ge\<lparr>ge_x := fo_normalize F (ge_x ge)\<rparr>;
               ge = ge\<lparr>ge_y := fo_normalize F (ge_y ge)\<rparr>
           in (True, Some (fo_get_b32 F (ge_x ge) @ fo_get_b32 F (ge_y ge) @ drop 64 (the point)), []))))"

section \<open>The nonce function\<close>

text \<open>The block number \<open>n\<close> that the generator gives, counted from zero.\<close>

fun rfc6979_draw :: "nat \<Rightarrow> rfc6979_hmac_sha256_t \<Rightarrow> bytes" where
  "rfc6979_draw 0 rng = snd (rfc6979_block rng)"
| "rfc6979_draw (Suc n) rng = rfc6979_draw n (fst (rfc6979_block rng))"

lemma u32_succ: "unat (c :: u32) < 2 ^ 32 - 1 \<Longrightarrow> unat (c + 1) = Suc (unat c)"
  by (simp add: unat_word_ariths)

lemma nonce_loop_returns:
  assumes "unat i + n = unat counter" "unat counter < 2 ^ 32 - 1"
  shows "nonce_function_rfc6979_loop counter i rng nonce32 = Some (rfc6979_draw n rng)"
  using assms
proof (induction n arbitrary: i rng nonce32)
  case 0
  then have i: "i = counter" by (simp add: unsigned_word_eqI)
  have "\<not> counter + 1 \<le> counter" using u32_succ[OF 0(2)] by (simp add: word_le_nat_alt)
  then have "nonce_function_rfc6979_loop counter (counter + 1) rng' b = Some b" for rng' b
    by (simp add: nonce_function_rfc6979_loop.simps[of counter "counter + 1"])
  then show ?case unfolding i
    by (simp add: nonce_function_rfc6979_loop.simps[of counter counter rng] generate_32 split: prod.splits)
next
  case (Suc n)
  have "unat i < 2 ^ 32 - 1" "i \<le> counter" using Suc.prems by (simp_all add: word_le_nat_alt)
  then have "unat (i + 1) + n = unat counter" using u32_succ[of i] Suc.prems(1) by simp
  from Suc.IH[OF this Suc.prems(2)] \<open>i \<le> counter\<close> show ?case
    by (simp add: nonce_function_rfc6979_loop.simps[of counter i rng] generate_32 split: prod.splits)
qed

lemma nonce_loop_diverges:
  assumes "nonce_function_rfc6979_loop counter i rng nonce32 = Some out"
  shows "counter \<noteq> - 1"
proof (rule nonce_function_rfc6979_loop.raw_induct[where P = "\<lambda>counter i rng nonce32 out. counter \<noteq> - 1", OF _ assms], rule notI)
  fix f and counter i :: u32 and rng :: rfc6979_hmac_sha256_t and nonce32 out :: bytes
  assume IH: "\<And>counter i rng nonce32 out. f counter i rng nonce32 = Some out \<Longrightarrow> counter \<noteq> - 1"
    and "(if i \<le> counter then case rfc6979_hmac_sha256_generate rng 32 of None \<Rightarrow> None
        | Some (rng, nonce32) \<Rightarrow> f counter (i + 1) rng nonce32
      else Some nonce32) = Some out"
    and c: "counter = - 1"
  moreover have "i \<le> counter" unfolding c by simp
  ultimately show False by (auto simp: generate_32 split: prod.splits dest: IH)
qed

lemma nonce_rfc6979_draw:
  "nonce_function_rfc6979 nonce32 msg32 key32 algo16 data counter =
    (if counter = - 1 then None
     else Some (True, rfc6979_draw (unat counter) (rfc6979_hmac_sha256_initialize
        (take 32 key32 @ take 32 msg32 @ (case data of None \<Rightarrow> [] | Some d \<Rightarrow> take 32 d)
          @ (case algo16 of None \<Rightarrow> [] | Some a \<Rightarrow> take 16 a)))))"
proof (cases "counter = - 1")
  case True
  then show ?thesis using nonce_loop_diverges unfolding nonce_function_rfc6979_def Let_def
    by (metis (no_types, lifting) map_option_is_None not_None_eq)
next
  case False
  then have "unat counter \<noteq> unat (- 1 :: u32)" using unsigned_word_eqI[of counter "- 1"] by blast
  then have "unat counter < 2 ^ 32 - 1"
    using unsigned_less[of counter] word_less_nat_alt[of counter "- 1"] word_order.not_eq_extremum[of counter] False
    by (simp add: unsigned_minus_1_eq_mask mask_eq_exp_minus_1)
  from nonce_loop_returns[of 0 "unat counter" counter, OF _ this] False show ?thesis
    unfolding nonce_function_rfc6979_def Let_def by (simp split: option.splits)
qed

lemma rfc6979_block_ok: "rng_ok rng \<Longrightarrow> rng_ok (fst (rfc6979_block rng)) \<and> length (snd (rfc6979_block rng)) = 32"
  by (rule generate_returns[of rng 32]) (auto simp: generate_32)

lemma rfc6979_draw_length: "rng_ok rng \<Longrightarrow> length (rfc6979_draw n rng) = 32"
  by (induction n arbitrary: rng) (simp_all add: rfc6979_block_ok)

lemma nonce_rfc6979_length:
  assumes "nonce_function_rfc6979 nonce32 msg32 key32 algo16 data counter = Some (ok, out)"
  shows "length out = 32"
proof -
  have "length (take 32 key32 @ take 32 msg32 @ (case data of None \<Rightarrow> [] | Some d \<Rightarrow> take 32 d)
      @ (case algo16 of None \<Rightarrow> [] | Some a \<Rightarrow> take 16 a)) \<le> 32 + (32 + (32 + 16))"
    unfolding length_append by (intro add_mono) (simp_all split: option.splits)
  then have "length (take 32 key32 @ take 32 msg32 @ (case data of None \<Rightarrow> [] | Some d \<Rightarrow> take 32 d)
      @ (case algo16 of None \<Rightarrow> [] | Some a \<Rightarrow> take 16 a)) < 2 ^ 59" by (rule le_less_trans) simp
  from rfc6979_draw_length[OF initialize_rng_ok[OF this]] show ?thesis
    using assms unfolding nonce_rfc6979_draw by (auto split: if_splits)
qed

section \<open>Secret keys and signatures\<close>

context scalar_repr
begin

lemma set_b32_parts:
  assumes "length b = 32" "so_set_b32 S b = (r, ov)"
  shows "sval r = be_val b mod secp_n" "ov \<longleftrightarrow> secp_n \<le> be_val b" "sval r < secp_n"
  using set_b32[OF assms(1)] assms(2) by (simp_all add: secp_n_def)

lemma seckey_verify:
  assumes "length b = 32"
  shows "ec_seckey_verify S (Some b) = (0 < be_val b \<and> be_val b < secp_n, (), [])"
proof -
  obtain r ov where r: "so_set_b32 S b = (r, ov)" by fastforce
  note R = set_b32_parts[OF assms r]
  have "0 < be_val b \<longleftrightarrow> be_val b \<noteq> 0" using be_val_nonneg[of b] by linarith
  then show ?thesis
    using R by (cases "be_val b < secp_n") (simp_all add: ec_seckey_verify_def ARG_CHECK_def r is_zero)
qed

lemma privkey_tweak_add:
  assumes "length k = 32" "length t = 32" "be_val k < secp_n"
  obtains out where "ec_privkey_tweak_add S (Some k) (Some t) = (be_val t < secp_n \<and> (be_val k + be_val t) mod secp_n \<noteq> 0, Some out, [])"
    "length out = 32" "be_val out = (if be_val t < secp_n then (be_val k + be_val t) mod secp_n else 0)"
proof -
  obtain a av where a: "so_set_b32 S k = (a, av)" by fastforce
  obtain b bv where b: "so_set_b32 S t = (b, bv)" by fastforce
  note A = set_b32_parts[OF assms(1) a] and B = set_b32_parts[OF assms(2) b]
  have s: "sval (fst (so_add S a b)) = (sval a + sval b) mod secp_n" using add[OF A(3) B(3)] by simp
  have z: "be_val (replicate 32 0) = 0" using be_val_replicate_zero[of 32 "[]"] by simp
  show ?thesis
  proof (cases "be_val t < secp_n \<and> (be_val k + be_val t) mod secp_n \<noteq> 0")
    case True
    then have "sval (fst (so_add S a b)) = (be_val k + be_val t) mod secp_n" "\<not> bv"
      using s A(1) B(1,2) assms(3) by simp_all
    then show ?thesis using that[of "so_get_b32 S (fst (so_add S a b))"] True get_b32[of "fst (so_add S a b)"]
      by (simp add: ec_privkey_tweak_add_def ARG_CHECK_def a b eckey_privkey_tweak_add_def is_zero Let_def)
  next
    case False
    then have "bv \<or> sval (fst (so_add S a b)) = 0" using s A(1) B(1,2) assms(3) by auto
    then have "ec_privkey_tweak_add S (Some k) (Some t) = (False, Some (replicate 32 0), [])"
      by (auto simp: ec_privkey_tweak_add_def ARG_CHECK_def a b eckey_privkey_tweak_add_def is_zero Let_def)
    then show ?thesis using that[of "replicate 32 0"] False z by (simp split: if_splits)
  qed
qed

lemma signature_normalize:
  assumes "sval (sig_s sg) < secp_n"
  obtains out where "ecdsa_signature_normalize S (Some old) (Some sg) = (secp_n div 2 < sval (sig_s sg), Some out, [])"
    "sig_r out = sig_r sg" "sval (sig_s out) \<le> secp_n div 2"
    "sval (sig_s out) = (if secp_n div 2 < sval (sig_s sg) then secp_n - sval (sig_s sg) else sval (sig_s sg))"
proof (cases "secp_n div 2 < sval (sig_s sg)")
  case True
  then have "sval (so_negate S (sig_s sg)) = secp_n - sval (sig_s sg)"
    using negate[OF assms] assms by (simp add: zmod_zminus1_eq_if secp_n_def)
  then show ?thesis using that[of "\<lparr>sig_r = sig_r sg, sig_s = so_negate S (sig_s sg)\<rparr>"] True
    by (simp add: ecdsa_signature_normalize_def ARG_CHECK_def ecdsa_signature_load_def ecdsa_signature_save_def is_high secp_n_def)
next
  case False
  then show ?thesis using that[of "\<lparr>sig_r = sig_r sg, sig_s = sig_s sg\<rparr>"]
    by (simp add: ecdsa_signature_normalize_def ARG_CHECK_def ecdsa_signature_load_def ecdsa_signature_save_def is_high)
qed

lemma recoverable_compact:
  assumes "length b = 64" "0 \<le> recid" "recid \<le> 3"
    and "ecdsa_recoverable_signature_parse_compact S (Some old) (Some b) recid = (ok, sig, cb)"
  shows "cb = []" "ok \<longleftrightarrow> be_val (take 32 b) < secp_n \<and> be_val (drop 32 b) < secp_n"
    "ok \<Longrightarrow> ecdsa_recoverable_signature_serialize_compact S (Some (replicate 64 0)) (Some 0) sig = (True, (Some b, Some recid), [])"
    "\<not> ok \<Longrightarrow> sig = Some (ecdsa_recoverable_signature_zero S)"
proof -
  obtain r rv where r: "so_set_b32 S (take 32 b) = (r, rv)" by fastforce
  obtain s sv where s: "so_set_b32 S (drop 32 b) = (s, sv)" by fastforce
  have l: "length (take 32 b) = 32" "length (drop 32 b) = 32" using assms(1) by simp_all
  note R = set_b32_parts[OF l(1) r] and T = set_b32_parts[OF l(2) s]
  have e: "(ok, sig, cb) = (if \<not> rv \<and> \<not> sv then (True, Some (ecdsa_recoverable_signature_save r s recid), [])
      else (False, Some (ecdsa_recoverable_signature_zero S), []))"
    unfolding assms(4)[symmetric] using assms(1-3) r s
    by (simp add: ecdsa_recoverable_signature_parse_compact_def ARG_CHECK_def Let_def)
  show "cb = []" using e by (simp split: if_splits)
  show "\<not> ok \<Longrightarrow> sig = Some (ecdsa_recoverable_signature_zero S)" using e by (simp split: if_splits)
  show k: "ok \<longleftrightarrow> be_val (take 32 b) < secp_n \<and> be_val (drop 32 b) < secp_n" using e R(2) T(2) by (auto split: if_splits)
  assume ok
  then have "so_get_b32 S r = take 32 b" "so_get_b32 S s = drop 32 b"
    using b32_roundtrip_bytes[OF l(1)] b32_roundtrip_bytes[OF l(2)] k r s by simp_all
  moreover have "uint (word_of_int recid :: 8 word) = recid" using assms(2,3) by (simp add: uint_word_of_int)
  ultimately show "ecdsa_recoverable_signature_serialize_compact S (Some (replicate 64 0)) (Some 0) sig = (True, (Some b, Some recid), [])"
    using e \<open>ok\<close> by (simp add: ecdsa_recoverable_signature_serialize_compact_def ARG_CHECK_def
        ecdsa_recoverable_signature_load_def ecdsa_recoverable_signature_save_def split: if_splits)
qed

end

section \<open>Signing\<close>

context scalar_repr
begin

text \<open>Whatever the nonce function does, a signature that the loop returns is in the lower half.\<close>

lemma sign_loop_low:
  assumes len: "\<And>a. length (fo_get_b32 F a) = 32"
    and nf: "\<And>n m k a d c ok out. noncefp n m k a d c = Some (ok, out) \<Longrightarrow> length out = 32"
    and d: "sval sec < secp_n" and m: "sval msg < secp_n"
    and "ecdsa_sign_loop F S gctx noncefp msg32 seckey noncedata sec msg recid nonce32 count = Some (Some (r, s, rid))"
  shows "sval r < secp_n \<and> 0 < sval s \<and> sval s \<le> secp_n div 2 \<and> (rid = None \<longleftrightarrow> recid = None)"
proof -
  let ?P = "\<lambda>F' S' gctx nf' msg32 seckey noncedata sec' msg' recid nonce32 count y. F' = F \<longrightarrow> S' = S \<longrightarrow> nf' = noncefp \<longrightarrow>
    sec' = sec \<longrightarrow> msg' = msg \<longrightarrow> (\<forall>r s rid. y = Some (r, s, rid) \<longrightarrow>
      sval r < secp_n \<and> 0 < sval s \<and> sval s \<le> secp_n div 2 \<and> (rid = None \<longleftrightarrow> recid = None))"
  have "?P F S gctx noncefp msg32 seckey noncedata sec msg recid nonce32 count (Some (r, s, rid))"
  proof (rule ecdsa_sign_loop.raw_induct[where P = ?P, OF _ assms(5)], intro impI allI, goal_cases)
    case (1 f F' S' gctx nf' msg32 seckey noncedata sec' msg' recid nonce32 count y r s rid)
    obtain ok b where b: "noncefp nonce32 msg32 seckey None noncedata count = Some (ok, b)"
      using 1(2-8) by (auto split: option.splits)
    obtain non ov where n: "so_set_b32 S b = (non, ov)" by fastforce
    note N = set_b32_parts[OF nf[OF b] n]
    obtain ok' r' s' i' where e: "ecdsa_sig_sign F S gctx sec msg non recid = (ok', r', s', i')" by (metis prod.exhaust)
    have ok using 1(2-8) b by (auto split: if_splits)
    show ?case
    proof (cases "\<not> ov \<and> \<not> so_is_zero S non \<and> ok'")
      case True
      then have "r = r'" "s = s'" "rid = i'" using 1(2-8) b n e \<open>ok\<close> by simp_all
      then show ?thesis using sig_sign_equation[OF len N(3) _ d m e] True is_zero by simp
    next
      case False
      then obtain i n where "f F S gctx noncefp msg32 seckey noncedata sec msg i n (count + 1) = Some (Some (r, s, rid))"
        and "i = None \<longleftrightarrow> recid = None"
        using 1(2-8) b n e \<open>ok\<close> sig_sign_equation(4)[OF len N(3) _ d m e] is_zero by (auto split: if_splits)
      then show ?thesis using 1(1) by blast
    qed
  qed
  then show ?thesis by simp
qed

lemma sign_low:
  assumes len: "\<And>a. length (fo_get_b32 F a) = 32"
    and nf: "\<And>f n m k a d c ok out. noncefp = Some f \<Longrightarrow> f n m k a d c = Some (ok, out) \<Longrightarrow> length out = 32"
    and l: "length msg32 = 32" "length seckey = 32"
    and e: "ecdsa_sign F S ctx (Some old) (Some msg32) (Some seckey) noncefp noncedata = Some (True, out, cb)"
  shows "cb = [] \<and> 0 < be_val seckey \<and> be_val seckey < secp_n
    \<and> (\<exists>sg. out = Some sg \<and> sval (sig_r sg) < secp_n \<and> 0 < sval (sig_s sg) \<and> sval (sig_s sg) \<le> secp_n div 2)"
proof -
  obtain sec sv where s: "so_set_b32 S seckey = (sec, sv)" by fastforce
  obtain msg mv where m: "so_set_b32 S msg32 = (msg, mv)" by fastforce
  note K = set_b32_parts[OF l(2) s] and M = set_b32_parts[OF l(1) m]
  define g where "g = (case noncefp of None \<Rightarrow> nonce_function_default | Some f \<Rightarrow> f)"
  have g: "length out = 32" if "g n m k a d c = Some (ok, out)" for n m k a d c ok out
    using that nf nonce_rfc6979_length by (auto simp: g_def nonce_function_default_def split: option.splits)
  obtain r t rid where loop: "ecdsa_sign_loop F S (ecmult_gen_ctx ctx) g msg32 seckey noncedata sec msg None (replicate 32 0) 0
      = Some (Some (r, t, rid))" and o: "out = Some \<lparr>sig_r = r, sig_s = t\<rparr>" "cb = []" and k: "\<not> sv" "sval sec \<noteq> 0"
    using e by (auto simp: ecdsa_sign_def ARG_CHECK_loop_def s m Let_def is_zero ecdsa_signature_save_def g_def[symmetric] split: if_splits option.split_asm)
  have "0 < be_val seckey \<longleftrightarrow> be_val seckey \<noteq> 0" using be_val_nonneg[of seckey] by linarith
  moreover have "be_val seckey \<noteq> 0" using K(1) k(2) by auto
  ultimately show ?thesis using sign_loop_low[OF len g K(3) M(3) loop] o k(1) K(2) by simp
qed

lemma sign_bad_key:
  assumes "length seckey = 32" "be_val seckey = 0 \<or> secp_n \<le> be_val seckey" "ecmult_gen_context_is_built (ecmult_gen_ctx ctx)"
  shows "ecdsa_sign F S ctx (Some old) (Some msg32) (Some seckey) noncefp noncedata = Some (False, Some (ecdsa_signature_zero S), [])"
proof -
  obtain sec sv where s: "so_set_b32 S seckey = (sec, sv)" by fastforce
  have "sv \<or> so_is_zero S sec" using set_b32_parts[OF assms(1) s] assms(2) is_zero by auto
  then show ?thesis using assms(3) by (auto simp: ecdsa_sign_def ARG_CHECK_loop_def s Let_def)
qed

lemma verify_rejects:
  assumes "sval (sig_r sg) = 0 \<or> sval (sig_s sg) = 0 \<or> secp_n div 2 < sval (sig_s sg)"
  shows "\<not> fst (ecdsa_verify F S ctx (Some sg) msg32 pubkey)"
proof -
  obtain ok q cb where l: "pubkey_load F (the pubkey) = (ok, q, cb)" by (metis prod.exhaust)
  have "so_is_high S (sig_s sg) \<or> \<not> ecdsa_sig_verify F S c (sig_r sg) (sig_s sg) q m" for c m
    using assms by (auto simp: ecdsa_sig_verify_def is_zero is_high)
  then show ?thesis
    by (cases ok) (auto simp: ecdsa_verify_def ARG_CHECK_def ecdsa_signature_load_def l split: prod.splits)
qed

end

section \<open>Properties of the instance\<close>

text \<open>C5: A signature that \<^verbatim>\<open>secp256k1_ecdsa_sign\<close> returns was made with a valid key, and is nonzero and in
  the lower half: with the default nonce function, and with whatever nonce function the caller supplies as long
  as it fills its 32-byte buffer.\<close>

theorem ecdsa_sign_low_s:
  assumes "\<And>f n m k a d c ok out. noncefp = Some f \<Longrightarrow> f n m k a d c = Some (ok, out) \<Longrightarrow> length out = 32"
    and "length msg32 = 32" "length seckey = 32"
    and "ecdsa_sign fe_ops_5x52 scalar_ops_4x64 ctx (Some old) (Some msg32) (Some seckey) noncefp noncedata = Some (True, out, cb)"
  shows "cb = [] \<and> 0 < be_val seckey \<and> be_val seckey < secp_n
    \<and> (\<exists>sg. out = Some sg \<and> sc_val_4x64 (sig_r sg) < secp_n \<and> 0 < sc_val_4x64 (sig_s sg) \<and> sc_val_4x64 (sig_s sg) \<le> secp_n div 2)"
  by (rule s64.sign_low[OF fe_get_b32_5x52_length assms])

theorem ecdsa_sign_low_s_witness:
  "\<exists>msg32 sg cb. ecdsa_sign fe_ops_5x52 scalar_ops_4x64
       \<lparr>ecmult_ctx = ecmult_context_init,
        ecmult_gen_ctx = \<lparr>prec = Some [], blind = scalar_set_int_4x64 0, initial = gej_local fe_ops_5x52\<rparr>,
        illegal_callback = (default_illegal_callback :: (unit, unit) callback), error_callback = default_error_callback\<rparr>
       (Some (ecdsa_signature_zero scalar_ops_4x64)) (Some msg32) (Some (replicate 31 0 @ [1]))
       (Some (\<lambda>n m k a d c. Some (True, replicate 31 0 @ [1]))) None = Some (True, Some sg, cb)
     \<and> sc_val_4x64 (sig_s sg) \<le> secp_n div 2"
proof -
  let ?g = "\<lparr>prec = Some [], blind = scalar_set_int_4x64 0, initial = gej_local fe_ops_5x52\<rparr>"
  let ?c = "\<lparr>ecmult_ctx = ecmult_context_init, ecmult_gen_ctx = ?g,
        illegal_callback = (default_illegal_callback :: (unit, unit) callback), error_callback = default_error_callback\<rparr>"
  let ?one = "replicate 31 0 @ [1] :: bytes" and ?zero = "replicate 31 0 @ [0] :: bytes"
  let ?f = "(\<lambda>n m k a d c. Some (True, ?one)) :: nonce_fn"
  let ?sign = "\<lambda>m. ecdsa_sign fe_ops_5x52 scalar_ops_4x64 ?c (Some (ecdsa_signature_zero scalar_ops_4x64)) (Some m) (Some ?one) (Some ?f) None"
  have l: "length ?one = 32" "length ?zero = 32" by simp_all
  obtain u uv where u: "so_set_b32 scalar_ops_4x64 ?one = (u, uv)" by fastforce
  obtain w wv where w: "so_set_b32 scalar_ops_4x64 ?zero = (w, wv)" by fastforce
  have b: "be_val ?one = 1" "be_val ?zero = 0" unfolding be_val_replicate_zero by (simp_all add: be_val_def)
  have v: "sc_val_4x64 u = 1" "\<not> uv" "sc_val_4x64 w = 0"
    using s64.set_b32_parts[OF l(1) u] s64.set_b32_parts[OF l(2) w] unfolding b by (simp_all add: secp_n_def)
  have nz: "\<not> so_is_zero scalar_ops_4x64 u" unfolding s64.is_zero v by simp
  have ret: "\<exists>sg. ?sign m = Some (True, Some sg, [])"
    if "so_set_b32 scalar_ops_4x64 m = (x, xv)" "ecdsa_sig_sign fe_ops_5x52 scalar_ops_4x64 ?g u x u None = (True, r, s, i)" for m x xv r s i
    using that u v nz by (simp add: ecdsa_sign_def ARG_CHECK_loop_def ecmult_gen_context_is_built_def
        ecdsa_sign_loop.simps ecdsa_signature_save_def)
  obtain ok0 r0 s0 i0 where e0: "ecdsa_sig_sign fe_ops_5x52 scalar_ops_4x64 ?g u w u None = (ok0, r0, s0, i0)" by (metis prod.exhaust)
  obtain ok1 r1 s1 i1 where e1: "ecdsa_sig_sign fe_ops_5x52 scalar_ops_4x64 ?g u u u None = (ok1, r1, s1, i1)" by (metis prod.exhaust)
  consider ok0 | ok1 using s64.sig_sign_zero_or_one[OF fe_get_b32_5x52_length v(1,3) e0 e1] by blast
  then obtain m sg where "length m = 32" "?sign m = Some (True, Some sg, [])" using ret[OF w] ret[OF u] e0 e1 l by metis
  moreover from ecdsa_sign_low_s[OF _ this(1) l(1) this(2)] have "sc_val_4x64 (sig_s sg) \<le> secp_n div 2" by fastforce
  ultimately show ?thesis by blast
qed

text \<open>C33: The nonce function draws \<open>counter + 1\<close> outputs from the generator and returns the last one, for every
  counter but the largest: with \<^verbatim>\<open>UINT_MAX\<close> the condition of its loop never fails.\<close>

theorem nonce_function_rfc6979_spec:
  "nonce_function_rfc6979 nonce32 msg32 key32 algo16 data counter =
    (if counter = - 1 then None
     else Some (True, rfc6979_draw (unat counter) (rfc6979_hmac_sha256_initialize
        (take 32 key32 @ take 32 msg32 @ (case data of None \<Rightarrow> [] | Some d \<Rightarrow> take 32 d)
          @ (case algo16 of None \<Rightarrow> [] | Some a \<Rightarrow> take 16 a)))))"
  by (rule nonce_rfc6979_draw)

text \<open>C34: Signing with a key that is zero or not below the group order returns 0 and a zero signature, without
  calling the nonce function or the callback.\<close>

theorem ecdsa_sign_bad_key:
  assumes "length seckey = 32" "be_val seckey = 0 \<or> secp_n \<le> be_val seckey" "ecmult_gen_context_is_built (ecmult_gen_ctx ctx)"
  shows "ecdsa_sign F scalar_ops_4x64 ctx (Some old) (Some msg32) (Some seckey) noncefp noncedata
    = Some (False, Some (ecdsa_signature_zero scalar_ops_4x64), [])"
  by (rule s64.sign_bad_key[OF assms])

theorem ecdsa_sign_bad_key_witness:
  "ecdsa_sign fe_ops_5x52 scalar_ops_4x64
       \<lparr>ecmult_ctx = ecmult_context_init,
        ecmult_gen_ctx = \<lparr>prec = Some [], blind = scalar_set_int_4x64 0, initial = gej_local fe_ops_5x52\<rparr>,
        illegal_callback = (default_illegal_callback :: (unit, unit) callback), error_callback = default_error_callback\<rparr>
       (Some (ecdsa_signature_zero scalar_ops_4x64)) (Some (replicate 32 7)) (Some (replicate 32 0))
       (Some (\<lambda>n m k a d c. None)) None = Some (False, Some (ecdsa_signature_zero scalar_ops_4x64), [])"
proof -
  have "be_val (replicate 32 0) = 0" using be_val_replicate_zero[of 32 "[]"] by simp
  then show ?thesis by (intro ecdsa_sign_bad_key) (simp_all add: ecmult_gen_context_is_built_def)
qed

text \<open>C35: Verification refuses every signature with a zero half or with \<open>s\<close> in the upper half.\<close>

theorem ecdsa_verify_rejects:
  assumes "sc_val_4x64 (sig_r sg) = 0 \<or> sc_val_4x64 (sig_s sg) = 0 \<or> secp_n div 2 < sc_val_4x64 (sig_s sg)"
  shows "\<not> fst (ecdsa_verify F scalar_ops_4x64 ctx (Some sg) msg32 pubkey)"
  by (rule s64.verify_rejects[OF assms])

theorem ecdsa_verify_rejects_witness:
  "\<not> fst (ecdsa_verify fe_ops_5x52 scalar_ops_4x64
       \<lparr>ecmult_ctx = \<lparr>pre_g = Some [], pre_g_128 = Some []\<rparr>,
        ecmult_gen_ctx = \<lparr>prec = None, blind = scalar_set_int_4x64 0, initial = gej_local fe_ops_5x52\<rparr>,
        illegal_callback = (default_illegal_callback :: (unit, unit) callback), error_callback = default_error_callback\<rparr>
       (Some (ecdsa_signature_zero scalar_ops_4x64)) (Some (replicate 32 7)) (Some (pubkey_save fe_ops_5x52 (ge_const_g fe_ops_5x52))))"
  by (rule ecdsa_verify_rejects) (simp add: ecdsa_signature_zero_def scalar_set_int_4x64_val)

text \<open>C39: A secret key is accepted exactly when it is a number between one and the group order, both excluded at
  the top; a missing key calls the callback.\<close>

theorem ec_seckey_verify_spec:
  assumes "length b = 32"
  shows "ec_seckey_verify scalar_ops_4x64 (Some b) = (0 < be_val b \<and> be_val b < secp_n, (), [])
    \<and> ec_seckey_verify scalar_ops_4x64 None = (False, (), [''seckey != NULL''])"
  using s64.seckey_verify[OF assms] by (simp add: ec_seckey_verify_def ARG_CHECK_def)

theorem ec_seckey_verify_spec_witness:
  "ec_seckey_verify scalar_ops_4x64 (Some (replicate 31 0 @ [5])) = (True, (), [])"
  using ec_seckey_verify_spec[of "replicate 31 0 @ [5]"] unfolding be_val_replicate_zero by (simp add: be_val_def secp_n_def)

text \<open>C36: Adding a tweak to a secret key gives the sum modulo the group order; it fails, and zeroes the key, exactly
  when the tweak is not reduced or the sum vanishes.\<close>

theorem ec_privkey_tweak_add_spec:
  assumes "length k = 32" "length t = 32" "be_val k < secp_n"
  shows "\<exists>out. ec_privkey_tweak_add scalar_ops_4x64 (Some k) (Some t)
      = (be_val t < secp_n \<and> (be_val k + be_val t) mod secp_n \<noteq> 0, Some out, [])
    \<and> length out = 32 \<and> be_val out = (if be_val t < secp_n then (be_val k + be_val t) mod secp_n else 0)"
  by (rule s64.privkey_tweak_add[OF assms]) blast

theorem ec_privkey_tweak_add_spec_witness:
  "\<exists>out. ec_privkey_tweak_add scalar_ops_4x64 (Some (replicate 31 0 @ [5])) (Some (replicate 31 0 @ [7])) = (True, Some out, [])
     \<and> be_val out = 12"
  using ec_privkey_tweak_add_spec[of "replicate 31 0 @ [5]" "replicate 31 0 @ [7]"] unfolding be_val_replicate_zero
  by (simp add: be_val_def secp_n_def) blast

text \<open>C38: Normalisation of a signature leaves \<open>r\<close>, replaces \<open>s\<close> by its negative exactly when it is in the upper half,
  and reports whether it did.\<close>

theorem ecdsa_signature_normalize_spec:
  assumes "sc_val_4x64 (sig_s sg) < secp_n"
  shows "\<exists>out. ecdsa_signature_normalize scalar_ops_4x64 (Some old) (Some sg) = (secp_n div 2 < sc_val_4x64 (sig_s sg), Some out, [])
    \<and> sig_r out = sig_r sg \<and> sc_val_4x64 (sig_s out) \<le> secp_n div 2
    \<and> sc_val_4x64 (sig_s out) = (if secp_n div 2 < sc_val_4x64 (sig_s sg) then secp_n - sc_val_4x64 (sig_s sg) else sc_val_4x64 (sig_s sg))"
  by (rule s64.signature_normalize[OF assms]) blast

theorem ecdsa_signature_normalize_spec_witness:
  "\<exists>out. ecdsa_signature_normalize scalar_ops_4x64 (Some (ecdsa_signature_zero scalar_ops_4x64))
      (Some \<lparr>sig_r = scalar_set_int_4x64 2, sig_s = scalar_set_int_4x64 9\<rparr>) = (False, Some out, []) \<and> sc_val_4x64 (sig_s out) = 9"
  using ecdsa_signature_normalize_spec[of "\<lparr>sig_r = scalar_set_int_4x64 2, sig_s = scalar_set_int_4x64 9\<rparr>" "ecdsa_signature_zero scalar_ops_4x64"]
  by (simp add: scalar_set_int_4x64_val secp_n_def) blast

text \<open>C37: The 64-byte form of a recoverable signature is accepted exactly when both halves are reduced, is printed back
  unchanged with its recovery id, and is replaced by zeros when it is refused.\<close>

theorem ecdsa_recoverable_compact_roundtrip:
  assumes "length b = 64" "0 \<le> recid" "recid \<le> 3"
    and "ecdsa_recoverable_signature_parse_compact scalar_ops_4x64 (Some old) (Some b) recid = (ok, sig, cb)"
  shows "cb = [] \<and> (ok \<longleftrightarrow> be_val (take 32 b) < secp_n \<and> be_val (drop 32 b) < secp_n)
    \<and> (if ok then ecdsa_recoverable_signature_serialize_compact scalar_ops_4x64 (Some (replicate 64 0)) (Some 0) sig = (True, (Some b, Some recid), [])
       else sig = Some (ecdsa_recoverable_signature_zero scalar_ops_4x64))"
  using s64.recoverable_compact[OF assms] by simp

theorem ecdsa_recoverable_compact_roundtrip_witness:
  "\<exists>sig. ecdsa_recoverable_signature_parse_compact scalar_ops_4x64 (Some (ecdsa_recoverable_signature_zero scalar_ops_4x64))
      (Some (replicate 64 0)) 2 = (True, sig, [])"
proof -
  obtain ok sig cb where e: "ecdsa_recoverable_signature_parse_compact scalar_ops_4x64 (Some (ecdsa_recoverable_signature_zero scalar_ops_4x64))
      (Some (replicate 64 0)) 2 = (ok, sig, cb)" by (metis prod.exhaust)
  have z: "be_val (replicate n 0) = 0" for n using be_val_replicate_zero[of n "[]"] by simp
  from ecdsa_recoverable_compact_roundtrip[OF _ _ _ e] have "ok" "cb = []" by (simp_all add: z secp_n_def)
  then show ?thesis using e by simp
qed

end
