(* ===== verification/Spec2Isabelle.thy ===== *)
theory Spec2Isabelle
  imports Field_Impl Scalar_Impl Hash Group Ecmult Ecmult_Const Ecmult_Gen Ecdsa Eckey Secp256k1
begin

text \<open>
  A verification of the elliptic-curve cryptography of the repository: the C library under
  \<^verbatim>\<open>src/crypto/secp256k1/libsecp256k1/src\<close> and the glue \<^verbatim>\<open>src/crypto/secp256k1/ext.h\<close>, in the
  configuration that \<^verbatim>\<open>src/crypto/secp256k1/secp256.go\<close> compiles (fields of five 52-bit limbs,
  scalars of four 64-bit limbs, 128-bit products, the endomorphism, no GMP, no assembly).  The
  Go code signs, verifies and recovers through these functions.

  \<^bold>\<open>Parts and theories.\<close>  Each part calls the ones above it.

  \<^item> \<open>Field_5x52\<close> models \<^verbatim>\<open>field_5x52_impl.h\<close> and \<^verbatim>\<open>field_5x52_int128_impl.h\<close> (limbs are 64-bit
    words, the accumulators 128-bit words, all operations wrap), \<open>Field_Impl\<close> models \<^verbatim>\<open>field_impl.h\<close>
    (inversion, square root, batch inversion).  \<open>Field_Interface\<close> is what \<^verbatim>\<open>field.h\<close> promises: the
    record of the operations and the locale \<open>field_repr\<close> with their laws, interpreted on the
    5x52 operations as \<open>f52\<close>.
  \<^item> \<open>Scalar_4x64\<close> models \<^verbatim>\<open>scalar_4x64_impl.h\<close>, \<open>Scalar_Impl\<close> models \<^verbatim>\<open>scalar_impl.h\<close>
    (inversion, decomposition along the endomorphism).  \<open>Scalar_Interface\<close> holds the locale
    \<open>scalar_repr\<close>, interpreted on the 4x64 operations as \<open>s64\<close>.
  \<^item> \<open>Hash\<close> models \<^verbatim>\<open>hash_impl.h\<close>: SHA-256, its keyed form and the deterministic generator.
  \<^item> \<open>Group\<close> models \<^verbatim>\<open>group_impl.h\<close>: affine and Jacobian points, over any field that satisfies the
    interface.
  \<^item> \<open>Ecmult\<close>, \<open>Ecmult_Const\<close> and \<open>Ecmult_Gen\<close> model \<^verbatim>\<open>ecmult_impl.h\<close>, \<^verbatim>\<open>ecmult_const_impl.h\<close> and
    \<^verbatim>\<open>ecmult_gen_impl.h\<close>: the three multiplications, their tables and contexts.
  \<^item> \<open>Ecdsa\<close> models \<^verbatim>\<open>ecdsa_impl.h\<close>, \<open>Eckey\<close> models \<^verbatim>\<open>eckey_impl.h\<close>.
  \<^item> \<open>Secp256k1\<close> models \<^verbatim>\<open>secp256k1.c\<close>, \<^verbatim>\<open>modules/recovery/main_impl.h\<close>, \<^verbatim>\<open>modules/ecdh/main_impl.h\<close>
    and \<^verbatim>\<open>ext.h\<close>: the public interface with its argument checks.

  The library behind them: \<open>Secp_Prelude\<close> (words, bytes, limbs), \<open>Secp_Params\<close> (the constants),
  \<open>Primality\<close>, \<open>Nibble_Arith\<close> and \<open>Secp_Primes\<close> (the field size and the group order are prime, by
  Pocklington's criterion on checked arithmetic), \<open>Prime_Field\<close> (the field as a type of class
  \<open>field\<close>), \<open>Curve_Order\<close> (seven is not a cube up to sign, so the curve has no point of order two).

  \<^bold>\<open>Conventions.\<close>  A function keeps its name without the prefix \<^verbatim>\<open>secp256k1_\<close>; one that belongs to a
  representation has the suffix \<open>_5x52\<close> or \<open>_4x64\<close>.  Outputs through pointers are results; a
  pointer that the code compares with NULL is an option.  A struct is a record.  An uninitialised
  local is a value of zeros that the code overwrites before it reads it.  A function of the public
  interface returns its code, its outputs and the texts with which it called the
  illegal-argument callback.  Assertions of the debug build are not part of the build that is
  modelled; the magnitudes they track are the predicates \<open>fe_mag_5x52\<close>, \<open>ge_wf\<close> and \<open>gej_wf\<close>.

  \<^bold>\<open>What is proved.\<close>

  \<^item> The limb kernels: multiplication, squaring, normalisation, addition and conversion compute in
    the integers modulo the field size, without a lost carry, for all magnitudes the callers use; the
    512-bit product and reduction of scalars are exact; and the debug predicate of the field admits
    one magnitude too many.
  \<^item> The addition chains are the inverse and the square root; the decomposition recombines and
    its halves are short; batch inversion inverts every entry.
  \<^item> SHA-256 in any sequence of writes is the hash of the standard, likewise the keyed hash; the
    constants of the specification are computed from their definition as roots of primes, and the tables
    of the source are proved equal to them.  The first output of the generator is the first candidate nonce of RFC
    6979; a request returns as many bytes as were asked for exactly when it is below 2 to the 31.
  \<^item> All additions and the doubling in Jacobian coordinates are the group law of the curve
    (\<open>point_add\<close> on \<open>point\<close>), the cases of equal and opposite points and of the point at infinity
    included, and stay on the curve; decompression and the validity test are exact.
  \<^item> Both recodings of a scalar, the windowed non-adjacent form and the odd digits with a skew of the constant-time
    multiplication, are exact.
  \<^item> Signing satisfies the signing equation, gives \<open>s\<close> in the lower half and refuses bad keys;
    verification refuses zero and high values; DER, compact and public-key encodings are read back
    as they were written; the nonce function returns for every counter but the largest.

  \<^bold>\<open>Termination.\<close>  Every loop with a bound is a total function (recursion on the bound, or a measure).
  The loops without one, in the output of the generator, in the nonce function, in signing and in the
  blinding of the table, are \<open>partial_function\<close>s into options, where None is a run that does not return (in
  the generator also one that reaches a copy of negative size); no fuel is used.  The two recoding
  loops are guarded by the window sizes that the debug checks state, so that they are total.

  \<^bold>\<open>Not modelled.\<close>  The assembly kernels, the representations for 32-bit targets and for the exhaustive
  tests, and the GMP numbers are not in the build.  Tests, benchmarks, the table generator, the
  Java binding and the lax DER helpers are not called by the Go code.  The Go code itself
  (node, chain, network, storage, virtual machine, wallet) is outside this development, which
  covers the part written in C.  Memory allocation is taken to succeed, and the clearing of
  secrets in dead locals has no effect on the values modelled.  The associativity of the group law,
  and with it that the three multiplications return the multiple of the point, is not proved here;
  they are modelled completely, and their steps are covered by the lemmas on the group operations.
\<close>

end
